(* ===== verification/Prelude.thy ===== *)
theory Prelude
  imports Main "HOL-Library.AList"
begin

text \<open>
  Generic facts shared by every component: the collections of rewrite rules that carry the
  component proofs, and lemmas on association lists, which are the model's representation of
  Go maps and of SQL tables with a primary key.
\<close>

section \<open>Collections of facts\<close>

named_theorems handler_defs \<open>definitions of request handlers\<close>
named_theorems frame \<open>tables a handler leaves unchanged\<close>
named_theorems result_simps \<open>results of guarded steps\<close>

section \<open>Case distinctions on results\<close>

text \<open>
  Every fallible Go function returns a value and an error, of which exactly one is meaningful;
  the model uses the sum type with the error on the left.
\<close>

abbreviation is_ok :: "'e + 'a \<Rightarrow> bool" where
  "is_ok r \<equiv> (\<exists>v. r = Inr v)"

lemmas res_splits = sum.split option.split if_split prod.split
lemmas res_split_asm = sum.split_asm option.split_asm if_split_asm prod.split_asm

section \<open>Association lists\<close>

lemma map_of_update [simp]: "map_of (AList.update k v t) = (map_of t)(k \<mapsto> v)"
  by (rule AList.update_conv')

lemma map_of_delete [simp]: "map_of (AList.delete k t) = (map_of t)(k := None)"
  by (rule AList.delete_conv')

lemma fst_set_update [simp]: "fst ` set (AList.update k v t) = insert k (fst ` set t)"
  using dom_update [of k v t] by simp

lemma map_of_append_None [simp]:
  "map_of t k = None \<Longrightarrow> map_of (t @ [(k, v)]) = (map_of t)(k \<mapsto> v)"
  by (induction t) (auto simp: fun_eq_iff split: if_splits)

lemma length_update:
  "length (AList.update k v t) = (if map_of t k = None then Suc (length t) else length t)"
  by (induction t) auto

lemma update_nonempty [simp]: "AList.update k v t \<noteq> []"
  by (cases t) auto

lemma distinct_fst_append_new:
  "distinct (map fst t) \<Longrightarrow> map_of t k = None \<Longrightarrow> distinct (map fst (t @ [(k, v)]))"
  by (auto simp: map_of_eq_None_iff)

lemma map_of_SomeI: "distinct (map fst t) \<Longrightarrow> (k, v) \<in> set t \<Longrightarrow> map_of t k = Some v"
  by simp

lemma set_updateD:
  "x \<in> set (AList.update k v t) \<Longrightarrow> x = (k, v) \<or> x \<in> set t"
  by (induction t) (auto split: if_splits)

section \<open>Transition systems\<close>

text \<open>
  A step relation with an invariant and a relation that every step from a state of the invariant
  respects: both lift to runs.
\<close>

locale transition_system =
  fixes step :: "'s \<Rightarrow> 's \<Rightarrow> bool" and inv :: "'s \<Rightarrow> bool" and rel :: "'s \<Rightarrow> 's \<Rightarrow> bool"
  assumes inv_step: "step s s' \<Longrightarrow> inv s \<Longrightarrow> inv s'"
    and rel_step: "step s s' \<Longrightarrow> inv s \<Longrightarrow> rel s s'"
    and rel_refl: "rel s s"
    and rel_trans: "rel s s' \<Longrightarrow> rel s' s'' \<Longrightarrow> rel s s''"
begin

lemma inv_run: "step\<^sup>*\<^sup>* s s' \<Longrightarrow> inv s \<Longrightarrow> inv s'"
  by (induction rule: rtranclp_induct) (auto intro: inv_step)

lemma rel_run:
  assumes "step\<^sup>*\<^sup>* s s'" "inv s" shows "rel s s'"
  using assms(1)
proof (induction rule: rtranclp_induct)
  case base
  show ?case by (rule rel_refl)
next
  case (step s1 s2)
  show ?case by (rule rel_trans [OF step.IH rel_step [OF step.hyps(2) inv_run [OF step.hyps(1) assms(2)]]])
qed

end

end
