(* ===== verification/GoValues.thy ===== *)
theory GoValues
  imports GoStrings Complex_Main "HOL-Library.List_Lexorder" "HOL-Library.Char_ord"
begin

text \<open>
  Go's dynamically typed values as the server handles them: what \<open>encoding/json\<close> decodes
  into an \<open>any\<close>, and what the handlers build as results. Type assertions with the comma-ok
  form return the zero value when they fail, which is what the accessors here do. The theory
  also holds the error values and the text columns that carry JSON documents.
\<close>

section \<open>Values\<close>

text \<open>
  A JSON number decodes to a float64, which is finite, so \<open>GNum\<close> carries its exact rational
  value; \<open>GInt\<close> is an int or int64 a handler puts in a result. A map is an association list;
  a nil map inside a value is \<open>GNil\<close> (both encode as null).
\<close>

datatype gval =
    GNil
  | GBool bool
  | GNum rat
  | GInt int
  | GStr string
  | GArr "gval list"
  | GMap "(string \<times> gval) list"

type_synonym gomap = "(string \<times> gval) list"

text \<open>A variable of type \<open>map[string]any\<close> may be nil: \<open>None\<close>.\<close>

type_synonym nmap = "gomap option"

text \<open>\<open>m[k]\<close>: nil when the key is absent or the map is nil.\<close>

fun gindex :: "nmap \<Rightarrow> string \<Rightarrow> gval" where
  "gindex None k = GNil"
| "gindex (Some m) k = (case map_of m k of None \<Rightarrow> GNil | Some v \<Rightarrow> v)"

text \<open>\<open>_, present := m[k]\<close>\<close>

fun ghas :: "nmap \<Rightarrow> string \<Rightarrow> bool" where
  "ghas None k = False"
| "ghas (Some m) k = (map_of m k \<noteq> None)"

text \<open>\<open>s, _ := v.(string)\<close>, \<open>b, _ := v.(bool)\<close>, \<open>a, ok := v.([]any)\<close>\<close>

fun gstr :: "gval \<Rightarrow> string" where
  "gstr (GStr s) = s"
| "gstr _ = []"

fun gbool :: "gval \<Rightarrow> bool" where
  "gbool (GBool b) = b"
| "gbool _ = False"

fun garr :: "gval \<Rightarrow> gval list option" where
  "garr (GArr xs) = Some xs"
| "garr _ = None"

text \<open>\<open>asMap\<close> of group.go, and the assertion \<open>m, _ := v.(map[string]any)\<close> everywhere else.\<close>

fun asMap :: "gval \<Rightarrow> nmap" where
  "asMap (GMap m) = Some m"
| "asMap _ = None"

text \<open>A possibly nil map stored back into an \<open>any\<close>.\<close>

fun ofMap :: "nmap \<Rightarrow> gval" where
  "ofMap None = GNil"
| "ofMap (Some m) = GMap m"

abbreviation gets :: "nmap \<Rightarrow> string \<Rightarrow> string" where
  "gets m k \<equiv> gstr (gindex m k)"

section \<open>JSON text\<close>

text \<open>
  A TEXT column that holds a JSON document is modelled by the value the text denotes:
  \<open>JDoc v\<close> is the canonical text of \<open>v\<close> (keys sorted, as \<open>json.Marshal\<close> writes them),
  \<open>JEmpty\<close> the empty string, which is no JSON document. Decoding a document gives back its
  value, except that every number is a float64.
\<close>

datatype jtext = JEmpty | JDoc gval


fun bits_of :: "nat \<Rightarrow> nat" where
  "bits_of n = (if n = 0 then 0 else Suc (bits_of (n div 2)))"

declare bits_of.simps [simp del]

text \<open>The float64 nearest to an integer (53 bits of mantissa, ties to even).\<close>

definition float64_of_nat :: "nat \<Rightarrow> nat" where
  "float64_of_nat n =
     (if n \<le> 2 ^ 53 then n
      else let e = bits_of n - 53; q = n div 2 ^ e; r = n mod 2 ^ e; h = 2 ^ (e - 1);
               q' = (if h < r \<or> (r = h \<and> odd q) then Suc q else q)
           in q' * 2 ^ e)"

definition float64_of_int :: "int \<Rightarrow> rat" where
  "float64_of_int i =
     (if i < 0 then - of_nat (float64_of_nat (nat (- i))) else of_nat (float64_of_nat (nat i)))"

text \<open>The value a marshalled document decodes to.\<close>

primrec canon :: "gval \<Rightarrow> gval" where
  "canon GNil = GNil"
| "canon (GBool b) = GBool b"
| "canon (GNum q) = GNum q"
| "canon (GInt i) = GNum (float64_of_int i)"
| "canon (GStr s) = GStr s"
| "canon (GArr xs) = GArr (map canon xs)"
| "canon (GMap m) = GMap (sort_key fst (map (map_prod id canon) m))"

definition marshal :: "gval \<Rightarrow> jtext" where
  "marshal v = JDoc (canon v)"

text \<open>\<open>json.Unmarshal\<close> into an \<open>any\<close>: \<open>None\<close> is an error.\<close>

fun unmarshal :: "jtext \<Rightarrow> gval option" where
  "unmarshal JEmpty = None"
| "unmarshal (JDoc v) = Some v"

text \<open>
  \<open>json.Unmarshal\<close> into a \<open>map[string]any\<close>: null leaves a nil map, an object its entries, and
  any other document is an error.
\<close>

fun unmarshal_map :: "jtext \<Rightarrow> nmap option" where
  "unmarshal_map (JDoc (GMap m)) = Some (Some m)"
| "unmarshal_map (JDoc GNil) = Some None"
| "unmarshal_map _ = None"

text \<open>\<open>var m map[string]any; _ = json.Unmarshal(text, &m)\<close>: the error is dropped.\<close>

definition unmarshal_map_lax :: "jtext \<Rightarrow> nmap" where
  "unmarshal_map_lax t = (case unmarshal_map t of None \<Rightarrow> None | Some m \<Rightarrow> m)"

definition unmarshal_lax :: "jtext \<Rightarrow> gval" where
  "unmarshal_lax t = (case unmarshal t of None \<Rightarrow> GNil | Some v \<Rightarrow> v)"

section \<open>Errors\<close>

text \<open>
  \<open>RpcError\<close> is the server's \<open>*rpcError\<close>, \<open>PlainError\<close> an error made by \<open>fmt.Errorf\<close>,
  \<open>SqlError\<close> an error of the database driver (which constraint or conversion failed; the
  text is the driver's), \<open>GoPanic\<close> a run-time panic of the handler.
\<close>

datatype go_error =
    RpcError int string
  | PlainError string
  | SqlError string
  | GoPanic string

type_synonym 'a res = "go_error + 'a"

section \<open>Facts\<close>

lemma asMap_ofMap [simp]: "asMap (ofMap m) = m"
  by (cases m) auto

lemma gets_Some: "gets (Some m) k \<noteq> [] \<Longrightarrow> \<exists>v. map_of m k = Some (GStr v) \<and> v \<noteq> []"
proof -
  assume "gets (Some m) k \<noteq> []"
  then obtain v where v: "map_of m k = Some v" "gstr v \<noteq> []" by (auto split: option.splits)
  then show ?thesis by (cases v) auto
qed

lemma float64_small: "\<bar>i\<bar> \<le> 2 ^ 53 \<Longrightarrow> float64_of_int i = of_int i"
proof -
  assume "\<bar>i\<bar> \<le> 2 ^ 53"
  then have "nat (- i) \<le> 2 ^ 53" "nat i \<le> 2 ^ 53" by (auto simp: nat_le_iff)
  then show ?thesis
    by (cases "i < 0") (simp_all add: float64_of_int_def float64_of_nat_def)
qed

lemma map_of_sort_key:
  assumes "distinct (map fst m)"
  shows "map_of (sort_key fst m) = map_of m"
proof -
  have "map_of (sort_key fst m) k = map_of m k" for k
  proof (cases "map_of m k")
    case None
    then show ?thesis by (metis map_of_eq_None_iff set_map set_sort)
  next
    case (Some v)
    then have "(k, v) \<in> set (sort_key fst m)" by (simp add: map_of_SomeD)
    moreover have "distinct (map fst (sort_key fst m))"
      using assms by (metis distinct_map distinct_sort set_sort)
    ultimately show ?thesis using Some by (simp add: map_of_SomeI)
  qed
  then show ?thesis by (rule ext)
qed

lemma insort_key_map_fst:
  "(\<And>p. fst (f p) = fst p) \<Longrightarrow> insort_key fst (f x) (map f m) = map f (insort_key fst x m)"
  by (induction m) auto

lemma sort_key_map_fst:
  "(\<And>p. fst (f p) = fst p) \<Longrightarrow> sort_key fst (map f m) = map f (sort_key fst m)"
  by (induction m) (auto simp: insort_key_map_fst)

lemma sort_key_idem: "sort_key fst (sort_key fst m) = sort_key fst m"
  by (simp add: sorted_sort_id sort_key_id_if_sorted)

lemma canon_idem [simp]: "canon (canon v) = canon v"
proof (induction v)
  case (GMap m)
  let ?f = "map_prod id canon"
  have f: "sort_key fst (map ?f l) = map ?f (sort_key fst l)" for l :: "(string \<times> gval) list"
    by (rule sort_key_map_fst) simp
  have "map ?f (map ?f m) = map ?f m"
    using GMap by (auto simp: prod_set_defs)
  then show ?case by (metis canon.simps(7) f sort_key_idem)
qed (auto)

text \<open>
  Well-formed values: every map has its keys once, as a Go map does. Values decoded by
  \<open>encoding/json\<close> and results the handlers build are of this shape.
\<close>

primrec gval_wf :: "gval \<Rightarrow> bool" where
  "gval_wf GNil = True"
| "gval_wf (GBool b) = True"
| "gval_wf (GNum q) = True"
| "gval_wf (GInt i) = True"
| "gval_wf (GStr s) = True"
| "gval_wf (GArr xs) = list_all id (map gval_wf xs)"
| "gval_wf (GMap m) = (distinct (map fst m) \<and> list_all (id \<circ> snd) (map (map_prod id gval_wf) m))"

lemma unmarshal_marshal [simp]: "unmarshal (marshal v) = Some (canon v)"
  by (simp add: marshal_def)

lemma unmarshal_map_marshal [simp]:
  "unmarshal_map (marshal (GMap m)) = Some (Some (sort_key fst (map (map_prod id canon) m)))"
  by (simp add: marshal_def)

lemma gindex_canon:
  assumes "distinct (map fst m)"
  shows "gindex (asMap (canon (GMap m))) k = canon (gindex (Some m) k)"
proof -
  have "distinct (map fst (map (map_prod id canon) m))" using assms by simp
  then have "map_of (sort_key fst (map (map_prod id canon) m)) k = map_of (map (map_prod id canon) m) k"
    by (simp add: map_of_sort_key)
  also have "\<dots> = map_option canon (map_of m k)"
    by (induction m) auto
  finally show ?thesis by (simp split: option.splits)
qed

end
