(* ===== verification/GoTime.thy ===== *)
theory GoTime
  imports GoStrings
begin

text \<open>
  Go's \<open>time\<close> package as the server uses it: instants in nanoseconds since the Unix epoch (the
  server's clock is never before it), \<open>t.UTC().Format(time.RFC3339)\<close>, and
  \<open>time.Parse(time.RFC3339, _)\<close> on the texts that Format writes, the only texts the server
  parses. Formatting drops the fraction of a second, so parsing a formatted instant gives back
  its second: the round trip at the end, on which every expiry check rests.
\<close>

type_synonym instant = nat

definition nanos_per_sec :: nat where
  "nanos_per_sec = 1000000000"

section \<open>The civil calendar\<close>

definition leap_year :: "nat \<Rightarrow> bool" where
  "leap_year y \<longleftrightarrow> y mod 4 = 0 \<and> (y mod 100 \<noteq> 0 \<or> y mod 400 = 0)"

definition year_days :: "nat \<Rightarrow> nat" where
  "year_days y = (if leap_year y then 366 else 365)"

definition month_days :: "nat \<Rightarrow> nat list" where
  "month_days y = [31, if leap_year y then 29 else 28, 31, 30, 31, 30, 31, 31, 30, 31, 30, 31]"

text \<open>The year a day count falls in, counting from the first of January of \<open>y\<close>.\<close>

function split_year :: "nat \<Rightarrow> nat \<Rightarrow> nat \<times> nat" where
  "split_year y d = (if d < year_days y then (y, d) else split_year (Suc y) (d - year_days y))"
  by pat_completeness auto
termination
  by (relation "measure snd") (auto simp: year_days_def)

declare split_year.simps [simp del]

fun split_month :: "nat list \<Rightarrow> nat \<Rightarrow> nat \<times> nat" where
  "split_month [] d = (0, d)"
| "split_month (l # ls) d =
     (if d < l then (0, d) else (case split_month ls (d - l) of (m, d') \<Rightarrow> (Suc m, d')))"

fun days_before_year :: "nat \<Rightarrow> nat \<Rightarrow> nat" where
  "days_before_year y 0 = 0"
| "days_before_year y (Suc k) = year_days y + days_before_year (Suc y) k"

section \<open>RFC 3339\<close>

definition pad2 :: "nat \<Rightarrow> string" where
  "pad2 n = [digit_char (n div 10), digit_char (n mod 10)]"

definition pad4 :: "nat \<Rightarrow> string" where
  "pad4 n = [digit_char (n div 1000), digit_char (n div 100 mod 10),
             digit_char (n div 10 mod 10), digit_char (n mod 10)]"

text \<open>\<open>t.UTC().Format(time.RFC3339)\<close>, for years of four digits.\<close>

definition rfc3339 :: "instant \<Rightarrow> string" where
  "rfc3339 t =
     (let secs = t div nanos_per_sec; days = secs div 86400; r = secs mod 86400;
          (y, yd) = split_year 1970 days;
          (m, md) = split_month (month_days y) yd
      in pad4 y @ ''-'' @ pad2 (Suc m) @ ''-'' @ pad2 (Suc md) @ ''T'' @
         pad2 (r div 3600) @ '':'' @ pad2 (r div 60 mod 60) @ '':'' @ pad2 (r mod 60) @ ''Z'')"

text \<open>
  \<open>time.Parse(time.RFC3339, s)\<close> on texts in the shape Format writes: fixed fields, the ranges
  Parse checks, and the instant they denote. Other shapes Parse accepts (fractions, numeric
  zones) are never stored by the server.
\<close>

definition parse_field :: "string \<Rightarrow> nat option" where
  "parse_field s = parse_digits s"

definition civil_secs :: "nat \<Rightarrow> nat \<Rightarrow> nat \<Rightarrow> nat \<Rightarrow> nat \<Rightarrow> nat \<Rightarrow> nat" where
  "civil_secs y m d hh mi ss =
     (days_before_year 1970 (y - 1970) + sum_list (take (m - 1) (month_days y)) + (d - 1)) * 86400
       + hh * 3600 + mi * 60 + ss"

definition parse_rfc3339 :: "string \<Rightarrow> instant option" where
  "parse_rfc3339 s =
     (if length s = 20 \<and> s ! 4 = CHR ''-'' \<and> s ! 7 = CHR ''-'' \<and> s ! 10 = CHR ''T''
         \<and> s ! 13 = CHR '':'' \<and> s ! 16 = CHR '':'' \<and> s ! 19 = CHR ''Z''
      then case (parse_field (take 4 s), parse_field (take 2 (drop 5 s)), parse_field (take 2 (drop 8 s)),
                 parse_field (take 2 (drop 11 s)), parse_field (take 2 (drop 14 s)),
                 parse_field (take 2 (drop 17 s))) of
             (Some y, Some m, Some d, Some hh, Some mi, Some ss) \<Rightarrow>
               (if 1970 \<le> y \<and> 1 \<le> m \<and> m \<le> 12 \<and> 1 \<le> d \<and> d \<le> month_days y ! (m - 1)
                   \<and> hh < 24 \<and> mi < 60 \<and> ss < 60
                then Some (civil_secs y m d hh mi ss * nanos_per_sec) else None)
           | _ \<Rightarrow> None
      else None)"

section \<open>The round trip\<close>

lemma split_year_spec:
  "split_year y d = (y', d') \<Longrightarrow>
     y \<le> y' \<and> d' < year_days y' \<and> d = days_before_year y (y' - y) + d'"
proof (induction y d rule: split_year.induct)
  case (1 y d)
  show ?case
  proof (cases "d < year_days y")
    case True
    with "1.prems" show ?thesis by (auto simp: split_year.simps [of y d])
  next
    case False
    with "1.prems" have "split_year (Suc y) (d - year_days y) = (y', d')"
      by (simp add: split_year.simps [of y d])
    with "1.IH" False have *: "Suc y \<le> y'" "d' < year_days y'"
      "d - year_days y = days_before_year (Suc y) (y' - Suc y) + d'" by auto
    then have "y' - y = Suc (y' - Suc y)" by simp
    with * False show ?thesis by simp
  qed
qed

lemma split_month_spec:
  "d < sum_list ls \<Longrightarrow> split_month ls d = (m, d') \<Longrightarrow>
     m < length ls \<and> d' < ls ! m \<and> d = sum_list (take m ls) + d'"
proof (induction ls arbitrary: d m d')
  case Nil
  then show ?case by simp
next
  case (Cons l ls)
  show ?case
  proof (cases "d < l")
    case True
    with Cons.prems show ?thesis by auto
  next
    case False
    obtain m1 d1 where s: "split_month ls (d - l) = (m1, d1)" by fastforce
    from False Cons.prems(1) have "d - l < sum_list ls" by simp
    from Cons.IH [OF this s] False Cons.prems(2) s show ?thesis by auto
  qed
qed

lemma sum_month_days [simp]: "sum_list (month_days y) = year_days y"
  by (simp add: month_days_def year_days_def)

lemma length_month_days [simp]: "length (month_days y) = 12"
  by (simp add: month_days_def)

lemma month_days_le: "m < 12 \<Longrightarrow> month_days y ! m \<le> 31"
  by (auto simp: month_days_def less_Suc_eq numeral_eq_Suc)

lemma parse_two_digits:
  "a < 10 \<Longrightarrow> b < 10 \<Longrightarrow> parse_digits [digit_char a, digit_char b] = Some (10 * a + b)"
  using digit_char_is_digit [of a] digit_char_is_digit [of b]
  by (simp add: parse_digits_def digits_val_def)

lemma parse_four_digits:
  "a < 10 \<Longrightarrow> b < 10 \<Longrightarrow> c < 10 \<Longrightarrow> d < 10 \<Longrightarrow>
     parse_digits [digit_char a, digit_char b, digit_char c, digit_char d]
       = Some (10 * (10 * (10 * a + b) + c) + d)"
  using digit_char_is_digit [of a] digit_char_is_digit [of b] digit_char_is_digit [of c]
    digit_char_is_digit [of d]
  by (simp add: parse_digits_def digits_val_def)

lemma parse_pad2: "n < 100 \<Longrightarrow> parse_digits (pad2 n) = Some n"
  unfolding pad2_def by (subst parse_two_digits) simp_all

lemma digits_recompose: "10 * (n div (10 * k)) + n div k mod 10 = (n div k :: nat)"
proof -
  have "n div (10 * k) = n div k div 10" by (metis div_mult2_eq mult.commute)
  then show ?thesis by (metis mult_div_mod_eq)
qed

lemma parse_pad4: "n < 10000 \<Longrightarrow> parse_digits (pad4 n) = Some n"
proof -
  assume "n < 10000"
  then have "n div 1000 < 10" by (simp add: less_mult_imp_div_less)
  moreover have "10 * (10 * (10 * (n div 1000) + n div 100 mod 10) + n div 10 mod 10) + n mod 10 = n"
    using digits_recompose [of n 100] digits_recompose [of n 10] digits_recompose [of n 1] by simp
  ultimately show ?thesis
    unfolding pad4_def by (subst parse_four_digits) simp_all
qed

lemma parse_rfc3339_intro:
  assumes "length s = 20" "s ! 4 = CHR ''-''" "s ! 7 = CHR ''-''" "s ! 10 = CHR ''T''"
    "s ! 13 = CHR '':''" "s ! 16 = CHR '':''" "s ! 19 = CHR ''Z''"
    "parse_digits (take 4 s) = Some y" "parse_digits (take 2 (drop 5 s)) = Some m"
    "parse_digits (take 2 (drop 8 s)) = Some d" "parse_digits (take 2 (drop 11 s)) = Some hh"
    "parse_digits (take 2 (drop 14 s)) = Some mi" "parse_digits (take 2 (drop 17 s)) = Some ss"
    "1970 \<le> y" "1 \<le> m" "m \<le> 12" "1 \<le> d" "d \<le> month_days y ! (m - 1)"
    "hh < 24" "mi < 60" "ss < 60"
  shows "parse_rfc3339 s = Some (civil_secs y m d hh mi ss * nanos_per_sec)"
  using assms by (simp add: parse_rfc3339_def parse_field_def)

lemma parse_rfc3339_fields:
  assumes "1970 \<le> y" "y < 10000" "m < 12" "d < month_days y ! m" "hh < 24" "mi < 60" "ss < 60"
  shows "parse_rfc3339 (pad4 y @ ''-'' @ pad2 (Suc m) @ ''-'' @ pad2 (Suc d) @ ''T'' @
      pad2 hh @ '':'' @ pad2 mi @ '':'' @ pad2 ss @ ''Z'')
    = Some (civil_secs y (Suc m) (Suc d) hh mi ss * nanos_per_sec)" (is "parse_rfc3339 ?s = _")
proof -
  have "d < 31" using assms(4) month_days_le [OF assms(3), of y] by simp
  then have "parse_digits (pad4 y) = Some y" "parse_digits (pad2 (Suc m)) = Some (Suc m)"
    "parse_digits (pad2 (Suc d)) = Some (Suc d)" "parse_digits (pad2 hh) = Some hh"
    "parse_digits (pad2 mi) = Some mi" "parse_digits (pad2 ss) = Some ss"
    using assms by (auto intro!: parse_pad4 parse_pad2)
  moreover have "take 4 ?s = pad4 y" "take 2 (drop 5 ?s) = pad2 (Suc m)"
    "take 2 (drop 8 ?s) = pad2 (Suc d)" "take 2 (drop 11 ?s) = pad2 hh"
    "take 2 (drop 14 ?s) = pad2 mi" "take 2 (drop 17 ?s) = pad2 ss"
    by (simp_all add: pad4_def pad2_def)
  moreover have "length ?s = 20" "?s ! 4 = CHR ''-''" "?s ! 7 = CHR ''-''" "?s ! 10 = CHR ''T''"
    "?s ! 13 = CHR '':''" "?s ! 16 = CHR '':''" "?s ! 19 = CHR ''Z''"
    by (simp_all add: pad4_def pad2_def)
  ultimately show ?thesis
    using assms by (intro parse_rfc3339_intro) (simp_all only: diff_Suc_Suc diff_zero Suc_le_eq zero_less_Suc One_nat_def)
qed

lemma days_before_year_mono: "365 * k \<le> days_before_year y k"
  by (induction k arbitrary: y) (auto simp: year_days_def trans_le_add1 add_mono)

text \<open>Instants up to the end of the year 7999 or so are certainly within four-digit years.\<close>

definition in_range :: "instant \<Rightarrow> bool" where
  "in_range t \<longleftrightarrow> t div nanos_per_sec < 86400 * 365 * 8000"

lemma split_year_bound:
  assumes "split_year 1970 d = (y, d')" "d < 365 * 8000"
  shows "y < 9970"
proof (rule ccontr)
  assume "\<not> y < 9970"
  then have "365 * 8000 \<le> 365 * (y - 1970)" by simp
  also have "\<dots> \<le> days_before_year 1970 (y - 1970)" by (rule days_before_year_mono)
  also have "\<dots> \<le> d" using split_year_spec [OF assms(1)] by simp
  finally show False using assms(2) by simp
qed

lemma parse_format_rfc3339:
  assumes "in_range t"
  shows "parse_rfc3339 (rfc3339 t) = Some (t div nanos_per_sec * nanos_per_sec)"
proof -
  define secs where "secs = t div nanos_per_sec"
  define r where "r = secs mod 86400"
  obtain y yd where y: "split_year 1970 (secs div 86400) = (y, yd)" by fastforce
  obtain m md where m: "split_month (month_days y) yd = (m, md)" by fastforce
  have ys: "1970 \<le> y" "yd < year_days y" "secs div 86400 = days_before_year 1970 (y - 1970) + yd"
    using split_year_spec [OF y] by auto
  have "secs div 86400 < 365 * 8000"
    using assms by (simp add: in_range_def secs_def less_mult_imp_div_less)
  then have yb: "y < 10000" using split_year_bound [OF y] by simp
  have ms: "m < 12" "md < month_days y ! m" "yd = sum_list (take m (month_days y)) + md"
    using split_month_spec [OF _ m] ys by auto
  have rr: "r < 86400" by (simp add: r_def)
  have hms: "r div 3600 < 24" "r div 60 mod 60 < 60" "r mod 60 < 60"
    using rr by (simp_all add: less_mult_imp_div_less)
  have recomp: "r div 3600 * 3600 + r div 60 mod 60 * 60 + r mod 60 = r"
  proof -
    have "r div 3600 = r div 60 div 60" by (simp add: div_mult2_eq [symmetric])
    then have "60 * (r div 3600) + r div 60 mod 60 = r div 60" by (metis mult_div_mod_eq)
    moreover have "60 * (r div 60) + r mod 60 = r" by (rule mult_div_mod_eq)
    ultimately show ?thesis by linarith
  qed
  have civil: "civil_secs y (Suc m) (Suc md) (r div 3600) (r div 60 mod 60) (r mod 60) = secs"
  proof -
    have "civil_secs y (Suc m) (Suc md) (r div 3600) (r div 60 mod 60) (r mod 60)
        = secs div 86400 * 86400 + r"
      using recomp ys(3) ms(3) by (simp add: civil_secs_def)
    then show ?thesis by (simp add: r_def)
  qed
  have fmt: "rfc3339 t = pad4 y @ ''-'' @ pad2 (Suc m) @ ''-'' @ pad2 (Suc md) @ ''T'' @
      pad2 (r div 3600) @ '':'' @ pad2 (r div 60 mod 60) @ '':'' @ pad2 (r mod 60) @ ''Z''"
    using y m by (simp add: rfc3339_def Let_def secs_def r_def)
  show ?thesis
    unfolding fmt parse_rfc3339_fields [OF ys(1) yb ms(1,2) hms] civil secs_def by simp
qed

text \<open>\<open>t, err := time.Parse(...); err == nil && time.Now().UTC().After(t)\<close>\<close>

definition after_text :: "instant \<Rightarrow> string \<Rightarrow> bool" where
  "after_text now s = (case parse_rfc3339 s of None \<Rightarrow> False | Some t \<Rightarrow> t < now)"

lemma after_text_rfc3339 [simp]:
  "in_range t \<Longrightarrow> after_text now (rfc3339 t) \<longleftrightarrow> t div nanos_per_sec * nanos_per_sec < now"
  by (simp add: after_text_def parse_format_rfc3339)

end
