(* ===== verification/GoCrypto.thy ===== *)
theory GoCrypto
  imports GoStrings
begin

unbundle bit_operations_syntax

text \<open>
  \<open>crypto/sha256.Sum256\<close> (FIPS 180-4), which the attachment store uses for object digests, and
  \<open>newRandomHex\<close> over a stream of random bytes, the environment's \<open>crypto/rand\<close>.
\<close>

type_synonym w32 = "32 word"

section \<open>SHA-256\<close>

definition rotr :: "nat \<Rightarrow> w32 \<Rightarrow> w32" where
  "rotr n x = (drop_bit n x) OR (push_bit (32 - n) x)"

definition sha_ch :: "w32 \<Rightarrow> w32 \<Rightarrow> w32 \<Rightarrow> w32" where
  "sha_ch x y z = (x AND y) XOR ((NOT x) AND z)"

definition sha_maj :: "w32 \<Rightarrow> w32 \<Rightarrow> w32 \<Rightarrow> w32" where
  "sha_maj x y z = (x AND y) XOR (x AND z) XOR (y AND z)"

definition big_sigma0 :: "w32 \<Rightarrow> w32" where
  "big_sigma0 x = rotr 2 x XOR rotr 13 x XOR rotr 22 x"

definition big_sigma1 :: "w32 \<Rightarrow> w32" where
  "big_sigma1 x = rotr 6 x XOR rotr 11 x XOR rotr 25 x"

definition small_sigma0 :: "w32 \<Rightarrow> w32" where
  "small_sigma0 x = rotr 7 x XOR rotr 18 x XOR drop_bit 3 x"

definition small_sigma1 :: "w32 \<Rightarrow> w32" where
  "small_sigma1 x = rotr 17 x XOR rotr 19 x XOR drop_bit 10 x"

text \<open>
  The round constants and the initial hash value: the first 32 bits of the fractional parts of
  the cube roots of the first 64 primes, and of the square roots of the first eight.
\<close>

definition sha_k :: "w32 list" where
  "sha_k =
    [1116352408, 1899447441, 3049323471, 3921009573, 961987163, 1508970993, 2453635748, 2870763221,
     3624381080, 310598401, 607225278, 1426881987, 1925078388, 2162078206, 2614888103, 3248222580,
     3835390401, 4022224774, 264347078, 604807628, 770255983, 1249150122, 1555081692, 1996064986,
     2554220882, 2821834349, 2952996808, 3210313671, 3336571891, 3584528711, 113926993, 338241895,
     666307205, 773529912, 1294757372, 1396182291, 1695183700, 1986661051, 2177026350, 2456956037,
     2730485921, 2820302411, 3259730800, 3345764771, 3516065817, 3600352804, 4094571909, 275423344,
     430227734, 506948616, 659060556, 883997877, 958139571, 1322822218, 1537002063, 1747873779,
     1955562222, 2024104815, 2227730452, 2361852424, 2428436474, 2756734187, 3204031479, 3329325298]"

definition sha_h0 :: "w32 list" where
  "sha_h0 = [1779033703, 3144134277, 1013904242, 2773480762, 1359893119, 2600822924, 528734635, 1541459225]"

text \<open>The message schedule: the sixteen words of a block, extended to sixty-four.\<close>

fun sha_extend :: "nat \<Rightarrow> w32 list \<Rightarrow> w32 list" where
  "sha_extend 0 ws = ws"
| "sha_extend (Suc k) ws =
     (let i = length ws in
      sha_extend k (ws @ [small_sigma1 (ws ! (i - 2)) + ws ! (i - 7) + small_sigma0 (ws ! (i - 15)) + ws ! (i - 16)]))"

type_synonym sha_regs = "w32 \<times> w32 \<times> w32 \<times> w32 \<times> w32 \<times> w32 \<times> w32 \<times> w32"

definition sha_round :: "sha_regs \<Rightarrow> w32 \<times> w32 \<Rightarrow> sha_regs" where
  "sha_round st kw =
     (case st of (a, b, c, d, e, f, g, h) \<Rightarrow>
        let t1 = h + big_sigma1 e + sha_ch e f g + fst kw + snd kw;
            t2 = big_sigma0 a + sha_maj a b c
        in (t1 + t2, a, b, c, d + t1, e, f, g))"

definition sha_block :: "w32 list \<Rightarrow> w32 list \<Rightarrow> w32 list" where
  "sha_block hs ws =
     (case foldl sha_round (hs ! 0, hs ! 1, hs ! 2, hs ! 3, hs ! 4, hs ! 5, hs ! 6, hs ! 7)
             (zip sha_k (sha_extend 48 ws)) of
        (a, b, c, d, e, f, g, h) \<Rightarrow> map2 (+) hs [a, b, c, d, e, f, g, h])"

definition bytes_of_nat :: "nat \<Rightarrow> nat \<Rightarrow> byte list" where
  "bytes_of_nat n x = map (\<lambda>i. of_nat (x div 256 ^ (n - 1 - i) mod 256)) [0..<n]"

fun words_of_bytes :: "byte list \<Rightarrow> w32 list" where
  "words_of_bytes (a # b # c # d # bs) =
     of_nat (((unat a * 256 + unat b) * 256 + unat c) * 256 + unat d) # words_of_bytes bs"
| "words_of_bytes _ = []"

definition sha_pad :: "byte list \<Rightarrow> byte list" where
  "sha_pad bs =
     bs @ [0x80] @ replicate ((119 - length bs mod 64) mod 64) 0 @ bytes_of_nat 8 (8 * length bs)"

function sha_blocks :: "w32 list \<Rightarrow> w32 list \<Rightarrow> w32 list" where
  "sha_blocks hs ws = (if length ws < 16 then hs else sha_blocks (sha_block hs (take 16 ws)) (drop 16 ws))"
  by pat_completeness auto
termination
  by (relation "measure (length \<circ> snd)") auto

declare sha_blocks.simps [simp del]

definition sha256_sum :: "byte list \<Rightarrow> byte list" where
  "sha256_sum bs =
     concat (map (\<lambda>w. bytes_of_nat 4 (unat w)) (sha_blocks sha_h0 (words_of_bytes (sha_pad bs))))"

text \<open>\<open>sha256B64u\<close> (attachment.go): the unpadded base64url digest.\<close>

definition sha256B64u :: "byte list \<Rightarrow> string" where
  "sha256B64u data = b64url_encode (sha256_sum data)"

section \<open>Random identifiers\<close>

text \<open>
  A request draws its random bytes from a stream; \<open>newRandomHex\<close> of the bytes from \<open>off\<close> on is
  what the call returns when earlier calls of the request have consumed \<open>off\<close> bytes.
\<close>

definition newRandomHex :: "(nat \<Rightarrow> byte) \<Rightarrow> nat \<Rightarrow> nat \<Rightarrow> string" where
  "newRandomHex rnd off n = hex_encode (map rnd [off..<off + n])"

lemma length_newRandomHex [simp]: "length (newRandomHex rnd off n) = 2 * n"
  by (simp add: newRandomHex_def)

lemma newRandomHex_chars: "c \<in> set (newRandomHex rnd off n) \<Longrightarrow> is_hex_char c"
  unfolding newRandomHex_def by (rule set_hex_encode)

lemma newRandomHex_no_slash [simp]: "CHR ''/'' \<notin> set (newRandomHex rnd off n)"
  using newRandomHex_chars is_hex_char_not_slash by blast

lemma trim_space_newRandomHex [simp]: "trim_space (newRandomHex rnd off n) = newRandomHex rnd off n"
  using newRandomHex_chars is_hex_char_not_space by (blast intro: trim_space_id)

lemma newRandomHex_nonempty: "0 < n \<Longrightarrow> newRandomHex rnd off n \<noteq> []"
  using length_newRandomHex [of rnd off n] by fastforce

end
