(* ===== verification/Tables.thy ===== *)
theory Tables
  imports Prelude
begin

text \<open>
  SQL tables with a primary key, as association lists in insertion order, and the four kinds of
  statement the server runs on them. The interface \<open>keyed_store\<close> states what the components
  rely on: what a SELECT returns after an INSERT, an upsert or an UPDATE, and that keys stay
  unique. The interpretation at the end discharges the laws for the association-list tables.
\<close>

type_synonym ('k, 'r) table = "('k \<times> 'r) list"

section \<open>Statements\<close>

text \<open>\<open>SELECT ... WHERE key = ?\<close>\<close>

definition tsel :: "('k, 'r) table \<Rightarrow> 'k \<Rightarrow> 'r option" where
  "tsel t k = map_of t k"

text \<open>\<open>INSERT INTO ...\<close>: \<open>None\<close> is a violated primary key.\<close>

definition tins :: "'k \<Rightarrow> 'r \<Rightarrow> ('k, 'r) table \<Rightarrow> ('k, 'r) table option" where
  "tins k r t = (case map_of t k of None \<Rightarrow> Some (t @ [(k, r)]) | Some _ \<Rightarrow> None)"

text \<open>\<open>INSERT INTO ... ON CONFLICT DO UPDATE\<close>: \<open>f\<close> is the update of an existing row.\<close>

definition tput :: "'k \<Rightarrow> 'r \<Rightarrow> ('r \<Rightarrow> 'r) \<Rightarrow> ('k, 'r) table \<Rightarrow> ('k, 'r) table" where
  "tput k new f t = AList.update k (case map_of t k of None \<Rightarrow> new | Some r \<Rightarrow> f r) t"

text \<open>\<open>UPDATE ... WHERE key = ?\<close>\<close>

definition tupd :: "'k \<Rightarrow> ('r \<Rightarrow> 'r) \<Rightarrow> ('k, 'r) table \<Rightarrow> ('k, 'r) table" where
  "tupd k f t = (case map_of t k of None \<Rightarrow> t | Some r \<Rightarrow> AList.update k (f r) t)"

text \<open>\<open>DELETE ... WHERE key = ?\<close>\<close>

definition tdel :: "'k \<Rightarrow> ('k, 'r) table \<Rightarrow> ('k, 'r) table" where
  "tdel k t = AList.delete k t"

text \<open>\<open>UPDATE ... SET key = ?\<close> of one row, the new key being free.\<close>

definition trekey :: "'k \<Rightarrow> 'k \<Rightarrow> ('k, 'r) table \<Rightarrow> ('k, 'r) table" where
  "trekey k k' t = map (\<lambda>(a, r). if a = k then (k', r) else (a, r)) t"

definition tkeys_unique :: "('k, 'r) table \<Rightarrow> bool" where
  "tkeys_unique t \<longleftrightarrow> distinct (map fst t)"

section \<open>Laws of the statements\<close>

lemma tsel_Nil [simp]: "tsel [] k = None"
  by (simp add: tsel_def)

lemma tsel_tput [simp]:
  "tsel (tput k new f t) k' =
     (if k' = k then Some (case tsel t k of None \<Rightarrow> new | Some r \<Rightarrow> f r) else tsel t k')"
  by (simp add: tsel_def tput_def)

lemma tsel_tupd [simp]:
  "tsel (tupd k f t) k' = (if k' = k then map_option f (tsel t k) else tsel t k')"
  by (simp add: tsel_def tupd_def split: option.splits)

lemma tsel_tdel [simp]: "tsel (tdel k t) k' = (if k' = k then None else tsel t k')"
  by (simp add: tsel_def tdel_def)

lemma tins_None [simp]: "tins k r t = None \<longleftrightarrow> tsel t k \<noteq> None"
  by (simp add: tins_def tsel_def split: option.splits)

lemma tsel_tins: "tins k r t = Some t' \<Longrightarrow> tsel t' k' = (if k' = k then Some r else tsel t k')"
  by (auto simp: tins_def tsel_def map_add_def split: option.splits)

lemma tins_fresh: "tsel t k = None \<Longrightarrow> tins k r t = Some (t @ [(k, r)])"
  by (simp add: tins_def tsel_def)

lemma tins_SomeD: "tins k r t = Some t' \<Longrightarrow> tsel t k = None \<and> t' = t @ [(k, r)]"
  by (auto simp: tins_def tsel_def split: option.splits)

lemma tkeys_unique_Nil [simp]: "tkeys_unique []"
  by (simp add: tkeys_unique_def)

lemma tkeys_unique_tput [simp]: "tkeys_unique t \<Longrightarrow> tkeys_unique (tput k new f t)"
  by (simp add: tkeys_unique_def tput_def distinct_update)

lemma tkeys_unique_tupd [simp]: "tkeys_unique t \<Longrightarrow> tkeys_unique (tupd k f t)"
  by (simp add: tkeys_unique_def tupd_def distinct_update split: option.splits)

lemma tkeys_unique_tdel [simp]: "tkeys_unique t \<Longrightarrow> tkeys_unique (tdel k t)"
  by (simp add: tkeys_unique_def tdel_def distinct_delete)

lemma tkeys_unique_tins: "tins k r t = Some t' \<Longrightarrow> tkeys_unique t \<Longrightarrow> tkeys_unique t'"
  by (auto simp: tkeys_unique_def map_of_eq_None_iff tsel_def dest!: tins_SomeD)

lemma tsel_in: "tsel t k = Some r \<Longrightarrow> (k, r) \<in> set t"
  by (simp add: tsel_def map_of_SomeD)

lemma in_tsel: "tkeys_unique t \<Longrightarrow> (k, r) \<in> set t \<Longrightarrow> tsel t k = Some r"
  by (simp add: tsel_def tkeys_unique_def)

lemma tput_nonempty [simp]: "tput k new f t \<noteq> []"
  by (simp add: tput_def)

lemma map_fst_trekey: "map fst (trekey k k' t) = map (\<lambda>a. if a = k then k' else a) (map fst t)"
  by (induction t) (auto simp: trekey_def)

lemma tkeys_unique_trekey:
  assumes "tkeys_unique t" "k' = k \<or> tsel t k' = None"
  shows "tkeys_unique (trekey k k' t)"
proof -
  have "k' \<notin> set (map fst t) \<or> k' = k"
    using assms(2) by (auto simp: tsel_def map_of_eq_None_iff)
  then have "inj_on (\<lambda>a. if a = k then k' else a) (set (map fst t))"
    by (auto simp: inj_on_def)
  then show ?thesis
    using assms(1) unfolding tkeys_unique_def map_fst_trekey distinct_map [of _ "map fst t"] by blast
qed

lemma tsel_trekey:
  assumes "k' = k \<or> tsel t k' = None"
  shows "tsel (trekey k k' t) a = (if a = k' then tsel t k else if a = k then None else tsel t a)"
  using assms by (induction t) (auto simp: trekey_def tsel_def split: if_splits)

lemma in_trekey: "(a, r) \<in> set (trekey k k' t) \<longleftrightarrow> ((a, r) \<in> set t \<and> a \<noteq> k) \<or> (a = k' \<and> (k, r) \<in> set t)"
  by (force simp: trekey_def split: if_splits prod.splits)

lemma tput_const: "tput k r (\<lambda>_. r) t = AList.update k r t"
  by (simp add: tput_def split: option.splits)

section \<open>The interface\<close>

text \<open>
  What a client of a keyed table may assume. \<open>look\<close> reads a row, \<open>put\<close> is an upsert that
  replaces the row, \<open>add\<close> an INSERT that refuses an existing key.
\<close>

locale keyed_store =
  fixes look :: "'t \<Rightarrow> 'k \<Rightarrow> 'r option"
    and put :: "'k \<Rightarrow> 'r \<Rightarrow> 't \<Rightarrow> 't"
    and add :: "'k \<Rightarrow> 'r \<Rightarrow> 't \<Rightarrow> 't option"
    and ok :: "'t \<Rightarrow> bool"
  assumes look_put: "look (put k r t) k' = (if k' = k then Some r else look t k')"
    and add_fails: "add k r t = None \<longleftrightarrow> look t k \<noteq> None"
    and look_add: "add k r t = Some t' \<Longrightarrow> look t' k' = (if k' = k then Some r else look t k')"
    and ok_put: "ok t \<Longrightarrow> ok (put k r t)"
    and ok_add: "ok t \<Longrightarrow> add k r t = Some t' \<Longrightarrow> ok t'"
begin

lemma look_put_same: "look (put k r t) k = Some r"
  by (simp add: look_put)

lemma look_put_other: "k' \<noteq> k \<Longrightarrow> look (put k r t) k' = look t k'"
  by (simp add: look_put)

lemma look_put_idem: "look (put k r (put k r t)) = look (put k r t)"
  by (rule ext) (simp add: look_put)

text \<open>An INSERT never changes a row that is already there.\<close>

lemma add_keeps: "add k r t = Some t' \<Longrightarrow> look t k' = Some r' \<Longrightarrow> look t' k' = Some r'"
  using add_fails [of k r t] by (auto simp: look_add)

lemma add_new: "add k r t = Some t' \<Longrightarrow> look t' k = Some r"
  by (simp add: look_add)

end

interpretation sqlt: keyed_store tsel "\<lambda>k r. tput k r (\<lambda>_. r)" tins tkeys_unique
  by unfold_locales (auto simp: tsel_tins tkeys_unique_tins split: option.splits)

end
