(* ===== verification/Store.thy ===== *)
theory Store
  imports GoValues GoTime GoCrypto Tables
begin

text \<open>
  The server's persistent state, table by table as schema.go creates it, the request environment
  (clock, randomness and the third-party packages), and the small helpers every handler uses
  (helpers.go, \<open>requiredBodyString\<close> of group_e2ee.go). Columns the program never reads back keep
  their place in the rows.
\<close>

section \<open>The database (schema.go)\<close>

record did_row =
  dr_doc_json :: jtext
  dr_registered_at :: string

record msg_row =
  m_id :: int
  m_message_id :: string
  m_sender_did :: string
  m_recipient_did :: "string option"
  m_group_did :: "string option"
  m_type :: string
  m_text :: "string option"
  m_secure :: int
  m_sent_at :: string
  m_wire_meta :: "jtext option"
  m_wire_body :: "jtext option"

record handle_row =
  hr_did :: string
  hr_registered_at :: string

record group_row =
  g_policy :: jtext
  g_profile :: "jtext option"
  g_owner_did :: string
  g_state_version :: int
  g_event_seq :: int
  g_created_at :: string

record member_row =
  mb_role :: string
  mb_status :: string
  mb_joined_at :: string

record bundle_row =
  pb_bundle_json :: jtext
  pb_published_at :: string

record otk_row =
  ok_owner_did :: string
  ok_prekey_json :: jtext
  ok_created_at :: string

record key_package_row =
  kp_json :: jtext
  kp_id :: string
  kp_published_at :: string

record e2ee_state_row =
  es_epoch :: string
  es_state_json :: jtext
  es_updated_at :: string

record slot_row =
  sl_attachment_id :: string
  sl_object_id :: string
  sl_upload_uri :: string
  sl_object_uri :: string
  sl_commit_token :: string
  sl_status :: string
  sl_encryption_mode :: string
  sl_expected_size :: "string option"
  sl_mime_type :: "string option"
  sl_filename :: "string option"
  sl_expected_digest :: jtext
  sl_actual_size :: "int option"
  sl_actual_digest :: "string option"
  sl_expires_at :: string
  sl_created_at :: string
  sl_owner_did :: string

record object_row =
  ob_data :: "byte list"
  ob_size :: int
  ob_digest :: "string option"
  ob_created_at :: string

record ticket_row =
  tk_binding_json :: jtext
  tk_expires_at :: string

record idem_row =
  id_response_json :: jtext
  id_created_at :: string

text \<open>
  \<open>one_time_prekeys\<close> has no primary key: its rows are listed by rowid, which is insertion order.
  \<open>msg_autoinc\<close> is SQLite's AUTOINCREMENT counter of the messages table.
\<close>

record db =
  registered_dids :: "(string, did_row) table"
  messages :: "msg_row list"
  msg_autoinc :: int
  handles :: "(string, handle_row) table"
  groups :: "(string, group_row) table"
  group_members :: "(string \<times> string, member_row) table"
  prekey_bundles :: "(string, bundle_row) table"
  one_time_prekeys :: "otk_row list"
  group_key_packages :: "(string, key_package_row) table"
  group_e2ee_states :: "(string \<times> string, e2ee_state_row) table"
  attachment_slots :: "(string, slot_row) table"
  attachment_objects :: "(string, object_row) table"
  attachment_tickets :: "(string, ticket_row) table"
  idempotency :: "(string, idem_row) table"

definition empty_db :: db where
  "empty_db =
     \<lparr>registered_dids = [], messages = [], msg_autoinc = 0, handles = [], groups = [],
      group_members = [], prekey_bundles = [], one_time_prekeys = [], group_key_packages = [],
      group_e2ee_states = [], attachment_slots = [], attachment_objects = [],
      attachment_tickets = [], idempotency = []\<rparr>"

text \<open>
  A handler returns its result or error together with the database it leaves: statements commit
  one by one, so an error does not undo the statements before it.
\<close>

type_synonym 'a outcome = "'a res \<times> db"

section \<open>The environment of a request\<close>

text \<open>
  \<open>rpcRequest\<close> of rpc.go, and what a request meets outside the server: \<open>clock i\<close> is the i-th
  reading of the wall clock its handler makes and \<open>clock_cached\<close> the one made when its response is
  cached, \<open>rnd\<close> its stream of random bytes. The remaining fields are the code
  that is not in the repository: the WNS handle syntax (\<open>wns.ValidateHandle\<close> succeeds), HTTP
  message signatures (\<open>VerifyHTTPMessageSignature\<close>: the verified key id, or \<open>None\<close> for an
  error), DID resolution over the network (\<open>ResolveDidDocument\<close>), origin proofs
  (\<open>VerifyRFC9421OriginProof\<close>: \<open>Some text\<close> is an error), SQLite's text form of a REAL and the
  texts of its errors. \<open>json_value\<close> is the JSON value a body denotes, if it is
  JSON, the members of the outermost object in text order and with their repetitions.
\<close>

record rpc_request =
  rq_jsonrpc :: string
  rq_method :: string
  rq_params :: nmap
  rq_id :: gval

type_synonym headers = "(string \<times> string) list"

record env =
  clock :: "nat \<Rightarrow> instant"
  clock_cached :: instant
  rnd :: "nat \<Rightarrow> byte"
  wns_valid :: "string \<Rightarrow> bool"
  http_sig :: "nmap \<Rightarrow> string \<Rightarrow> string \<Rightarrow> headers \<Rightarrow> byte list \<Rightarrow> string option"
  resolve_document :: "string \<Rightarrow> nmap option"
  origin_sig :: "string \<times> string \<times> string \<Rightarrow> string \<Rightarrow> nmap \<Rightarrow> nmap \<Rightarrow> nmap \<Rightarrow> string \<Rightarrow> string option"
  real_text :: "rat \<Rightarrow> string"
  sql_text :: "string \<Rightarrow> string"
  json_value :: "byte list \<Rightarrow> gval option"

section \<open>Error codes (rpc.go)\<close>

definition codeHandleTaken :: int where "codeHandleTaken = - 32001"
definition codeDidNotFound :: int where "codeDidNotFound = - 32002"
definition codeOPKUnavailable :: int where "codeOPKUnavailable = - 32003"
definition codeInvalidParams :: int where "codeInvalidParams = - 32004"
definition codeE2EEKeyPackageNotFound :: int where "codeE2EEKeyPackageNotFound = 5000"
definition codeE2EEInvalidKeyPackage :: int where "codeE2EEInvalidKeyPackage = 5001"
definition codeE2EEControllerRequired :: int where "codeE2EEControllerRequired = 5003"
definition codeE2EENoticeUnsupported :: int where "codeE2EENoticeUnsupported = 5011"
definition codeAttachmentSlotNotFound :: int where "codeAttachmentSlotNotFound = 6000"
definition codeAttachmentSlotExpired :: int where "codeAttachmentSlotExpired = 6001"
definition codeAttachmentCommitTokenInvalid :: int where "codeAttachmentCommitTokenInvalid = 6002"
definition codeAttachmentGrantNotFound :: int where "codeAttachmentGrantNotFound = 6005"
definition codeAttachmentUnauthorized :: int where "codeAttachmentUnauthorized = 6006"
definition codeAttachmentDigestMismatch :: int where "codeAttachmentDigestMismatch = 6010"
definition codeAttachmentObjectUnavailable :: int where "codeAttachmentObjectUnavailable = 6012"
definition codeAttachmentEncryptionPolicyViolation :: int where
  "codeAttachmentEncryptionPolicyViolation = 6013"

text \<open>\<open>err.Error()\<close>\<close>

fun err_text :: "env \<Rightarrow> go_error \<Rightarrow> string" where
  "err_text e (RpcError c t) = t"
| "err_text e (PlainError t) = t"
| "err_text e (SqlError t) = sql_text e t"
| "err_text e (GoPanic t) = t"

section \<open>Helpers\<close>

text \<open>\<open>requiredBodyString\<close> (group_e2ee.go)\<close>

definition requiredBodyString :: "nmap \<Rightarrow> string \<Rightarrow> string res" where
  "requiredBodyString body field =
     (let v = gets body field in
      if v = [] then Inl (RpcError codeInvalidParams (field @ '' is required'')) else Inr v)"

text \<open>A sequence of presence checks, the first failure being returned.\<close>

fun requiredAll :: "nmap \<Rightarrow> string list \<Rightarrow> unit res" where
  "requiredAll body [] = Inr ()"
| "requiredAll body (f # fs) =
     (case requiredBodyString body f of Inl err \<Rightarrow> Inl err | Inr _ \<Rightarrow> requiredAll body fs)"

text \<open>\<open>headerGet\<close> and \<open>httpHeaders\<close> (helpers.go); a request header may have several values.\<close>

type_synonym raw_headers = "(string \<times> string list) list"

definition httpHeaders :: "raw_headers \<Rightarrow> headers" where
  "httpHeaders hs = concat (map (\<lambda>(k, vs). case vs of [] \<Rightarrow> [] | v # _ \<Rightarrow> [(k, v)]) hs)"

fun headerGet :: "headers \<Rightarrow> string \<Rightarrow> string" where
  "headerGet [] key = []"
| "headerGet ((k, v) # hs) key = (if equal_fold k key then v else headerGet hs key)"

definition boolToInt :: "bool \<Rightarrow> int" where
  "boolToInt b = (if b then 1 else 0)"

fun firstNonEmpty :: "string list \<Rightarrow> string" where
  "firstNonEmpty [] = ''unknown''"
| "firstNonEmpty (v # vs) = (if v \<noteq> [] then v else firstNonEmpty vs)"

section \<open>Facts\<close>

lemma requiredBodyString_Inr [simp]:
  "requiredBodyString body f = Inr v \<longleftrightarrow> gets body f = v \<and> v \<noteq> []"
  by (auto simp: requiredBodyString_def Let_def)

lemma requiredBodyString_Inl:
  "requiredBodyString body f = Inl err \<longleftrightarrow>
     gets body f = [] \<and> err = RpcError codeInvalidParams (f @ '' is required'')"
  by (auto simp: requiredBodyString_def Let_def)

lemma requiredAll_Inr: "requiredAll body fs = Inr u \<longleftrightarrow> (\<forall>f \<in> set fs. gets body f \<noteq> [])"
  by (induction fs) (auto split: sum.split simp: requiredBodyString_Inl)

lemma requiredAll_Inl:
  "requiredAll body fs = Inl err \<Longrightarrow>
     \<exists>f \<in> set fs. gets body f = [] \<and> err = RpcError codeInvalidParams (f @ '' is required'')"
  by (induction fs) (auto split: sum.split_asm simp: requiredBodyString_Inl)

text \<open>
  The statement that adds a message: the UNIQUE constraint on \<open>message_id\<close>, the id from the
  AUTOINCREMENT counter. An INSERT that fails leaves the counter as it was.
\<close>

definition insert_message :: "msg_row \<Rightarrow> db \<Rightarrow> unit outcome" where
  "insert_message row d =
     (if m_message_id row \<in> set (map m_message_id (messages d))
      then (Inl (SqlError ''UNIQUE constraint failed: messages.message_id''), d)
      else (Inr (), d\<lparr>messages := messages d @ [row\<lparr>m_id := msg_autoinc d + 1\<rparr>],
                    msg_autoinc := msg_autoinc d + 1\<rparr>))"

end
