(* ===== verification/GoNet.thy ===== *)
theory GoNet
  imports GoStrings
begin

text \<open>
  The parts of Go's \<open>net\<close> and \<open>net/url\<close> the SSRF guard of did.go uses: \<open>url.PathUnescape\<close>,
  \<open>net.SplitHostPort\<close>, \<open>net.ParseIP\<close> (\<open>netip.ParseAddr\<close> without a zone) and the address
  predicates of \<open>net.IP\<close>. An address is its sixteen bytes, an IPv4 address in mapped form.
\<close>

section \<open>Escapes and splitting\<close>

definition hex_val :: "char \<Rightarrow> nat option" where
  "hex_val c =
     (let n = (of_char c :: nat) in
      if 48 \<le> n \<and> n \<le> 57 then Some (n - 48)
      else if 97 \<le> n \<and> n \<le> 102 then Some (n - 87)
      else if 65 \<le> n \<and> n \<le> 70 then Some (n - 55) else None)"

fun path_unescape :: "string \<Rightarrow> string option" where
  "path_unescape [] = Some []"
| "path_unescape (c # s) =
     (if c = CHR 0x25 then
        (case s of
           a # b # s' \<Rightarrow>
             (case (hex_val a, hex_val b) of
                (Some x, Some y) \<Rightarrow> map_option (\<lambda>t. char_of (16 * x + y) # t) (path_unescape s')
              | _ \<Rightarrow> None)
         | _ \<Rightarrow> None)
      else map_option (\<lambda>t. c # t) (path_unescape s))"

definition cut_at :: "char \<Rightarrow> string \<Rightarrow> string \<times> string option" where
  "cut_at x s = (let h = takeWhile (\<lambda>c. c \<noteq> x) s; r = dropWhile (\<lambda>c. c \<noteq> x) s
                 in (h, case r of [] \<Rightarrow> None | _ # t \<Rightarrow> Some t))"

text \<open>\<open>strings.SplitN(s, sep, n)\<close> for a one-byte separator and \<open>n = Suc k\<close>\<close>

fun split_n :: "char \<Rightarrow> nat \<Rightarrow> string \<Rightarrow> string list" where
  "split_n x 0 s = [s]"
| "split_n x (Suc k) s =
     (case cut_at x s of (h, None) \<Rightarrow> [h] | (h, Some t) \<Rightarrow> h # split_n x k t)"

definition index_char :: "char \<Rightarrow> string \<Rightarrow> nat option" where
  "index_char x s = (if x \<in> set s then Some (length (takeWhile (\<lambda>c. c \<noteq> x) s)) else None)"

text \<open>\<open>net.SplitHostPort\<close>: the host, or \<open>None\<close> for an error.\<close>

definition split_host_port :: "string \<Rightarrow> string option" where
  "split_host_port hp =
     (case last_index_char hp (CHR '':'') of
        None \<Rightarrow> None
      | Some i \<Rightarrow>
          if hp ! 0 = CHR ''['' then
            (case index_char (CHR '']'') hp of
               None \<Rightarrow> None
             | Some end' \<Rightarrow>
                 if end' + 1 = i \<and> CHR ''['' \<notin> set (drop 1 hp) \<and> CHR '']'' \<notin> set (drop (end' + 1) hp)
                 then Some (take (end' - 1) (drop 1 hp)) else None)
          else if CHR '':'' \<in> set (take i hp) then None
          else if CHR ''['' \<in> set hp \<or> CHR '']'' \<in> set hp then None
          else Some (take i hp))"

section \<open>Address literals\<close>

type_synonym ip = "nat list"

fun split_all :: "char \<Rightarrow> string \<Rightarrow> string list" where
  "split_all x [] = [[]]"
| "split_all x (c # s) =
     (case split_all x s of
        f # fs \<Rightarrow> if c = x then [] # f # fs else (c # f) # fs
      | [] \<Rightarrow> [])"

text \<open>One decimal field of a dotted quad: no sign, no leading zero, at most 255.\<close>

definition ipv4_field :: "string \<Rightarrow> nat option" where
  "ipv4_field f =
     (case parse_digits f of
        None \<Rightarrow> None
      | Some n \<Rightarrow> if n \<le> 255 \<and> (length f = 1 \<or> hd f \<noteq> CHR ''0'') then Some n else None)"

fun option_list :: "'a option list \<Rightarrow> 'a list option" where
  "option_list [] = Some []"
| "option_list (None # xs) = None"
| "option_list (Some x # xs) = map_option (\<lambda>ys. x # ys) (option_list xs)"

definition parse_ipv4_fields :: "string \<Rightarrow> nat list option" where
  "parse_ipv4_fields s =
     (case option_list (map ipv4_field (split_all (CHR ''.'') s)) of
        Some bs \<Rightarrow> if length bs = 4 then Some bs else None
      | None \<Rightarrow> None)"

definition v4_mapped :: "nat list \<Rightarrow> ip" where
  "v4_mapped bs = replicate 10 0 @ [255, 255] @ bs"

definition hex_prefix :: "string \<Rightarrow> string" where
  "hex_prefix s = takeWhile (\<lambda>c. hex_val c \<noteq> None) s"

definition hex_number :: "string \<Rightarrow> nat" where
  "hex_number s = foldl (\<lambda>acc c. 16 * acc + (case hex_val c of Some v \<Rightarrow> v | None \<Rightarrow> 0)) 0 s"

definition expand_ellipsis :: "ip \<Rightarrow> nat option \<Rightarrow> ip option" where
  "expand_ellipsis ip ell =
     (if length ip < 16 then
        (case ell of
           None \<Rightarrow> None
         | Some k \<Rightarrow> Some (take k ip @ replicate (16 - length ip) 0 @ drop k ip))
      else (if ell = None then Some ip else None))"

lemma drop_Cons_shorter: "c # t = drop n s \<Longrightarrow> length t < length s \<and> length t - 1 < length s"
  by (drule arg_cong [where f = length]) auto

text \<open>
  The loop of \<open>parseIPv6\<close>: \<open>ip\<close> holds the bytes so far, \<open>ell\<close> the position of the double colon,
  \<open>s\<close> the rest, which every round shortens.
\<close>

function ipv6_loop :: "ip \<Rightarrow> nat option \<Rightarrow> string \<Rightarrow> ip option" where
  "ipv6_loop ip ell s =
     (if 16 \<le> length ip then (if s = [] then expand_ellipsis ip ell else None)
      else
        let h = hex_prefix s; rest = drop (length h) s in
        if h = [] \<or> 4 < length h then None
        else if rest \<noteq> [] \<and> hd rest = CHR ''.'' then
          (if ell = None \<and> length ip \<noteq> 12 then None
           else if 16 < length ip + 4 then None
           else case parse_ipv4_fields s of
                  None \<Rightarrow> None
                | Some bs \<Rightarrow> expand_ellipsis (ip @ bs) ell)
        else
          let ip' = ip @ [hex_number h div 256, hex_number h mod 256] in
          (case rest of
             [] \<Rightarrow> expand_ellipsis ip' ell
           | c # s1 \<Rightarrow>
               if c \<noteq> CHR '':'' \<or> s1 = [] then None
               else if hd s1 = CHR '':'' then
                 (if ell \<noteq> None then None
                  else if tl s1 = [] then expand_ellipsis ip' (Some (length ip'))
                  else ipv6_loop ip' (Some (length ip')) (tl s1))
               else ipv6_loop ip' ell s1))"
  by pat_completeness auto

termination
  by (relation "measure (\<lambda>(ip, ell, s). length s)") (auto dest!: drop_Cons_shorter)

declare ipv6_loop.simps [simp del]

definition parse_ipv6 :: "string \<Rightarrow> ip option" where
  "parse_ipv6 s =
     (if CHR 0x25 \<in> set s then None
      else if has_prefix ''::'' s then
        (if drop 2 s = [] then Some (replicate 16 0) else ipv6_loop [] (Some 0) (drop 2 s))
      else ipv6_loop [] None s)"

text \<open>\<open>net.ParseIP\<close>: the first dot, colon or percent sign decides the family.\<close>

definition parse_ip :: "string \<Rightarrow> ip option" where
  "parse_ip s =
     (case filter (\<lambda>c. c \<in> {CHR ''.'', CHR '':'', CHR 0x25}) s of
        [] \<Rightarrow> None
      | c # _ \<Rightarrow>
          if c = CHR ''.'' then map_option v4_mapped (parse_ipv4_fields s)
          else if c = CHR '':'' then parse_ipv6 s else None)"

section \<open>Address predicates\<close>

definition to4 :: "ip \<Rightarrow> nat list option" where
  "to4 ip = (if take 12 ip = replicate 10 0 @ [255, 255] then Some (drop 12 ip) else None)"

definition ip_is_loopback :: "ip \<Rightarrow> bool" where
  "ip_is_loopback ip = (case to4 ip of Some q \<Rightarrow> q ! 0 = 127 | None \<Rightarrow> ip = replicate 15 0 @ [1])"

definition ip_is_private :: "ip \<Rightarrow> bool" where
  "ip_is_private ip =
     (case to4 ip of
        Some q \<Rightarrow> q ! 0 = 10 \<or> (q ! 0 = 172 \<and> q ! 1 div 16 = 1) \<or> (q ! 0 = 192 \<and> q ! 1 = 168)
      | None \<Rightarrow> ip ! 0 div 2 = 126)"

definition ip_is_link_local_unicast :: "ip \<Rightarrow> bool" where
  "ip_is_link_local_unicast ip =
     (case to4 ip of
        Some q \<Rightarrow> q ! 0 = 169 \<and> q ! 1 = 254
      | None \<Rightarrow> ip ! 0 = 254 \<and> ip ! 1 div 64 = 2)"

definition ip_is_link_local_multicast :: "ip \<Rightarrow> bool" where
  "ip_is_link_local_multicast ip =
     (case to4 ip of
        Some q \<Rightarrow> q ! 0 = 224 \<and> q ! 1 = 0 \<and> q ! 2 = 0
      | None \<Rightarrow> ip ! 0 = 255 \<and> ip ! 1 mod 16 = 2)"

definition ip_is_unspecified :: "ip \<Rightarrow> bool" where
  "ip_is_unspecified ip \<longleftrightarrow> ip = replicate 16 0 \<or> to4 ip = Some [0, 0, 0, 0]"

section \<open>Dotted quads\<close>

text \<open>The text of an IPv4 address, and that parsing it gives the address back.\<close>

definition show_ipv4 :: "nat \<Rightarrow> nat \<Rightarrow> nat \<Rightarrow> nat \<Rightarrow> string" where
  "show_ipv4 a b c d = nat_digits a @ ''.'' @ nat_digits b @ ''.'' @ nat_digits c @ ''.'' @ nat_digits d"

lemma nat_digits_nonempty [simp]: "nat_digits n \<noteq> []"
  by (subst nat_digits.simps) simp

lemma nat_digits_all: "list_all is_digit (nat_digits n)"
proof (induction n rule: nat_digits.induct)
  case (1 n)
  then show ?case
    by (subst nat_digits.simps) (auto simp: digit_char_is_digit)
qed

lemma digits_val_snoc: "digits_val (s @ [c]) = 10 * digits_val s + digit_val c"
  by (simp add: digits_val_def)

lemma digits_val_nat_digits: "digits_val (nat_digits n) = n"
proof (induction n rule: nat_digits.induct)
  case (1 n)
  show ?case
  proof (cases "n < 10")
    case True
    then show ?thesis
      by (subst nat_digits.simps) (simp add: digits_val_def digit_char_is_digit)
  next
    case False
    with 1 show ?thesis
      by (subst nat_digits.simps) (simp add: digits_val_snoc digit_char_is_digit)
  qed
qed

lemma parse_nat_digits [simp]: "parse_digits (nat_digits n) = Some n"
  by (simp add: parse_digits_def nat_digits_all digits_val_nat_digits)

lemma hd_nat_digits: "0 < n \<Longrightarrow> hd (nat_digits n) \<noteq> CHR ''0''"
proof (induction n rule: nat_digits.induct)
  case (1 n)
  show ?case
  proof (cases "n < 10")
    case True
    with "1.prems" have "digit_val (hd (nat_digits n)) \<noteq> 0"
      by (subst nat_digits.simps) (simp add: digit_char_is_digit)
    then show ?thesis by (auto simp: digit_val_def)
  next
    case False
    with 1 show ?thesis by (subst nat_digits.simps) simp
  qed
qed

lemma length_nat_digits_0: "length (nat_digits 0) = 1"
  by (simp add: nat_digits.simps)

lemma ipv4_field_nat_digits: "n \<le> 255 \<Longrightarrow> ipv4_field (nat_digits n) = Some n"
  using hd_nat_digits [of n] length_nat_digits_0 by (cases "n = 0") (auto simp: ipv4_field_def)

lemma digit_not_special:
  "is_digit c \<Longrightarrow> c \<noteq> CHR ''.'' \<and> c \<noteq> CHR '':'' \<and> c \<noteq> CHR 0x25 \<and> c \<noteq> CHR ''['' \<and> c \<noteq> CHR '']''"
  by (auto simp: is_digit_def)

lemma nat_digits_no_special:
  "c \<in> set (nat_digits n) \<Longrightarrow> is_digit c"
  using nat_digits_all [of n] by (simp add: list_all_iff)

lemma split_all_no_sep: "x \<notin> set s \<Longrightarrow> split_all x s = [s]"
  by (induction s) auto

lemma split_all_append: "x \<notin> set s \<Longrightarrow> split_all x (s @ x # t) = s # split_all x t"
proof (induction s)
  case Nil
  have "split_all x t \<noteq> []" by (induction t) (auto split: list.splits)
  then show ?case by (auto split: list.splits)
qed auto

lemma dot_notin_digits [simp]: "CHR ''.'' \<notin> set (nat_digits n)"
  using nat_digits_no_special digit_not_special by blast

lemma parse_show_ipv4:
  assumes "a \<le> 255" "b \<le> 255" "c \<le> 255" "d \<le> 255"
  shows "parse_ipv4_fields (show_ipv4 a b c d) = Some [a, b, c, d]"
  using assms
  by (simp add: parse_ipv4_fields_def show_ipv4_def split_all_append split_all_no_sep ipv4_field_nat_digits)

lemma filter_digits:
  "filter (\<lambda>c. c \<in> {CHR ''.'', CHR '':'', CHR 0x25}) (nat_digits n) = []"
  using nat_digits_no_special [of _ n] digit_not_special by (auto simp: filter_empty_conv)

lemma parse_ip_show_ipv4:
  assumes "a \<le> 255" "b \<le> 255" "c \<le> 255" "d \<le> 255"
  shows "parse_ip (show_ipv4 a b c d) = Some (v4_mapped [a, b, c, d])"
proof -
  have "\<exists>t. filter (\<lambda>c. c \<in> {CHR ''.'', CHR '':'', CHR 0x25}) (show_ipv4 a b c d) = CHR ''.'' # t"
    unfolding show_ipv4_def filter_append filter_digits by simp
  then show ?thesis
    using parse_show_ipv4 [OF assms] by (auto simp: parse_ip_def)
qed

lemma to4_v4_mapped [simp]: "to4 (v4_mapped bs) = Some bs"
  by (simp add: to4_def v4_mapped_def)

end
