(* ===== verification/Did.thy ===== *)
theory Did
  imports Store GoNet
begin

text \<open>
  DID documents (did.go): registration of a document under a DID, resolution of a DID or a handle,
  and the guard that keeps resolution from fetching from internal addresses.
\<close>

section \<open>Operations\<close>

definition didRegisterDocument :: "env \<Rightarrow> nmap \<Rightarrow> db \<Rightarrow> gval outcome" where
  "didRegisterDocument e params d =
     (let did = gets params ''did''; doc = asMap (gindex params ''did_document'') in
      if did = [] \<or> doc = None then (Inl (PlainError ''did and did_document are required''), d)
      else
        let docID = gets doc ''id'' in
        if docID \<noteq> [] \<and> docID \<noteq> did
        then (Inl (PlainError (''did_document.id '' @ go_quote docID @ '' does not match did '' @ go_quote did)), d)
        else
          let row = \<lparr>dr_doc_json = marshal (ofMap doc), dr_registered_at = rfc3339 (clock e 0)\<rparr> in
          (Inr (GMap [(''did'', GStr did), (''status'', GStr ''registered'')]),
           d\<lparr>registered_dids := tput did row (\<lambda>_. row) (registered_dids d)\<rparr>))"

definition didHost :: "string \<Rightarrow> string" where
  "didHost did =
     (case split_n (CHR '':'') 3 did of
        p0 # p1 # p2 # _ \<Rightarrow>
          if p0 \<noteq> ''did'' \<or> (p1 \<noteq> ''wba'' \<and> p1 \<noteq> ''web'') then []
          else (case path_unescape p2 of None \<Rightarrow> [] | Some domain \<Rightarrow> domain)
      | _ \<Rightarrow> [])"

definition isBlockedHost :: "string \<Rightarrow> bool" where
  "isBlockedHost hostport =
     (let host0 = to_lower (trim_space hostport);
          host1 = (case split_host_port host0 of Some h \<Rightarrow> h | None \<Rightarrow> host0);
          host = trim_suffix ''.'' host1
      in case parse_ip host of
           Some ip \<Rightarrow> ip_is_loopback ip \<or> ip_is_private ip \<or> ip_is_link_local_unicast ip
                       \<or> ip_is_link_local_multicast ip \<or> ip_is_unspecified ip
         | None \<Rightarrow> host = ''localhost'' \<or> host = ''metadata.google.internal'')"

definition didResolve :: "env \<Rightarrow> nmap \<Rightarrow> db \<Rightarrow> gval res" where
  "didResolve e params d =
     (let target = gets params ''target'' in
      if target = [] then Inl (PlainError ''target is required'')
      else
        let did = (case tsel (handles d) target of
                     Some r \<Rightarrow> if hr_did r \<noteq> [] then hr_did r else target
                   | None \<Rightarrow> target)
        in case tsel (registered_dids d) did of
             Some row \<Rightarrow>
               Inr (GMap [(''did'', GStr did), (''did_document'', ofMap (unmarshal_map_lax (dr_doc_json row)))])
           | None \<Rightarrow>
               if has_prefix ''did:wba:'' did \<or> has_prefix ''did:web:'' did then
                 (if didHost did \<noteq> [] \<and> isBlockedHost (didHost did)
                  then Inl (RpcError codeDidNotFound ''did not found'')
                  else case resolve_document e did of
                         None \<Rightarrow> Inl (RpcError codeDidNotFound ''did not found'')
                       | Some doc \<Rightarrow> Inr (GMap [(''did'', GStr did), (''did_document'', ofMap doc)]))
               else Inl (RpcError codeDidNotFound ''did not found''))"

lemmas did_ops [handler_defs] = didRegisterDocument_def

section \<open>The registry\<close>

definition did_doc :: "db \<Rightarrow> string \<Rightarrow> jtext option" where
  "did_doc d did = map_option dr_doc_json (tsel (registered_dids d) did)"

text \<open>Registered documents are JSON objects under non-empty DIDs.\<close>

definition dids_ok :: "db \<Rightarrow> bool" where
  "dids_ok d \<longleftrightarrow> tkeys_unique (registered_dids d)
     \<and> (\<forall>did t. did_doc d did = Some t \<longrightarrow> did \<noteq> [] \<and> (\<exists>m. unmarshal_map t = Some (Some m)))"

lemma dids_ok_same: "registered_dids d' = registered_dids d \<Longrightarrow> dids_ok d' = dids_ok d"
  by (simp add: dids_ok_def did_doc_def)

lemma dids_ok_empty: "dids_ok empty_db"
  by (simp add: dids_ok_def did_doc_def empty_db_def)

lemma didRegisterDocument_doc:
  "did_doc (snd (didRegisterDocument e p d)) did =
     (if is_ok (fst (didRegisterDocument e p d)) \<and> did = gets p ''did''
      then Some (marshal (gindex p ''did_document'')) else did_doc d did)"
proof -
  have "ofMap (asMap v) = v" if "asMap v \<noteq> None" for v using that by (cases v) auto
  then show ?thesis
    by (auto simp: didRegisterDocument_def did_doc_def Let_def split: option.split)
qed

lemma didRegisterDocument_ok_iff:
  "is_ok (fst (didRegisterDocument e p d)) \<longleftrightarrow>
     (\<exists>m. gindex p ''did_document'' = GMap m \<and> gets p ''did'' \<noteq> []
        \<and> gets (Some m) ''id'' \<in> {[], gets p ''did''})"
proof -
  have "asMap v = Some m \<longleftrightarrow> v = GMap m" for v m by (cases v) auto
  then show ?thesis
    by (auto simp: didRegisterDocument_def Let_def)
qed

lemma didRegisterDocument_error_state:
  "\<not> is_ok (fst (didRegisterDocument e p d)) \<Longrightarrow> snd (didRegisterDocument e p d) = d"
  by (auto simp: didRegisterDocument_def Let_def split: if_splits)

lemma didRegisterDocument_dids_ok:
  assumes "dids_ok d" shows "dids_ok (snd (didRegisterDocument e p d))"
proof (cases "is_ok (fst (didRegisterDocument e p d))")
  case True
  then obtain m where m: "gindex p ''did_document'' = GMap m" "gets p ''did'' \<noteq> []"
    by (auto simp: didRegisterDocument_ok_iff)
  have u: "tkeys_unique (registered_dids (snd (didRegisterDocument e p d)))"
    using assms by (simp add: didRegisterDocument_def dids_ok_def Let_def)
  have "did \<noteq> [] \<and> (\<exists>m. unmarshal_map t = Some (Some m))"
    if "did_doc (snd (didRegisterDocument e p d)) did = Some t" for did t
    using that assms m True
    by (auto simp: didRegisterDocument_doc dids_ok_def split: if_splits)
  with u show ?thesis unfolding dids_ok_def by blast
next
  case False
  then show ?thesis using assms didRegisterDocument_error_state by simp
qed

section \<open>The guard\<close>

definition plain_char :: "char \<Rightarrow> bool" where
  "plain_char c \<longleftrightarrow> is_digit c \<or> c = CHR ''.''"

lemma plain_char_facts:
  "plain_char c \<Longrightarrow> \<not> is_space c \<and> to_lower_char c = c \<and> c \<noteq> CHR '':'' \<and> c \<noteq> CHR ''['' \<and> c \<noteq> CHR '']''"
  by (auto simp: plain_char_def is_digit_def is_space_def to_lower_char_def)

lemma to_lower_id: "(\<And>c. c \<in> set s \<Longrightarrow> to_lower_char c = c) \<Longrightarrow> to_lower s = s"
  by (simp add: to_lower_def map_idI)

lemma plain_show_ipv4: "c \<in> set (show_ipv4 i j k l) \<Longrightarrow> plain_char c"
  by (auto simp: show_ipv4_def plain_char_def dest: nat_digits_no_special)

lemma plain_nat_digits: "c \<in> set (nat_digits n) \<Longrightarrow> plain_char c"
  by (auto simp: plain_char_def dest: nat_digits_no_special)

lemma split_host_port_no_colon: "CHR '':'' \<notin> set s \<Longrightarrow> split_host_port s = None"
  unfolding split_host_port_def by (subst iffD2 [OF last_index_char_None]) simp_all

lemma split_host_port_simple:
  assumes "s \<noteq> []" "\<And>c. c \<in> set s \<Longrightarrow> plain_char c" "\<And>c. c \<in> set t \<Longrightarrow> plain_char c"
  shows "split_host_port (s @ CHR '':'' # t) = Some s"
proof -
  have c: "CHR '':'' \<notin> set t" "CHR '':'' \<notin> set s" "CHR ''['' \<notin> set s" "CHR '']'' \<notin> set s"
    "CHR ''['' \<notin> set t" "CHR '']'' \<notin> set t"
    using assms plain_char_facts by blast+
  then have "last_index_char (s @ CHR '':'' # t) (CHR '':'') = Some (length s)"
    by (simp add: last_index_char_append)
  moreover have "(s @ CHR '':'' # t) ! 0 \<noteq> CHR ''[''"
    using assms(1) c(3) by (cases s) auto
  ultimately show ?thesis
    using c by (simp add: split_host_port_def)
qed

lemma trim_suffix_ipv4: "trim_suffix ''.'' (show_ipv4 i j k l) = show_ipv4 i j k l"
proof -
  have "last (show_ipv4 i j k l) \<in> set (nat_digits l)"
    by (simp add: show_ipv4_def)
  then have "last (show_ipv4 i j k l) \<noteq> CHR ''.''"
    using nat_digits_no_special digit_not_special by blast
  then have "\<not> has_suffix ''.'' (show_ipv4 i j k l)"
    by (auto simp: has_suffix_iff)
  then show ?thesis by (simp add: trim_suffix_def)
qed

lemma trim_suffix_ipv4_dot: "trim_suffix ''.'' (show_ipv4 i j k l @ ''.'') = show_ipv4 i j k l"
  by (simp add: trim_suffix_def has_suffix_def)

text \<open>The addresses the guard is about, as ranges of dotted quads.\<close>

definition internal_ipv4 :: "nat \<Rightarrow> nat \<Rightarrow> nat \<Rightarrow> nat \<Rightarrow> bool" where
  "internal_ipv4 a b c d \<longleftrightarrow>
     a = 127 \<or> a = 10 \<or> (a = 172 \<and> b div 16 = 1) \<or> (a = 192 \<and> b = 168) \<or> (a = 169 \<and> b = 254)
     \<or> (a = 224 \<and> b = 0 \<and> c = 0) \<or> (a = 0 \<and> b = 0 \<and> c = 0 \<and> d = 0)"

lemma v4_mapped_not_zero: "v4_mapped bs \<noteq> replicate n 0"
proof
  assume "v4_mapped bs = replicate n 0"
  then have "(255 :: nat) \<in> set (replicate n 0)" by (metis v4_mapped_def append.assoc in_set_conv_decomp append_Cons)
  then show False by (simp split: if_splits)
qed

lemma blocked_ip_ipv4:
  "(ip_is_loopback (v4_mapped [a, b, c, d]) \<or> ip_is_private (v4_mapped [a, b, c, d])
     \<or> ip_is_link_local_unicast (v4_mapped [a, b, c, d])
     \<or> ip_is_link_local_multicast (v4_mapped [a, b, c, d])
     \<or> ip_is_unspecified (v4_mapped [a, b, c, d])) = internal_ipv4 a b c d"
  by (simp add: ip_is_loopback_def ip_is_private_def ip_is_link_local_unicast_def
      ip_is_link_local_multicast_def ip_is_unspecified_def internal_ipv4_def v4_mapped_not_zero)

lemma isBlockedHost_ipv4:
  assumes "a \<le> 255" "b \<le> 255" "c \<le> 255" "d \<le> 255"
    and "suffix \<in> {[], ''.'', '':'' @ nat_digits port, ''.:'' @ nat_digits port}"
  shows "isBlockedHost (show_ipv4 a b c d @ suffix) \<longleftrightarrow> internal_ipv4 a b c d"
proof -
  let ?s = "show_ipv4 a b c d"
  have ne: "?s \<noteq> []" by (simp add: show_ipv4_def)
  have pl: "\<And>x. x \<in> set ?s \<Longrightarrow> plain_char x" "\<And>x. x \<in> set (?s @ ''.'') \<Longrightarrow> plain_char x"
    using plain_show_ipv4 [of _ a b c d] by (blast, auto simp: plain_char_def)
  have colon: "\<not> is_space (CHR '':'') \<and> to_lower_char (CHR '':'') = CHR '':''"
    by (simp add: is_space_def to_lower_char_def)
  have "plain_char x \<or> x = CHR '':''" if "x \<in> set (?s @ suffix)" for x
    using that assms(5) pl(1) plain_nat_digits [of x port] by (fastforce simp: plain_char_def)
  then have "\<not> is_space x \<and> to_lower_char x = x" if "x \<in> set (?s @ suffix)" for x
    using that colon plain_char_facts by blast
  then have id: "to_lower (trim_space (?s @ suffix)) = ?s @ suffix"
    using trim_space_id [of "?s @ suffix"] to_lower_id [of "?s @ suffix"] by metis
  have host: "trim_suffix ''.'' (case split_host_port (?s @ suffix) of Some h \<Rightarrow> h | None \<Rightarrow> ?s @ suffix) = ?s"
  proof -
    consider "suffix = []" | "suffix = ''.''" | "suffix = '':'' @ nat_digits port"
      | "suffix = ''.:'' @ nat_digits port" using assms(5) by blast
    then show ?thesis
    proof cases
      case 1
      moreover have "split_host_port ?s = None"
        using pl(1) plain_char_facts by (intro split_host_port_no_colon) blast
      ultimately show ?thesis by (simp add: trim_suffix_ipv4)
    next
      case 2
      moreover have "split_host_port (?s @ ''.'') = None"
        using pl(2) plain_char_facts by (intro split_host_port_no_colon) blast
      ultimately show ?thesis by (simp add: trim_suffix_ipv4_dot)
    next
      case 3
      then show ?thesis
        using split_host_port_simple [OF ne pl(1), of "nat_digits port"] plain_nat_digits
        by (simp add: trim_suffix_ipv4)
    next
      case 4
      then show ?thesis
        using split_host_port_simple [of "?s @ ''.''" "nat_digits port", OF _ pl(2)] plain_nat_digits
        by (simp add: trim_suffix_ipv4_dot)
    qed
  qed
  show ?thesis
    using parse_ip_show_ipv4 [OF assms(1-4)] blocked_ip_ipv4 [of a b c d]
    unfolding isBlockedHost_def Let_def id host by simp
qed

text \<open>The host of a DID is the part between its second and third colon, percent-decoded.\<close>

lemma cut_at_append: "x \<notin> set s \<Longrightarrow> cut_at x (s @ x # t) = (s, Some t)"
  by (induction s) (auto simp: cut_at_def Let_def)

lemma cut_at_none: "x \<notin> set s \<Longrightarrow> cut_at x s = (s, None)"
  by (induction s) (auto simp: cut_at_def Let_def)

lemma didHost_unescape:
  assumes "scheme \<in> {''did:wba:'', ''did:web:''}" "CHR '':'' \<notin> set h" "path = [] \<or> path = CHR '':'' # p"
  shows "didHost (scheme @ h @ path) = (case path_unescape h of None \<Rightarrow> [] | Some domain \<Rightarrow> domain)"
proof -
  obtain q where q: "split_n (CHR '':'') (Suc 0) (h @ path) = h # q"
    using assms(2,3) by (auto simp: cut_at_append cut_at_none)
  have "split_n (CHR '':'') 3 (''did:'' @ m @ '':'' @ h @ path) = ''did'' # m # h # q" if "CHR '':'' \<notin> set m" for m
    using that q cut_at_append [of "CHR '':''" "''did''" "m @ CHR '':'' # h @ path"] cut_at_append [of "CHR '':''" m "h @ path"]
    by (simp add: numeral_3_eq_3)
  from this [of "''wba''"] this [of "''web''"] assms(1) show ?thesis
    by (auto simp: didHost_def)
qed

lemma path_unescape_plain: "CHR 0x25 \<notin> set s \<Longrightarrow> path_unescape (s @ t) = map_option ((@) s) (path_unescape t)"
  by (induction s) (auto simp: option.map_comp comp_def option.map_id0 [unfolded id_def] map_option_case split: option.split)

text \<open>A port is written behind an escaped colon.\<close>

definition escaped_port :: "nat \<Rightarrow> string" where
  "escaped_port port = ''%3A'' @ nat_digits port"

lemma unescape_port: "path_unescape (escaped_port port) = Some ('':'' @ nat_digits port)"
proof -
  have "CHR 0x25 \<notin> set (nat_digits port)" using nat_digits_no_special digit_not_special by blast
  moreover have "char_of (58 :: nat) = CHR '':''" by code_simp
  ultimately show ?thesis
    using path_unescape_plain [of "nat_digits port" "[]"] by (simp add: escaped_port_def hex_val_def)
qed

lemma didHost_blocked:
  assumes "a \<le> 255" "b \<le> 255" "c \<le> 255" "d \<le> 255"
    and "scheme \<in> {''did:wba:'', ''did:web:''}" "path = [] \<or> path = CHR '':'' # p"
    and "suffix \<in> {[], ''.'', escaped_port port, ''.'' @ escaped_port port}"
  defines "did \<equiv> scheme @ (show_ipv4 a b c d @ suffix) @ path"
  shows "didHost did \<noteq> [] \<and> (isBlockedHost (didHost did) \<longleftrightarrow> internal_ipv4 a b c d)"
proof -
  let ?q = "show_ipv4 a b c d"
  have pl: "CHR 0x25 \<notin> set ?q" "CHR '':'' \<notin> set ?q"
    using plain_show_ipv4 [of "CHR 0x25" a b c d] plain_show_ipv4 [of "CHR '':''" a b c d]
    by (auto simp: plain_char_def is_digit_def)
  have cl: "CHR '':'' \<notin> set (?q @ suffix)"
    using pl assms(7) plain_char_facts [OF plain_nat_digits [of "CHR '':''" port]] by (auto simp: escaped_port_def)
  obtain s where s: "path_unescape suffix = Some s" "s \<in> {[], ''.'', '':'' @ nat_digits port, ''.:'' @ nat_digits port}"
    using assms(7) unescape_port [of port] by auto
  have "didHost did = ?q @ s"
    unfolding did_def didHost_unescape [OF assms(5) cl assms(6)] using path_unescape_plain [OF pl(1)] s(1) by simp
  moreover have "?q \<noteq> []" by (simp add: show_ipv4_def)
  ultimately show ?thesis using isBlockedHost_ipv4 [OF assms(1-4) s(2)] by simp
qed

text \<open>
  Resolution of a DID that is not registered here is refused for a blocked host, whatever the
  network holds, and is left to the resolver otherwise.
\<close>

lemma didResolve_remote:
  assumes "gets params ''target'' \<noteq> []" "tsel (registered_dids d) did = None"
    and "(case tsel (handles d) (gets params ''target'') of
            Some r \<Rightarrow> if hr_did r \<noteq> [] then hr_did r else gets params ''target'' | None \<Rightarrow> gets params ''target'') = did"
    and "has_prefix ''did:wba:'' did \<or> has_prefix ''did:web:'' did"
  shows "didResolve e params d =
    (if didHost did \<noteq> [] \<and> isBlockedHost (didHost did) then Inl (RpcError codeDidNotFound ''did not found'')
     else case resolve_document e did of
            None \<Rightarrow> Inl (RpcError codeDidNotFound ''did not found'')
          | Some doc \<Rightarrow> Inr (GMap [(''did'', GStr did), (''did_document'', ofMap doc)]))"
  using assms unfolding didResolve_def Let_def by auto

text \<open>Resolution of a registered DID, or of a handle bound to it, stays here.\<close>

lemma didResolve_local:
  assumes "gets params ''target'' \<noteq> []" "tsel (registered_dids d) did = Some row"
    and "(case tsel (handles d) (gets params ''target'') of
            Some r \<Rightarrow> if hr_did r \<noteq> [] then hr_did r else gets params ''target'' | None \<Rightarrow> gets params ''target'') = did"
  shows "didResolve e params d
    = Inr (GMap [(''did'', GStr did), (''did_document'', ofMap (unmarshal_map_lax (dr_doc_json row)))])"
  using assms unfolding didResolve_def Let_def by auto

end
