(* ===== verification/Auth.thy ===== *)
theory Auth
  imports Did
begin

text \<open>
  Authentication of requests (auth.go): locating the signer through the keyid parameter of the
  Signature-Input header, verification against the registered document (or, when a service DID is
  configured, a remotely resolved one), and the separate rule for registering a document.
\<close>

section \<open>Requests\<close>

record http_req =
  hq_method :: string
  hq_host :: string
  hq_path :: string
  hq_tls :: bool
  hq_headers :: raw_headers
  hq_body :: "byte list"
  hq_body_error :: bool

definition requestURL :: "http_req \<Rightarrow> string" where
  "requestURL r = (if hq_tls r then ''https'' else ''http'') @ ''://'' @ hq_host r @ hq_path r"

section \<open>Key identifiers\<close>

definition keyIDToDID :: "string \<Rightarrow> string" where
  "keyIDToDID keyID =
     (case last_index_char keyID (CHR ''#'') of Some i \<Rightarrow> take i keyID | None \<Rightarrow> keyID)"

definition cut_semicolon :: "string \<Rightarrow> string" where
  "cut_semicolon rest =
     trim_space (case str_index rest '';'' of Some semi \<Rightarrow> take semi rest | None \<Rightarrow> rest)"

definition extractKeyID :: "string \<Rightarrow> string" where
  "extractKeyID signatureInput =
     (case str_index signatureInput ''keyid'' of
        None \<Rightarrow> []
      | Some idx \<Rightarrow>
          let rest0 = trim_space (drop (idx + 5) signatureInput);
              rest1 = (if has_prefix ''='' rest0 then trim_space (drop 1 rest0) else rest0)
          in if has_prefix [CHR 0x22] rest1 then
               (let rest2 = drop 1 rest1 in
                case str_index rest2 [CHR 0x22] of
                  Some end' \<Rightarrow> take end' rest2
                | None \<Rightarrow> cut_semicolon rest2)
             else cut_semicolon rest1)"

section \<open>Verification\<close>

definition verifyServiceSignature ::
  "env \<Rightarrow> string \<Rightarrow> string \<Rightarrow> headers \<Rightarrow> byte list \<Rightarrow> db \<Rightarrow> string res" where
  "verifyServiceSignature e did url hs body d =
     (let doc0 = (case tsel (registered_dids d) did of
                    Some row \<Rightarrow> unmarshal_map_lax (dr_doc_json row) | None \<Rightarrow> None);
          failed = Inl (PlainError ''service signature verification failed'');
          check = (\<lambda>doc. case http_sig e doc ''POST'' url hs body of
                           None \<Rightarrow> failed | Some kid \<Rightarrow> Inr (keyIDToDID kid))
      in if doc0 = None
         then (case resolve_document e did of None \<Rightarrow> failed | Some doc \<Rightarrow> check doc)
         else check doc0)"

definition verify ::
  "env \<Rightarrow> string \<Rightarrow> http_req \<Rightarrow> headers \<Rightarrow> byte list \<Rightarrow> db \<Rightarrow> string res" where
  "verify e serviceDid r hs body d =
     (if length (registered_dids d) = 0 then Inr []
      else
        let signatureInput = headerGet hs ''Signature-Input'' in
        if signatureInput = [] then Inl (PlainError ''missing Signature-Input header'')
        else
          let did = keyIDToDID (extractKeyID signatureInput) in
          if did = [] then Inl (PlainError ''signature keyid not found'')
          else case tsel (registered_dids d) did of
                 None \<Rightarrow>
                   if serviceDid \<noteq> [] then verifyServiceSignature e did (requestURL r) hs body d
                   else Inl (PlainError ''signature verification failed'')
               | Some row \<Rightarrow>
                   (case unmarshal_map (dr_doc_json row) of
                      None \<Rightarrow> Inl (PlainError ''internal error'')
                    | Some doc \<Rightarrow>
                        (case http_sig e doc ''POST'' (requestURL r) hs body of
                           None \<Rightarrow> Inl (PlainError ''signature verification failed'')
                         | Some kid \<Rightarrow> Inr (keyIDToDID kid))))"

definition verifyRegistration ::
  "env \<Rightarrow> nmap \<Rightarrow> http_req \<Rightarrow> headers \<Rightarrow> byte list \<Rightarrow> db \<Rightarrow> string res" where
  "verifyRegistration e params r hs body d =
     (let did = gets params ''did'' in
      if did = [] then Inl (PlainError ''did is required'')
      else case tsel (registered_dids d) did of
             None \<Rightarrow> Inr did
           | Some row \<Rightarrow>
               (case unmarshal_map (dr_doc_json row) of
                  None \<Rightarrow> Inl (PlainError ''internal error'')
                | Some doc \<Rightarrow>
                    if headerGet hs ''Signature-Input'' = []
                    then Inl (PlainError ''missing Signature-Input header'')
                    else case http_sig e doc ''POST'' (requestURL r) hs body of
                           None \<Rightarrow> Inl (PlainError ''signature verification failed'')
                         | Some kid \<Rightarrow>
                             if keyIDToDID kid \<noteq> did
                             then Inl (PlainError (''signature does not match DID '' @ go_quote did))
                             else Inr did))"

section \<open>Reading the keyid\<close>

lemma has_prefix_keyid_overlap:
  assumes "str_index (c # pre) ''keyid'' = None"
  shows "\<not> has_prefix ''keyid'' (c # pre @ ''keyid'' @ rest)"
proof
  assume p: "has_prefix ''keyid'' (c # pre @ ''keyid'' @ rest)"
  have n: "\<not> has_prefix ''keyid'' (c # pre)" using assms by (auto split: if_splits)
  show False
  proof (cases "4 \<le> length pre")
    case True
    with p n show False by (auto simp: has_prefix_def)
  next
    case False
    then have "length pre = 0 \<or> length pre = 1 \<or> length pre = 2 \<or> length pre = 3" by arith
    with p show False
      by (auto simp: has_prefix_def length_Suc_conv numeral_eq_Suc)
  qed
qed

lemma str_index_keyid:
  "str_index pre ''keyid'' = None \<Longrightarrow> str_index (pre @ ''keyid'' @ rest) ''keyid'' = Some (length pre)"
proof (induction pre)
  case Nil
  then show ?case by (simp add: has_prefix_def)
next
  case (Cons c pre)
  then have "str_index pre ''keyid'' = None" by (auto split: if_splits)
  with Cons.IH have "str_index (pre @ ''keyid'' @ rest) ''keyid'' = Some (length pre)" by simp
  with has_prefix_keyid_overlap [OF Cons.prems, of rest] show ?case by simp
qed

lemma str_index_char: "x \<notin> set s \<Longrightarrow> str_index (s @ x # t) [x] = Some (length s)"
  by (induction s) (auto simp: has_prefix_def)

text \<open>Trimming does nothing to the left of a text that starts with a visible character.\<close>

lemma trim_space_front:
  assumes "\<not> is_space x"
  shows "\<exists>t'. trim_space (x # s @ y # t) = x # s @ y # t' \<or> is_space y"
proof (cases "is_space y")
  case False
  have "dropWhile is_space (rev t @ y # rev s @ [x]) = dropWhile is_space (rev t) @ y # rev s @ [x]
      \<or> dropWhile is_space (rev t @ y # rev s @ [x]) = y # rev s @ [x]"
    using False by (induction "rev t") (auto simp: dropWhile_append)
  moreover have "\<exists>t'. dropWhile is_space (rev t) = rev t'" by (metis rev_rev_ident)
  ultimately show ?thesis
    using assms False by (auto simp: trim_space_def)
qed simp

text \<open>
  A quoted keyid that is the first occurrence of the word is read exactly, whatever follows it.
\<close>

lemma extractKeyID_quoted:
  assumes "str_index pre ''keyid'' = None" "CHR 0x22 \<notin> set kid"
  shows "extractKeyID (pre @ ''keyid='' @ [CHR 0x22] @ kid @ [CHR 0x22] @ post) = kid"
proof -
  let ?q = "CHR 0x22 :: char"
  have ns: "\<not> is_space (CHR ''='')" "\<not> is_space ?q" by (auto simp: is_space_def)
  have split: "pre @ ''keyid='' @ [?q] @ kid @ [?q] @ post
      = pre @ ''keyid'' @ (CHR ''='' # ?q # kid @ ?q # post)" by simp
  obtain t1 where t1: "trim_space (CHR ''='' # (?q # kid) @ ?q # post) = CHR ''='' # (?q # kid) @ ?q # t1"
    using trim_space_front [OF ns(1), of "?q # kid" ?q post] ns(2) by blast
  obtain t2 where t2: "trim_space (?q # kid @ ?q # t1) = ?q # kid @ ?q # t2"
    using trim_space_front [OF ns(2), of kid ?q t1] ns(2) by blast
  have idx: "str_index (pre @ ''keyid'' @ (CHR ''='' # ?q # kid @ ?q # post)) ''keyid'' = Some (length pre)"
    by (rule str_index_keyid [OF assms(1)])
  have drop: "drop (length pre + 5) (pre @ ''keyid'' @ (CHR ''='' # ?q # kid @ ?q # post))
      = CHR ''='' # (?q # kid) @ ?q # post" by simp
  show ?thesis
    unfolding split extractKeyID_def idx option.case drop Let_def t1
    using t2 str_index_char [OF assms(2), of t2] by (simp add: has_prefix_def)
qed

lemma keyIDToDID_fragment: "CHR ''#'' \<notin> set frag \<Longrightarrow> keyIDToDID (did @ ''#'' @ frag) = did"
  by (simp add: keyIDToDID_def last_index_char_append)

section \<open>What a verified request shows\<close>

text \<open>The identity the code takes from a signature checked against \<open>doc\<close>.\<close>

definition signed_as :: "env \<Rightarrow> http_req \<Rightarrow> headers \<Rightarrow> byte list \<Rightarrow> nmap \<Rightarrow> string \<Rightarrow> bool" where
  "signed_as e r hs body doc who \<longleftrightarrow>
     (\<exists>kid. http_sig e doc ''POST'' (requestURL r) hs body = Some kid \<and> keyIDToDID kid = who)"

lemma verify_cases:
  assumes "verify e svc r hs body d = Inr who"
  obtains
    (bootstrap) "registered_dids d = []" "who = []"
  | (local) did t doc where "did_doc d did = Some t" "unmarshal_map t = Some doc"
      "signed_as e r hs body doc who" "did = keyIDToDID (extractKeyID (headerGet hs ''Signature-Input''))"
  | (remote) did doc where "svc \<noteq> []" "did_doc d did = None" "resolve_document e did = Some doc"
      "signed_as e r hs body doc who" "did = keyIDToDID (extractKeyID (headerGet hs ''Signature-Input''))"
  using assms
  by (auto simp: verify_def verifyServiceSignature_def signed_as_def did_doc_def Let_def
      split: if_splits option.splits)

lemma verifyRegistration_cases:
  assumes "verifyRegistration e params r hs body d = Inr who"
  obtains
    (fresh) "who = gets params ''did''" "who \<noteq> []" "did_doc d who = None"
  | (owner) t doc where "who = gets params ''did''" "did_doc d who = Some t"
      "unmarshal_map t = Some doc" "signed_as e r hs body doc who"
  using assms
  by (auto simp: verifyRegistration_def signed_as_def did_doc_def Let_def
      split: if_splits option.splits)

end
