(* ===== verification/Payloads.thy ===== *)
theory Payloads
  imports Store
begin

text \<open>
  Message bodies: the mutual-exclusion rule on payloads (\<open>classifyPayload\<close> of group.go) and the
  structural check of mentions (mentions.go).
\<close>

section \<open>Payload classification\<close>

definition classifyPayload :: "nmap \<Rightarrow> string \<times> string \<times> bool" where
  "classifyPayload body =
     (let t = gets body ''text'';
          (c1, k1, x1) = (if t \<noteq> [] then (1 :: nat, ''text'', t) else (0, [], []));
          (c2, k2) = (if ghas body ''payload'' then (c1 + 1, ''json'') else (c1, k1));
          (c3, k3) = (if gets body ''payload_b64u'' \<noteq> [] then (c2 + 1, ''binary'') else (c2, k2))
      in (k3, x1, c3 = 1))"

lemma classifyPayload_ok_iff:
  "snd (snd (classifyPayload body)) \<longleftrightarrow>
     (gets body ''text'' \<noteq> [] \<and> \<not> ghas body ''payload'' \<and> gets body ''payload_b64u'' = [])
     \<or> (gets body ''text'' = [] \<and> ghas body ''payload'' \<and> gets body ''payload_b64u'' = [])
     \<or> (gets body ''text'' = [] \<and> \<not> ghas body ''payload'' \<and> gets body ''payload_b64u'' \<noteq> [])"
  by (simp add: classifyPayload_def Let_def)

lemma classifyPayload_kind:
  assumes "classifyPayload body = (kind, text, True)"
  shows "kind = ''text'' \<longleftrightarrow> gets body ''text'' \<noteq> []"
    and "kind = ''json'' \<longleftrightarrow> ghas body ''payload''"
    and "kind = ''binary'' \<longleftrightarrow> gets body ''payload_b64u'' \<noteq> []"
    and "text = gets body ''text''"
  using assms by (auto simp: classifyPayload_def Let_def split: if_splits)

section \<open>Mentions\<close>

text \<open>The loop over the mentions; \<open>Some id\<close> is the first repeated id.\<close>

fun mention_dup :: "gval list \<Rightarrow> string list \<Rightarrow> string option" where
  "mention_dup [] seen = None"
| "mention_dup (item # items) seen =
     (case asMap item of
        None \<Rightarrow> mention_dup items seen
      | Some m \<Rightarrow>
          let i = gets (Some m) ''id'' in
          if i = [] then mention_dup items seen
          else if i \<in> set seen then Some i
          else mention_dup items (i # seen))"

definition validateMentions :: "nmap \<Rightarrow> string option" where
  "validateMentions payload =
     (if payload = None then None
      else if \<not> ghas payload ''mentions'' then None
      else case garr (gindex payload ''mentions'') of
             None \<Rightarrow> Some ''mentions must be an array''
           | Some items \<Rightarrow>
               (case mention_dup items [] of
                  None \<Rightarrow> None
                | Some i \<Rightarrow> Some (''duplicate mention id '' @ go_quote i)))"

text \<open>The ids the mentions carry, in order.\<close>

definition mention_ids :: "gval list \<Rightarrow> string list" where
  "mention_ids items =
     filter (\<lambda>i. i \<noteq> []) (map (\<lambda>m. gets m ''id'') (filter (\<lambda>m. m \<noteq> None) (map asMap items)))"

lemma mention_ids_simps [simp]:
  "mention_ids [] = []"
  "asMap item = None \<Longrightarrow> mention_ids (item # items) = mention_ids items"
  "asMap item = Some m \<Longrightarrow> mention_ids (item # items) =
     (if gets (Some m) ''id'' = [] then mention_ids items else gets (Some m) ''id'' # mention_ids items)"
  by (simp_all add: mention_ids_def)

lemma mention_dup_None_iff:
  "mention_dup items seen = None \<longleftrightarrow>
     distinct (mention_ids items) \<and> set (mention_ids items) \<inter> set seen = {}"
proof (induction items arbitrary: seen)
  case (Cons item items)
  show ?case
  proof (cases "asMap item")
    case None
    with Cons.IH show ?thesis by simp
  next
    case (Some m)
    then show ?thesis
      by (cases "gets (Some m) ''id'' = []") (auto simp: Cons.IH Let_def)
  qed
qed simp

lemma mention_dup_Some:
  "mention_dup items seen = Some i \<Longrightarrow> i \<in> set (mention_ids items) \<and> i \<noteq> []"
proof (induction items arbitrary: seen)
  case (Cons item items)
  then show ?case
    by (cases "asMap item") (auto simp: Let_def split: if_splits)
qed simp

end
