(* ===== verification/Inbox.thy ===== *)
theory Inbox
  imports Store
begin

text \<open>
  The inbox (msg.go) and the message table it reads: which messages a caller sees, in which
  order, and how many.
\<close>

section \<open>The query\<close>

definition active_groups :: "db \<Rightarrow> string \<Rightarrow> string list" where
  "active_groups d did =
     map (fst \<circ> fst) (filter (\<lambda>((gid, m), r). m = did \<and> mb_status r = ''active'') (group_members d))"

text \<open>The WHERE clause; a comparison with NULL is not true.\<close>

definition inbox_match :: "db \<Rightarrow> string \<Rightarrow> msg_row \<Rightarrow> bool" where
  "inbox_match d did r \<longleftrightarrow>
     m_recipient_did r = Some did
     \<or> (case m_group_did r of None \<Rightarrow> False | Some g \<Rightarrow> g \<in> set (active_groups d did))"

definition inbox_limit :: "nmap \<Rightarrow> nat" where
  "inbox_limit params =
     (case gindex params ''limit'' of
        GNum v \<Rightarrow> if 1 \<le> v \<and> v \<le> 1000 then nat \<lfloor>v\<rfloor> else 100
      | _ \<Rightarrow> 100)"

text \<open>One row of the result; rows without a decodable meta and body are skipped.\<close>

definition inbox_item :: "msg_row \<Rightarrow> gval option" where
  "inbox_item r =
     (case (m_wire_meta r, m_wire_body r) of
        (Some mt, Some bt) \<Rightarrow>
          (case (unmarshal mt, unmarshal bt) of
             (Some meta, Some body) \<Rightarrow>
               Some (GMap [(''server_seq'', GInt (m_id r)), (''meta'', meta), (''body'', body)])
           | _ \<Rightarrow> None)
      | _ \<Rightarrow> None)"

definition inbox_rows :: "db \<Rightarrow> string \<Rightarrow> nat \<Rightarrow> msg_row list" where
  "inbox_rows d did limit =
     take limit (rev (sort_key m_id (filter (inbox_match d did) (messages d))))"

definition msgInbox :: "string \<Rightarrow> nmap \<Rightarrow> db \<Rightarrow> gval res" where
  "msgInbox authDID params d =
     Inr (GMap [(''messages'', GArr (List.map_filter inbox_item (inbox_rows d authDID (inbox_limit params))))])"

section \<open>The message table\<close>

text \<open>
  Rows are in the order of their ids, ids and message ids are unique, and the AUTOINCREMENT
  counter bounds every id.
\<close>

definition messages_ok :: "db \<Rightarrow> bool" where
  "messages_ok d \<longleftrightarrow>
     sorted_wrt (<) (map m_id (messages d)) \<and> (\<forall>r \<in> set (messages d). 0 < m_id r \<and> m_id r \<le> msg_autoinc d)
     \<and> distinct (map m_message_id (messages d)) \<and> 0 \<le> msg_autoinc d"

lemma messages_ok_same:
  "messages d' = messages d \<Longrightarrow> msg_autoinc d' = msg_autoinc d \<Longrightarrow> messages_ok d' = messages_ok d"
  by (simp add: messages_ok_def)

lemma messages_ok_empty: "messages_ok empty_db"
  by (simp add: messages_ok_def empty_db_def)

lemma insert_message_ok: "messages_ok d \<Longrightarrow> messages_ok (snd (insert_message r d))"
  by (force simp: messages_ok_def insert_message_def sorted_wrt_append)

text \<open>The log only grows, at its end.\<close>

definition log_extends :: "db \<Rightarrow> db \<Rightarrow> bool" where
  "log_extends d d' \<longleftrightarrow> (\<exists>new. messages d' = messages d @ new)"

lemma log_extends_refl [simp]: "log_extends d d"
  by (simp add: log_extends_def)

lemma log_extends_trans: "log_extends d1 d2 \<Longrightarrow> log_extends d2 d3 \<Longrightarrow> log_extends d1 d3"
  by (auto simp: log_extends_def)

lemma log_extends_same: "messages d' = messages d \<Longrightarrow> log_extends d d'"
  by (simp add: log_extends_def)

lemma log_extends_insert: "log_extends d (snd (insert_message r d))"
  by (simp add: insert_message_def log_extends_def)

text \<open>Frame of the insertion: no other table changes.\<close>

lemma insert_message_frame [frame]:
  "registered_dids (snd (insert_message r d)) = registered_dids d"
  "handles (snd (insert_message r d)) = handles d"
  "groups (snd (insert_message r d)) = groups d"
  "group_members (snd (insert_message r d)) = group_members d"
  "prekey_bundles (snd (insert_message r d)) = prekey_bundles d"
  "one_time_prekeys (snd (insert_message r d)) = one_time_prekeys d"
  "group_key_packages (snd (insert_message r d)) = group_key_packages d"
  "group_e2ee_states (snd (insert_message r d)) = group_e2ee_states d"
  "attachment_slots (snd (insert_message r d)) = attachment_slots d"
  "attachment_objects (snd (insert_message r d)) = attachment_objects d"
  "attachment_tickets (snd (insert_message r d)) = attachment_tickets d"
  "idempotency (snd (insert_message r d)) = idempotency d"
  by (simp_all add: insert_message_def)

lemma insert_message_Inr:
  "fst (insert_message r d) = Inr u \<longleftrightarrow> m_message_id r \<notin> m_message_id ` set (messages d)"
  by (simp add: insert_message_def)

lemma insert_message_dup:
  "m_message_id r \<in> m_message_id ` set (messages d) \<Longrightarrow>
     insert_message r d = (Inl (SqlError ''UNIQUE constraint failed: messages.message_id''), d)"
  by (simp add: insert_message_def)

section \<open>The inbox\<close>

lemma inbox_limit_bounds: "1 \<le> inbox_limit p \<and> inbox_limit p \<le> 1000"
proof (cases "gindex p ''limit''")
  case (GNum v)
  show ?thesis
  proof (cases "1 \<le> v \<and> v \<le> 1000")
    case True
    then have "1 \<le> \<lfloor>v\<rfloor>" "\<lfloor>v\<rfloor> \<le> 1000" by (simp_all add: le_floor_iff floor_le_iff)
    with GNum True show ?thesis by (simp add: inbox_limit_def) linarith
  qed (use GNum in \<open>auto simp: inbox_limit_def\<close>)
qed (simp_all add: inbox_limit_def)

lemma messages_ok_sorted:
  assumes "messages_ok d"
  shows "sort_key m_id (filter P (messages d)) = filter P (messages d)"
proof -
  have "sorted_wrt (<) (map m_id (filter P (messages d)))"
    using assms by (simp add: messages_ok_def sorted_wrt_map sorted_wrt_filter)
  then have "sorted (map m_id (filter P (messages d)))"
    by (rule strict_sorted_imp_sorted)
  then show ?thesis by (rule sort_key_id_if_sorted)
qed

lemma inbox_rows_eq:
  "messages_ok d \<Longrightarrow> inbox_rows d did n = take n (rev (filter (inbox_match d did) (messages d)))"
  by (simp add: inbox_rows_def messages_ok_sorted)

lemma inbox_rows_match: "r \<in> set (inbox_rows d did n) \<Longrightarrow> r \<in> set (messages d) \<and> inbox_match d did r"
  by (auto simp: inbox_rows_def dest!: in_set_takeD)

lemma inbox_rows_descending:
  assumes "messages_ok d"
  shows "sorted_wrt (>) (map m_id (inbox_rows d did n))"
proof -
  have "sorted_wrt (<) (map m_id (filter (inbox_match d did) (messages d)))"
    using assms by (simp add: messages_ok_def sorted_wrt_map sorted_wrt_filter)
  then have "sorted_wrt (>) (rev (map m_id (filter (inbox_match d did) (messages d))))"
    by (simp add: sorted_wrt_rev)
  then show ?thesis
    by (simp add: inbox_rows_eq [OF assms] sorted_wrt_take rev_map take_map [symmetric])
qed

text \<open>
  Nothing is left out but by the limit: a matching row that is missing is older than every row
  shown, and then the page is full.
\<close>

lemma inbox_rows_complete:
  assumes "messages_ok d" "r \<in> set (messages d)" "inbox_match d did r" "r \<notin> set (inbox_rows d did n)"
  shows "length (inbox_rows d did n) = n" "\<And>r'. r' \<in> set (inbox_rows d did n) \<Longrightarrow> m_id r < m_id r'"
proof -
  let ?L = "rev (filter (inbox_match d did) (messages d))"
  have rows: "inbox_rows d did n = take n ?L" by (rule inbox_rows_eq [OF assms(1)])
  have in_L: "r \<in> set ?L" using assms(2,3) by simp
  have r_drop: "r \<in> set (drop n ?L)"
    using in_L assms(4) unfolding rows by (metis Un_iff append_take_drop_id set_append)
  then have "n < length ?L" by (metis drop_all empty_iff list.set(1) not_le)
  then show "length (inbox_rows d did n) = n" unfolding rows by simp
  have "sorted_wrt (\<lambda>a b. m_id b < m_id a) ?L"
    using assms(1) by (simp add: messages_ok_def sorted_wrt_map sorted_wrt_filter sorted_wrt_rev)
  then have "sorted_wrt (\<lambda>a b. m_id b < m_id a) (take n ?L @ drop n ?L)" by simp
  then show "m_id r < m_id r'" if "r' \<in> set (inbox_rows d did n)" for r'
    using that r_drop unfolding rows sorted_wrt_append by blast
qed

end
