(* ===== verification/Direct.thy ===== *)
theory Direct
  imports Auth Payloads Inbox
begin

text \<open>
  Direct messages and prekeys (e2ee.go): sending a plaintext or end-to-end encrypted message, the
  origin proofs attached to messages, and the store of prekey bundles and one-time prekeys.
\<close>

section \<open>Origin proofs\<close>

definition verifyOriginProof ::
  "env \<Rightarrow> string \<Rightarrow> string \<Rightarrow> nmap \<Rightarrow> nmap \<Rightarrow> nmap \<Rightarrow> db \<Rightarrow> unit res" where
  "verifyOriginProof e senderDID method meta body auth d =
     (let opRaw = asMap (gindex auth ''origin_proof'') in
      if opRaw = None then Inl (PlainError ''auth.origin_proof is missing'')
      else
        let contentDigest = gets opRaw ''contentDigest'';
            signatureInput = gets opRaw ''signatureInput'';
            signature = gets opRaw ''signature''
        in if contentDigest = [] \<or> signatureInput = [] \<or> signature = []
           then Inl (PlainError ''auth.origin_proof fields are incomplete'')
           else case tsel (registered_dids d) senderDID of
                  None \<Rightarrow> Inl (PlainError ''signer DID not registered'')
                | Some row \<Rightarrow>
                    (case unmarshal_map (dr_doc_json row) of
                       None \<Rightarrow> Inl (PlainError ''internal error'')
                     | Some doc \<Rightarrow>
                         (case origin_sig e (contentDigest, signatureInput, signature) method meta body doc senderDID of
                            Some txt \<Rightarrow> Inl (PlainError (''origin proof verification failed: '' @ txt))
                          | None \<Rightarrow> Inr ())))"

text \<open>What an accepted origin proof shows: the sender's registered document verified it.\<close>

definition origin_proved :: "env \<Rightarrow> string \<Rightarrow> string \<Rightarrow> nmap \<Rightarrow> nmap \<Rightarrow> nmap \<Rightarrow> db \<Rightarrow> bool" where
  "origin_proved e senderDID method meta body auth d \<longleftrightarrow>
     (\<exists>t doc p. did_doc d senderDID = Some t \<and> unmarshal_map t = Some doc
        \<and> asMap (gindex auth ''origin_proof'') = Some p
        \<and> origin_sig e (gets (Some p) ''contentDigest'', gets (Some p) ''signatureInput'', gets (Some p) ''signature'')
             method meta body doc senderDID = None)"

lemma verifyOriginProof_Inr:
  "verifyOriginProof e s m meta body auth d = Inr u \<Longrightarrow> origin_proved e s m meta body auth d"
  by (auto simp: verifyOriginProof_def origin_proved_def did_doc_def Let_def split: if_splits option.splits)

section \<open>Sending\<close>

definition plaintext_profile :: "nmap \<Rightarrow> bool" where
  "plaintext_profile meta \<longleftrightarrow> gets meta ''profile'' = ''anp.direct.base.v1''
     \<and> gets meta ''security_profile'' = ''transport-protected''"

text \<open>
  The checks between the message id and the INSERT: payload rule and mandatory proof for the
  plaintext profile, an optional proof for everything else. The result is the stored type and text.
\<close>

definition directSend_checks ::
  "env \<Rightarrow> string \<Rightarrow> nmap \<Rightarrow> nmap \<Rightarrow> nmap \<Rightarrow> db \<Rightarrow> (string \<times> string) res" where
  "directSend_checks e senderDID meta body auth d =
     (if plaintext_profile meta then
        (case classifyPayload body of
           (kind, text, payload_ok) \<Rightarrow>
             if \<not> payload_ok
             then Inl (RpcError codeInvalidParams ''body must contain exactly one of text, payload, or payload_b64u'')
             else if auth = None
             then Inl (PlainError ''auth.origin_proof is required for anp.direct.base.v1'')
             else (case verifyOriginProof e senderDID ''direct.send'' meta body auth d of
                     Inl err \<Rightarrow> Inl err | Inr _ \<Rightarrow> Inr (kind, text)))
      else if senderDID \<noteq> [] \<and> auth \<noteq> None then
        (case verifyOriginProof e senderDID ''direct.send'' meta body auth d of
           Inl err \<Rightarrow> Inl err | Inr _ \<Rightarrow> Inr (''text'', []))
      else Inr (''text'', []))"

definition direct_sender :: "string \<Rightarrow> nmap \<Rightarrow> string" where
  "direct_sender authDID meta = (if authDID = [] then gets meta ''sender_did'' else authDID)"

text \<open>The row the INSERT adds.\<close>

definition direct_row :: "env \<Rightarrow> string \<Rightarrow> nmap \<Rightarrow> nmap \<Rightarrow> string \<Rightarrow> string \<Rightarrow> msg_row" where
  "direct_row e senderDID meta body kind text =
     \<lparr>m_id = 0, m_message_id = gets meta ''message_id'', m_sender_did = senderDID,
      m_recipient_did = Some (gets (asMap (gindex meta ''target'')) ''did''), m_group_did = None,
      m_type = kind, m_text = Some text, m_secure = (if plaintext_profile meta then 0 else 1),
      m_sent_at = rfc3339 (clock e 0), m_wire_meta = Some (marshal (ofMap meta)),
      m_wire_body = Some (marshal (ofMap body))\<rparr>"

definition directSend :: "env \<Rightarrow> string \<Rightarrow> nmap \<Rightarrow> db \<Rightarrow> gval outcome" where
  "directSend e authDID params d =
     (let meta = asMap (gindex params ''meta'');
          body = asMap (gindex params ''body'');
          peerDID = gets (asMap (gindex meta ''target'')) ''did'';
          messageID = gets meta ''message_id'';
          operationID = gets meta ''operation_id'';
          senderDID = direct_sender authDID meta
      in if messageID = [] then (Inl (PlainError ''message_id is required''), d)
         else case directSend_checks e senderDID meta body (asMap (gindex params ''auth'')) d of
                Inl err \<Rightarrow> (Inl err, d)
              | Inr (kind, text) \<Rightarrow>
                  (case insert_message (direct_row e senderDID meta body kind text) d of
                     (Inl err, d') \<Rightarrow> (Inl err, d')
                   | (Inr _, d') \<Rightarrow>
                       (Inr (GMap [(''accepted'', GBool True), (''message_id'', GStr messageID),
                                   (''operation_id'', GStr operationID), (''target_did'', GStr peerDID),
                                   (''accepted_at'', GStr (rfc3339 (clock e 0)))]), d')))"

definition directIncoming :: "nmap \<Rightarrow> gval res" where
  "directIncoming params = Inr (GMap [(''accepted'', GBool True)])"

section \<open>Prekeys\<close>

text \<open>
  The DELETE that keeps an owner's hundred rows with the largest rowids: walking the rows from
  the newest, the first hundred of the owner stay.
\<close>

fun keep_newest :: "nat \<Rightarrow> string \<Rightarrow> otk_row list \<Rightarrow> otk_row list" where
  "keep_newest k owner [] = []"
| "keep_newest k owner (r # rs) =
     (if ok_owner_did r = owner
      then (case k of 0 \<Rightarrow> keep_newest 0 owner rs | Suc k' \<Rightarrow> r # keep_newest k' owner rs)
      else r # keep_newest k owner rs)"

definition otk_trim :: "string \<Rightarrow> otk_row list \<Rightarrow> otk_row list" where
  "otk_trim owner rows = rev (keep_newest 100 owner (rev rows))"

fun otk_rows :: "env \<Rightarrow> string \<Rightarrow> nat \<Rightarrow> gval list \<Rightarrow> otk_row list" where
  "otk_rows e owner i [] = []"
| "otk_rows e owner i (entry # raw) =
     \<lparr>ok_owner_did = owner, ok_prekey_json = marshal entry, ok_created_at = rfc3339 (clock e i)\<rparr>
       # otk_rows e owner (Suc i) raw"

definition e2eePublishPrekeyBundle :: "env \<Rightarrow> string \<Rightarrow> nmap \<Rightarrow> db \<Rightarrow> gval outcome" where
  "e2eePublishPrekeyBundle e authDID params d =
     (let body = asMap (gindex params ''body'');
          bundle = asMap (gindex body ''prekey_bundle'');
          bundleID = gets bundle ''bundle_id'';
          ownerDID = (if authDID \<noteq> [] then authDID else gets bundle ''owner_did'')
      in if ownerDID = [] then (Inl (PlainError ''prekey_bundle.owner_did is required''), d)
         else
           let publishedAt = rfc3339 (clock e 0);
               row = \<lparr>pb_bundle_json = marshal (ofMap bundle), pb_published_at = publishedAt\<rparr>;
               d1 = d\<lparr>prekey_bundles := tput ownerDID row (\<lambda>_. row) (prekey_bundles d)\<rparr>;
               d2 = (case garr (gindex body ''one_time_prekeys'') of
                       None \<Rightarrow> d1
                     | Some raw \<Rightarrow>
                         d1\<lparr>one_time_prekeys :=
                              otk_trim ownerDID (one_time_prekeys d1 @ otk_rows e ownerDID 1 raw)\<rparr>)
           in (Inr (GMap [(''published'', GBool True), (''owner_did'', GStr ownerDID),
                          (''bundle_id'', GStr bundleID), (''published_at'', GStr publishedAt)]), d2))"

definition e2eeGetPrekeyBundle :: "nmap \<Rightarrow> db \<Rightarrow> gval outcome" where
  "e2eeGetPrekeyBundle params d =
     (let body = asMap (gindex params ''body'');
          targetDID = gets body ''target_did'';
          requireOPK = gbool (gindex body ''require_opk'')
      in case tsel (prekey_bundles d) targetDID of
           None \<Rightarrow> (Inl (RpcError codeDidNotFound ''anp.direct.e2ee.bundle_not_found''), d)
         | Some row \<Rightarrow>
             let result = [(''target_did'', GStr targetDID),
                           (''prekey_bundle'', ofMap (unmarshal_map_lax (pb_bundle_json row)))] in
             if requireOPK then
               (case find (\<lambda>r. ok_owner_did r = targetDID) (one_time_prekeys d) of
                  Some r \<Rightarrow>
                    (Inr (GMap (result @ [(''one_time_prekey'', ofMap (unmarshal_map_lax (ok_prekey_json r)))])),
                     d\<lparr>one_time_prekeys :=
                          filter (\<lambda>r'. \<not> (ok_owner_did r' = targetDID \<and> ok_prekey_json r' = ok_prekey_json r))
                            (one_time_prekeys d)\<rparr>)
                | None \<Rightarrow> (Inl (RpcError codeOPKUnavailable ''anp.direct.e2ee.opk_unavailable''), d))
             else (Inr (GMap result), d))"

lemmas direct_ops [handler_defs] =
  directSend_def e2eePublishPrekeyBundle_def e2eeGetPrekeyBundle_def

section \<open>Frames\<close>

text \<open>Sending is an insertion of one row, or nothing.\<close>

lemma directSend_state:
  "snd (directSend e a p d) =
     (let meta = asMap (gindex p ''meta''); body = asMap (gindex p ''body''); sender = direct_sender a meta in
      if gets meta ''message_id'' = [] then d
      else case directSend_checks e sender meta body (asMap (gindex p ''auth'')) d of
             Inl _ \<Rightarrow> d
           | Inr (kind, txt) \<Rightarrow> snd (insert_message (direct_row e sender meta body kind txt) d))"
  by (simp add: directSend_def Let_def split: sum.split prod.split)

lemma directSend_frame [frame]:
  "registered_dids (snd (directSend e a p d)) = registered_dids d"
  "handles (snd (directSend e a p d)) = handles d"
  "groups (snd (directSend e a p d)) = groups d"
  "group_members (snd (directSend e a p d)) = group_members d"
  "prekey_bundles (snd (directSend e a p d)) = prekey_bundles d"
  "one_time_prekeys (snd (directSend e a p d)) = one_time_prekeys d"
  "group_key_packages (snd (directSend e a p d)) = group_key_packages d"
  "group_e2ee_states (snd (directSend e a p d)) = group_e2ee_states d"
  "attachment_slots (snd (directSend e a p d)) = attachment_slots d"
  "attachment_objects (snd (directSend e a p d)) = attachment_objects d"
  "attachment_tickets (snd (directSend e a p d)) = attachment_tickets d"
  "idempotency (snd (directSend e a p d)) = idempotency d"
  by (simp_all add: directSend_state Let_def frame split: sum.split prod.split)

lemma e2eePublishPrekeyBundle_frame [frame]:
  "registered_dids (snd (e2eePublishPrekeyBundle e a p d)) = registered_dids d"
  "messages (snd (e2eePublishPrekeyBundle e a p d)) = messages d"
  "msg_autoinc (snd (e2eePublishPrekeyBundle e a p d)) = msg_autoinc d"
  "handles (snd (e2eePublishPrekeyBundle e a p d)) = handles d"
  "groups (snd (e2eePublishPrekeyBundle e a p d)) = groups d"
  "group_members (snd (e2eePublishPrekeyBundle e a p d)) = group_members d"
  "group_key_packages (snd (e2eePublishPrekeyBundle e a p d)) = group_key_packages d"
  "group_e2ee_states (snd (e2eePublishPrekeyBundle e a p d)) = group_e2ee_states d"
  "attachment_slots (snd (e2eePublishPrekeyBundle e a p d)) = attachment_slots d"
  "attachment_objects (snd (e2eePublishPrekeyBundle e a p d)) = attachment_objects d"
  "attachment_tickets (snd (e2eePublishPrekeyBundle e a p d)) = attachment_tickets d"
  "idempotency (snd (e2eePublishPrekeyBundle e a p d)) = idempotency d"
  by (simp_all add: e2eePublishPrekeyBundle_def Let_def split: option.split)

lemma e2eeGetPrekeyBundle_frame [frame]:
  "registered_dids (snd (e2eeGetPrekeyBundle p d)) = registered_dids d"
  "messages (snd (e2eeGetPrekeyBundle p d)) = messages d"
  "msg_autoinc (snd (e2eeGetPrekeyBundle p d)) = msg_autoinc d"
  "handles (snd (e2eeGetPrekeyBundle p d)) = handles d"
  "groups (snd (e2eeGetPrekeyBundle p d)) = groups d"
  "group_members (snd (e2eeGetPrekeyBundle p d)) = group_members d"
  "prekey_bundles (snd (e2eeGetPrekeyBundle p d)) = prekey_bundles d"
  "group_key_packages (snd (e2eeGetPrekeyBundle p d)) = group_key_packages d"
  "group_e2ee_states (snd (e2eeGetPrekeyBundle p d)) = group_e2ee_states d"
  "attachment_slots (snd (e2eeGetPrekeyBundle p d)) = attachment_slots d"
  "attachment_objects (snd (e2eeGetPrekeyBundle p d)) = attachment_objects d"
  "attachment_tickets (snd (e2eeGetPrekeyBundle p d)) = attachment_tickets d"
  "idempotency (snd (e2eeGetPrekeyBundle p d)) = idempotency d"
  by (simp_all add: e2eeGetPrekeyBundle_def Let_def split: option.split)

section \<open>Messages sent\<close>

lemma directSend_messages_ok: "messages_ok d \<Longrightarrow> messages_ok (snd (directSend e a p d))"
  by (simp add: directSend_state Let_def insert_message_ok split: sum.split prod.split)

lemma directSend_log: "log_extends d (snd (directSend e a p d))"
  by (simp add: directSend_state Let_def log_extends_insert split: sum.split prod.split)

text \<open>An accepted message is the last row of the log, under the sender's name.\<close>

lemma directSend_okE:
  assumes "is_ok (fst (directSend e a p d))"
  defines "meta \<equiv> asMap (gindex p ''meta'')" and "body \<equiv> asMap (gindex p ''body'')"
  defines "sender \<equiv> direct_sender a meta"
  obtains knd tx where
    "directSend_checks e sender meta body (asMap (gindex p ''auth'')) d = Inr (knd, tx)"
    "gets meta ''message_id'' \<noteq> []" "gets meta ''message_id'' \<notin> m_message_id ` set (messages d)"
    "messages (snd (directSend e a p d)) = messages d @
        [(direct_row e sender meta body knd tx)\<lparr>m_id := msg_autoinc d + 1\<rparr>]"
proof (cases "directSend_checks e sender meta body (asMap (gindex p ''auth'')) d")
  case (Inl err)
  with assms show ?thesis by (simp add: directSend_def Let_def split: if_splits)
next
  case (Inr kt)
  obtain knd tx where kt: "kt = (knd, tx)" by (cases kt)
  have ne: "gets meta ''message_id'' \<noteq> []"
    using assms by (auto simp: directSend_def Let_def)
  have ins: "is_ok (fst (insert_message (direct_row e sender meta body knd tx) d))"
    using assms Inr kt ne by (auto simp: directSend_def Let_def split: sum.splits prod.splits)
  then have fresh: "gets meta ''message_id'' \<notin> m_message_id ` set (messages d)"
    by (auto simp: insert_message_Inr direct_row_def)
  have "messages (snd (directSend e a p d))
      = messages (snd (insert_message (direct_row e sender meta body knd tx) d))"
    using Inr kt ne unfolding directSend_state assms(2-4) Let_def by simp
  also have "\<dots> = messages d @ [(direct_row e sender meta body knd tx)\<lparr>m_id := msg_autoinc d + 1\<rparr>]"
    using fresh by (simp add: insert_message_def direct_row_def)
  finally show ?thesis using that Inr kt ne fresh by blast
qed

text \<open>A message stored as plaintext has one payload and a proof by the sender's document.\<close>

lemma directSend_checks_plaintext:
  assumes "directSend_checks e s meta body auth d = Inr kt" "plaintext_profile meta"
  shows "snd (snd (classifyPayload body)) \<and> origin_proved e s ''direct.send'' meta body auth d"
  using assms
  by (auto simp: directSend_checks_def split: if_splits sum.splits prod.splits dest!: verifyOriginProof_Inr)

section \<open>The prekey store\<close>

definition otks_of :: "string \<Rightarrow> otk_row list \<Rightarrow> otk_row list" where
  "otks_of owner rows = filter (\<lambda>r. ok_owner_did r = owner) rows"

lemma keep_newest_owner: "otks_of owner (keep_newest k owner rs) = take k (otks_of owner rs)"
  by (induction k owner rs rule: keep_newest.induct) (auto simp: otks_of_def split: nat.split)

lemma keep_newest_other: "o' \<noteq> owner \<Longrightarrow> otks_of o' (keep_newest k owner rs) = otks_of o' rs"
  by (induction k owner rs rule: keep_newest.induct) (auto simp: otks_of_def split: nat.split)

lemma otks_of_rev: "otks_of owner (rev rs) = rev (otks_of owner rs)"
  by (simp add: otks_of_def rev_filter)

lemma otk_trim_owner:
  "otks_of owner (otk_trim owner rs) = drop (length (otks_of owner rs) - 100) (otks_of owner rs)"
  by (simp add: otk_trim_def otks_of_rev keep_newest_owner rev_take)

lemma otk_trim_other: "o' \<noteq> owner \<Longrightarrow> otks_of o' (otk_trim owner rs) = otks_of o' rs"
  by (simp add: otk_trim_def otks_of_rev keep_newest_other)

lemma otks_of_append [simp]: "otks_of owner (xs @ ys) = otks_of owner xs @ otks_of owner ys"
  by (simp add: otks_of_def)

lemma otks_of_otk_rows: "otks_of o' (otk_rows e owner i raw) = (if o' = owner then otk_rows e owner i raw else [])"
  by (induction e owner i raw rule: otk_rows.induct) (auto simp: otks_of_def)

lemma map_otk_rows: "map ok_prekey_json (otk_rows e owner i raw) = map marshal raw"
  by (induction e owner i raw rule: otk_rows.induct) auto

lemma length_otk_rows [simp]: "length (otk_rows e owner i raw) = length raw"
  by (induction e owner i raw rule: otk_rows.induct) auto

lemma find_otks_of: "find (\<lambda>r. ok_owner_did r = owner) rows = (case otks_of owner rows of [] \<Rightarrow> None | r # _ \<Rightarrow> Some r)"
  by (induction rows) (auto simp: otks_of_def)

text \<open>The owner's hundred newest keys, older ones first.\<close>

lemma publish_otks:
  assumes "is_ok (fst (e2eePublishPrekeyBundle e a p d))"
    and "garr (gindex (asMap (gindex p ''body'')) ''one_time_prekeys'') = Some raw"
  defines "owner \<equiv> (if a \<noteq> [] then a else gets (asMap (gindex (asMap (gindex p ''body'')) ''prekey_bundle'')) ''owner_did'')"
  shows "map ok_prekey_json (otks_of owner (one_time_prekeys (snd (e2eePublishPrekeyBundle e a p d))))
     = (let all = map ok_prekey_json (otks_of owner (one_time_prekeys d)) @ map marshal raw
        in drop (length all - 100) all)"
proof -
  have "one_time_prekeys (snd (e2eePublishPrekeyBundle e a p d))
      = otk_trim owner (one_time_prekeys d @ otk_rows e owner 1 raw)"
    using assms by (auto simp: e2eePublishPrekeyBundle_def Let_def split: if_splits)
  then show ?thesis
    by (simp add: otk_trim_owner otks_of_otk_rows drop_map [symmetric] map_otk_rows drop_append Let_def)
qed

lemma publish_otks_other:
  fixes a :: string and p :: nmap
  defines "owner \<equiv> (if a \<noteq> [] then a else gets (asMap (gindex (asMap (gindex p ''body'')) ''prekey_bundle'')) ''owner_did'')"
  assumes "o' \<noteq> owner"
  shows "otks_of o' (one_time_prekeys (snd (e2eePublishPrekeyBundle e a p d))) = otks_of o' (one_time_prekeys d)
     \<and> tsel (prekey_bundles (snd (e2eePublishPrekeyBundle e a p d))) o' = tsel (prekey_bundles d) o'"
  using assms(2) unfolding e2eePublishPrekeyBundle_def owner_def [symmetric] Let_def
  by (simp add: otk_trim_other otks_of_otk_rows split: option.split)

text \<open>The owner's bundle is the one of the request.\<close>

lemma publish_bundle:
  assumes "is_ok (fst (e2eePublishPrekeyBundle e a p d))" "a \<noteq> []"
  shows "tsel (prekey_bundles (snd (e2eePublishPrekeyBundle e a p d))) a
    = Some \<lparr>pb_bundle_json = marshal (ofMap (asMap (gindex (asMap (gindex p ''body'')) ''prekey_bundle''))),
            pb_published_at = rfc3339 (clock e 0)\<rparr>"
  using assms(2) by (simp add: e2eePublishPrekeyBundle_def Let_def split: option.split)

lemma get_consumes:
  assumes "fst (e2eeGetPrekeyBundle p d) = Inr v"
    and "gbool (gindex (asMap (gindex p ''body'')) ''require_opk'')"
  defines "target \<equiv> gets (asMap (gindex p ''body'')) ''target_did''"
  shows "\<exists>r rest. otks_of target (one_time_prekeys d) = r # rest
     \<and> gindex (asMap v) ''one_time_prekey'' = ofMap (unmarshal_map_lax (ok_prekey_json r))
     \<and> otks_of target (one_time_prekeys (snd (e2eeGetPrekeyBundle p d)))
          = filter (\<lambda>r'. ok_prekey_json r' \<noteq> ok_prekey_json r) rest"
proof -
  have f: "otks_of o' (filter (\<lambda>r'. ok_owner_did r' = o' \<longrightarrow> ok_prekey_json r' \<noteq> t) rows)
      = filter (\<lambda>r'. ok_prekey_json r' \<noteq> t) (otks_of o' rows)" for o' t rows
    by (induction rows) (auto simp: otks_of_def)
  show ?thesis
    using assms
    by (auto simp: e2eeGetPrekeyBundle_def Let_def find_otks_of f split: option.splits list.splits)
qed

end
