(* ===== verification/Handles.thy ===== *)
theory Handles
  imports Store
begin

text \<open>
  WNS handles (handle.go): registration and recovery. The component promises that a handle, once
  bound to a DID, stays bound to it: registration refuses a handle of another DID, and recovery
  only writes back the DID that is already there.
\<close>

section \<open>Operations\<close>

definition validHandle :: "env \<Rightarrow> string \<Rightarrow> bool" where
  "validHandle e handle = wns_valid e handle"

definition handleRegister :: "env \<Rightarrow> string \<Rightarrow> nmap \<Rightarrow> db \<Rightarrow> gval outcome" where
  "handleRegister e authDID params d =
     (let handle = gets params ''handle'';
          did = (if authDID \<noteq> [] then authDID else gets params ''did'')
      in if handle = [] \<or> did = [] then (Inl (PlainError ''handle and did are required''), d)
         else if \<not> validHandle e handle
         then (Inl (PlainError (''invalid handle '' @ go_quote handle)), d)
         else
           let existing = (case tsel (handles d) handle of None \<Rightarrow> [] | Some r \<Rightarrow> hr_did r) in
           if existing \<noteq> [] \<and> existing \<noteq> did
           then (Inl (RpcError codeHandleTaken
                   (''handle '' @ go_quote handle @ '' is already registered by another identity'')), d)
           else
             (Inr (GMap [(''did'', GStr did), (''handle'', GStr handle), (''status'', GStr ''registered'')]),
              d\<lparr>handles := tput handle \<lparr>hr_did = did, hr_registered_at = rfc3339 (clock e 0)\<rparr>
                             (\<lambda>r. r\<lparr>hr_did := did\<rparr>) (handles d)\<rparr>))"

definition handleRecover :: "env \<Rightarrow> string \<Rightarrow> nmap \<Rightarrow> db \<Rightarrow> gval outcome" where
  "handleRecover e authDID params d =
     (let handle = gets params ''handle'' in
      if handle = [] then (Inl (RpcError codeInvalidParams ''handle is required''), d)
      else
        (case tsel (handles d) handle of
           None \<Rightarrow> (Inl (RpcError codeDidNotFound (''handle '' @ go_quote handle @ '' not found'')), d)
         | Some row \<Rightarrow>
             let oldDID = hr_did row in
             if authDID \<noteq> [] \<and> authDID \<noteq> oldDID
             then (Inl (PlainError ''recovery denied: only the handle's current owner may re-bind it''), d)
             else
               let newDID = (if authDID \<noteq> [] then authDID else oldDID) in
               (Inr (GMap [(''did'', GStr newDID), (''handle'', GStr handle), (''status'', GStr ''recovered'')]),
                d\<lparr>handles := tupd handle (\<lambda>r. r\<lparr>hr_did := newDID\<rparr>) (handles d)\<rparr>)))"

lemmas handle_ops [handler_defs] = handleRegister_def handleRecover_def

section \<open>Bindings\<close>

definition handle_owner :: "db \<Rightarrow> string \<Rightarrow> string option" where
  "handle_owner d h = map_option hr_did (tsel (handles d) h)"

text \<open>Every bound handle has a DID, and keys are unique.\<close>

definition handles_ok :: "db \<Rightarrow> bool" where
  "handles_ok d \<longleftrightarrow> tkeys_unique (handles d) \<and> (\<forall>h did. handle_owner d h = Some did \<longrightarrow> did \<noteq> [])"

text \<open>The bindings of one database persist in another.\<close>

definition bindings_kept :: "db \<Rightarrow> db \<Rightarrow> bool" where
  "bindings_kept d d' \<longleftrightarrow> (\<forall>h did. handle_owner d h = Some did \<longrightarrow> handle_owner d' h = Some did)"

lemma bindings_kept_refl [simp]: "bindings_kept d d"
  by (simp add: bindings_kept_def)

lemma bindings_kept_trans: "bindings_kept d1 d2 \<Longrightarrow> bindings_kept d2 d3 \<Longrightarrow> bindings_kept d1 d3"
  by (simp add: bindings_kept_def)

lemma bindings_kept_same: "handles d' = handles d \<Longrightarrow> bindings_kept d d'"
  by (simp add: bindings_kept_def handle_owner_def)

lemma handles_ok_same: "handles d' = handles d \<Longrightarrow> handles_ok d' = handles_ok d"
  by (simp add: handles_ok_def handle_owner_def)

lemma handleRecover_owner: "handle_owner (snd (handleRecover e a p d)) h = handle_owner d h"
  by (auto simp: handleRecover_def handle_owner_def Let_def split: option.split)

lemma handleRegister_owner:
  "handle_owner (snd (handleRegister e a p d)) h =
     (if is_ok (fst (handleRegister e a p d)) \<and> h = gets p ''handle''
      then Some (if a \<noteq> [] then a else gets p ''did'') else handle_owner d h)"
  by (auto simp: handleRegister_def handle_owner_def Let_def split: option.split)

lemma handleRegister_ok_cases:
  assumes "is_ok (fst (handleRegister e a p d))"
  shows "handle_owner d (gets p ''handle'') \<in> {None, Some [], Some (if a \<noteq> [] then a else gets p ''did'')}"
    and "(if a \<noteq> [] then a else gets p ''did'') \<noteq> []"
  using assms by (auto simp: handleRegister_def handle_owner_def Let_def split: if_splits option.splits)

lemma handleRegister_keeps: "handles_ok d \<Longrightarrow> bindings_kept d (snd (handleRegister e a p d))"
  using handleRegister_ok_cases [of e a p d]
  by (fastforce simp: bindings_kept_def handleRegister_owner handles_ok_def)

lemma handleRecover_keeps: "bindings_kept d (snd (handleRecover e a p d))"
  by (simp add: bindings_kept_def handleRecover_owner)

lemma handleRegister_handles_ok: "handles_ok d \<Longrightarrow> handles_ok (snd (handleRegister e a p d))"
  using handleRegister_ok_cases(2) [of e a p d]
  by (auto simp: handles_ok_def handleRegister_owner split: if_splits)
    (auto simp: handleRegister_def Let_def)

lemma handleRecover_handles_ok: "handles_ok d \<Longrightarrow> handles_ok (snd (handleRecover e a p d))"
  by (auto simp: handles_ok_def handleRecover_owner)
    (auto simp: handleRecover_def Let_def split: option.split)

lemma handles_ok_empty: "handles_ok empty_db"
  by (simp add: handles_ok_def handle_owner_def empty_db_def)

end
