(* ===== verification/Group.thy ===== *)
theory Group
  imports Direct Handles
begin

text \<open>
  Groups (group.go): the group records with their version and event counters, memberships and
  roles, the permission check, and the group methods. A method is composed of the same small
  database operations as in the code, and the facts about methods come from facts about those.
\<close>

section \<open>Identifiers and records\<close>

definition newGroupDID :: "env \<Rightarrow> string" where
  "newGroupDID e = ''did:anp:group:'' @ newRandomHex (rnd e) 0 8"

definition groupDIDFromParams :: "nmap \<Rightarrow> string" where
  "groupDIDFromParams params =
     (let g1 = gets (asMap (gindex params ''body'')) ''group_did'';
          g2 = gets (asMap (gindex (asMap (gindex params ''meta'')) ''target'')) ''did''
      in if g1 \<noteq> [] then g1 else g2)"

definition group_not_found :: go_error where
  "group_not_found = RpcError codeDidNotFound ''group not found''"

definition loadGroup :: "db \<Rightarrow> string \<Rightarrow> group_row res" where
  "loadGroup d gid = (case tsel (groups d) gid of None \<Rightarrow> Inl group_not_found | Some r \<Rightarrow> Inr r)"

definition groupStateVersion :: "db \<Rightarrow> string \<Rightarrow> int res" where
  "groupStateVersion d gid =
     (case tsel (groups d) gid of None \<Rightarrow> Inl group_not_found | Some r \<Rightarrow> Inr (g_state_version r))"

definition bump_version :: "string \<Rightarrow> db \<Rightarrow> db" where
  "bump_version gid d =
     d\<lparr>groups := tupd gid (\<lambda>g. g\<lparr>g_state_version := g_state_version g + 1\<rparr>) (groups d)\<rparr>"

definition bumpGroupStateVersion :: "string \<Rightarrow> db \<Rightarrow> int outcome" where
  "bumpGroupStateVersion gid d = (let d' = bump_version gid d in (groupStateVersion d' gid, d'))"

definition bump_seq :: "string \<Rightarrow> db \<Rightarrow> db" where
  "bump_seq gid d = d\<lparr>groups := tupd gid (\<lambda>g. g\<lparr>g_event_seq := g_event_seq g + 1\<rparr>) (groups d)\<rparr>"

definition nextGroupEventSeq :: "string \<Rightarrow> db \<Rightarrow> int outcome" where
  "nextGroupEventSeq gid d =
     (let d' = bump_seq gid d in
      (case tsel (groups d') gid of None \<Rightarrow> Inl (SqlError ''sql: no rows in result set'')
                                  | Some r \<Rightarrow> Inr (g_event_seq r), d'))"

section \<open>Members, roles and permissions\<close>

definition groupMemberRole :: "db \<Rightarrow> string \<Rightarrow> string \<Rightarrow> string" where
  "groupMemberRole d gid did =
     (case tsel (group_members d) (gid, did) of
        Some r \<Rightarrow> if mb_status r = ''active'' then mb_role r else []
      | None \<Rightarrow> [])"

definition isGroupMember :: "db \<Rightarrow> string \<Rightarrow> string \<Rightarrow> bool" where
  "isGroupMember d gid did \<longleftrightarrow> groupMemberRole d gid did \<noteq> []"

definition defaultRequiredRole :: "string \<Rightarrow> string" where
  "defaultRequiredRole action =
     (if action = ''update_policy'' then ''owner''
      else if action = ''add'' \<or> action = ''remove'' \<or> action = ''update_profile'' then ''admin''
      else ''member'')"

text \<open>The role the group's policy asks for, falling back on the default.\<close>

definition required_role :: "db \<Rightarrow> string \<Rightarrow> string \<Rightarrow> string" where
  "required_role d gid action =
     (case loadGroup d gid of
        Inl _ \<Rightarrow> defaultRequiredRole action
      | Inr r \<Rightarrow>
          (case unmarshal_map (g_policy r) of
             None \<Rightarrow> defaultRequiredRole action
           | Some policy \<Rightarrow>
               let v = gets (asMap (gindex policy ''permissions'')) action in
               if v \<noteq> [] then v else defaultRequiredRole action))"

definition groupPermitted :: "db \<Rightarrow> string \<Rightarrow> string \<Rightarrow> string \<Rightarrow> bool" where
  "groupPermitted d gid did action =
     (let role = groupMemberRole d gid did in
      if role = ''owner'' then True
      else if role = [] then False
      else
        let required = required_role d gid action in
        if required = ''owner'' then role = ''owner''
        else if required = ''admin'' then role = ''admin'' \<or> role = ''owner''
        else role \<noteq> [])"

definition addGroupMember :: "env \<Rightarrow> nat \<Rightarrow> string \<Rightarrow> string \<Rightarrow> string \<Rightarrow> db \<Rightarrow> db" where
  "addGroupMember e i gid did role0 d =
     (let role = (if role0 = [] then ''member'' else role0) in
      d\<lparr>group_members :=
          tput (gid, did) \<lparr>mb_role = role, mb_status = ''active'', mb_joined_at = rfc3339 (clock e i)\<rparr>
            (\<lambda>r. r\<lparr>mb_role := role, mb_status := ''active''\<rparr>) (group_members d)\<rparr>)"

definition joinGroupMember :: "env \<Rightarrow> nat \<Rightarrow> string \<Rightarrow> string \<Rightarrow> db \<Rightarrow> db" where
  "joinGroupMember e i gid did d =
     d\<lparr>group_members :=
         tput (gid, did) \<lparr>mb_role = ''member'', mb_status = ''active'', mb_joined_at = rfc3339 (clock e i)\<rparr>
           (\<lambda>r. r\<lparr>mb_status := ''active''\<rparr>) (group_members d)\<rparr>"

definition removeGroupMember :: "string \<Rightarrow> string \<Rightarrow> db \<Rightarrow> db" where
  "removeGroupMember gid did d = d\<lparr>group_members := tdel (gid, did) (group_members d)\<rparr>"

definition resolveMemberDID :: "env \<Rightarrow> db \<Rightarrow> string \<Rightarrow> string option" where
  "resolveMemberDID e d v =
     (if v = [] then None
      else if \<not> validHandle e v then Some v
      else case tsel (handles d) v of
             Some r \<Rightarrow> if hr_did r \<noteq> [] then Some (hr_did r) else None
           | None \<Rightarrow> None)"

definition member_entries :: "db \<Rightarrow> string \<Rightarrow> (string \<times> member_row) list" where
  "member_entries d gid =
     map (\<lambda>((g, m), r). (m, r))
       (filter (\<lambda>((g, m), r). g = gid \<and> mb_status r = ''active'') (group_members d))"

definition groupMemberList :: "db \<Rightarrow> string \<Rightarrow> gval list" where
  "groupMemberList d gid =
     map (\<lambda>(m, r). GMap [(''agent_did'', GStr m), (''role'', GStr (mb_role r)),
                         (''status'', GStr (mb_status r)), (''joined_at'', GStr (mb_joined_at r))])
       (sort_key fst (member_entries d gid))"

definition ownerDID :: "db \<Rightarrow> string \<Rightarrow> string" where
  "ownerDID d gid = (case tsel (groups d) gid of None \<Rightarrow> [] | Some r \<Rightarrow> g_owner_did r)"

section \<open>Methods\<close>

definition invalid_params :: "string \<Rightarrow> go_error" where
  "invalid_params msg = RpcError codeInvalidParams msg"

text \<open>The caller, or before the first registration the sender the request names.\<close>

definition caller_or_sender :: "string \<Rightarrow> nmap \<Rightarrow> string" where
  "caller_or_sender authDID params =
     (if authDID = [] then gets (asMap (gindex params ''meta'')) ''sender_did'' else authDID)"

text \<open>
  The loop over \<open>initial_members\<close>; \<open>None\<close> is an entry that is skipped. Each member added reads
  the clock once.
\<close>

definition initial_member :: "env \<Rightarrow> db \<Rightarrow> gval \<Rightarrow> (string \<times> string) option" where
  "initial_member e d entry =
     (let m = asMap entry; handle = gets m ''member_handle'';
          did = (if handle \<noteq> [] then resolveMemberDID e d handle else Some (gets m ''member_did''));
          role = gets m ''role''
      in case did of
           None \<Rightarrow> None
         | Some x \<Rightarrow> if x = [] then None else Some (x, if role = [] then ''member'' else role))"

fun add_initial :: "env \<Rightarrow> string \<Rightarrow> nat \<Rightarrow> gval list \<Rightarrow> db \<Rightarrow> db" where
  "add_initial e gid i [] d = d"
| "add_initial e gid i (entry # raw) d =
     (case initial_member e d entry of
        None \<Rightarrow> add_initial e gid i raw d
      | Some (did, role) \<Rightarrow> add_initial e gid (Suc i) raw (addGroupMember e i gid did role d))"

definition new_group_row :: "env \<Rightarrow> nmap \<Rightarrow> string \<Rightarrow> group_row" where
  "new_group_row e body creator =
     \<lparr>g_policy = marshal (ofMap (asMap (gindex body ''group_policy''))),
      g_profile = Some (case asMap (gindex body ''group_profile'') of
                          None \<Rightarrow> JEmpty | Some gp \<Rightarrow> marshal (GMap gp)),
      g_owner_did = creator, g_state_version = 0, g_event_seq = 0,
      g_created_at = rfc3339 (clock e 0)\<rparr>"

definition groupCreate :: "env \<Rightarrow> string \<Rightarrow> nmap \<Rightarrow> db \<Rightarrow> gval outcome" where
  "groupCreate e authDID params d =
     (let body = asMap (gindex params ''body'');
          groupPolicy = asMap (gindex body ''group_policy'');
          creatorDID = caller_or_sender authDID params
      in if groupPolicy = None then (Inl (invalid_params ''group_policy is required''), d)
         else if creatorDID = [] then (Inl (invalid_params ''creator_did is required''), d)
         else
           let gid = newGroupDID e in
           case tins gid (new_group_row e body creatorDID) (groups d) of
             None \<Rightarrow> (Inl (SqlError ''UNIQUE constraint failed: groups.group_did''), d)
           | Some gs \<Rightarrow>
               let d1 = addGroupMember e 1 gid creatorDID ''owner'' (d\<lparr>groups := gs\<rparr>);
                   d2 = (case garr (gindex body ''initial_members'') of
                           None \<Rightarrow> d1 | Some raw \<Rightarrow> add_initial e gid 2 raw d1);
                   version = (case groupStateVersion d2 gid of Inl _ \<Rightarrow> 0 | Inr v \<Rightarrow> v)
               in (Inr (GMap [(''group_did'', GStr gid), (''group_state_version'', GInt version),
                              (''created_at'', GStr (rfc3339 (clock e 0))), (''creator_did'', GStr creatorDID),
                              (''group_profile'', ofMap (asMap (gindex body ''group_profile''))),
                              (''group_policy'', ofMap groupPolicy)]), d2))"

definition groupGetInfo :: "nmap \<Rightarrow> db \<Rightarrow> gval res" where
  "groupGetInfo params d =
     (let gid = groupDIDFromParams params in
      if gid = [] then Inl (invalid_params ''group_did is required'')
      else case loadGroup d gid of
             Inl err \<Rightarrow> Inl err
           | Inr r \<Rightarrow>
               let body = asMap (gindex params ''body'');
                   profile = (case g_profile r of None \<Rightarrow> GNil | Some t \<Rightarrow> unmarshal_lax t);
                   members = groupMemberList d gid
               in Inr (GMap
                    ([(''group_did'', GStr gid), (''group_state_version'', GInt (g_state_version r)),
                      (''group_profile'', profile)]
                     @ (if gbool (gindex body ''include_policy'')
                        then [(''group_policy'', unmarshal_lax (g_policy r))] else [])
                     @ (if gbool (gindex body ''include_member_list'')
                        then [(''member_list'', GArr members),
                              (''member_count'', GStr (format_int (int (length members))))] else []))))"

definition membership_result :: "string \<Rightarrow> string \<Rightarrow> int \<Rightarrow> gval" where
  "membership_result gid memberDID version =
     GMap [(''group_did'', GStr gid), (''member_did'', GStr memberDID),
           (''membership_status'', GStr ''active''), (''group_state_version'', GInt version)]"

text \<open>A version lookup or an increment, then the result it goes into.\<close>

definition with_version :: "int outcome \<Rightarrow> (int \<Rightarrow> gval) \<Rightarrow> gval outcome" where
  "with_version o' f = (case o' of (Inl err, d) \<Rightarrow> (Inl err, d) | (Inr v, d) \<Rightarrow> (Inr (f v), d))"

definition groupJoin :: "env \<Rightarrow> string \<Rightarrow> nmap \<Rightarrow> db \<Rightarrow> gval outcome" where
  "groupJoin e authDID params d =
     (let gid = groupDIDFromParams params; memberDID = caller_or_sender authDID params in
      if gid = [] then (Inl (invalid_params ''group_did is required''), d)
      else case loadGroup d gid of
             Inl err \<Rightarrow> (Inl err, d)
           | Inr r \<Rightarrow>
               let admission = gets (unmarshal_map_lax (g_policy r)) ''admission_mode'' in
               if admission \<noteq> [] \<and> admission \<noteq> ''open-join''
               then (Inl (PlainError (''group '' @ go_quote gid @ '' is not open-join'')), d)
               else if isGroupMember d gid memberDID
               then with_version (groupStateVersion d gid, d) (membership_result gid memberDID)
               else with_version (bumpGroupStateVersion gid (joinGroupMember e 0 gid memberDID d))
                      (membership_result gid memberDID))"

definition groupAdd :: "env \<Rightarrow> string \<Rightarrow> nmap \<Rightarrow> db \<Rightarrow> gval outcome" where
  "groupAdd e authDID params d =
     (let gid = groupDIDFromParams params;
          body = asMap (gindex params ''body'');
          memberDID0 = gets body ''member_did'';
          memberHandle = gets body ''member_handle''
      in if gid = [] then (Inl (invalid_params ''group_did is required''), d)
         else if \<not> groupPermitted d gid authDID ''add''
         then (Inl (PlainError (''caller lacks add permission for group '' @ go_quote gid)), d)
         else if memberDID0 = [] \<and> memberHandle = []
         then (Inl (invalid_params ''member_did or member_handle is required''), d)
         else case (if memberHandle \<noteq> [] then resolveMemberDID e d memberHandle else Some memberDID0) of
                None \<Rightarrow> (Inl (PlainError (''member_handle '' @ go_quote memberHandle @ '' could not be resolved'')), d)
              | Some memberDID \<Rightarrow>
                  with_version
                    (bumpGroupStateVersion gid (addGroupMember e 0 gid memberDID (gets body ''role'') d))
                    (membership_result gid memberDID))"

definition groupRemove :: "string \<Rightarrow> nmap \<Rightarrow> db \<Rightarrow> gval outcome" where
  "groupRemove authDID params d =
     (let gid = groupDIDFromParams params;
          memberDID = gets (asMap (gindex params ''body'')) ''member_did''
      in if gid = [] then (Inl (invalid_params ''group_did is required''), d)
         else if memberDID = [] then (Inl (invalid_params ''member_did is required''), d)
         else if \<not> groupPermitted d gid authDID ''remove''
         then (Inl (PlainError (''caller lacks remove permission for group '' @ go_quote gid)), d)
         else if memberDID = ownerDID d gid
         then (Inl (PlainError ''cannot remove the group owner''), d)
         else with_version (bumpGroupStateVersion gid (removeGroupMember gid memberDID d))
                (\<lambda>v. GMap [(''group_did'', GStr gid), (''member_did'', GStr memberDID),
                           (''group_state_version'', GInt v)]))"

definition groupLeave :: "string \<Rightarrow> nmap \<Rightarrow> db \<Rightarrow> gval outcome" where
  "groupLeave authDID params d =
     (let gid = groupDIDFromParams params; leaverDID = caller_or_sender authDID params in
      if gid = [] then (Inl (invalid_params ''group_did is required''), d)
      else with_version (bumpGroupStateVersion gid (removeGroupMember gid leaverDID d))
             (\<lambda>v. GMap [(''group_did'', GStr gid), (''leaver_did'', GStr leaverDID),
                        (''group_state_version'', GInt v)]))"

text \<open>
  The shallow merge patch of a stored JSON object: null removes a key, any other value replaces
  it. Assigning to a nil map is a run-time panic.
\<close>

fun merge_patch :: "gomap \<Rightarrow> gomap \<Rightarrow> gomap" where
  "merge_patch m [] = m"
| "merge_patch m ((k, v) # patch) =
     merge_patch (if v = GNil then AList.delete k m else AList.update k v m) patch"

definition apply_patch :: "nmap \<Rightarrow> gomap \<Rightarrow> nmap res" where
  "apply_patch m patch =
     (case m of
        Some m' \<Rightarrow> Inr (Some (merge_patch m' patch))
      | None \<Rightarrow> if list_all (\<lambda>(k, v). v = GNil) patch then Inr None
                else Inl (GoPanic ''assignment to entry in nil map''))"

text \<open>\<open>m = map[string]any{}; _ = json.Unmarshal(text, &m)\<close>\<close>

definition unmarshal_over_empty :: "jtext \<Rightarrow> nmap" where
  "unmarshal_over_empty t = (case unmarshal_map t of None \<Rightarrow> Some [] | Some m \<Rightarrow> m)"

text \<open>
  The new object of \<open>update_profile\<close> and \<open>update_policy\<close>: the patch over the stored text, or the
  full replacement, or nil when the body has neither.
\<close>

definition updated_object ::
  "db \<Rightarrow> string \<Rightarrow> (group_row \<Rightarrow> nmap) \<Rightarrow> nmap \<Rightarrow> string \<Rightarrow> string \<Rightarrow> nmap res" where
  "updated_object d gid stored body patch_key full_key =
     (case asMap (gindex body patch_key) of
        Some patch \<Rightarrow>
          (case loadGroup d gid of
             Inl err \<Rightarrow> Inl err
           | Inr r \<Rightarrow> apply_patch (stored r) patch)
      | None \<Rightarrow> Inr (asMap (gindex body full_key)))"

definition stored_profile :: "group_row \<Rightarrow> nmap" where
  "stored_profile r = (case g_profile r of None \<Rightarrow> Some [] | Some t \<Rightarrow> unmarshal_over_empty t)"

definition stored_policy :: "group_row \<Rightarrow> nmap" where
  "stored_policy r = unmarshal_over_empty (g_policy r)"

definition set_profile :: "string \<Rightarrow> gomap \<Rightarrow> db \<Rightarrow> db" where
  "set_profile gid m d =
     d\<lparr>groups := tupd gid (\<lambda>g. g\<lparr>g_profile := Some (marshal (GMap m))\<rparr>) (groups d)\<rparr>"

definition set_policy :: "string \<Rightarrow> gomap \<Rightarrow> db \<Rightarrow> db" where
  "set_policy gid m d = d\<lparr>groups := tupd gid (\<lambda>g. g\<lparr>g_policy := marshal (GMap m)\<rparr>) (groups d)\<rparr>"

definition groupUpdateProfile :: "string \<Rightarrow> nmap \<Rightarrow> db \<Rightarrow> gval outcome" where
  "groupUpdateProfile authDID params d =
     (let gid = groupDIDFromParams params in
      if gid = [] then (Inl (invalid_params ''group_did is required''), d)
      else if \<not> groupPermitted d gid authDID ''update_profile''
      then (Inl (PlainError (''caller lacks update_profile permission for group '' @ go_quote gid)), d)
      else case updated_object d gid stored_profile (asMap (gindex params ''body''))
                  ''group_profile_patch'' ''group_profile'' of
             Inl err \<Rightarrow> (Inl err, d)
           | Inr None \<Rightarrow> (Inl (invalid_params ''group_profile is required''), d)
           | Inr (Some profile) \<Rightarrow>
               with_version (bumpGroupStateVersion gid (set_profile gid profile d))
                 (\<lambda>v. GMap [(''group_did'', GStr gid), (''group_state_version'', GInt v),
                            (''group_profile'', GMap profile)]))"

definition groupUpdatePolicy :: "string \<Rightarrow> nmap \<Rightarrow> db \<Rightarrow> gval outcome" where
  "groupUpdatePolicy authDID params d =
     (let gid = groupDIDFromParams params in
      if gid = [] then (Inl (invalid_params ''group_did is required''), d)
      else if \<not> groupPermitted d gid authDID ''update_policy''
      then (Inl (PlainError (''caller lacks update_policy permission for group '' @ go_quote gid)), d)
      else case updated_object d gid stored_policy (asMap (gindex params ''body''))
                  ''group_policy_patch'' ''group_policy'' of
             Inl err \<Rightarrow> (Inl err, d)
           | Inr None \<Rightarrow> (Inl (invalid_params ''group_policy is required''), d)
           | Inr (Some policy) \<Rightarrow>
               with_version (bumpGroupStateVersion gid (set_policy gid policy d))
                 (\<lambda>v. GMap [(''group_did'', GStr gid), (''group_state_version'', GInt v),
                            (''group_policy'', GMap policy)]))"

text \<open>
  The tail that group.send and group.e2ee.send share: consume an event number, read the version,
  insert the row. The statements before a failing INSERT stay committed.
\<close>

definition accept_group_message ::
  "string \<Rightarrow> msg_row \<Rightarrow> (int \<Rightarrow> int \<Rightarrow> gval) \<Rightarrow> db \<Rightarrow> gval outcome" where
  "accept_group_message gid row result d =
     (case nextGroupEventSeq gid d of
        (Inl err, d1) \<Rightarrow> (Inl err, d1)
      | (Inr seq, d1) \<Rightarrow>
          (case groupStateVersion d1 gid of
             Inl err \<Rightarrow> (Inl err, d1)
           | Inr version \<Rightarrow>
               (case insert_message row d1 of
                  (Inl err, d2) \<Rightarrow> (Inl err, d2)
                | (Inr _, d2) \<Rightarrow> (Inr (result seq version), d2))))"

definition group_row_of ::
  "env \<Rightarrow> string \<Rightarrow> string \<Rightarrow> nmap \<Rightarrow> nmap \<Rightarrow> string \<Rightarrow> string \<Rightarrow> int \<Rightarrow> msg_row" where
  "group_row_of e senderDID gid meta body kind text secure =
     \<lparr>m_id = 0, m_message_id = gets meta ''message_id'', m_sender_did = senderDID,
      m_recipient_did = None, m_group_did = Some gid, m_type = kind, m_text = Some text,
      m_secure = secure, m_sent_at = rfc3339 (clock e 0),
      m_wire_meta = Some (marshal (ofMap meta)), m_wire_body = Some (marshal (ofMap body))\<rparr>"

text \<open>The checks of group.send, in the code's order; the result is the stored type and text.\<close>

definition groupSend_checks ::
  "env \<Rightarrow> string \<Rightarrow> string \<Rightarrow> nmap \<Rightarrow> nmap \<Rightarrow> nmap \<Rightarrow> db \<Rightarrow> (string \<times> string) res" where
  "groupSend_checks e gid senderDID meta body auth d =
     (if gid = [] then Inl (invalid_params ''target.did (group_did) is required'')
      else if gets meta ''message_id'' = [] then Inl (invalid_params ''message_id is required'')
      else if gets meta ''operation_id'' = [] then Inl (invalid_params ''operation_id is required'')
      else if gets meta ''content_type'' = [] then Inl (invalid_params ''content_type is required'')
      else if \<not> isGroupMember d gid senderDID
      then Inl (PlainError (''sender '' @ go_quote senderDID @ '' is not a member of group '' @ go_quote gid))
      else case classifyPayload body of
             (kind, text, ok) \<Rightarrow>
               if \<not> ok
               then Inl (invalid_params ''body must contain exactly one of text, payload, or payload_b64u'')
               else case (if kind = ''json'' then validateMentions (asMap (gindex body ''payload'')) else None) of
                      Some err \<Rightarrow> Inl (invalid_params err)
                    | None \<Rightarrow>
                        (case (if auth = None then Inr ()
                               else verifyOriginProof e senderDID ''group.send'' meta body auth d) of
                           Inl err \<Rightarrow> Inl err
                         | Inr _ \<Rightarrow> Inr (kind, text)))"

definition groupSend_gid :: "nmap \<Rightarrow> string" where
  "groupSend_gid params =
     (let gid = gets (asMap (gindex (asMap (gindex params ''meta'')) ''target'')) ''did'' in
      if gid = [] then groupDIDFromParams params else gid)"

definition groupSend :: "env \<Rightarrow> string \<Rightarrow> nmap \<Rightarrow> db \<Rightarrow> gval outcome" where
  "groupSend e authDID params d =
     (let meta = asMap (gindex params ''meta'');
          body = asMap (gindex params ''body'');
          gid = groupSend_gid params;
          senderDID = caller_or_sender authDID params
      in case groupSend_checks e gid senderDID meta body (asMap (gindex params ''auth'')) d of
           Inl err \<Rightarrow> (Inl err, d)
         | Inr (kind, text) \<Rightarrow>
             accept_group_message gid (group_row_of e senderDID gid meta body kind text 0)
               (\<lambda>seq version.
                  GMap [(''accepted'', GBool True), (''group_did'', GStr gid),
                        (''message_id'', GStr (gets meta ''message_id'')),
                        (''operation_id'', GStr (gets meta ''operation_id'')),
                        (''group_event_seq'', GInt seq), (''group_state_version'', GInt version),
                        (''accepted_at'', GStr (rfc3339 (clock e 0)))]) d)"

definition groupIncoming :: "nmap \<Rightarrow> gval res" where
  "groupIncoming params = Inr (GMap [(''accepted'', GBool True)])"

definition groupStateChanged :: "nmap \<Rightarrow> gval res" where
  "groupStateChanged params = Inr (GMap [(''accepted'', GBool True)])"

text \<open>
  Rebinding a membership. The UPDATE of the key fails when the new DID already has a row in the
  group.
\<close>

definition rebind_gid :: "nmap \<Rightarrow> string \<Rightarrow> db \<Rightarrow> string res" where
  "rebind_gid params previousMemberDID d =
     (let gid = groupDIDFromParams params in
      if gid \<noteq> [] then Inr gid
      else case active_groups d previousMemberDID of
             [g] \<Rightarrow> Inr g
           | _ \<Rightarrow> Inl (PlainError (''cannot determine target group for member '' @ go_quote previousMemberDID)))"

definition rebind_row :: "string \<Rightarrow> string \<Rightarrow> string \<Rightarrow> db \<Rightarrow> db" where
  "rebind_row gid old new d = d\<lparr>group_members := trekey (gid, old) (gid, new) (group_members d)\<rparr>"

definition groupRebindMember :: "string \<Rightarrow> nmap \<Rightarrow> db \<Rightarrow> gval outcome" where
  "groupRebindMember authDID params d =
     (let body = asMap (gindex params ''body'');
          memberHandle = gets body ''member_handle'';
          previousMemberDID = gets body ''previous_member_did'';
          newMemberDID = gets body ''new_member_did''
      in if memberHandle = [] \<or> previousMemberDID = [] \<or> newMemberDID = []
         then (Inl (invalid_params ''member_handle, previous_member_did and new_member_did are required''), d)
         else case rebind_gid params previousMemberDID d of
                Inl err \<Rightarrow> (Inl err, d)
              | Inr gid \<Rightarrow>
                  if authDID \<noteq> [] \<and> authDID \<noteq> newMemberDID
                  then (Inl (PlainError (''caller '' @ go_quote authDID @ '' does not match new_member_did ''
                              @ go_quote newMemberDID)), d)
                  else if tsel (group_members d) (gid, previousMemberDID) = None
                  then (Inl (PlainError (''previous member '' @ go_quote previousMemberDID @ '' not found in group'')), d)
                  else if newMemberDID \<noteq> previousMemberDID
                          \<and> tsel (group_members d) (gid, newMemberDID) \<noteq> None
                  then (Inl (SqlError ''UNIQUE constraint failed: group_members.group_did, group_members.member_did''), d)
                  else with_version (bumpGroupStateVersion gid (rebind_row gid previousMemberDID newMemberDID d))
                         (\<lambda>v. GMap [(''group_did'', GStr gid), (''member_handle'', GStr memberHandle),
                                    (''previous_member_did'', GStr previousMemberDID),
                                    (''member_did'', GStr newMemberDID),
                                    (''handle_binding_generation'', gindex body ''handle_binding_generation''),
                                    (''membership_status'', GStr ''active''),
                                    (''group_state_version'', GInt v)]))"

section \<open>Effects of the small operations\<close>

text \<open>
  Every write to the group tables is one of these functions. Their frames say which tables they
  leave alone, the lemmas after them what they do to the group and member tables.
\<close>

definition only_groups :: "db \<Rightarrow> db \<Rightarrow> bool" where
  "only_groups d d' \<longleftrightarrow>
     registered_dids d' = registered_dids d \<and> handles d' = handles d
     \<and> prekey_bundles d' = prekey_bundles d \<and> one_time_prekeys d' = one_time_prekeys d
     \<and> group_key_packages d' = group_key_packages d \<and> group_e2ee_states d' = group_e2ee_states d
     \<and> attachment_slots d' = attachment_slots d \<and> attachment_objects d' = attachment_objects d
     \<and> attachment_tickets d' = attachment_tickets d \<and> idempotency d' = idempotency d"

lemma only_groups_refl [simp]: "only_groups d d"
  by (simp add: only_groups_def)

lemma only_groups_trans: "only_groups d1 d2 \<Longrightarrow> only_groups d2 d3 \<Longrightarrow> only_groups d1 d3"
  by (simp add: only_groups_def)

lemma only_groups_ops [simp]:
  "only_groups d (bump_version gid d1) = only_groups d d1"
  "only_groups d (bump_seq gid d1) = only_groups d d1"
  "only_groups d (addGroupMember e i gid m r d1) = only_groups d d1"
  "only_groups d (joinGroupMember e i gid m d1) = only_groups d d1"
  "only_groups d (removeGroupMember gid m d1) = only_groups d d1"
  "only_groups d (rebind_row gid m m' d1) = only_groups d d1"
  "only_groups d (set_profile gid p d1) = only_groups d d1"
  "only_groups d (set_policy gid p d1) = only_groups d d1"
  "only_groups d (d1\<lparr>groups := gs\<rparr>) = only_groups d d1"
  "only_groups d (snd (insert_message row d1)) = only_groups d d1"
  by (simp_all add: only_groups_def bump_version_def bump_seq_def addGroupMember_def
      joinGroupMember_def removeGroupMember_def rebind_row_def set_profile_def set_policy_def
      Let_def frame)

lemma only_groups_add_initial [simp]: "only_groups d (add_initial e gid i raw d1) = only_groups d d1"
  by (induction e gid i raw d1 rule: add_initial.induct) (auto split: option.split prod.split)

lemma log_ops [simp]:
  "messages (bump_version gid d) = messages d" "msg_autoinc (bump_version gid d) = msg_autoinc d"
  "messages (bump_seq gid d) = messages d" "msg_autoinc (bump_seq gid d) = msg_autoinc d"
  "messages (addGroupMember e i gid m r d) = messages d"
  "msg_autoinc (addGroupMember e i gid m r d) = msg_autoinc d"
  "messages (joinGroupMember e i gid m d) = messages d"
  "msg_autoinc (joinGroupMember e i gid m d) = msg_autoinc d"
  "messages (removeGroupMember gid m d) = messages d"
  "msg_autoinc (removeGroupMember gid m d) = msg_autoinc d"
  "messages (rebind_row gid m m' d) = messages d" "msg_autoinc (rebind_row gid m m' d) = msg_autoinc d"
  "messages (set_profile gid p d) = messages d" "msg_autoinc (set_profile gid p d) = msg_autoinc d"
  "messages (set_policy gid p d) = messages d" "msg_autoinc (set_policy gid p d) = msg_autoinc d"
  by (simp_all add: bump_version_def bump_seq_def addGroupMember_def joinGroupMember_def
      removeGroupMember_def rebind_row_def set_profile_def set_policy_def Let_def)

lemma log_add_initial [simp]:
  "messages (add_initial e gid i raw d) = messages d"
  "msg_autoinc (add_initial e gid i raw d) = msg_autoinc d"
  by (induction e gid i raw d rule: add_initial.induct) (auto split: option.split prod.split)

lemma snd_with_version [simp]: "snd (with_version o' f) = snd o'"
  by (simp add: with_version_def split: prod.split sum.split)

lemma fst_with_version: "fst (with_version o' f) = (case fst o' of Inl err \<Rightarrow> Inl err | Inr v \<Rightarrow> Inr (f v))"
  by (simp add: with_version_def split: prod.split sum.split)

lemma snd_bumpGroupStateVersion [simp]: "snd (bumpGroupStateVersion gid d) = bump_version gid d"
  by (simp add: bumpGroupStateVersion_def Let_def)

lemma fst_bumpGroupStateVersion:
  "fst (bumpGroupStateVersion gid d) =
     (case tsel (groups d) gid of None \<Rightarrow> Inl group_not_found | Some g \<Rightarrow> Inr (g_state_version g + 1))"
  by (simp add: bumpGroupStateVersion_def groupStateVersion_def bump_version_def Let_def split: option.split)

text \<open>The state an accepted or refused group message leaves.\<close>

lemma accept_group_message_state:
  "snd (accept_group_message gid row result d) =
     (if tsel (groups d) gid = None then bump_seq gid d else snd (insert_message row (bump_seq gid d)))"
  by (auto simp: accept_group_message_def nextGroupEventSeq_def groupStateVersion_def bump_seq_def Let_def
      split: option.split prod.split sum.split)

lemma accept_group_message_ok_iff:
  "is_ok (fst (accept_group_message gid row result d)) \<longleftrightarrow>
     tsel (groups d) gid \<noteq> None \<and> m_message_id row \<notin> m_message_id ` set (messages d)"
proof -
  have "m_message_id row \<notin> m_message_id ` set (messages (bump_seq gid d)) \<longleftrightarrow>
      (\<exists>u. fst (insert_message row (bump_seq gid d)) = Inr u)"
    by (simp add: insert_message_Inr)
  then show ?thesis
    by (auto simp: accept_group_message_def nextGroupEventSeq_def groupStateVersion_def bump_seq_def Let_def
        split: option.split prod.split sum.split)
qed

end
