(* ===== verification/GroupFacts.thy ===== *)
theory GroupFacts
  imports Group
begin

text \<open>
  What the group component promises. Every method is a sequence of elementary writes
  (\<open>group_write\<close>); the invariants and the monotonicity of the counters are proved once per
  elementary write and lifted to the methods. The theory ends with what an accepted group message
  shows.
\<close>

section \<open>Elementary writes\<close>

definition group_row_ok :: "group_row \<Rightarrow> bool" where
  "group_row_ok g \<longleftrightarrow>
     (\<exists>m. unmarshal_map (g_policy g) = Some (Some m))
     \<and> (\<exists>t. g_profile g = Some t \<and> (t = JEmpty \<or> (\<exists>m. unmarshal_map t = Some (Some m))))
     \<and> g_owner_did g \<noteq> [] \<and> 0 \<le> g_state_version g \<and> 0 \<le> g_event_seq g"

inductive group_write :: "db \<Rightarrow> db \<Rightarrow> bool" where
  gw_bump: "group_write d (bump_version gid d)"
| gw_create: "tsel (groups d) gid = None \<Longrightarrow> group_row_ok row \<Longrightarrow> group_write d (d\<lparr>groups := groups d @ [(gid, row)]\<rparr>)"
| gw_add: "tsel (groups d) gid \<noteq> None \<Longrightarrow> group_write d (addGroupMember e i gid m r d)"
| gw_join: "tsel (groups d) gid \<noteq> None \<Longrightarrow> group_write d (joinGroupMember e i gid m d)"
| gw_remove: "group_write d (removeGroupMember gid m d)"
| gw_rebind: "m' = m \<or> tsel (group_members d) (gid, m') = None \<Longrightarrow> group_write d (rebind_row gid m m' d)"
| gw_profile: "group_write d (set_profile gid p d)"
| gw_policy: "group_write d (set_policy gid p d)"
| gw_accept: "m_group_did row = Some gid \<Longrightarrow> group_write d (snd (accept_group_message gid row result d))"
| gw_message: "m_group_did row = None \<or> m_type row = ''notice'' \<Longrightarrow> group_write d (snd (insert_message row d))"

abbreviation group_writes :: "db \<Rightarrow> db \<Rightarrow> bool" where
  "group_writes \<equiv> group_write\<^sup>*\<^sup>*"

section \<open>Invariants\<close>

text \<open>
  Keys are unique, stored policies and profiles are JSON objects, counters are never negative;
  every membership is of an existing group, active, and has a role.
\<close>

definition groups_ok :: "db \<Rightarrow> bool" where
  "groups_ok d \<longleftrightarrow>
     tkeys_unique (groups d) \<and> tkeys_unique (group_members d)
     \<and> (\<forall>gid g. tsel (groups d) gid = Some g \<longrightarrow> group_row_ok g)
     \<and> (\<forall>gid m r. tsel (group_members d) (gid, m) = Some r \<longrightarrow>
           tsel (groups d) gid \<noteq> None \<and> mb_role r \<noteq> [] \<and> mb_status r = ''active'')"

lemma groups_okD:
  assumes "groups_ok d"
  shows "tkeys_unique (groups d)" "tkeys_unique (group_members d)"
    "tsel (groups d) gid = Some g \<Longrightarrow> group_row_ok g"
    "tsel (group_members d) (gid, m) = Some r \<Longrightarrow>
       tsel (groups d) gid \<noteq> None \<and> mb_role r \<noteq> [] \<and> mb_status r = ''active''"
  using assms unfolding groups_ok_def by blast+

lemma groups_ok_same:
  "groups d' = groups d \<Longrightarrow> group_members d' = group_members d \<Longrightarrow> groups_ok d' = groups_ok d"
  by (simp add: groups_ok_def)

lemma groups_ok_empty: "groups_ok empty_db"
  by (simp add: groups_ok_def empty_db_def)

text \<open>A change of a group's row that keeps it well formed keeps the invariant.\<close>

lemma groups_ok_tupd:
  assumes "groups_ok d" "\<And>g. group_row_ok g \<Longrightarrow> group_row_ok (f g)"
  shows "groups_ok (d\<lparr>groups := tupd gid f (groups d)\<rparr>)"
  using assms by (auto simp: groups_ok_def)

lemma groups_ok_members:
  assumes "groups_ok d" "tkeys_unique ms"
    and "\<And>g m r. tsel ms (g, m) = Some r \<Longrightarrow>
           tsel (groups d) g \<noteq> None \<and> mb_role r \<noteq> [] \<and> mb_status r = ''active''"
  shows "groups_ok (d\<lparr>group_members := ms\<rparr>)"
  using assms by (auto simp: groups_ok_def)

lemma tsel_snoc: "tsel t k = None \<Longrightarrow> tsel (t @ [(k, r)]) k' = (if k' = k then Some r else tsel t k')"
  using tsel_tins [OF tins_fresh] by fastforce

lemma groups_ok_insert_message: "groups_ok (snd (insert_message row d)) = groups_ok d"
  by (rule groups_ok_same) (simp_all add: frame)

lemma groups_ok_bump_seq: "groups_ok d \<Longrightarrow> groups_ok (bump_seq gid d)"
  unfolding bump_seq_def by (rule groups_ok_tupd) (auto simp: group_row_ok_def)

lemma groups_ok_bump_version: "groups_ok d \<Longrightarrow> groups_ok (bump_version gid d)"
  unfolding bump_version_def by (rule groups_ok_tupd) (auto simp: group_row_ok_def)

lemma groups_ok_set_profile: "groups_ok d \<Longrightarrow> groups_ok (set_profile gid p d)"
  unfolding set_profile_def by (rule groups_ok_tupd) (auto simp: group_row_ok_def unmarshal_map_marshal)

lemma groups_ok_set_policy: "groups_ok d \<Longrightarrow> groups_ok (set_policy gid p d)"
  unfolding set_policy_def by (rule groups_ok_tupd) (auto simp: group_row_ok_def unmarshal_map_marshal)

lemma groups_ok_create:
  assumes ok: "groups_ok d" and new: "tsel (groups d) gid = None" "group_row_ok row"
  shows "groups_ok (d\<lparr>groups := groups d @ [(gid, row)]\<rparr>)"
proof -
  have "tkeys_unique (groups d @ [(gid, row)])"
    using tkeys_unique_tins [OF tins_fresh [OF new(1)]] groups_okD(1) [OF ok] by blast
  moreover have "group_row_ok g" if "tsel (groups d @ [(gid, row)]) k = Some g" for k g
    using that new(2) groups_okD(3) [OF ok] by (simp add: tsel_snoc [OF new(1)] split: if_splits)
  moreover have "tsel (groups d @ [(gid, row)]) k \<noteq> None" if "tsel (groups d) k \<noteq> None" for k
    using that by (simp add: tsel_snoc [OF new(1)])
  ultimately show ?thesis
    using groups_okD(2,4) [OF ok] unfolding groups_ok_def by simp
qed

text \<open>An upsert of a membership with an active status and a role.\<close>

lemma groups_ok_put_member:
  assumes ok: "groups_ok d" and g: "tsel (groups d) gid \<noteq> None"
    and new: "mb_role r \<noteq> []" "mb_status r = ''active''"
    and f: "\<And>r. mb_role r \<noteq> [] \<Longrightarrow> mb_role (f r) \<noteq> [] \<and> mb_status (f r) = ''active''"
  shows "groups_ok (d\<lparr>group_members := tput (gid, m) r f (group_members d)\<rparr>)"
proof (rule groups_ok_members [OF ok])
  show "tkeys_unique (tput (gid, m) r f (group_members d))"
    using groups_okD(2) [OF ok] by simp
  fix k n x
  assume *: "tsel (tput (gid, m) r f (group_members d)) (k, n) = Some x"
  show "tsel (groups d) k \<noteq> None \<and> mb_role x \<noteq> [] \<and> mb_status x = ''active''"
  proof (cases "(k, n) = (gid, m)")
    case True
    with * new f g groups_okD(4) [OF ok, of gid m] show ?thesis
      by (cases "tsel (group_members d) (gid, m)") auto
  next
    case False
    with * groups_okD(4) [OF ok, of k n x] show ?thesis by (simp split: if_splits)
  qed
qed

lemma groups_ok_addGroupMember:
  "groups_ok d \<Longrightarrow> tsel (groups d) gid \<noteq> None \<Longrightarrow> groups_ok (addGroupMember e i gid m r d)"
  unfolding addGroupMember_def Let_def by (rule groups_ok_put_member) simp_all

lemma groups_ok_joinGroupMember:
  "groups_ok d \<Longrightarrow> tsel (groups d) gid \<noteq> None \<Longrightarrow> groups_ok (joinGroupMember e i gid m d)"
  unfolding joinGroupMember_def by (rule groups_ok_put_member) simp_all

lemma groups_ok_removeGroupMember:
  assumes "groups_ok d" shows "groups_ok (removeGroupMember gid m d)"
  unfolding removeGroupMember_def
proof (rule groups_ok_members [OF assms])
  show "tkeys_unique (tdel (gid, m) (group_members d))"
    using groups_okD(2) [OF assms] by simp
  show "tsel (groups d) k \<noteq> None \<and> mb_role x \<noteq> [] \<and> mb_status x = ''active''"
    if "tsel (tdel (gid, m) (group_members d)) (k, n) = Some x" for k n x
    using that groups_okD(4) [OF assms, of k n x] by (simp split: if_splits)
qed

lemma groups_ok_rebind_row:
  assumes ok: "groups_ok d" and k: "m' = m \<or> tsel (group_members d) (gid, m') = None"
  shows "groups_ok (rebind_row gid m m' d)"
  unfolding rebind_row_def
proof (rule groups_ok_members [OF ok])
  have k': "(gid, m') = (gid, m) \<or> tsel (group_members d) (gid, m') = None"
    using k by auto
  show "tkeys_unique (trekey (gid, m) (gid, m') (group_members d))"
    by (rule tkeys_unique_trekey [OF groups_okD(2) [OF ok] k'])
  show "tsel (groups d) g \<noteq> None \<and> mb_role x \<noteq> [] \<and> mb_status x = ''active''"
    if "tsel (trekey (gid, m) (gid, m') (group_members d)) (g, n) = Some x" for g n x
    using that groups_okD(4) [OF ok, of gid m x] groups_okD(4) [OF ok, of g n x]
    by (simp add: tsel_trekey [OF k'] split: if_splits)
qed

lemma group_write_groups_ok: "group_write d d' \<Longrightarrow> groups_ok d \<Longrightarrow> groups_ok d'"
  by (induction rule: group_write.induct)
    (simp_all add: groups_ok_bump_version groups_ok_create groups_ok_addGroupMember
      groups_ok_joinGroupMember groups_ok_removeGroupMember groups_ok_rebind_row groups_ok_set_profile
      groups_ok_set_policy accept_group_message_state groups_ok_insert_message groups_ok_bump_seq)

section \<open>Counters never go back, groups never disappear\<close>

definition groups_grow :: "db \<Rightarrow> db \<Rightarrow> bool" where
  "groups_grow d d' \<longleftrightarrow>
     (\<forall>gid g. tsel (groups d) gid = Some g \<longrightarrow>
        (\<exists>g'. tsel (groups d') gid = Some g' \<and> g_state_version g \<le> g_state_version g'
           \<and> g_event_seq g \<le> g_event_seq g' \<and> g_owner_did g' = g_owner_did g
           \<and> g_created_at g' = g_created_at g))"

lemma groups_grow_refl [simp]: "groups_grow d d"
  by (simp add: groups_grow_def)

lemma groups_grow_same: "groups d' = groups d \<Longrightarrow> groups_grow d d'"
  by (simp add: groups_grow_def)

lemma groups_grow_trans:
  assumes "groups_grow a b" "groups_grow b c" shows "groups_grow a c"
  unfolding groups_grow_def
proof (intro allI impI)
  fix gid g assume "tsel (groups a) gid = Some g"
  then obtain g1 where 1: "tsel (groups b) gid = Some g1" "g_state_version g \<le> g_state_version g1"
    "g_event_seq g \<le> g_event_seq g1" "g_owner_did g1 = g_owner_did g" "g_created_at g1 = g_created_at g"
    using assms(1) unfolding groups_grow_def by blast
  then obtain g2 where "tsel (groups c) gid = Some g2" "g_state_version g1 \<le> g_state_version g2"
    "g_event_seq g1 \<le> g_event_seq g2" "g_owner_did g2 = g_owner_did g1" "g_created_at g2 = g_created_at g1"
    using assms(2) unfolding groups_grow_def by blast
  with 1 show "\<exists>g'. tsel (groups c) gid = Some g' \<and> g_state_version g \<le> g_state_version g'
      \<and> g_event_seq g \<le> g_event_seq g' \<and> g_owner_did g' = g_owner_did g \<and> g_created_at g' = g_created_at g"
    by auto
qed

lemma group_write_grow: "group_write d d' \<Longrightarrow> groups_grow d d'"
proof (induction rule: group_write.induct)
  case (gw_create d gid row)
  then show ?case by (auto simp: groups_grow_def tsel_snoc)
next
  case (gw_accept row gid d result)
  then show ?case
    by (auto simp: groups_grow_def accept_group_message_state bump_seq_def frame)
qed (auto simp: groups_grow_def bump_version_def addGroupMember_def joinGroupMember_def
    removeGroupMember_def rebind_row_def set_profile_def set_policy_def Let_def frame)

section \<open>The event counter covers the log\<close>

definition group_log :: "db \<Rightarrow> string \<Rightarrow> msg_row list" where
  "group_log d gid = filter (\<lambda>r. m_group_did r = Some gid \<and> m_type r \<noteq> ''notice'') (messages d)"

definition event_seq :: "db \<Rightarrow> string \<Rightarrow> int" where
  "event_seq d gid = (case tsel (groups d) gid of None \<Rightarrow> 0 | Some g \<Rightarrow> g_event_seq g)"

text \<open>
  No more group messages are in the log than event numbers were handed out; in particular a group
  that does not exist has none.
\<close>

definition seq_covers :: "db \<Rightarrow> bool" where
  "seq_covers d \<longleftrightarrow> (\<forall>gid. int (length (group_log d gid)) \<le> event_seq d gid)"

lemma group_log_same: "messages d' = messages d \<Longrightarrow> group_log d' gid = group_log d gid"
  by (simp add: group_log_def)

lemma event_seq_same: "groups d' = groups d \<Longrightarrow> event_seq d' gid = event_seq d gid"
  by (simp add: event_seq_def)

lemma seq_covers_same:
  "groups d' = groups d \<Longrightarrow> messages d' = messages d \<Longrightarrow> seq_covers d' = seq_covers d"
  by (simp add: seq_covers_def group_log_def event_seq_def)

lemma seq_covers_empty: "seq_covers empty_db"
  by (simp add: seq_covers_def group_log_def event_seq_def empty_db_def)

lemma seq_covers_mono:
  assumes "seq_covers d" and m: "messages d' = messages d" and "\<And>gid. event_seq d gid \<le> event_seq d' gid"
  shows "seq_covers d'"
  unfolding seq_covers_def group_log_same [OF m]
  using assms(1,3) unfolding seq_covers_def by (blast intro: order_trans)

lemma event_seq_ops:
  "event_seq (bump_version gid d) k = event_seq d k"
  "event_seq (set_profile gid p d) k = event_seq d k"
  "event_seq (set_policy gid q d) k = event_seq d k"
  "event_seq (snd (insert_message row d)) k = event_seq d k"
  "event_seq (bump_seq gid d) k = (if k = gid \<and> tsel (groups d) gid \<noteq> None then event_seq d k + 1 else event_seq d k)"
  unfolding event_seq_def bump_version_def set_profile_def set_policy_def bump_seq_def
  by (simp_all add: frame split: option.split)

lemma group_log_insert:
  "group_log (snd (insert_message row d)) gid =
     (if fst (insert_message row d) = Inr () \<and> m_group_did row = Some gid \<and> m_type row \<noteq> ''notice''
      then group_log d gid @ [row\<lparr>m_id := msg_autoinc d + 1\<rparr>] else group_log d gid)"
  by (auto simp: insert_message_def group_log_def)

lemma length_group_log_insert:
  "length (group_log (snd (insert_message row d)) k) \<le>
     (if m_group_did row = Some k \<and> m_type row \<noteq> ''notice'' then Suc (length (group_log d k))
      else length (group_log d k))"
  by (simp add: group_log_insert)

lemma seq_covers_insert:
  assumes "seq_covers d" and "m_group_did row = None \<or> m_type row = ''notice''"
  shows "seq_covers (snd (insert_message row d))"
  unfolding seq_covers_def
proof
  fix k
  have "length (group_log (snd (insert_message row d)) k) \<le> length (group_log d k)"
    using assms(2) length_group_log_insert [of row d k] by auto
  moreover have "int (length (group_log d k)) \<le> event_seq d k"
    using assms(1) by (simp add: seq_covers_def)
  ultimately show "int (length (group_log (snd (insert_message row d)) k))
      \<le> event_seq (snd (insert_message row d)) k"
    by (simp add: event_seq_ops)
qed

lemma seq_covers_bump_seq: "seq_covers d \<Longrightarrow> seq_covers (bump_seq gid d)"
  by (erule seq_covers_mono) (simp_all add: event_seq_ops)

lemma seq_covers_accept:
  assumes cov: "seq_covers d" and row: "m_group_did row = Some gid"
  shows "seq_covers (snd (accept_group_message gid row result d))"
proof (cases "tsel (groups d) gid = None")
  case True
  then show ?thesis using seq_covers_bump_seq [OF cov] by (simp add: accept_group_message_state)
next
  case False
  have "int (length (group_log (snd (insert_message row (bump_seq gid d))) k))
      \<le> event_seq (snd (insert_message row (bump_seq gid d))) k" for k
  proof -
    have "group_log (bump_seq gid d) k = group_log d k"
      by (rule group_log_same) simp
    then have "length (group_log (snd (insert_message row (bump_seq gid d))) k)
        \<le> (if gid = k then Suc (length (group_log d k)) else length (group_log d k))"
      using length_group_log_insert [of row "bump_seq gid d" k] row by (auto split: if_splits)
    moreover have "int (length (group_log d k)) \<le> event_seq d k"
      using cov by (simp add: seq_covers_def)
    ultimately show ?thesis
      using False by (cases "gid = k") (simp_all add: event_seq_ops)
  qed
  then have "seq_covers (snd (insert_message row (bump_seq gid d)))"
    by (simp add: seq_covers_def)
  with False show ?thesis by (simp only: accept_group_message_state if_False)
qed

lemma seq_covers_members: "seq_covers (d\<lparr>group_members := ms\<rparr>) = seq_covers d"
  by (rule seq_covers_same) simp_all

lemma seq_covers_ops:
  "seq_covers (addGroupMember e i gid m r d) = seq_covers d"
  "seq_covers (joinGroupMember e i gid m d) = seq_covers d"
  "seq_covers (removeGroupMember gid m d) = seq_covers d"
  "seq_covers (rebind_row gid m m' d) = seq_covers d"
  by (simp_all add: addGroupMember_def joinGroupMember_def removeGroupMember_def rebind_row_def
      Let_def seq_covers_members)

lemma seq_covers_create:
  assumes "seq_covers d" "tsel (groups d) gid = None" "group_row_ok row"
  shows "seq_covers (d\<lparr>groups := groups d @ [(gid, row)]\<rparr>)"
  using assms(1)
  by (rule seq_covers_mono)
    (use assms(2,3) in \<open>simp_all add: event_seq_def tsel_snoc [OF assms(2)] group_row_ok_def\<close>)

lemma seq_covers_row_ops:
  "seq_covers d \<Longrightarrow> seq_covers (bump_version gid d)"
  "seq_covers d \<Longrightarrow> seq_covers (set_profile gid p d)"
  "seq_covers d \<Longrightarrow> seq_covers (set_policy gid p d)"
  by (erule seq_covers_mono; simp add: event_seq_ops)+

lemma group_write_seq_covers: "group_write d d' \<Longrightarrow> seq_covers d \<Longrightarrow> seq_covers d'"
  by (induction rule: group_write.induct)
    (simp_all add: seq_covers_ops seq_covers_row_ops seq_covers_create seq_covers_accept seq_covers_insert)

section \<open>The methods are sequences of elementary writes\<close>

lemma gws_step: "group_writes d d' \<Longrightarrow> group_write d' d'' \<Longrightarrow> group_writes d d''"
  by (rule rtranclp.rtrancl_into_rtrancl)

lemmas gws_bump = gws_step [OF _ gw_bump]
lemmas gws_add = gws_step [OF _ gw_add]
lemmas gws_join = gws_step [OF _ gw_join]
lemmas gws_remove = gws_step [OF _ gw_remove]

lemma tsel_groups_addGroupMember [simp]: "groups (addGroupMember e i gid m r d) = groups d"
  by (simp add: addGroupMember_def Let_def)

lemma gws_add_initial:
  "group_writes d0 d \<Longrightarrow> tsel (groups d) gid \<noteq> None \<Longrightarrow> group_writes d0 (add_initial e gid i raw d)"
proof (induction raw arbitrary: d i)
  case (Cons entry raw)
  then show ?case by (simp add: gws_add split: option.split prod.split)
qed simp

lemma new_group_row_ok:
  assumes "asMap (gindex body ''group_policy'') \<noteq> None" "creator \<noteq> []"
  shows "group_row_ok (new_group_row e body creator)"
  using assms
  by (auto simp: group_row_ok_def new_group_row_def unmarshal_map_marshal split: option.split)

lemma groupCreate_state:
  "snd (groupCreate e a params d) =
     (let body = asMap (gindex params ''body''); gid = newGroupDID e; creator = caller_or_sender a params in
      if asMap (gindex body ''group_policy'') = None \<or> creator = [] \<or> tsel (groups d) gid \<noteq> None then d
      else add_initial e gid 2 (case garr (gindex body ''initial_members'') of None \<Rightarrow> [] | Some raw \<Rightarrow> raw)
             (addGroupMember e 1 gid creator ''owner''
                (d\<lparr>groups := groups d @ [(gid, new_group_row e body creator)]\<rparr>)))"
  by (simp add: groupCreate_def Let_def tins_fresh split: option.split)
     (auto dest: tins_SomeD)

lemma groupCreate_writes: "group_writes d (snd (groupCreate e a params d))"
proof -
  let ?body = "asMap (gindex params ''body'')" and ?gid = "newGroupDID e"
    and ?c = "caller_or_sender a params"
  let ?d1 = "d\<lparr>groups := groups d @ [(?gid, new_group_row e ?body ?c)]\<rparr>"
  show ?thesis
  proof (cases "asMap (gindex ?body ''group_policy'') = None \<or> ?c = [] \<or> tsel (groups d) ?gid \<noteq> None")
    case False
    then have new: "tsel (groups d) ?gid = None" "group_row_ok (new_group_row e ?body ?c)"
      by (auto intro: new_group_row_ok)
    have "group_writes d ?d1"
      by (rule r_into_rtranclp [of group_write]) (rule gw_create [OF new])
    moreover have "tsel (groups ?d1) ?gid \<noteq> None"
      by (simp add: tsel_snoc [OF new(1)])
    ultimately show ?thesis
      using False by (simp add: groupCreate_state Let_def gws_add_initial gws_add del: group_row.simps)
  qed (auto simp: groupCreate_state Let_def)
qed

lemma groupJoin_writes: "group_writes d (snd (groupJoin e a params d))"
  by (simp add: groupJoin_def loadGroup_def Let_def gws_bump gws_join split: sum.split option.split)

lemma permitted_group:
  "groups_ok d \<Longrightarrow> groupPermitted d gid did action \<Longrightarrow> tsel (groups d) gid \<noteq> None"
  using groups_okD(4) [of d gid did]
  by (auto simp: groupPermitted_def groupMemberRole_def Let_def split: option.split_asm if_split_asm)

lemma groupAdd_writes: "groups_ok d \<Longrightarrow> group_writes d (snd (groupAdd e a params d))"
  by (auto simp: groupAdd_def Let_def split: option.split intro!: gws_bump gws_add dest: permitted_group)

lemma groupRemove_writes: "group_writes d (snd (groupRemove a params d))"
  by (simp add: groupRemove_def Let_def gws_bump gws_remove)

lemma groupLeave_writes: "group_writes d (snd (groupLeave a params d))"
  by (simp add: groupLeave_def Let_def gws_bump gws_remove)

lemma groupUpdateProfile_writes: "group_writes d (snd (groupUpdateProfile a params d))"
  by (simp add: groupUpdateProfile_def Let_def gws_bump gws_step [OF _ gw_profile]
      split: sum.split option.split)

lemma groupUpdatePolicy_writes: "group_writes d (snd (groupUpdatePolicy a params d))"
  by (simp add: groupUpdatePolicy_def Let_def gws_bump gws_step [OF _ gw_policy]
      split: sum.split option.split)

lemma groupSend_writes: "group_writes d (snd (groupSend e a params d))"
  by (simp add: groupSend_def Let_def group_row_of_def gws_step [OF _ gw_accept] split: sum.split prod.split)

lemma groupRebindMember_writes: "group_writes d (snd (groupRebindMember a params d))"
  by (auto simp: groupRebindMember_def Let_def split: sum.split intro!: gws_bump gws_step [OF _ gw_rebind])

text \<open>What an accepted group message shows, and what it leaves in the log.\<close>

lemma accept_group_message_accepted:
  assumes "fst (accept_group_message gid row result d) = Inr v"
  shows "v = result (event_seq d gid + 1) (g_state_version (the (tsel (groups d) gid)))"
    "event_seq (snd (accept_group_message gid row result d)) gid = event_seq d gid + 1"
    "messages (snd (accept_group_message gid row result d)) = messages d @ [row\<lparr>m_id := msg_autoinc d + 1\<rparr>]"
proof -
  obtain g where g: "tsel (groups d) gid = Some g"
    using assms by (cases "tsel (groups d) gid") (auto simp: accept_group_message_def nextGroupEventSeq_def bump_seq_def Let_def)
  then show "v = result (event_seq d gid + 1) (g_state_version (the (tsel (groups d) gid)))"
    "event_seq (snd (accept_group_message gid row result d)) gid = event_seq d gid + 1"
    "messages (snd (accept_group_message gid row result d)) = messages d @ [row\<lparr>m_id := msg_autoinc d + 1\<rparr>]"
    using assms
    by (auto simp: accept_group_message_def nextGroupEventSeq_def groupStateVersion_def bump_seq_def insert_message_def
        event_seq_def Let_def split: if_splits)
qed

lemma groupSend_checks_Inr:
  assumes "groupSend_checks e gid s meta body auth d = Inr (kind, t)"
  shows "isGroupMember d gid s" "snd (snd (classifyPayload body))" "kind \<noteq> ''notice''"
    "ghas body ''payload'' \<Longrightarrow> validateMentions (asMap (gindex body ''payload'')) = None"
    "auth \<noteq> None \<Longrightarrow> origin_proved e s ''group.send'' meta body auth d"
  using assms
  by (auto simp: groupSend_checks_def classifyPayload_def Let_def
      split: if_splits option.splits sum.splits dest: verifyOriginProof_Inr)

end
