(* ===== verification/GroupRules.thy ===== *)
theory GroupRules
  imports GroupFacts
begin

text \<open>
  The rules of the group component: roles as ranks and the permission check as their order,
  which methods need a permission, what joining and removing do, and the merge patch of profiles
  and policies. Also the frames of the group methods for the rest of the database.
\<close>

section \<open>Ranks\<close>

datatype rank = RNone | RMember | RAdmin | ROwner

fun rank_level :: "rank \<Rightarrow> nat" where
  "rank_level RNone = 0"
| "rank_level RMember = 1"
| "rank_level RAdmin = 2"
| "rank_level ROwner = 3"

lemma rank_level_inj: "rank_level a = rank_level b \<Longrightarrow> a = b"
  by (cases a; cases b) simp_all

instantiation rank :: linorder
begin

definition less_eq_rank :: "rank \<Rightarrow> rank \<Rightarrow> bool" where
  "less_eq_rank a b \<longleftrightarrow> rank_level a \<le> rank_level b"

definition less_rank :: "rank \<Rightarrow> rank \<Rightarrow> bool" where
  "less_rank a b \<longleftrightarrow> rank_level a < rank_level b"

instance
  by standard (auto simp: less_eq_rank_def less_rank_def intro: rank_level_inj)

end

text \<open>The rank a stored role gives, and the rank a required role asks for.\<close>

definition role_rank :: "string \<Rightarrow> rank" where
  "role_rank role =
     (if role = ''owner'' then ROwner else if role = ''admin'' then RAdmin
      else if role = [] then RNone else RMember)"

definition required_rank :: "string \<Rightarrow> rank" where
  "required_rank required =
     (if required = ''owner'' then ROwner else if required = ''admin'' then RAdmin else RMember)"

lemma groupPermitted_rank:
  "groupPermitted d gid did action \<longleftrightarrow>
     required_rank (required_role d gid action) \<le> role_rank (groupMemberRole d gid did)"
  by (simp add: groupPermitted_def Let_def required_rank_def role_rank_def less_eq_rank_def)

lemma groupPermitted_member: "groupPermitted d gid did action \<Longrightarrow> isGroupMember d gid did"
  by (auto simp: groupPermitted_def isGroupMember_def Let_def split: if_splits)

section \<open>Frames\<close>

lemma group_write_only_groups: "group_write d d' \<Longrightarrow> only_groups d d'"
  by (induction rule: group_write.induct) (simp_all add: accept_group_message_state)

lemma group_writes_only_groups: "group_writes d d' \<Longrightarrow> only_groups d d'"
  by (induction rule: rtranclp_induct) (auto intro: only_groups_trans group_write_only_groups)

lemma groupAdd_only_groups: "only_groups d (snd (groupAdd e a params d))"
  by (simp add: groupAdd_def Let_def split: option.split)

lemma group_write_messages_ok: "group_write d d' \<Longrightarrow> messages_ok d \<Longrightarrow> messages_ok d'"
proof (induction rule: group_write.induct)
  case (gw_accept row gid d result)
  have "messages_ok (bump_seq gid d)" using gw_accept.prems by (simp add: messages_ok_def)
  then show ?case by (simp add: accept_group_message_state insert_message_ok)
next
  case (gw_message row d)
  then show ?case by (simp add: insert_message_ok)
qed (simp_all add: messages_ok_def)

lemma group_write_log: "group_write d d' \<Longrightarrow> log_extends d d'"
proof (induction rule: group_write.induct)
  case (gw_accept row gid d result)
  have "log_extends d (bump_seq gid d)" by (rule log_extends_same) simp
  then show ?case
    using log_extends_trans log_extends_insert by (simp add: accept_group_message_state)
qed (simp_all add: log_extends_insert log_extends_same)

lemma groupAdd_messages: "messages (snd (groupAdd e a params d)) = messages d"
  "msg_autoinc (snd (groupAdd e a params d)) = msg_autoinc d"
  by (simp_all add: groupAdd_def Let_def split: option.split)

text \<open>What every sequence of elementary writes keeps, and how it changes the data.\<close>

definition group_data_ok :: "db \<Rightarrow> bool" where
  "group_data_ok d \<longleftrightarrow> groups_ok d \<and> seq_covers d \<and> messages_ok d"

definition group_data_grows :: "db \<Rightarrow> db \<Rightarrow> bool" where
  "group_data_grows d d' \<longleftrightarrow> groups_grow d d' \<and> log_extends d d'"

interpretation gws: transition_system group_write group_data_ok group_data_grows
proof unfold_locales
  fix d d' d'' :: db
  show "group_data_ok d'" if "group_write d d'" "group_data_ok d"
    using that group_write_groups_ok group_write_seq_covers group_write_messages_ok
    unfolding group_data_ok_def by blast
  show "group_data_grows d d'" if "group_write d d'"
    using that group_write_grow group_write_log unfolding group_data_grows_def by blast
  show "group_data_grows d d" by (simp add: group_data_grows_def)
  show "group_data_grows d d''" if "group_data_grows d d'" "group_data_grows d' d''"
    using that groups_grow_trans log_extends_trans unfolding group_data_grows_def by blast
qed

section \<open>Permissions\<close>

text \<open>Without the permission the four methods answer with an error and change nothing.\<close>

lemma groupAdd_denied:
  "\<not> groupPermitted d (groupDIDFromParams params) a ''add'' \<Longrightarrow>
     \<not> is_ok (fst (groupAdd e a params d)) \<and> snd (groupAdd e a params d) = d"
  by (simp add: groupAdd_def Let_def)

lemma groupRemove_denied:
  "\<not> groupPermitted d (groupDIDFromParams params) a ''remove'' \<Longrightarrow>
     \<not> is_ok (fst (groupRemove a params d)) \<and> snd (groupRemove a params d) = d"
  by (simp add: groupRemove_def Let_def)

lemma groupUpdateProfile_denied:
  "\<not> groupPermitted d (groupDIDFromParams params) a ''update_profile'' \<Longrightarrow>
     \<not> is_ok (fst (groupUpdateProfile a params d)) \<and> snd (groupUpdateProfile a params d) = d"
  by (simp add: groupUpdateProfile_def Let_def)

lemma groupUpdatePolicy_denied:
  "\<not> groupPermitted d (groupDIDFromParams params) a ''update_policy'' \<Longrightarrow>
     \<not> is_ok (fst (groupUpdatePolicy a params d)) \<and> snd (groupUpdatePolicy a params d) = d"
  by (simp add: groupUpdatePolicy_def Let_def)

lemma required_rank_positive: "RNone < required_rank required"
  by (simp add: required_rank_def less_rank_def)

lemma no_role_not_permitted: "groupMemberRole d gid a = [] \<Longrightarrow> \<not> groupPermitted d gid a action"
  using required_rank_positive [of "required_role d gid action"]
  by (simp add: groupPermitted_rank role_rank_def not_le)

section \<open>Joining and removing\<close>

text \<open>Roles after a change of one membership.\<close>

lemma groupMemberRole_same:
  "group_members d' = group_members d \<Longrightarrow> groupMemberRole d' gid did = groupMemberRole d gid did"
  by (simp add: groupMemberRole_def)

lemma groupMemberRole_ops [simp]:
  "groupMemberRole (bump_version g d) gid did = groupMemberRole d gid did"
  "groupMemberRole (bump_seq g d) gid did = groupMemberRole d gid did"
  "groupMemberRole (set_profile g p d) gid did = groupMemberRole d gid did"
  "groupMemberRole (set_policy g p d) gid did = groupMemberRole d gid did"
  by (simp_all add: groupMemberRole_def bump_version_def bump_seq_def set_profile_def set_policy_def)

lemma role_addGroupMember:
  "groupMemberRole (addGroupMember e i g m r d) gid did =
     (if gid = g \<and> did = m then (if r = [] then ''member'' else r) else groupMemberRole d gid did)"
  by (simp add: groupMemberRole_def addGroupMember_def Let_def split: option.split)

lemma role_removeGroupMember:
  "groupMemberRole (removeGroupMember g m d) gid did =
     (if gid = g \<and> did = m then [] else groupMemberRole d gid did)"
  by (simp add: groupMemberRole_def removeGroupMember_def)

lemma role_joinGroupMember:
  "groupMemberRole (joinGroupMember e i g m d) gid did =
     (if gid = g \<and> did = m
      then (case tsel (group_members d) (g, m) of None \<Rightarrow> ''member'' | Some r \<Rightarrow> mb_role r)
      else groupMemberRole d gid did)"
  by (simp add: groupMemberRole_def joinGroupMember_def split: option.split)

lemma groupJoin_member:
  assumes "is_ok (fst (groupJoin e a params d))" "groups_ok d"
  shows "isGroupMember (snd (groupJoin e a params d)) (groupDIDFromParams params) (caller_or_sender a params)"
  using assms groups_okD(4) [OF assms(2)]
  by (auto simp: groupJoin_def Let_def isGroupMember_def role_joinGroupMember
      split: if_splits sum.splits option.split)

lemma groupJoin_again:
  "isGroupMember d (groupDIDFromParams params) (caller_or_sender a params) \<Longrightarrow>
     snd (groupJoin e a params d) = d"
  by (simp add: groupJoin_def Let_def split: sum.split)

text \<open>Joining never gives a rank above member to somebody who was not in the group.\<close>

lemma groupJoin_role:
  assumes "groups_ok d" "\<not> isGroupMember d gid did"
  shows "groupMemberRole (snd (groupJoin e a params d)) gid did \<in> {[], ''member''}"
proof -
  have "tsel (group_members d) (gid, did) = None"
    using assms groups_okD(4) [OF assms(1), of gid did]
    by (cases "tsel (group_members d) (gid, did)") (auto simp: isGroupMember_def groupMemberRole_def)
  then show ?thesis
    using assms(2) by (auto simp: groupJoin_def Let_def role_joinGroupMember isGroupMember_def split: sum.split)
qed

lemma groupRemove_role:
  assumes "is_ok (fst (groupRemove a params d))"
  shows "groupMemberRole (snd (groupRemove a params d)) gid did =
    (if gid = groupDIDFromParams params \<and> did = gets (asMap (gindex params ''body'')) ''member_did''
     then [] else groupMemberRole d gid did)"
    "gets (asMap (gindex params ''body'')) ''member_did'' \<noteq> ownerDID d (groupDIDFromParams params)"
  using assms by (auto simp: groupRemove_def Let_def role_removeGroupMember split: if_splits)

section \<open>The merge patch\<close>

lemma map_of_merge_patch:
  "distinct (map fst patch) \<Longrightarrow>
     map_of (merge_patch m patch) k =
       (case map_of patch k of None \<Rightarrow> map_of m k | Some v \<Rightarrow> if v = GNil then None else Some v)"
proof (induction m patch rule: merge_patch.induct)
  case (2 m k' v patch)
  have "map_of patch k' = None" using "2.prems" by (simp add: map_of_eq_None_iff)
  with 2 show ?case by (auto split: option.split)
qed simp

text \<open>The order of the patch's entries, which Go does not fix, does not matter.\<close>

lemma merge_patch_order:
  assumes "distinct (map fst p)" "distinct (map fst p')" "set p = set p'"
  shows "map_of (merge_patch m p) = map_of (merge_patch m p')"
proof -
  have "map_of p = map_of p'"
    using assms by (metis map_of_inject_set)
  then show ?thesis
    using assms(1,2) by (intro ext) (simp add: map_of_merge_patch)
qed

lemma merge_patch_idem:
  "distinct (map fst p) \<Longrightarrow> map_of (merge_patch (merge_patch m p) p) = map_of (merge_patch m p)"
  by (intro ext) (simp add: map_of_merge_patch split: option.split)

section \<open>Stored documents\<close>

lemma stored_objects:
  assumes "group_row_ok g"
  shows "\<exists>m. stored_policy g = Some m" "\<exists>m. stored_profile g = Some m"
  using assms
  by (auto simp: group_row_ok_def stored_policy_def stored_profile_def unmarshal_over_empty_def split: option.split)

end
