(* ===== verification/GroupE2ee.thy ===== *)
theory GroupE2ee
  imports GroupRules
begin

text \<open>
  Group end-to-end encryption (group_e2ee.go): key packages, the crypto state of a group, cipher
  messages and delivery notices. MLS objects are opaque, so what the component promises is who may
  write what: an agent its own key package, the group's owner its crypto state, a member a message.
\<close>

section \<open>Helpers\<close>

definition groupE2EEGroupDID :: "nmap \<Rightarrow> string" where
  "groupE2EEGroupDID body =
     (let gid = gets body ''group_did'' in
      if gid \<noteq> [] then gid
      else case asMap (gindex body ''group_state_ref'') of
             None \<Rightarrow> []
           | Some r \<Rightarrow> let gid' = gets (Some r) ''group_did'' in if gid' \<noteq> [] then gid' else [])"

definition groupE2EERequireOwner :: "db \<Rightarrow> string \<Rightarrow> string \<Rightarrow> unit res" where
  "groupE2EERequireOwner d gid authDID =
     (if authDID = [] then Inl (PlainError ''caller identity is required'')
      else if groupMemberRole d gid authDID \<noteq> ''owner''
      then Inl (RpcError codeE2EEControllerRequired ''group.e2ee.controller_required'')
      else Inr ())"

definition storeE2EEState :: "env \<Rightarrow> nat \<Rightarrow> string \<Rightarrow> string \<Rightarrow> string \<Rightarrow> gval \<Rightarrow> db \<Rightarrow> db" where
  "storeE2EEState e i gid cryptoGroupID epoch state d =
     (let row = \<lparr>es_epoch = epoch, es_state_json = marshal state, es_updated_at = rfc3339 (clock e i)\<rparr>
      in d\<lparr>group_e2ee_states := tput (gid, cryptoGroupID) row (\<lambda>_. row) (group_e2ee_states d)\<rparr>)"

text \<open>The opening of create, add and remove: a body, a group, and its owner as the caller.\<close>

definition e2ee_owner_gid :: "db \<Rightarrow> string \<Rightarrow> nmap \<Rightarrow> string res" where
  "e2ee_owner_gid d authDID body =
     (if body = None then Inl (invalid_params ''body is required'')
      else let gid = groupE2EEGroupDID body in
           if gid = [] then Inl (invalid_params ''group_did is required'')
           else case groupE2EERequireOwner d gid authDID of
                  Inl err \<Rightarrow> Inl err
                | Inr _ \<Rightarrow> Inr gid)"

section \<open>Key packages\<close>

text \<open>The checks of publish_key_package; the result is the package and its owner.\<close>

definition key_package_checks :: "string \<Rightarrow> nmap \<Rightarrow> (gomap \<times> string) res" where
  "key_package_checks authDID body =
     (if body = None then Inl (invalid_params ''body is required'')
      else case asMap (gindex body ''group_key_package'') of
             None \<Rightarrow> Inl (invalid_params ''group_key_package is required'')
           | Some pkg \<Rightarrow>
               let owner = (if authDID \<noteq> [] then authDID else gets (Some pkg) ''owner_did'') in
               if owner = [] then Inl (invalid_params ''group_key_package.owner_did is required'')
               else case requiredAll (Some pkg) [''key_package_id'', ''mls_key_package_b64u''] of
                      Inl err \<Rightarrow> Inl err
                    | Inr _ \<Rightarrow> Inr (pkg, owner))"

definition groupE2EEPublishKeyPackage :: "env \<Rightarrow> string \<Rightarrow> nmap \<Rightarrow> db \<Rightarrow> gval outcome" where
  "groupE2EEPublishKeyPackage e authDID params d =
     (case key_package_checks authDID (asMap (gindex params ''body'')) of
        Inl err \<Rightarrow> (Inl err, d)
      | Inr (pkg, owner) \<Rightarrow>
          let keyPackageID = gets (Some pkg) ''key_package_id'';
              row = \<lparr>kp_json = marshal (GMap (AList.update ''owner_did'' (GStr owner) pkg)),
                     kp_id = keyPackageID, kp_published_at = rfc3339 (clock e 0)\<rparr>
          in (Inr (GMap [(''published'', GBool True), (''owner_did'', GStr owner),
                         (''key_package_id'', GStr keyPackageID),
                         (''published_at'', GStr (rfc3339 (clock e 0)))]),
              d\<lparr>group_key_packages := tput owner row (\<lambda>_. row) (group_key_packages d)\<rparr>))"

definition groupE2EEGetKeyPackage :: "nmap \<Rightarrow> db \<Rightarrow> gval res" where
  "groupE2EEGetKeyPackage params d =
     (case requiredBodyString (asMap (gindex params ''body'')) ''target_did'' of
        Inl err \<Rightarrow> Inl err
      | Inr targetDID \<Rightarrow>
          (case tsel (group_key_packages d) targetDID of
             None \<Rightarrow> Inl (RpcError codeE2EEKeyPackageNotFound ''group.e2ee.key_package_not_found'')
           | Some row \<Rightarrow>
               Inr (GMap [(''target_did'', GStr targetDID),
                          (''group_key_package'', ofMap (unmarshal_map_lax (kp_json row)))])))"

section \<open>The crypto state\<close>

definition e2ee_create_checks :: "string \<Rightarrow> nmap \<Rightarrow> (gomap \<times> gomap) res" where
  "e2ee_create_checks authDID body =
     (case asMap (gindex body ''group_state_ref'') of
        None \<Rightarrow> Inl (invalid_params ''group_state_ref is required'')
      | Some ref \<Rightarrow>
          (case requiredAll body [''suite''] of
             Inl err \<Rightarrow> Inl err
           | Inr _ \<Rightarrow>
               (case asMap (gindex body ''creator_key_package'') of
                  None \<Rightarrow> Inl (invalid_params ''creator_key_package is required'')
                | Some creatorKP \<Rightarrow>
                    (case requiredAll body [''crypto_group_id_b64u'', ''epoch''] of
                       Inl err \<Rightarrow> Inl err
                     | Inr _ \<Rightarrow>
                         let creatorOwner = gets (Some creatorKP) ''owner_did'' in
                         if creatorOwner \<noteq> [] \<and> authDID \<noteq> [] \<and> creatorOwner \<noteq> authDID
                         then Inl (RpcError codeE2EEInvalidKeyPackage
                                     ''creator_key_package.owner_did does not match sender'')
                         else Inr (ref, creatorKP)))))"

definition groupE2EECreate :: "env \<Rightarrow> string \<Rightarrow> nmap \<Rightarrow> db \<Rightarrow> gval outcome" where
  "groupE2EECreate e authDID params d =
     (let body = asMap (gindex params ''body'') in
      case e2ee_owner_gid d authDID body of
        Inl err \<Rightarrow> (Inl err, d)
      | Inr gid \<Rightarrow>
          (case e2ee_create_checks authDID body of
             Inl err \<Rightarrow> (Inl err, d)
           | Inr (ref, creatorKP) \<Rightarrow>
               let cgid = gets body ''crypto_group_id_b64u''; epoch = gets body ''epoch'';
                   state = GMap [(''group_did'', GStr gid), (''crypto_group_id_b64u'', GStr cgid),
                                 (''epoch'', GStr epoch), (''group_state_ref'', GMap ref),
                                 (''creator_key_package'', GMap creatorKP),
                                 (''suite'', gindex body ''suite'')]
               in (Inr (GMap [(''created'', GBool True), (''group_did'', GStr gid),
                              (''group_state_ref'', GMap ref), (''crypto_group_id_b64u'', GStr cgid),
                              (''epoch'', GStr epoch), (''accepted_at'', GStr (rfc3339 (clock e 1)))]),
                   storeE2EEState e 0 gid cgid epoch state d)))"

text \<open>
  Add and remove check a member, a state reference, the ids and the MLS objects \<open>objs\<close>, in
  this order.
\<close>

definition e2ee_commit_checks :: "nmap \<Rightarrow> string list \<Rightarrow> gomap res" where
  "e2ee_commit_checks body objs =
     (case requiredAll body [''member_did''] of
        Inl err \<Rightarrow> Inl err
      | Inr _ \<Rightarrow>
          (case asMap (gindex body ''group_state_ref'') of
             None \<Rightarrow> Inl (invalid_params ''group_state_ref is required'')
           | Some ref \<Rightarrow>
               (case requiredAll body ([''crypto_group_id_b64u'', ''epoch''] @ objs) of
                  Inl err \<Rightarrow> Inl err
                | Inr _ \<Rightarrow> Inr ref)))"

definition e2ee_accepted :: "string \<Rightarrow> nmap \<Rightarrow> gomap \<Rightarrow> string \<Rightarrow> gval" where
  "e2ee_accepted gid body ref acc_at =
     GMap [(''accepted'', GBool True), (''group_did'', GStr gid),
           (''member_did'', GStr (gets body ''member_did'')), (''group_state_ref'', GMap ref),
           (''crypto_group_id_b64u'', GStr (gets body ''crypto_group_id_b64u'')),
           (''epoch'', GStr (gets body ''epoch'')), (''accepted_at'', GStr acc_at)]"

definition groupE2EEAdd :: "env \<Rightarrow> string \<Rightarrow> nmap \<Rightarrow> db \<Rightarrow> gval outcome" where
  "groupE2EEAdd e authDID params d =
     (let body = asMap (gindex params ''body'') in
      case e2ee_owner_gid d authDID body of
        Inl err \<Rightarrow> (Inl err, d)
      | Inr gid \<Rightarrow>
          (case e2ee_commit_checks body [''commit_b64u'', ''welcome_b64u'', ''ratchet_tree_b64u''] of
             Inl err \<Rightarrow> (Inl err, d)
           | Inr ref \<Rightarrow>
               (case requiredAll (asMap (gindex body ''group_key_package'')) [''mls_key_package_b64u''] of
                  Inl err \<Rightarrow> (Inl err, d)
                | Inr _ \<Rightarrow>
                    let cgid = gets body ''crypto_group_id_b64u''; epoch = gets body ''epoch'';
                        state = GMap [(''group_did'', GStr gid), (''crypto_group_id_b64u'', GStr cgid),
                                      (''epoch'', GStr epoch), (''group_state_ref'', GMap ref),
                                      (''member_did'', GStr (gets body ''member_did'')),
                                      (''commit_b64u'', gindex body ''commit_b64u''),
                                      (''welcome_b64u'', gindex body ''welcome_b64u''),
                                      (''ratchet_tree_b64u'', gindex body ''ratchet_tree_b64u''),
                                      (''group_key_package'', gindex body ''group_key_package'')]
                    in (Inr (e2ee_accepted gid body ref (rfc3339 (clock e 1))),
                        storeE2EEState e 0 gid cgid epoch state d))))"

definition groupE2EERemove :: "env \<Rightarrow> string \<Rightarrow> nmap \<Rightarrow> db \<Rightarrow> gval outcome" where
  "groupE2EERemove e authDID params d =
     (let body = asMap (gindex params ''body'') in
      case e2ee_owner_gid d authDID body of
        Inl err \<Rightarrow> (Inl err, d)
      | Inr gid \<Rightarrow>
          (case e2ee_commit_checks body [''commit_b64u''] of
             Inl err \<Rightarrow> (Inl err, d)
           | Inr ref \<Rightarrow>
               let cgid = gets body ''crypto_group_id_b64u''; epoch = gets body ''epoch'';
                   state = GMap [(''group_did'', GStr gid), (''crypto_group_id_b64u'', GStr cgid),
                                 (''epoch'', GStr epoch), (''group_state_ref'', GMap ref),
                                 (''member_did'', GStr (gets body ''member_did'')),
                                 (''commit_b64u'', gindex body ''commit_b64u'')]
               in (Inr (e2ee_accepted gid body ref (rfc3339 (clock e 1))),
                   storeE2EEState e 0 gid cgid epoch state d)))"

section \<open>Messages and notices\<close>

definition e2ee_send_gid :: "nmap \<Rightarrow> nmap \<Rightarrow> string" where
  "e2ee_send_gid meta body =
     (let gid = gets (asMap (gindex meta ''target'')) ''did'' in
      if gid = [] then groupE2EEGroupDID body else gid)"

definition e2ee_send_checks ::
  "env \<Rightarrow> string \<Rightarrow> string \<Rightarrow> nmap \<Rightarrow> nmap \<Rightarrow> nmap \<Rightarrow> db \<Rightarrow> unit res" where
  "e2ee_send_checks e gid senderDID meta body auth d =
     (if body = None then Inl (invalid_params ''body is required'')
      else if gid = [] then Inl (invalid_params ''target.did (group_did) is required'')
      else if gets meta ''message_id'' = [] then Inl (invalid_params ''message_id is required'')
      else if gets meta ''operation_id'' = [] then Inl (invalid_params ''operation_id is required'')
      else if gets meta ''content_type'' \<noteq> ''application/anp-group-cipher+json''
      then Inl (invalid_params ''content_type must be application/anp-group-cipher+json'')
      else if \<not> isGroupMember d gid senderDID
      then Inl (PlainError (''sender '' @ go_quote senderDID @ '' is not an active member of group '' @ go_quote gid))
      else case requiredAll body [''crypto_group_id_b64u'', ''epoch'', ''private_message_b64u''] of
             Inl err \<Rightarrow> Inl err
           | Inr _ \<Rightarrow>
               if asMap (gindex body ''group_state_ref'') = None
               then Inl (invalid_params ''group_state_ref is required'')
               else if auth = None then Inr ()
               else case verifyOriginProof e senderDID ''group.e2ee.send'' meta body auth d of
                      Inl err \<Rightarrow> Inl err
                    | Inr _ \<Rightarrow> Inr ())"

definition e2ee_receipt :: "env \<Rightarrow> string \<Rightarrow> nmap \<Rightarrow> nmap \<Rightarrow> int \<Rightarrow> int \<Rightarrow> gval" where
  "e2ee_receipt e gid meta body seq version =
     (let messageID = GStr (gets meta ''message_id''); acc_at = GStr (rfc3339 (clock e 0)) in
      GMap [(''accepted'', GBool True), (''group_did'', GStr gid), (''message_id'', messageID),
            (''operation_id'', GStr (gets meta ''operation_id'')), (''group_event_seq'', GInt seq),
            (''group_state_version'', GInt version), (''accepted_at'', acc_at),
            (''epoch'', GStr (gets body ''epoch'')),
            (''group_receipt'', GMap [(''group_did'', GStr gid), (''group_event_seq'', GInt seq),
                                      (''message_id'', messageID), (''accepted_at'', acc_at)])])"

definition groupE2EESend :: "env \<Rightarrow> string \<Rightarrow> nmap \<Rightarrow> db \<Rightarrow> gval outcome" where
  "groupE2EESend e authDID params d =
     (let meta = asMap (gindex params ''meta''); body = asMap (gindex params ''body'');
          gid = e2ee_send_gid meta body; senderDID = caller_or_sender authDID params
      in case e2ee_send_checks e gid senderDID meta body (asMap (gindex params ''auth'')) d of
           Inl err \<Rightarrow> (Inl err, d)
         | Inr _ \<Rightarrow>
             accept_group_message gid (group_row_of e senderDID gid meta body ''cipher'' [] 1)
               (e2ee_receipt e gid meta body) d)"

definition e2ee_notice_checks :: "nmap \<Rightarrow> unit res" where
  "e2ee_notice_checks body =
     (if body = None then Inl (invalid_params ''body is required'')
      else case requiredBodyString body ''notice_type'' of
             Inl err \<Rightarrow> Inl err
           | Inr noticeType \<Rightarrow>
               if noticeType \<noteq> ''commit-delivery'' \<and> noticeType \<noteq> ''welcome-delivery''
               then Inl (RpcError codeE2EENoticeUnsupported ''group.e2ee.notice_type_unsupported'')
               else if noticeType = ''commit-delivery'' then requiredAll body [''commit_b64u'']
               else requiredAll body [''welcome_b64u'', ''ratchet_tree_b64u''])"

definition notice_row :: "env \<Rightarrow> nmap \<Rightarrow> nmap \<Rightarrow> msg_row" where
  "notice_row e meta body =
     \<lparr>m_id = 0, m_message_id = ''notice-'' @ format_int (int (clock e 1)),
      m_sender_did = gets meta ''sender_did'',
      m_recipient_did = Some (gets (asMap (gindex meta ''target'')) ''did''),
      m_group_did = Some (gets body ''group_did''), m_type = ''notice'', m_text = Some [],
      m_secure = 0, m_sent_at = rfc3339 (clock e 0),
      m_wire_meta = Some (marshal (ofMap meta)), m_wire_body = Some (marshal (ofMap body))\<rparr>"

text \<open>The error of the INSERT is dropped.\<close>

definition groupE2EENotice :: "env \<Rightarrow> nmap \<Rightarrow> db \<Rightarrow> gval outcome" where
  "groupE2EENotice e params d =
     (let body = asMap (gindex params ''body''); meta = asMap (gindex params ''meta'') in
      case e2ee_notice_checks body of
        Inl err \<Rightarrow> (Inl err, d)
      | Inr _ \<Rightarrow>
          (Inr (GMap [(''accepted'', GBool True)]),
           if gets (asMap (gindex meta ''target'')) ''did'' \<noteq> []
           then snd (insert_message (notice_row e meta body) d) else d))"

section \<open>Facts\<close>

lemma e2ee_owner_gid_Inr:
  assumes "e2ee_owner_gid d a body = Inr gid"
  shows "a \<noteq> []" "groupMemberRole d gid a = ''owner''" "gid = groupE2EEGroupDID body" "gid \<noteq> []"
  using assms by (auto simp: e2ee_owner_gid_def groupE2EERequireOwner_def Let_def split: if_splits sum.splits)

lemma groupE2EESend_writes: "group_writes d (snd (groupE2EESend e a params d))"
  by (simp add: groupE2EESend_def Let_def group_row_of_def gws_step [OF _ gw_accept] split: sum.split)

lemma groupE2EENotice_writes: "group_writes d (snd (groupE2EENotice e params d))"
  by (simp add: groupE2EENotice_def Let_def notice_row_def gws_step [OF _ gw_message] split: sum.split)

text \<open>The other methods change one table each.\<close>

lemma publishKeyPackage_frame:
  "\<exists>t. snd (groupE2EEPublishKeyPackage e a params d) = d\<lparr>group_key_packages := t\<rparr>"
proof -
  have "\<exists>t. d = d\<lparr>group_key_packages := t\<rparr>" by (rule exI [of _ "group_key_packages d"]) simp
  then show ?thesis
    by (auto simp: groupE2EEPublishKeyPackage_def Let_def split: sum.split prod.split)
qed

definition e2ee_state_write :: "string \<Rightarrow> db \<Rightarrow> db \<Rightarrow> bool" where
  "e2ee_state_write a d d' \<longleftrightarrow>
     d' = d \<or> (\<exists>gid cgid row. groupMemberRole d gid a = ''owner'' \<and> a \<noteq> []
        \<and> d' = d\<lparr>group_e2ee_states := tput (gid, cgid) row (\<lambda>_. row) (group_e2ee_states d)\<rparr>)"

lemma e2ee_state_write_store:
  "groupMemberRole d gid a = ''owner'' \<Longrightarrow> a \<noteq> [] \<Longrightarrow> e2ee_state_write a d (storeE2EEState e i gid cg ep st d)"
  unfolding e2ee_state_write_def storeE2EEState_def Let_def by blast

lemma e2ee_state_write_refl [simp]: "e2ee_state_write a d d"
  by (simp add: e2ee_state_write_def)

lemma e2ee_state_methods:
  "e2ee_state_write a d (snd (groupE2EECreate e a params d))"
  "e2ee_state_write a d (snd (groupE2EEAdd e a params d))"
  "e2ee_state_write a d (snd (groupE2EERemove e a params d))"
  by (auto simp: groupE2EECreate_def groupE2EEAdd_def groupE2EERemove_def Let_def
      split: sum.split prod.split intro!: e2ee_state_write_store dest: e2ee_owner_gid_Inr)

lemma e2ee_state_write_frame:
  assumes "e2ee_state_write a d d'"
  shows "\<exists>t. d' = d\<lparr>group_e2ee_states := t\<rparr>"
proof -
  have "\<exists>t. d = d\<lparr>group_e2ee_states := t\<rparr>" by (rule exI [of _ "group_e2ee_states d"]) simp
  with assms show ?thesis by (auto simp: e2ee_state_write_def)
qed

text \<open>A crypto state changes only under a caller that owns its group.\<close>

lemma e2ee_state_write_owner:
  assumes "e2ee_state_write a d d'" "tsel (group_e2ee_states d') (gid, cgid) \<noteq> tsel (group_e2ee_states d) (gid, cgid)"
  shows "groupMemberRole d gid a = ''owner''"
  using assms by (auto simp: e2ee_state_write_def split: if_splits)

text \<open>Only the caller's key package changes, and reading it back gives what was published.\<close>

lemma key_package_checks_Inr:
  assumes "key_package_checks a body = Inr (pkg, owner)"
  shows "asMap (gindex body ''group_key_package'') = Some pkg"
    "owner = (if a \<noteq> [] then a else gets (Some pkg) ''owner_did'')" "owner \<noteq> []"
  using assms by (auto simp: key_package_checks_def Let_def split: if_splits option.splits sum.splits)

lemma publishKeyPackage_own:
  assumes "a \<noteq> []" "did \<noteq> a"
  shows "tsel (group_key_packages (snd (groupE2EEPublishKeyPackage e a params d))) did
    = tsel (group_key_packages d) did"
  using assms
  by (auto simp: groupE2EEPublishKeyPackage_def Let_def split: sum.split prod.split dest: key_package_checks_Inr(2))

lemma publish_get_key_package:
  assumes ok: "is_ok (fst (groupE2EEPublishKeyPackage e a params d))" and a: "a \<noteq> []"
    and pkg: "asMap (gindex (asMap (gindex params ''body'')) ''group_key_package'') = Some pkg"
    and get: "gets (asMap (gindex params' ''body'')) ''target_did'' = a"
  shows "groupE2EEGetKeyPackage params' (snd (groupE2EEPublishKeyPackage e a params d))
    = Inr (GMap [(''target_did'', GStr a),
                 (''group_key_package'', canon (GMap (AList.update ''owner_did'' (GStr a) pkg)))])"
proof (cases "key_package_checks a (asMap (gindex params ''body''))")
  case (Inl err)
  with ok show ?thesis by (simp add: groupE2EEPublishKeyPackage_def)
next
  case (Inr po)
  obtain p owner where po: "po = (p, owner)" by (cases po)
  have "p = pkg" "owner = a"
    using key_package_checks_Inr [OF Inr [unfolded po]] pkg a by auto
  with Inr po show ?thesis
    using get a
    by (simp add: groupE2EEPublishKeyPackage_def groupE2EEGetKeyPackage_def Let_def requiredBodyString_def
        unmarshal_map_lax_def sqlt.look_put del: tsel_tput)
qed

end
