(* ===== verification/Attachment.thy ===== *)
theory Attachment
  imports GroupE2ee Auth
begin

text \<open>
  Attachments (attachment.go): upload slots with their commit protocol, the object store, download
  tickets, and the two data-plane endpoints PUT /upload/{slot_id} and GET /objects/{object_id}.
\<close>

section \<open>HTTP responses and bodies\<close>

datatype resp_body = JsonBody gval | RawBody "byte list"

record http_resp =
  hs_status :: nat
  hs_headers :: headers
  hs_body :: resp_body

definition json_resp :: "nat \<Rightarrow> gval \<Rightarrow> http_resp" where
  "json_resp status v =
     \<lparr>hs_status = status, hs_headers = [(''Content-Type'', ''application/json'')], hs_body = JsonBody v\<rparr>"

definition writeDataError :: "nat \<Rightarrow> string \<Rightarrow> http_resp" where
  "writeDataError status anpCode = json_resp status (GMap [(''error'', GStr anpCode)])"

text \<open>
  \<open>io.ReadAll(io.LimitReader(r.Body, n))\<close>: at most \<open>n\<close> bytes; \<open>None\<close> is a read error, which a
  reader that has already delivered \<open>n\<close> bytes does not see.
\<close>

definition read_limited :: "nat \<Rightarrow> http_req \<Rightarrow> byte list option" where
  "read_limited n r =
     (if n \<le> length (hq_body r) then Some (take n (hq_body r))
      else if hq_body_error r then None else Some (hq_body r))"

section \<open>Sizes, URLs and column values\<close>

definition maxUploadBytes :: nat where "maxUploadBytes = 32 * 2 ^ 20"
definition slotTTL :: nat where "slotTTL = 3600 * nanos_per_sec"
definition ticketTTL :: nat where "ticketTTL = 300 * nanos_per_sec"

text \<open>
  \<open>int64(t)\<close> of a float64 rounds towards zero; out of range the result is that of amd64, the
  least int64.
\<close>

definition int64_of_float :: "rat \<Rightarrow> int" where
  "int64_of_float q =
     (let t = (if q < 0 then - \<lfloor>- q\<rfloor> else \<lfloor>q\<rfloor>) in
      if - (2 ^ 63) \<le> t \<and> t < 2 ^ 63 then t else - (2 ^ 63))"

text \<open>\<open>None\<close> is \<open>ok = false\<close>.\<close>

fun sizeToInt64 :: "gval \<Rightarrow> int option" where
  "sizeToInt64 (GStr s) = parse_int64 s"
| "sizeToInt64 (GNum q) = (if 0 \<le> q then Some (int64_of_float q) else None)"
| "sizeToInt64 (GInt i) = Some i"
| "sizeToInt64 _ = None"

definition joinURL :: "string \<Rightarrow> string \<Rightarrow> string" where
  "joinURL base path = (if base = [] then path else base @ path)"

text \<open>
  An \<open>any\<close> bound to a column of TEXT affinity: nil is NULL, numbers and booleans are stored as
  their text, maps and arrays are refused by the driver.
\<close>

fun bind_text :: "env \<Rightarrow> gval \<Rightarrow> string option res" where
  "bind_text e GNil = Inr None"
| "bind_text e (GBool b) = Inr (Some (if b then ''1'' else ''0''))"
| "bind_text e (GNum q) = Inr (Some (real_text e q))"
| "bind_text e (GInt i) = Inr (Some (format_int i))"
| "bind_text e (GStr s) = Inr (Some s)"
| "bind_text e (GArr xs) = Inl (SqlError ''unsupported type'')"
| "bind_text e (GMap m) = Inl (SqlError ''unsupported type'')"

section \<open>The control plane\<close>

definition slot_not_found :: go_error where
  "slot_not_found = RpcError codeAttachmentSlotNotFound ''anp.attachment.slot_not_found''"

definition object_unavailable :: go_error where
  "object_unavailable = RpcError codeAttachmentObjectUnavailable ''anp.attachment.object_unavailable''"

definition digest_mismatch :: go_error where
  "digest_mismatch = RpcError codeAttachmentDigestMismatch ''anp.attachment.digest_mismatch''"

definition policy_violation :: go_error where
  "policy_violation =
     RpcError codeAttachmentEncryptionPolicyViolation ''anp.attachment.encryption_policy_violation''"

definition unauthorized_requester :: go_error where
  "unauthorized_requester = RpcError codeAttachmentUnauthorized ''anp.attachment.unauthorized_requester''"

definition loadAttachmentSlot :: "db \<Rightarrow> string \<Rightarrow> slot_row res" where
  "loadAttachmentSlot d slotID =
     (case tsel (attachment_slots d) slotID of None \<Rightarrow> Inl slot_not_found | Some r \<Rightarrow> Inr r)"

definition loadAttachmentObject :: "db \<Rightarrow> string \<Rightarrow> object_row res" where
  "loadAttachmentObject d objectID =
     (case tsel (attachment_objects d) objectID of
        None \<Rightarrow> Inl (SqlError ''sql: no rows in result set'') | Some r \<Rightarrow> Inr r)"

definition create_slot_checks :: "nmap \<Rightarrow> unit res" where
  "create_slot_checks body =
     (if body = None then Inl (invalid_params ''body is required'')
      else case requiredAll body [''attachment_id'', ''intended_message_security_profile''] of
             Inl err \<Rightarrow> Inl err
           | Inr _ \<Rightarrow>
               if gets body ''intended_message_security_profile'' \<notin>
                    {''transport-protected'', ''direct-e2ee'', ''group-e2ee''}
               then Inl policy_violation
               else case requiredBodyString body ''object_encryption_mode'' of
                      Inl err \<Rightarrow> Inl err
                    | Inr mode \<Rightarrow>
                        if mode \<noteq> ''none'' \<and> mode \<noteq> ''object-e2ee'' then Inl policy_violation else Inr ())"

text \<open>
  The row of a new slot. The identifiers are the first 16, the next 16 and the next 24 random
  bytes; the three columns that take client values may be refused by the driver.
\<close>

definition new_slot_id :: "env \<Rightarrow> string" where "new_slot_id e = newRandomHex (rnd e) 0 16"
definition new_object_id :: "env \<Rightarrow> string" where "new_object_id e = newRandomHex (rnd e) 16 16"
definition new_commit_token :: "env \<Rightarrow> string" where "new_commit_token e = newRandomHex (rnd e) 32 24"

definition new_slot :: "env \<Rightarrow> string \<Rightarrow> string \<Rightarrow> nmap \<Rightarrow> slot_row res" where
  "new_slot e authDID base body =
     (case bind_text e (gindex body ''expected_size'') of
        Inl err \<Rightarrow> Inl err
      | Inr expectedSize \<Rightarrow>
          (case bind_text e (gindex body ''mime_type'') of
             Inl err \<Rightarrow> Inl err
           | Inr mime \<Rightarrow>
               (case bind_text e (gindex body ''filename'') of
                  Inl err \<Rightarrow> Inl err
                | Inr fname \<Rightarrow>
                    Inr \<lparr>sl_attachment_id = gets body ''attachment_id'', sl_object_id = new_object_id e,
                         sl_upload_uri = joinURL base (''/upload/'' @ new_slot_id e),
                         sl_object_uri = joinURL base (''/objects/'' @ new_object_id e),
                         sl_commit_token = new_commit_token e, sl_status = ''created'',
                         sl_encryption_mode = gets body ''object_encryption_mode'',
                         sl_expected_size = expectedSize, sl_mime_type = mime, sl_filename = fname,
                         sl_expected_digest =
                           (case asMap (gindex body ''expected_digest'') of
                              None \<Rightarrow> JEmpty | Some dg \<Rightarrow> marshal (GMap dg)),
                         sl_actual_size = None, sl_actual_digest = None,
                         sl_expires_at = rfc3339 (clock e 0 + slotTTL),
                         sl_created_at = rfc3339 (clock e 0), sl_owner_did = authDID\<rparr>)))"

definition attachmentCreateSlot ::
  "env \<Rightarrow> string \<Rightarrow> string \<Rightarrow> string \<Rightarrow> nmap \<Rightarrow> db \<Rightarrow> gval outcome" where
  "attachmentCreateSlot e serverBase authDID baseURL params d =
     (let body = asMap (gindex params ''body'');
          base = (if baseURL = [] then serverBase else baseURL)
      in case create_slot_checks body of
           Inl err \<Rightarrow> (Inl err, d)
         | Inr _ \<Rightarrow>
             (case new_slot e authDID base body of
                Inl err \<Rightarrow> (Inl err, d)
              | Inr row \<Rightarrow>
                  (case tins (new_slot_id e) row (attachment_slots d) of
                     None \<Rightarrow> (Inl (SqlError ''UNIQUE constraint failed: attachment_slots.slot_id''), d)
                   | Some slots \<Rightarrow>
                       (Inr (GMap
                          ([(''attachment_id'', GStr (gets body ''attachment_id'')),
                            (''slot_id'', GStr (new_slot_id e)), (''upload_uri'', GStr (sl_upload_uri row)),
                            (''object_uri'', GStr (sl_object_uri row)),
                            (''commit_token'', GStr (new_commit_token e)),
                            (''expires_at'', GStr (sl_expires_at row))]
                           @ (case asMap (gindex body ''upload_headers'') of
                                None \<Rightarrow> [] | Some hs \<Rightarrow> [(''upload_headers'', GMap hs)]))),
                        d\<lparr>attachment_slots := slots\<rparr>))))"

text \<open>The slot a commit or an abort names, which must be of the attachment it names.\<close>

definition named_slot :: "db \<Rightarrow> nmap \<Rightarrow> slot_row res" where
  "named_slot d body =
     (case loadAttachmentSlot d (gets body ''slot_id'') of
        Inl err \<Rightarrow> Inl err
      | Inr slot \<Rightarrow>
          if sl_attachment_id slot \<noteq> gets body ''attachment_id'' then Inl slot_not_found else Inr slot)"

definition digest_ok :: "gval \<Rightarrow> byte list \<Rightarrow> bool" where
  "digest_ok v data =
     (case asMap v of
        None \<Rightarrow> True
      | Some dg \<Rightarrow>
          let alg = gets (Some dg) ''alg''; valueB64u = gets (Some dg) ''value_b64u'' in
          \<not> (alg \<noteq> [] \<and> alg \<noteq> ''sha-256'') \<and> \<not> (valueB64u \<noteq> [] \<and> valueB64u \<noteq> sha256B64u data))"

definition commit_checks :: "env \<Rightarrow> nmap \<Rightarrow> db \<Rightarrow> (slot_row \<times> object_row) res" where
  "commit_checks e body d =
     (if body = None then Inl (invalid_params ''body is required'')
      else case requiredAll body [''attachment_id'', ''slot_id'', ''commit_token''] of
             Inl err \<Rightarrow> Inl err
           | Inr _ \<Rightarrow>
               (case named_slot d body of
                  Inl err \<Rightarrow> Inl err
                | Inr slot \<Rightarrow>
                    if sl_commit_token slot \<noteq> gets body ''commit_token''
                    then Inl (RpcError codeAttachmentCommitTokenInvalid ''anp.attachment.commit_token_invalid'')
                    else if sl_status slot \<noteq> ''created'' then Inl object_unavailable
                    else if after_text (clock e 0) (sl_expires_at slot)
                    then Inl (RpcError codeAttachmentSlotExpired ''anp.attachment.slot_expired'')
                    else case loadAttachmentObject d (sl_object_id slot) of
                           Inl _ \<Rightarrow> Inl object_unavailable
                         | Inr obj \<Rightarrow>
                             if (case sizeToInt64 (gindex body ''size'') of
                                   None \<Rightarrow> False | Some declared \<Rightarrow> declared \<noteq> ob_size obj)
                             then Inl digest_mismatch
                             else if \<not> digest_ok (gindex body ''digest'') (ob_data obj)
                             then Inl digest_mismatch
                             else Inr (slot, obj)))"

definition commit_slot :: "string \<Rightarrow> object_row \<Rightarrow> db \<Rightarrow> db" where
  "commit_slot slotID obj d =
     d\<lparr>attachment_slots :=
         tupd slotID (\<lambda>r. r\<lparr>sl_status := ''committed'', sl_actual_size := Some (ob_size obj),
                          sl_actual_digest := Some (case ob_digest obj of None \<Rightarrow> [] | Some dg \<Rightarrow> dg)\<rparr>)
           (attachment_slots d)\<rparr>"

definition attachmentCommitObject :: "env \<Rightarrow> nmap \<Rightarrow> db \<Rightarrow> gval outcome" where
  "attachmentCommitObject e params d =
     (let body = asMap (gindex params ''body'') in
      case commit_checks e body d of
        Inl err \<Rightarrow> (Inl err, d)
      | Inr (slot, obj) \<Rightarrow>
          (Inr (GMap [(''committed'', GBool True), (''attachment_id'', GStr (gets body ''attachment_id'')),
                      (''object_uri'', GStr (sl_object_uri slot)),
                      (''committed_at'', GStr (rfc3339 (clock e 1)))]),
           commit_slot (gets body ''slot_id'') obj d))"

definition abort_slot :: "string \<Rightarrow> db \<Rightarrow> db" where
  "abort_slot slotID d =
     d\<lparr>attachment_slots := tupd slotID (\<lambda>r. r\<lparr>sl_status := ''aborted''\<rparr>) (attachment_slots d)\<rparr>"

definition attachmentAbortObject :: "env \<Rightarrow> nmap \<Rightarrow> db \<Rightarrow> gval outcome" where
  "attachmentAbortObject e params d =
     (let body = asMap (gindex params ''body'') in
      if body = None then (Inl (invalid_params ''body is required''), d)
      else case requiredAll body [''attachment_id'', ''slot_id''] of
             Inl err \<Rightarrow> (Inl err, d)
           | Inr _ \<Rightarrow>
               (case named_slot d body of
                  Inl err \<Rightarrow> (Inl err, d)
                | Inr slot \<Rightarrow>
                    (Inr (GMap [(''aborted'', GBool True),
                                (''attachment_id'', GStr (gets body ''attachment_id'')),
                                (''aborted_at'', GStr (rfc3339 (clock e 0)))]),
                     abort_slot (gets body ''slot_id'') d)))"

text \<open>\<open>ORDER BY created_at DESC LIMIT 1\<close>: the first of the newest rows in table order.\<close>

fun newest_slot :: "slot_row list \<Rightarrow> slot_row option" where
  "newest_slot [] = None"
| "newest_slot (r # rs) =
     (case newest_slot rs of
        None \<Rightarrow> Some r
      | Some r' \<Rightarrow> if sl_created_at r < sl_created_at r' then Some r' else Some r)"

definition slot_for :: "db \<Rightarrow> string \<Rightarrow> string \<Rightarrow> slot_row option" where
  "slot_for d attachmentID objectURI =
     newest_slot (filter (\<lambda>r. sl_attachment_id r = attachmentID \<and> sl_object_uri r = objectURI)
                    (map snd (attachment_slots d)))"

definition ticket_checks :: "string \<Rightarrow> nmap \<Rightarrow> nmap \<Rightarrow> db \<Rightarrow> unit res" where
  "ticket_checks authDID meta body d =
     (if body = None then Inl (invalid_params ''body is required'')
      else case requiredAll body [''attachment_id'', ''object_uri'', ''requester_did''] of
             Inl err \<Rightarrow> Inl err
           | Inr _ \<Rightarrow>
               let requesterDID = gets body ''requester_did''; senderDID = gets meta ''sender_did'' in
               if senderDID \<noteq> [] \<and> requesterDID \<noteq> senderDID then Inl unauthorized_requester
               else if authDID \<noteq> [] \<and> requesterDID \<noteq> authDID then Inl unauthorized_requester
               else case requiredAll body [''message_id'', ''message_security_profile''] of
                      Inl err \<Rightarrow> Inl err
                    | Inr _ \<Rightarrow>
                        (case slot_for d (gets body ''attachment_id'') (gets body ''object_uri'') of
                           None \<Rightarrow> Inl (RpcError codeAttachmentGrantNotFound ''anp.attachment.grant_not_found'')
                         | Some slot \<Rightarrow>
                             if sl_status slot \<noteq> ''committed'' then Inl object_unavailable else Inr ()))"

definition ticket_binding :: "nmap \<Rightarrow> gomap" where
  "ticket_binding body =
     map (\<lambda>k. (k, GStr (gets body k)))
       ([''attachment_id'', ''object_uri'', ''requester_did'', ''message_id'', ''message_security_profile'']
        @ filter (\<lambda>k. gets body k \<noteq> []) [''message_target_did'', ''group_did''])"

definition new_ticket :: "env \<Rightarrow> string" where "new_ticket e = newRandomHex (rnd e) 0 32"

definition attachmentGetDownloadTicket :: "env \<Rightarrow> string \<Rightarrow> nmap \<Rightarrow> db \<Rightarrow> gval outcome" where
  "attachmentGetDownloadTicket e authDID params d =
     (let body = asMap (gindex params ''body''); expiresAt = rfc3339 (clock e 0 + ticketTTL) in
      case ticket_checks authDID (asMap (gindex params ''meta'')) body d of
        Inl err \<Rightarrow> (Inl err, d)
      | Inr _ \<Rightarrow>
          (case tins (new_ticket e) \<lparr>tk_binding_json = marshal (GMap (ticket_binding body)), tk_expires_at = expiresAt\<rparr>
                  (attachment_tickets d) of
             None \<Rightarrow> (Inl (SqlError ''UNIQUE constraint failed: attachment_tickets.ticket_b64u''), d)
           | Some tickets \<Rightarrow>
               (Inr (GMap [(''download_ticket_b64u'', GStr (new_ticket e)), (''expires_at'', GStr expiresAt),
                           (''ticket_binding'', GMap (ticket_binding body))]),
                d\<lparr>attachment_tickets := tickets\<rparr>)))"

section \<open>The data plane\<close>

text \<open>The checks of an upload before its bytes are stored; an error is a response.\<close>

definition upload_checks :: "env \<Rightarrow> string \<Rightarrow> http_req \<Rightarrow> db \<Rightarrow> http_resp + (slot_row \<times> byte list)" where
  "upload_checks e slotID r d =
     (case loadAttachmentSlot d slotID of
        Inl _ \<Rightarrow> Inl (writeDataError 404 ''anp.attachment.slot_not_found'')
      | Inr slot \<Rightarrow>
          if sl_status slot \<noteq> ''created''
          then Inl (writeDataError 409 ''anp.attachment.object_unavailable'')
          else if after_text (clock e 0) (sl_expires_at slot)
          then Inl (writeDataError 410 ''anp.attachment.slot_expired'')
          else case read_limited (maxUploadBytes + 1) r of
                 None \<Rightarrow> Inl (writeDataError 400 ''anp.attachment.object_unavailable'')
               | Some data \<Rightarrow>
                   if maxUploadBytes < length data
                   then Inl (writeDataError 413 ''anp.attachment.object_too_large'')
                   else if (case sl_expected_size slot of
                              None \<Rightarrow> False
                            | Some s \<Rightarrow> (case sizeToInt64 (GStr s) of
                                          None \<Rightarrow> False | Some expected \<Rightarrow> expected \<noteq> int (length data)))
                   then Inl (writeDataError 413 ''anp.attachment.object_too_large'')
                   else Inr (slot, data))"

definition store_object :: "env \<Rightarrow> nat \<Rightarrow> string \<Rightarrow> byte list \<Rightarrow> db \<Rightarrow> db" where
  "store_object e i objectID data d =
     (let row = \<lparr>ob_data = data, ob_size = int (length data), ob_digest = Some (sha256B64u data),
                 ob_created_at = rfc3339 (clock e i)\<rparr>
      in d\<lparr>attachment_objects := tput objectID row (\<lambda>_. row) (attachment_objects d)\<rparr>)"

definition handleUpload :: "env \<Rightarrow> string \<Rightarrow> http_req \<Rightarrow> db \<Rightarrow> http_resp \<times> db" where
  "handleUpload e slotID r d =
     (case upload_checks e slotID r d of
        Inl resp \<Rightarrow> (resp, d)
      | Inr (slot, data) \<Rightarrow>
          (json_resp 200 (GMap [(''uploaded'', GBool True), (''size'', GInt (int (length data)))]),
           store_object e 1 (sl_object_id slot) data d))"

definition objectURIMatches :: "string \<Rightarrow> string \<Rightarrow> bool" where
  "objectURIMatches uri objectID \<longleftrightarrow>
     uri = ''/objects/'' @ objectID \<or> has_suffix (''/objects/'' @ objectID) uri
     \<or> has_suffix (''/'' @ objectID) (trim_suffix ''/'' uri)"

text \<open>\<open>r.Header.Get("Authorization")\<close>: the first value; header names are canonical.\<close>

definition header_first :: "raw_headers \<Rightarrow> string \<Rightarrow> string" where
  "header_first hs k = (case map_of hs k of Some (v # _) \<Rightarrow> v | _ \<Rightarrow> [])"

definition ticket_invalid :: http_resp where
  "ticket_invalid = writeDataError 401 ''anp.attachment.download_ticket_invalid''"

definition download_ticket :: "http_req \<Rightarrow> string option" where
  "download_ticket r =
     (let authz = header_first (hq_headers r) ''Authorization'' in
      if has_prefix ''Bearer '' authz then Some (trim_space (trim_prefix ''Bearer '' authz)) else None)"

definition handleDownload :: "env \<Rightarrow> string \<Rightarrow> http_req \<Rightarrow> db \<Rightarrow> http_resp" where
  "handleDownload e objectID r d =
     (case download_ticket r of
        None \<Rightarrow> ticket_invalid
      | Some ticket \<Rightarrow>
          (case tsel (attachment_tickets d) ticket of
             None \<Rightarrow> ticket_invalid
           | Some row \<Rightarrow>
               if after_text (clock e 0) (tk_expires_at row)
               then writeDataError 401 ''anp.attachment.ticket_expired''
               else case unmarshal_map (tk_binding_json row) of
                      None \<Rightarrow> ticket_invalid
                    | Some binding \<Rightarrow>
                        let uri = gets binding ''object_uri'' in
                        if uri = [] then ticket_invalid
                        else if \<not> objectURIMatches uri objectID
                        then writeDataError 403 ''anp.attachment.ticket_binding_mismatch''
                        else case loadAttachmentObject d objectID of
                               Inl _ \<Rightarrow> writeDataError 404 ''anp.attachment.object_unavailable''
                             | Inr obj \<Rightarrow>
                                 \<lparr>hs_status = 200,
                                  hs_headers = [(''Content-Type'', ''application/octet-stream''),
                                                (''Content-Length'', format_int (ob_size obj))],
                                  hs_body = RawBody (ob_data obj)\<rparr>))"

end
