(* ===== verification/AttachmentFacts.thy ===== *)
theory AttachmentFacts
  imports Attachment
begin

text \<open>
  What the attachment component promises: the life cycle of a slot, objects that are sealed once
  their slot is no longer open, sizes and digests that are those of the stored bytes, and tickets
  that open one committed object for a limited time.
\<close>

section \<open>Frames\<close>

definition only_attachments :: "db \<Rightarrow> db \<Rightarrow> bool" where
  "only_attachments d d' \<longleftrightarrow>
     (\<exists>s ob tk. d' = d\<lparr>attachment_slots := s, attachment_objects := ob, attachment_tickets := tk\<rparr>)"

lemma only_attachments_refl [simp]: "only_attachments d d"
  unfolding only_attachments_def
  by (intro exI [of _ "attachment_slots d"] exI [of _ "attachment_objects d"] exI [of _ "attachment_tickets d"]) simp

lemma only_attachmentsI:
  "only_attachments d (d\<lparr>attachment_slots := s\<rparr>)"
  "only_attachments d (d\<lparr>attachment_objects := ob\<rparr>)"
  "only_attachments d (d\<lparr>attachment_tickets := tk\<rparr>)"
  unfolding only_attachments_def
  by (rule exI [of _ s], rule exI [of _ "attachment_objects d"], rule exI [of _ "attachment_tickets d"], simp)
     (rule exI [of _ "attachment_slots d"], rule exI [of _ ob], rule exI [of _ "attachment_tickets d"], simp,
      rule exI [of _ "attachment_slots d"], rule exI [of _ "attachment_objects d"], rule exI [of _ tk], simp)

text \<open>The URI of an object ends in its identifier, which is not empty and has no slash.\<close>

definition uri_ok :: "slot_row \<Rightarrow> bool" where
  "uri_ok r \<longleftrightarrow> (\<exists>base. sl_object_uri r = base @ ''/objects/'' @ sl_object_id r)
     \<and> sl_object_id r \<noteq> [] \<and> CHR ''/'' \<notin> set (sl_object_id r)"

text \<open>The states the methods leave.\<close>

lemma createSlot_state:
  "snd (attachmentCreateSlot e sb a base params d) = d
   \<or> (\<exists>row. tsel (attachment_slots d) (new_slot_id e) = None \<and> sl_status row = ''created''
        \<and> uri_ok row
        \<and> snd (attachmentCreateSlot e sb a base params d)
            = d\<lparr>attachment_slots := attachment_slots d @ [(new_slot_id e, row)]\<rparr>)"
proof -
  let ?body = "asMap (gindex params ''body'')" and ?b = "if base = [] then sb else base"
  have row: "sl_status row = ''created'' \<and> uri_ok row"
    if "new_slot e a ?b ?body = Inr row" for row
    using that
    by (auto simp: new_slot_def uri_ok_def joinURL_def new_object_id_def newRandomHex_nonempty split: sum.splits)
  show ?thesis
  proof (cases "create_slot_checks ?body")
    case (Inr u)
    show ?thesis
    proof (cases "new_slot e a ?b ?body")
      case (Inr r)
      have eq: "snd (attachmentCreateSlot e sb a base params d)
          = (case tins (new_slot_id e) r (attachment_slots d) of None \<Rightarrow> d | Some t \<Rightarrow> d\<lparr>attachment_slots := t\<rparr>)"
        using \<open>create_slot_checks ?body = Inr u\<close> Inr
        by (cases "tins (new_slot_id e) r (attachment_slots d)")
          (simp_all add: attachmentCreateSlot_def Let_def del: tins_None)
      show ?thesis
      proof (cases "tins (new_slot_id e) r (attachment_slots d)")
        case (Some t)
        with row [OF Inr] tins_SomeD [OF Some] show ?thesis unfolding eq by auto
      qed (simp add: eq del: tins_None)
    qed (use Inr in \<open>simp add: attachmentCreateSlot_def Let_def\<close>)
  qed (simp add: attachmentCreateSlot_def Let_def)
qed

lemma commit_state:
  "snd (attachmentCommitObject e params d) =
     (let body = asMap (gindex params ''body'') in
      case commit_checks e body d of
        Inl _ \<Rightarrow> d | Inr (slot, obj) \<Rightarrow> commit_slot (gets body ''slot_id'') obj d)"
  by (simp add: attachmentCommitObject_def Let_def split: sum.split prod.split)

lemma abort_state:
  "snd (attachmentAbortObject e params d) = d
   \<or> snd (attachmentAbortObject e params d) = abort_slot (gets (asMap (gindex params ''body'')) ''slot_id'') d"
  by (simp add: attachmentAbortObject_def Let_def split: sum.split)

lemma upload_state:
  "snd (handleUpload e slotID r d) =
     (case upload_checks e slotID r d of
        Inl _ \<Rightarrow> d | Inr (slot, data) \<Rightarrow> store_object e 1 (sl_object_id slot) data d)"
  by (simp add: handleUpload_def split: sum.split prod.split)

lemma ticket_state:
  "snd (attachmentGetDownloadTicket e a params d) =
     (let body = asMap (gindex params ''body'') in
      if is_ok (ticket_checks a (asMap (gindex params ''meta'')) body d)
         \<and> tsel (attachment_tickets d) (new_ticket e) = None
      then d\<lparr>attachment_tickets := attachment_tickets d @
             [(new_ticket e, \<lparr>tk_binding_json = marshal (GMap (ticket_binding body)),
                              tk_expires_at = rfc3339 (clock e 0 + ticketTTL)\<rparr>)]\<rparr>
      else d)"
  by (auto simp: attachmentGetDownloadTicket_def Let_def tins_fresh split: sum.split option.split dest: tins_SomeD)

lemma attachment_frames:
  "only_attachments d (snd (attachmentCreateSlot e sb a base params d))"
  "only_attachments d (snd (attachmentCommitObject e params d))"
  "only_attachments d (snd (attachmentAbortObject e params d))"
  "only_attachments d (snd (attachmentGetDownloadTicket e a params d))"
  "only_attachments d (snd (handleUpload e slotID r d))"
  using createSlot_state [of e sb a base params d] abort_state [of e params d]
  by (auto simp: commit_state ticket_state upload_state commit_slot_def abort_slot_def store_object_def
      Let_def only_attachmentsI split: sum.split prod.split)

section \<open>The life of a slot\<close>

text \<open>A slot keeps its identity, and once it is not open any more it never opens again.\<close>

definition slot_evolves :: "slot_row \<Rightarrow> slot_row \<Rightarrow> bool" where
  "slot_evolves r r' \<longleftrightarrow>
     sl_attachment_id r' = sl_attachment_id r \<and> sl_object_id r' = sl_object_id r
     \<and> sl_object_uri r' = sl_object_uri r \<and> sl_commit_token r' = sl_commit_token r
     \<and> sl_expires_at r' = sl_expires_at r \<and> sl_owner_did r' = sl_owner_did r
     \<and> (sl_status r \<noteq> ''created'' \<longrightarrow> sl_status r' \<noteq> ''created'')"

definition slots_evolve :: "db \<Rightarrow> db \<Rightarrow> bool" where
  "slots_evolve d d' \<longleftrightarrow>
     (\<forall>k r. tsel (attachment_slots d) k = Some r \<longrightarrow>
        (\<exists>r'. tsel (attachment_slots d') k = Some r' \<and> slot_evolves r r'))"

lemma slot_evolves_refl [simp]: "slot_evolves r r"
  by (simp add: slot_evolves_def)

lemma slot_evolves_trans: "slot_evolves a b \<Longrightarrow> slot_evolves b c \<Longrightarrow> slot_evolves a c"
  by (simp add: slot_evolves_def)

lemma slots_evolve_same: "attachment_slots d' = attachment_slots d \<Longrightarrow> slots_evolve d d'"
  by (simp add: slots_evolve_def)

lemma slots_evolve_refl [simp]: "slots_evolve d d"
  by (simp add: slots_evolve_same)

lemma slots_evolve_trans: "slots_evolve a b \<Longrightarrow> slots_evolve b c \<Longrightarrow> slots_evolve a c"
  unfolding slots_evolve_def by (meson slot_evolves_trans)

lemma slots_evolve_add:
  "tsel (attachment_slots d) k = None \<Longrightarrow>
     slots_evolve d (d\<lparr>attachment_slots := attachment_slots d @ [(k, row)]\<rparr>)"
  unfolding slots_evolve_def by (auto simp: tsel_snoc)

lemma slots_evolve_upd:
  "(\<And>r. slot_evolves r (f r)) \<Longrightarrow> slots_evolve d (d\<lparr>attachment_slots := tupd k f (attachment_slots d)\<rparr>)"
  unfolding slots_evolve_def by simp

lemma slots_evolve_commit: "slots_evolve d (commit_slot k obj d)"
  unfolding commit_slot_def by (rule slots_evolve_upd) (simp add: slot_evolves_def)

lemma slots_evolve_abort: "slots_evolve d (abort_slot k d)"
  unfolding abort_slot_def by (rule slots_evolve_upd) (simp add: slot_evolves_def)

section \<open>Sealed objects\<close>

definition object_ids_distinct :: "db \<Rightarrow> bool" where
  "object_ids_distinct d \<longleftrightarrow>
     (\<forall>k k' r r'. tsel (attachment_slots d) k = Some r \<longrightarrow> tsel (attachment_slots d) k' = Some r' \<longrightarrow>
        sl_object_id r = sl_object_id r' \<longrightarrow> k = k')"

text \<open>
  The object of a slot that is not open is the same before and after, and so is a ticket. Object identifiers are
  drawn at random; the statement is about runs in which no two draws are equal.
\<close>

definition tickets_kept :: "db \<Rightarrow> db \<Rightarrow> bool" where
  "tickets_kept d d' \<longleftrightarrow>
     (\<forall>k t. tsel (attachment_tickets d) k = Some t \<longrightarrow> tsel (attachment_tickets d') k = Some t)"

definition sealed_kept :: "db \<Rightarrow> db \<Rightarrow> bool" where
  "sealed_kept d d' \<longleftrightarrow> slots_evolve d d' \<and> tickets_kept d d' \<and>
     (object_ids_distinct d' \<longrightarrow>
        (\<forall>k r. tsel (attachment_slots d) k = Some r \<longrightarrow> sl_status r \<noteq> ''created'' \<longrightarrow>
           tsel (attachment_objects d') (sl_object_id r) = tsel (attachment_objects d) (sl_object_id r)))"

lemma object_ids_distinct_back:
  assumes "slots_evolve d d'" "object_ids_distinct d'" shows "object_ids_distinct d"
  unfolding object_ids_distinct_def
proof (intro allI impI)
  fix k k' r r'
  assume 1: "tsel (attachment_slots d) k = Some r" and 2: "tsel (attachment_slots d) k' = Some r'"
    and eq: "sl_object_id r = sl_object_id r'"
  obtain s s' where "tsel (attachment_slots d') k = Some s" "slot_evolves r s"
    "tsel (attachment_slots d') k' = Some s'" "slot_evolves r' s'"
    using 1 2 assms(1) unfolding slots_evolve_def by blast
  with eq assms(2) show "k = k'" unfolding object_ids_distinct_def slot_evolves_def by metis
qed

lemma sealed_kept_same:
  "attachment_slots d' = attachment_slots d \<Longrightarrow> attachment_objects d' = attachment_objects d \<Longrightarrow>
     tickets_kept d d' \<Longrightarrow> sealed_kept d d'"
  by (simp add: sealed_kept_def slots_evolve_same)

lemma tickets_kept_same [simp]: "attachment_tickets d' = attachment_tickets d \<Longrightarrow> tickets_kept d d'"
  by (simp add: tickets_kept_def)

lemma sealed_kept_refl [simp]: "sealed_kept d d"
  by (simp add: sealed_kept_same)

lemma sealed_kept_slots:
  "slots_evolve d d' \<Longrightarrow> attachment_objects d' = attachment_objects d \<Longrightarrow>
     attachment_tickets d' = attachment_tickets d \<Longrightarrow> sealed_kept d d'"
  by (simp add: sealed_kept_def)

lemma sealed_keptD:
  "sealed_kept d d' \<Longrightarrow> object_ids_distinct d' \<Longrightarrow> tsel (attachment_slots d) k = Some r \<Longrightarrow>
     sl_status r \<noteq> ''created'' \<Longrightarrow>
     tsel (attachment_objects d') (sl_object_id r) = tsel (attachment_objects d) (sl_object_id r)"
  unfolding sealed_kept_def by blast

lemma sealed_kept_trans:
  assumes "sealed_kept a b" "sealed_kept b c" shows "sealed_kept a c"
proof -
  have ev: "slots_evolve a b" "slots_evolve b c" "tickets_kept a c"
    using assms unfolding sealed_kept_def tickets_kept_def by blast+
  have "tsel (attachment_objects c) (sl_object_id r) = tsel (attachment_objects a) (sl_object_id r)"
    if dist: "object_ids_distinct c" and r: "tsel (attachment_slots a) k = Some r" "sl_status r \<noteq> ''created''" for k r
  proof -
    obtain s where s: "tsel (attachment_slots b) k = Some s" "slot_evolves r s"
      using r(1) ev(1) unfolding slots_evolve_def by blast
    have "tsel (attachment_objects b) (sl_object_id r) = tsel (attachment_objects a) (sl_object_id r)"
      by (rule sealed_keptD [OF assms(1) object_ids_distinct_back [OF ev(2) dist] r])
    moreover have "tsel (attachment_objects c) (sl_object_id s) = tsel (attachment_objects b) (sl_object_id s)"
      by (rule sealed_keptD [OF assms(2) dist s(1)]) (use s(2) r(2) in \<open>simp add: slot_evolves_def\<close>)
    ultimately show ?thesis using s(2) by (simp add: slot_evolves_def)
  qed
  with slots_evolve_trans [OF ev(1,2)] ev(3) show ?thesis unfolding sealed_kept_def by blast
qed

lemma upload_checks_Inr:
  assumes "upload_checks e slotID r d = Inr (slot, data)"
  shows "tsel (attachment_slots d) slotID = Some slot" "sl_status slot = ''created''"
    "\<not> after_text (clock e 0) (sl_expires_at slot)" "data = hq_body r" "length data \<le> maxUploadBytes"
  using assms
  by (auto simp: upload_checks_def loadAttachmentSlot_def read_limited_def
      split: sum.splits option.splits if_splits)

lemma sealed_kept_upload: "sealed_kept d (snd (handleUpload e slotID r d))"
proof (cases "upload_checks e slotID r d")
  case (Inr sd)
  obtain slot data where sd: "sd = (slot, data)" by (cases sd)
  note up = upload_checks_Inr [OF Inr [unfolded sd]]
  have "sl_object_id r' \<noteq> sl_object_id slot"
    if "object_ids_distinct d" "tsel (attachment_slots d) k = Some r'" "sl_status r' \<noteq> ''created''" for k r'
    using that up(1,2) unfolding object_ids_distinct_def by fastforce
  then show ?thesis
    using Inr sd
    by (auto simp: upload_state sealed_kept_def slots_evolve_same store_object_def Let_def object_ids_distinct_def)
qed (simp add: upload_state)

lemma sealed_kept_methods:
  "sealed_kept d (snd (attachmentCreateSlot e sb a base params d))"
  "sealed_kept d (snd (attachmentCommitObject e params d))"
  "sealed_kept d (snd (attachmentAbortObject e params d))"
  "sealed_kept d (snd (attachmentGetDownloadTicket e a params d))"
proof -
  show "sealed_kept d (snd (attachmentCreateSlot e sb a base params d))"
    using createSlot_state [of e sb a base params d]
    by (elim disjE exE conjE) (simp_all add: sealed_kept_slots slots_evolve_add)
  show "sealed_kept d (snd (attachmentCommitObject e params d))"
    by (auto simp: commit_state Let_def commit_slot_def split: sum.split
        intro!: sealed_kept_slots slots_evolve_commit [unfolded commit_slot_def])
  show "sealed_kept d (snd (attachmentAbortObject e params d))"
    using abort_state [of e params d] slots_evolve_abort
    by (auto intro!: sealed_kept_slots simp: abort_slot_def)
  show "sealed_kept d (snd (attachmentGetDownloadTicket e a params d))"
    by (rule sealed_kept_same) (simp_all add: ticket_state Let_def tickets_kept_def tsel_snoc)
qed

section \<open>The invariant\<close>

text \<open>
  Keys are unique; a slot is open, committed or aborted; an object carries the size and the digest
  of its bytes; a ticket names the URI of a slot that has left the open state.
\<close>

definition object_ok :: "object_row \<Rightarrow> bool" where
  "object_ok r \<longleftrightarrow> ob_size r = int (length (ob_data r)) \<and> ob_digest r = Some (sha256B64u (ob_data r))
     \<and> length (ob_data r) \<le> maxUploadBytes"

definition slot_ok :: "(string, object_row) table \<Rightarrow> slot_row \<Rightarrow> bool" where
  "slot_ok objects r \<longleftrightarrow> uri_ok r \<and> sl_status r \<in> {''created'', ''committed'', ''aborted''}
     \<and> (sl_status r = ''committed'' \<longrightarrow> tsel objects (sl_object_id r) \<noteq> None)"

definition ticket_ok :: "(string, slot_row) table \<Rightarrow> ticket_row \<Rightarrow> bool" where
  "ticket_ok slots t \<longleftrightarrow>
     (\<exists>m k r. unmarshal_map (tk_binding_json t) = Some (Some m) \<and> tsel slots k = Some r
        \<and> sl_object_uri r = gets (Some m) ''object_uri'' \<and> gets (Some m) ''object_uri'' \<noteq> []
        \<and> sl_status r \<noteq> ''created'')"

definition attachments_ok :: "db \<Rightarrow> bool" where
  "attachments_ok d \<longleftrightarrow>
     tkeys_unique (attachment_slots d) \<and> tkeys_unique (attachment_objects d) \<and> tkeys_unique (attachment_tickets d)
     \<and> (\<forall>k r. tsel (attachment_slots d) k = Some r \<longrightarrow> slot_ok (attachment_objects d) r)
     \<and> (\<forall>k r. tsel (attachment_objects d) k = Some r \<longrightarrow> object_ok r)
     \<and> (\<forall>k t. tsel (attachment_tickets d) k = Some t \<longrightarrow> ticket_ok (attachment_slots d) t)"

lemma attachments_okD:
  assumes "attachments_ok d"
  shows "tkeys_unique (attachment_slots d)" "tkeys_unique (attachment_objects d)"
    "tkeys_unique (attachment_tickets d)"
    "tsel (attachment_slots d) k = Some r \<Longrightarrow> slot_ok (attachment_objects d) r"
    "tsel (attachment_objects d) k' = Some ob \<Longrightarrow> object_ok ob"
    "tsel (attachment_tickets d) k'' = Some t \<Longrightarrow> ticket_ok (attachment_slots d) t"
  using assms unfolding attachments_ok_def by blast+

lemma attachments_ok_same:
  "attachment_slots d' = attachment_slots d \<Longrightarrow> attachment_objects d' = attachment_objects d \<Longrightarrow>
     attachment_tickets d' = attachment_tickets d \<Longrightarrow> attachments_ok d' = attachments_ok d"
  by (simp add: attachments_ok_def)

lemma attachments_ok_empty: "attachments_ok empty_db"
  by (simp add: attachments_ok_def empty_db_def)

lemma ticket_ok_evolve:
  assumes "ticket_ok (attachment_slots d) t" "slots_evolve d d'"
  shows "ticket_ok (attachment_slots d') t"
proof -
  obtain m k r where r: "unmarshal_map (tk_binding_json t) = Some (Some m)" "tsel (attachment_slots d) k = Some r"
    "sl_object_uri r = gets (Some m) ''object_uri''" "gets (Some m) ''object_uri'' \<noteq> []" "sl_status r \<noteq> ''created''"
    using assms(1) unfolding ticket_ok_def by blast
  obtain r' where "tsel (attachment_slots d') k = Some r'" "slot_evolves r r'"
    using assms(2) r(2) unfolding slots_evolve_def by blast
  with r show ?thesis unfolding ticket_ok_def slot_evolves_def by metis
qed

lemma attachments_ok_slots:
  assumes "attachments_ok d" "slots_evolve d (d\<lparr>attachment_slots := s\<rparr>)" "tkeys_unique s"
    and "\<And>k r. tsel s k = Some r \<Longrightarrow> slot_ok (attachment_objects d) r"
  shows "attachments_ok (d\<lparr>attachment_slots := s\<rparr>)"
  using assms(3,4) attachments_okD [OF assms(1)] ticket_ok_evolve [OF _ assms(2)]
  unfolding attachments_ok_def by simp

lemma commit_checks_Inr:
  assumes "commit_checks e body d = Inr (slot, obj)"
  shows "tsel (attachment_slots d) (gets body ''slot_id'') = Some slot"
    "sl_attachment_id slot = gets body ''attachment_id''"
    "sl_commit_token slot = gets body ''commit_token''" "gets body ''commit_token'' \<noteq> []"
    "sl_status slot = ''created''" "\<not> after_text (clock e 0) (sl_expires_at slot)"
    "tsel (attachment_objects d) (sl_object_id slot) = Some obj"
    "sizeToInt64 (gindex body ''size'') \<in> {None, Some (ob_size obj)}"
    "digest_ok (gindex body ''digest'') (ob_data obj)"
  using assms
  by (auto simp: commit_checks_def named_slot_def loadAttachmentSlot_def loadAttachmentObject_def
      requiredAll_Inr split: if_splits sum.splits option.splits)

lemma attachments_ok_upd_status:
  assumes ok: "attachments_ok d" and "\<And>r. slot_evolves r (f r)"
    and "\<And>r. tsel (attachment_slots d) k = Some r \<Longrightarrow> slot_ok (attachment_objects d) (f r)"
  shows "attachments_ok (d\<lparr>attachment_slots := tupd k f (attachment_slots d)\<rparr>)"
proof (rule attachments_ok_slots [OF ok slots_evolve_upd [OF assms(2)]])
  show "tkeys_unique (tupd k f (attachment_slots d))"
    using attachments_okD(1) [OF ok] by simp
  show "slot_ok (attachment_objects d) r" if "tsel (tupd k f (attachment_slots d)) k' = Some r" for k' r
    using that assms(3) attachments_okD(4) [OF ok] by (auto split: if_splits)
qed

lemma attachments_ok_commit:
  assumes ok: "attachments_ok d" and "commit_checks e body d = Inr (slot, obj)"
  shows "attachments_ok (commit_slot (gets body ''slot_id'') obj' d)"
  unfolding commit_slot_def
proof (rule attachments_ok_upd_status [OF ok], simp add: slot_evolves_def)
  note ch = commit_checks_Inr [OF assms(2)]
  show "slot_ok (attachment_objects d) (r\<lparr>sl_status := ''committed'', sl_actual_size := x, sl_actual_digest := y\<rparr>)"
    if "tsel (attachment_slots d) (gets body ''slot_id'') = Some r" for r x y
    using that ch(1,7) attachments_okD(4) [OF ok ch(1)] by (simp add: slot_ok_def uri_ok_def)
qed

lemma attachments_ok_abort: "attachments_ok d \<Longrightarrow> attachments_ok (abort_slot k d)"
  unfolding abort_slot_def
  by (rule attachments_ok_upd_status)
    (auto simp: slot_evolves_def slot_ok_def uri_ok_def
      dest: attachments_okD(4) [unfolded slot_ok_def uri_ok_def])

lemma attachments_ok_createSlot:
  assumes ok: "attachments_ok d"
  shows "attachments_ok (snd (attachmentCreateSlot e sb a base params d))"
  using createSlot_state [of e sb a base params d]
proof (elim disjE exE conjE)
  fix row
  assume new: "tsel (attachment_slots d) (new_slot_id e) = None" "sl_status row = ''created''" "uri_ok row"
    and st: "snd (attachmentCreateSlot e sb a base params d)
      = d\<lparr>attachment_slots := attachment_slots d @ [(new_slot_id e, row)]\<rparr>"
  show ?thesis unfolding st
  proof (rule attachments_ok_slots [OF ok slots_evolve_add [OF new(1)]])
    show "tkeys_unique (attachment_slots d @ [(new_slot_id e, row)])"
      by (rule tkeys_unique_tins [OF tins_fresh [OF new(1)] attachments_okD(1) [OF ok]])
    show "slot_ok (attachment_objects d) r"
      if "tsel (attachment_slots d @ [(new_slot_id e, row)]) k = Some r" for k r
      using that new attachments_okD(4) [OF ok, of k] by (auto simp: tsel_snoc slot_ok_def split: if_splits)
  qed
qed (simp add: ok)

lemma attachments_ok_commitObject: "attachments_ok d \<Longrightarrow> attachments_ok (snd (attachmentCommitObject e params d))"
  by (simp add: commit_state Let_def attachments_ok_commit [where e = e] split: sum.split prod.split)

lemma attachments_ok_abortObject: "attachments_ok d \<Longrightarrow> attachments_ok (snd (attachmentAbortObject e params d))"
  using abort_state [of e params d] by (auto simp: attachments_ok_abort)

lemma attachments_ok_upload:
  assumes ok: "attachments_ok d" shows "attachments_ok (snd (handleUpload e slotID r d))"
proof (cases "upload_checks e slotID r d")
  case (Inr sd)
  obtain slot data where sd: "sd = (slot, data)" by (cases sd)
  have "object_ok \<lparr>ob_data = data, ob_size = int (length data), ob_digest = Some (sha256B64u data),
      ob_created_at = rfc3339 (clock e 1)\<rparr>"
    using upload_checks_Inr(5) [OF Inr [unfolded sd]] by (simp add: object_ok_def)
  then show ?thesis
    using Inr sd attachments_okD [OF ok]
    by (simp add: upload_state attachments_ok_def store_object_def Let_def sqlt.look_put slot_ok_def del: tsel_tput)
qed (simp add: upload_state ok)

text \<open>A ticket's binding, as its stored text gives it back.\<close>

lemma ticket_binding_keys: "distinct (map fst (ticket_binding body))"
  by (simp add: ticket_binding_def comp_def)

lemma ticket_binding_uri: "gindex (Some (ticket_binding body)) ''object_uri'' = GStr (gets body ''object_uri'')"
  by (simp add: ticket_binding_def)

lemma ticket_binding_stored:
  "\<exists>m. unmarshal_map (marshal (GMap (ticket_binding body))) = Some (Some m)
     \<and> gets (Some m) ''object_uri'' = gets body ''object_uri''"
proof -
  have "gindex (asMap (canon (GMap (ticket_binding body)))) ''object_uri'' = GStr (gets body ''object_uri'')"
    unfolding gindex_canon [OF ticket_binding_keys] ticket_binding_uri by simp
  then have "gets (asMap (canon (GMap (ticket_binding body)))) ''object_uri'' = gets body ''object_uri''"
    by (simp only: gstr.simps)
  then show ?thesis by simp
qed

lemma newest_slot_in: "newest_slot rs = Some r \<Longrightarrow> r \<in> set rs"
  by (induction rs arbitrary: r) (auto split: option.splits if_splits)

lemma slot_for_Some:
  assumes "slot_for d att uri = Some r" "tkeys_unique (attachment_slots d)"
  shows "\<exists>k. tsel (attachment_slots d) k = Some r" "sl_object_uri r = uri" "sl_attachment_id r = att"
  using newest_slot_in [OF assms(1) [unfolded slot_for_def]] in_tsel [OF assms(2)] by (auto, blast)

lemma ticket_checks_Inr:
  assumes "ticket_checks a meta body d = Inr u"
  shows "\<exists>slot. slot_for d (gets body ''attachment_id'') (gets body ''object_uri'') = Some slot
      \<and> sl_status slot = ''committed''"
    "gets body ''object_uri'' \<noteq> []" "a \<noteq> [] \<Longrightarrow> gets body ''requester_did'' = a"
  using assms
  by (auto simp: ticket_checks_def Let_def requiredAll_Inr split: if_splits sum.splits option.splits)

lemma attachments_ok_ticket:
  assumes ok: "attachments_ok d"
  shows "attachments_ok (snd (attachmentGetDownloadTicket e a params d))"
proof -
  let ?body = "asMap (gindex params ''body'')"
  have "attachments_ok (d\<lparr>attachment_tickets := attachment_tickets d @
      [(new_ticket e, \<lparr>tk_binding_json = marshal (GMap (ticket_binding ?body)), tk_expires_at = ex\<rparr>)]\<rparr>)"
    if chk: "ticket_checks a (asMap (gindex params ''meta'')) ?body d = Inr u"
      and new: "tsel (attachment_tickets d) (new_ticket e) = None" for u ex
  proof -
    let ?t = "\<lparr>tk_binding_json = marshal (GMap (ticket_binding ?body)), tk_expires_at = ex\<rparr>"
    obtain slot where "slot_for d (gets ?body ''attachment_id'') (gets ?body ''object_uri'') = Some slot"
      "sl_status slot = ''committed''" using ticket_checks_Inr(1) [OF chk] by blast
    then obtain k where "tsel (attachment_slots d) k = Some slot" "sl_object_uri slot = gets ?body ''object_uri''"
      using slot_for_Some [OF _ attachments_okD(1) [OF ok]] by blast
    then have t: "ticket_ok (attachment_slots d) ?t"
      using ticket_binding_stored [of ?body] ticket_checks_Inr(2) [OF chk] \<open>sl_status slot = ''committed''\<close>
      unfolding ticket_ok_def by fastforce
    have u: "tkeys_unique (attachment_tickets d @ [(new_ticket e, ?t)])"
      by (rule tkeys_unique_tins [OF tins_fresh [OF new] attachments_okD(3) [OF ok]])
    show ?thesis
      using t u attachments_okD [OF ok] unfolding attachments_ok_def by (simp add: tsel_snoc [OF new])
  qed
  then show ?thesis by (auto simp: ticket_state Let_def ok)
qed

section \<open>Object URIs\<close>

text \<open>
  The URI of an object names that object and no other, whatever base it has and with or without a
  trailing slash, as identifiers have no slash.
\<close>

lemma slash_suffix:
  assumes "CHR ''/'' \<notin> set x" "CHR ''/'' \<notin> set y" "has_suffix (CHR ''/'' # y) (s @ CHR ''/'' # x)"
  shows "x = y"
proof -
  obtain t where "s @ CHR ''/'' # x = t @ CHR ''/'' # y"
    using assms(3) by (auto simp: has_suffix_iff)
  then have "rev x @ CHR ''/'' # rev s = rev y @ CHR ''/'' # rev t"
    by (metis (no_types, lifting) append.assoc append_Cons append_Nil rev.simps(2) rev_append)
  then have "takeWhile (\<lambda>c. c \<noteq> CHR ''/'') (rev x @ CHR ''/'' # rev s)
      = takeWhile (\<lambda>c. c \<noteq> CHR ''/'') (rev y @ CHR ''/'' # rev t)" by simp
  moreover have "takeWhile (\<lambda>c. c \<noteq> CHR ''/'') (rev z @ CHR ''/'' # u) = rev z"
    if "CHR ''/'' \<notin> set z" for z u
    using that by (subst takeWhile_append2) auto
  ultimately show ?thesis using assms(1,2) by simp
qed

lemma objectURIMatches_iff:
  assumes x: "x \<noteq> []" "CHR ''/'' \<notin> set x" and y: "CHR ''/'' \<notin> set y"
  shows "objectURIMatches (base @ ''/objects/'' @ x) y \<longleftrightarrow> x = y"
proof
  let ?uri = "base @ ''/objects/'' @ x"
  have split: "?uri = (base @ ''/objects'') @ CHR ''/'' # x" by simp
  have "last ?uri = last x" using x(1) by simp
  then have "last ?uri \<noteq> CHR ''/''" using x last_in_set by metis
  moreover have "last u = CHR ''/''" if "has_suffix ''/'' u" for u
    using that by (auto simp: has_suffix_iff)
  ultimately have "\<not> has_suffix ''/'' ?uri" by blast
  then have no_trim: "trim_suffix ''/'' ?uri = ?uri" by (simp add: trim_suffix_def)
  assume "objectURIMatches ?uri y"
  then consider "?uri = ''/objects/'' @ y" | "has_suffix (''/objects/'' @ y) ?uri" | "has_suffix (''/'' @ y) ?uri"
    unfolding objectURIMatches_def no_trim by blast
  then have "has_suffix (CHR ''/'' # y) ((base @ ''/objects'') @ CHR ''/'' # x)"
  proof cases
    case 1
    then have "?uri = ''/objects'' @ CHR ''/'' # y" by simp
    then show ?thesis unfolding has_suffix_iff split by blast
  next
    case 2
    then obtain t where "?uri = (t @ ''/objects'') @ CHR ''/'' # y" by (auto simp: has_suffix_iff)
    then show ?thesis unfolding has_suffix_iff split by blast
  next
    case 3
    then show ?thesis unfolding split by simp
  qed
  then show "x = y" by (rule slash_suffix [OF x(2) y])
next
  assume "x = y"
  then show "objectURIMatches (base @ ''/objects/'' @ x) y"
    by (auto simp: objectURIMatches_def has_suffix_iff)
qed

section \<open>Outcomes\<close>

text \<open>Bytes are served only under an unexpired ticket whose object they are.\<close>

lemma handleDownload_ok:
  assumes "hs_status (handleDownload e objectID r d) = 200"
  obtains ticket row binding obj where
    "download_ticket r = Some ticket" "tsel (attachment_tickets d) ticket = Some row"
    "\<not> after_text (clock e 0) (tk_expires_at row)"
    "unmarshal_map (tk_binding_json row) = Some binding"
    "gets binding ''object_uri'' \<noteq> []" "objectURIMatches (gets binding ''object_uri'') objectID"
    "tsel (attachment_objects d) objectID = Some obj"
    "hs_body (handleDownload e objectID r d) = RawBody (ob_data obj)"
  using assms
  by (auto simp: handleDownload_def ticket_invalid_def writeDataError_def json_resp_def Let_def
      loadAttachmentObject_def split: option.splits if_splits sum.splits)

lemma handleDownload_serves:
  assumes "download_ticket r = Some ticket" "tsel (attachment_tickets d) ticket = Some row"
    "\<not> after_text (clock e 0) (tk_expires_at row)"
    "unmarshal_map (tk_binding_json row) = Some binding"
    "gets binding ''object_uri'' \<noteq> []" "objectURIMatches (gets binding ''object_uri'') objectID"
    "tsel (attachment_objects d) objectID = Some obj"
  shows "hs_status (handleDownload e objectID r d) = 200"
    "hs_body (handleDownload e objectID r d) = RawBody (ob_data obj)"
  using assms by (simp_all add: handleDownload_def Let_def loadAttachmentObject_def)

lemma handleUpload_ok_iff:
  "hs_status (fst (handleUpload e slotID r d)) = 200 \<longleftrightarrow> is_ok (upload_checks e slotID r d)"
proof (cases "upload_checks e slotID r d")
  case (Inl resp)
  then have "hs_status resp \<noteq> 200"
    by (auto simp: upload_checks_def writeDataError_def json_resp_def
        split: sum.splits option.splits if_splits)
  with Inl show ?thesis by (simp add: handleUpload_def)
qed (auto simp: handleUpload_def json_resp_def split: prod.split)

lemma handleUpload_stores:
  assumes "hs_status (fst (handleUpload e slotID r d)) = 200"
  obtains slot where "tsel (attachment_slots d) slotID = Some slot" "sl_status slot = ''created''"
    "\<not> after_text (clock e 0) (sl_expires_at slot)" "length (hq_body r) \<le> maxUploadBytes"
    "snd (handleUpload e slotID r d) = store_object e 1 (sl_object_id slot) (hq_body r) d"
proof -
  obtain slot data where *: "upload_checks e slotID r d = Inr (slot, data)"
    using assms handleUpload_ok_iff by fastforce
  show thesis
    by (rule that [of slot]) (use upload_checks_Inr [OF *] * in \<open>auto simp: upload_state\<close>)
qed

lemma handleUpload_refused:
  "hs_status (fst (handleUpload e slotID r d)) \<noteq> 200 \<Longrightarrow> snd (handleUpload e slotID r d) = d"
  by (auto simp: handleUpload_ok_iff upload_state split: sum.split)

lemma commit_ok:
  assumes "is_ok (fst (attachmentCommitObject e params d))"
  obtains slot obj where "commit_checks e (asMap (gindex params ''body'')) d = Inr (slot, obj)"
    "snd (attachmentCommitObject e params d)
       = commit_slot (gets (asMap (gindex params ''body'')) ''slot_id'') obj d"
proof (cases "commit_checks e (asMap (gindex params ''body'')) d")
  case (Inl err)
  with assms show ?thesis by (simp add: attachmentCommitObject_def Let_def)
next
  case (Inr so)
  obtain slot obj where "so = (slot, obj)" by (cases so)
  with Inr that show ?thesis by (simp add: commit_state Let_def)
qed

text \<open>
  What an issued ticket stands for: the newest slot of the attachment and URI it names, which is
  committed, and whose object is stored and matches that URI.
\<close>

lemma ticket_issued:
  assumes ok: "attachments_ok d" and t: "is_ok (fst (attachmentGetDownloadTicket e a params d))"
    and body: "body = asMap (gindex params ''body'')"
  obtains k slot obj m where
    "slot_for d (gets body ''attachment_id'') (gets body ''object_uri'') = Some slot"
    "tsel (attachment_slots d) k = Some slot" "sl_status slot = ''committed''"
    "tsel (attachment_objects d) (sl_object_id slot) = Some obj"
    "unmarshal_map (marshal (GMap (ticket_binding body))) = Some m"
    "gets m ''object_uri'' \<noteq> []" "objectURIMatches (gets m ''object_uri'') (sl_object_id slot)"
    "snd (attachmentGetDownloadTicket e a params d) = d\<lparr>attachment_tickets := attachment_tickets d @
       [(new_ticket e, \<lparr>tk_binding_json = marshal (GMap (ticket_binding body)),
                        tk_expires_at = rfc3339 (clock e 0 + ticketTTL)\<rparr>)]\<rparr>"
    "tsel (attachment_tickets d) (new_ticket e) = None"
proof -
  have st: "is_ok (ticket_checks a (asMap (gindex params ''meta'')) body d)"
    and new: "tsel (attachment_tickets d) (new_ticket e) = None"
    using t unfolding body
    by (auto simp: attachmentGetDownloadTicket_def Let_def dest!: tins_SomeD split: sum.splits option.splits)
  obtain u where c: "ticket_checks a (asMap (gindex params ''meta'')) body d = Inr u"
    using st by (cases "ticket_checks a (asMap (gindex params ''meta'')) body d") auto
  obtain slot where slot: "slot_for d (gets body ''attachment_id'') (gets body ''object_uri'') = Some slot"
    "sl_status slot = ''committed''" using ticket_checks_Inr(1) [OF c] by blast
  note sf = slot_for_Some [OF slot(1) attachments_okD(1) [OF ok]]
  obtain k where k: "tsel (attachment_slots d) k = Some slot" using sf(1) by blast
  have sok: "slot_ok (attachment_objects d) slot" by (rule attachments_okD(4) [OF ok k])
  then obtain obj where obj: "tsel (attachment_objects d) (sl_object_id slot) = Some obj"
    using slot(2) unfolding slot_ok_def by blast
  obtain base where uri: "sl_object_uri slot = base @ ''/objects/'' @ sl_object_id slot"
    "sl_object_id slot \<noteq> []" "CHR ''/'' \<notin> set (sl_object_id slot)"
    using sok unfolding slot_ok_def uri_ok_def by blast
  obtain m where m: "unmarshal_map (marshal (GMap (ticket_binding body))) = Some (Some m)"
    "gets (Some m) ''object_uri'' = gets body ''object_uri''"
    using ticket_binding_stored by blast
  have mu: "gets (Some m) ''object_uri'' = base @ ''/objects/'' @ sl_object_id slot"
    using m(2) sf(2) uri(1) by simp
  have "objectURIMatches (gets (Some m) ''object_uri'') (sl_object_id slot)"
    unfolding mu using objectURIMatches_iff [OF uri(2,3,3)] by blast
  moreover have "gets (Some m) ''object_uri'' \<noteq> []" unfolding mu by simp
  moreover have "snd (attachmentGetDownloadTicket e a params d) = d\<lparr>attachment_tickets := attachment_tickets d @
       [(new_ticket e, \<lparr>tk_binding_json = marshal (GMap (ticket_binding body)),
                        tk_expires_at = rfc3339 (clock e 0 + ticketTTL)\<rparr>)]\<rparr>"
    using c new unfolding body by (simp add: ticket_state Let_def)
  ultimately show thesis using that slot k obj m(1) new by blast
qed

lemma handleDownload_reply:
  assumes "download_ticket r = Some ticket" "tsel (attachment_tickets d) ticket = Some row"
    "unmarshal_map (tk_binding_json row) = Some m"
    "gets m ''object_uri'' \<noteq> []" "objectURIMatches (gets m ''object_uri'') objectID"
    "tsel (attachment_objects d) objectID = Some obj"
  shows "handleDownload e objectID r d =
    (if after_text (clock e 0) (tk_expires_at row) then writeDataError 401 ''anp.attachment.ticket_expired''
     else \<lparr>hs_status = 200, hs_headers = [(''Content-Type'', ''application/octet-stream''),
             (''Content-Length'', format_int (ob_size obj))], hs_body = RawBody (ob_data obj)\<rparr>)"
  using assms by (simp add: handleDownload_def loadAttachmentObject_def Let_def)

end
