(* ===== verification/Rpc.thy ===== *)
theory Rpc
  imports AttachmentFacts
begin

text \<open>
  The JSON-RPC entry point (rpc.go): dispatch by method name, the idempotency cache, and the
  handler that reads, authenticates and answers a request.
\<close>

section \<open>Responses\<close>

definition writeRPCResult :: "gval \<Rightarrow> gval \<Rightarrow> http_resp" where
  "writeRPCResult rid result =
     json_resp 200 (GMap [(''jsonrpc'', GStr ''2.0''), (''id'', rid), (''result'', result)])"

definition writeRPCError :: "gval \<Rightarrow> int \<Rightarrow> string \<Rightarrow> http_resp" where
  "writeRPCError rid code errMsg =
     json_resp 200 (GMap [(''jsonrpc'', GStr ''2.0''), (''id'', rid),
       (''error'', GMap [(''code'', GInt code), (''message'', GStr errMsg)])])"

section \<open>Dispatch\<close>

definition dispatch :: "env \<Rightarrow> string \<Rightarrow> string \<Rightarrow> nmap \<Rightarrow> string \<Rightarrow> string \<Rightarrow> db \<Rightarrow> gval outcome" where
  "dispatch e serverBase method params authDID baseURL d =
     (if method = ''msg.inbox'' then (msgInbox authDID params d, d)
      else if method = ''did.resolve'' then (didResolve e params d, d)
      else if method = ''did.register_document'' then didRegisterDocument e params d
      else if method = ''handle.register'' then handleRegister e authDID params d
      else if method = ''handle.recover'' then handleRecover e authDID params d
      else if method = ''direct.send'' then directSend e authDID params d
      else if method = ''direct.e2ee.publish_prekey_bundle'' then e2eePublishPrekeyBundle e authDID params d
      else if method = ''direct.e2ee.get_prekey_bundle'' then e2eeGetPrekeyBundle params d
      else if method = ''direct.incoming'' then (directIncoming params, d)
      else if method = ''group.create'' then groupCreate e authDID params d
      else if method = ''group.get_info'' then (groupGetInfo params d, d)
      else if method = ''group.join'' then groupJoin e authDID params d
      else if method = ''group.add'' then groupAdd e authDID params d
      else if method = ''group.remove'' then groupRemove authDID params d
      else if method = ''group.leave'' then groupLeave authDID params d
      else if method = ''group.update_profile'' then groupUpdateProfile authDID params d
      else if method = ''group.update_policy'' then groupUpdatePolicy authDID params d
      else if method = ''group.send'' then groupSend e authDID params d
      else if method = ''group.incoming'' then (groupIncoming params, d)
      else if method = ''group.state_changed'' then (groupStateChanged params, d)
      else if method = ''group.rebind_member'' then groupRebindMember authDID params d
      else if method = ''group.e2ee.publish_key_package'' then groupE2EEPublishKeyPackage e authDID params d
      else if method = ''group.e2ee.get_key_package'' then (groupE2EEGetKeyPackage params d, d)
      else if method = ''group.e2ee.create'' then groupE2EECreate e authDID params d
      else if method = ''group.e2ee.add'' then groupE2EEAdd e authDID params d
      else if method = ''group.e2ee.remove'' then groupE2EERemove e authDID params d
      else if method = ''group.e2ee.send'' then groupE2EESend e authDID params d
      else if method = ''group.e2ee.notice'' then groupE2EENotice e params d
      else if method = ''attachment.create_slot'' then attachmentCreateSlot e serverBase authDID baseURL params d
      else if method = ''attachment.commit_object'' then attachmentCommitObject e params d
      else if method = ''attachment.abort_object'' then attachmentAbortObject e params d
      else if method = ''attachment.get_download_ticket'' then attachmentGetDownloadTicket e authDID params d
      else (Inl (PlainError (''unknown method '' @ go_quote method)), d))"

text \<open>The cases of the switch.\<close>

definition rpc_methods :: "string list" where
  "rpc_methods =
     [''msg.inbox'', ''did.resolve'', ''did.register_document'', ''handle.register'', ''handle.recover'', ''direct.send'',
      ''direct.e2ee.publish_prekey_bundle'', ''direct.e2ee.get_prekey_bundle'', ''direct.incoming'', ''group.create'',
      ''group.get_info'', ''group.join'', ''group.add'', ''group.remove'', ''group.leave'', ''group.update_profile'',
      ''group.update_policy'', ''group.send'', ''group.incoming'', ''group.state_changed'', ''group.rebind_member'',
      ''group.e2ee.publish_key_package'', ''group.e2ee.get_key_package'', ''group.e2ee.create'', ''group.e2ee.add'',
      ''group.e2ee.remove'', ''group.e2ee.send'', ''group.e2ee.notice'', ''attachment.create_slot'',
      ''attachment.commit_object'', ''attachment.abort_object'', ''attachment.get_download_ticket'']"

section \<open>Idempotency\<close>

definition operationIDFromParams :: "nmap \<Rightarrow> string" where
  "operationIDFromParams params =
     (let m = gets (asMap (gindex params ''meta'')) ''operation_id''; t = gets params ''operation_id'' in
      if m \<noteq> [] then m else t)"

definition idem_key :: "string \<Rightarrow> string \<Rightarrow> string \<Rightarrow> string" where
  "idem_key authDID method opID = authDID @ [CHR 0x00] @ method @ [CHR 0x00] @ opID"

text \<open>The cached response, when there is one that decodes.\<close>

definition cached_response :: "db \<Rightarrow> string \<Rightarrow> gval option" where
  "cached_response d key =
     (case tsel (idempotency d) key of None \<Rightarrow> None | Some row \<Rightarrow> unmarshal (id_response_json row))"

text \<open>\<open>ON CONFLICT(key) DO NOTHING\<close>: an existing row stays.\<close>

definition cache_response :: "env \<Rightarrow> string \<Rightarrow> gval \<Rightarrow> db \<Rightarrow> db" where
  "cache_response e key result d =
     d\<lparr>idempotency :=
         tput key \<lparr>id_response_json = marshal result, id_created_at = rfc3339 (clock_cached e)\<rparr> (\<lambda>r. r)
           (idempotency d)\<rparr>"

definition dispatchIdempotent ::
  "env \<Rightarrow> string \<Rightarrow> string \<Rightarrow> nmap \<Rightarrow> string \<Rightarrow> string \<Rightarrow> db \<Rightarrow> gval outcome" where
  "dispatchIdempotent e serverBase method params authDID baseURL d =
     (let opID = operationIDFromParams params; key = idem_key authDID method opID in
      if opID = [] then dispatch e serverBase method params authDID baseURL d
      else case cached_response d key of
             Some out \<Rightarrow> (Inr out, d)
           | None \<Rightarrow>
               (case dispatch e serverBase method params authDID baseURL d of
                  (Inl err, d1) \<Rightarrow> (Inl err, d1)
                | (Inr result, d1) \<Rightarrow> (Inr result, cache_response e key result d1)))"

section \<open>The entry point\<close>

definition maxBodyBytes :: nat where "maxBodyBytes = 2 ^ 20"

text \<open>
  \<open>json.Unmarshal(body, &req)\<close>: a member goes to the field whose name it has, in any case of
  letters; null leaves a string field and clears the others; a repeated \<open>params\<close> is merged into the
  map that is there; a member of the wrong type is an error, and other members are skipped.
\<close>

definition decode_string :: "gval \<Rightarrow> string \<Rightarrow> string option" where
  "decode_string v old = (case v of GStr s \<Rightarrow> Some s | GNil \<Rightarrow> Some old | _ \<Rightarrow> None)"

definition decode_params :: "gval \<Rightarrow> nmap \<Rightarrow> nmap option" where
  "decode_params v old =
     (case v of
        GMap m \<Rightarrow> Some (Some (case old of None \<Rightarrow> m | Some m0 \<Rightarrow> fold (\<lambda>(k, x). AList.update k x) m m0))
      | GNil \<Rightarrow> Some None
      | _ \<Rightarrow> None)"

definition decode_member :: "string \<Rightarrow> gval \<Rightarrow> rpc_request \<Rightarrow> rpc_request option" where
  "decode_member k v rq =
     (if equal_fold k ''jsonrpc'' then map_option (\<lambda>s. rq\<lparr>rq_jsonrpc := s\<rparr>) (decode_string v (rq_jsonrpc rq))
      else if equal_fold k ''method'' then map_option (\<lambda>s. rq\<lparr>rq_method := s\<rparr>) (decode_string v (rq_method rq))
      else if equal_fold k ''params'' then map_option (\<lambda>p. rq\<lparr>rq_params := p\<rparr>) (decode_params v (rq_params rq))
      else if equal_fold k ''id'' then Some (rq\<lparr>rq_id := v\<rparr>)
      else Some rq)"

fun decode_members :: "gomap \<Rightarrow> rpc_request \<Rightarrow> rpc_request option" where
  "decode_members [] rq = Some rq"
| "decode_members ((k, v) # ms) rq =
     (case decode_member k v rq of None \<Rightarrow> None | Some rq' \<Rightarrow> decode_members ms rq')"

definition decode_request :: "gval \<Rightarrow> rpc_request option" where
  "decode_request v =
     (let zero = \<lparr>rq_jsonrpc = [], rq_method = [], rq_params = None, rq_id = GNil\<rparr> in
      case v of GMap ms \<Rightarrow> decode_members ms zero | GNil \<Rightarrow> Some zero | _ \<Rightarrow> None)"

definition json_request :: "env \<Rightarrow> byte list \<Rightarrow> rpc_request option" where
  "json_request e body = Option.bind (json_value e body) decode_request"

text \<open>The value a client writes for a request, which decodes to that request.\<close>

definition request_value :: "rpc_request \<Rightarrow> gval" where
  "request_value rq =
     GMap [(''jsonrpc'', GStr (rq_jsonrpc rq)), (''method'', GStr (rq_method rq)),
           (''params'', ofMap (rq_params rq)), (''id'', rq_id rq)]"

lemma decode_request_value [simp]: "decode_request (request_value rq) = Some rq"
  by (cases "rq_params rq")
    (simp_all add: decode_request_def request_value_def decode_member_def decode_string_def decode_params_def
      equal_fold_def to_lower_def to_lower_char_def)

text \<open>
  The first part of the handler, which runs outside the server's mutex: read, parse, authenticate.
\<close>

definition rpc_authenticate :: "env \<Rightarrow> string \<Rightarrow> http_req \<Rightarrow> db \<Rightarrow> http_resp + (rpc_request \<times> string)" where
  "rpc_authenticate e serviceDid r d =
     (if hq_method r \<noteq> ''POST'' then Inl (writeRPCError GNil (- 32600) ''method not allowed'')
      else case read_limited (maxBodyBytes + 1) r of
             None \<Rightarrow> Inl (writeRPCError GNil (- 32700) ''read error'')
           | Some body \<Rightarrow>
               if maxBodyBytes < length body
               then Inl (writeRPCError GNil (- 32600) ''request too large'')
               else case json_request e body of
                      None \<Rightarrow> Inl (writeRPCError GNil (- 32700) ''parse error'')
                    | Some req \<Rightarrow>
                        let headers = httpHeaders (hq_headers r) in
                        (case (if rq_method req = ''did.register_document''
                               then verifyRegistration e (rq_params req) r headers body d
                               else verify e serviceDid r headers body d) of
                           Inl err \<Rightarrow> Inl (writeRPCError (rq_id req) (- 32000) (err_text e err))
                         | Inr authDID \<Rightarrow> Inr (req, authDID)))"

definition request_base :: "http_req \<Rightarrow> string" where
  "request_base r = (if hq_tls r then ''https'' else ''http'') @ ''://'' @ hq_host r"

definition rpc_error_code :: "env \<Rightarrow> go_error \<Rightarrow> int" where
  "rpc_error_code e err =
     (case err of
        RpcError c _ \<Rightarrow> c
      | _ \<Rightarrow> if has_prefix ''unknown method'' (err_text e err) then - 32601 else - 32000)"

text \<open>
  What a request gets: an answer, a connection that net/http closes because the handler panicked,
  or an answer of net/http's own multiplexer.
\<close>

datatype reply = Reply http_resp | Aborted | ByMux

definition rpc_reply :: "env \<Rightarrow> gval \<Rightarrow> gval res \<Rightarrow> reply" where
  "rpc_reply e rid result =
     (case result of
        Inl (GoPanic t) \<Rightarrow> Aborted
      | Inl err \<Rightarrow> Reply (writeRPCError rid (rpc_error_code e err) (err_text e err))
      | Inr v \<Rightarrow> Reply (writeRPCResult rid v))"

text \<open>The second part, under the mutex.\<close>

definition rpc_execute ::
  "env \<Rightarrow> string \<Rightarrow> http_req \<Rightarrow> rpc_request \<Rightarrow> string \<Rightarrow> db \<Rightarrow> reply \<times> db" where
  "rpc_execute e serverBase r req authDID d =
     (case dispatchIdempotent e serverBase (rq_method req) (rq_params req) authDID (request_base r) d of
        (result, d') \<Rightarrow> (rpc_reply e (rq_id req) result, d'))"

definition handleRPC :: "env \<Rightarrow> string \<Rightarrow> string \<Rightarrow> http_req \<Rightarrow> db \<Rightarrow> reply \<times> db" where
  "handleRPC e serverBase serviceDid r d =
     (case rpc_authenticate e serviceDid r d of
        Inl resp \<Rightarrow> (Reply resp, d)
      | Inr (req, authDID) \<Rightarrow> rpc_execute e serverBase r req authDID d)"

end
