(* ===== verification/RpcFacts.thy ===== *)
theory RpcFacts
  imports Rpc
begin

text \<open>
  What one dispatched call does to the database. Every call has one of the effects below; an
  invariant or a relation that each effect respects holds for every call. Then the idempotency
  cache: an interface of a response cache, proved once and interpreted on the code's table.
\<close>

section \<open>Effects\<close>

inductive effect :: "env \<Rightarrow> string \<Rightarrow> nmap \<Rightarrow> db \<Rightarrow> db \<Rightarrow> bool" for e a params d where
  eff_none: "effect e a params d d"
| eff_document: "effect e a params d (snd (didRegisterDocument e params d))"
| eff_register: "effect e a params d (snd (handleRegister e a params d))"
| eff_recover: "effect e a params d (snd (handleRecover e a params d))"
| eff_publish: "effect e a params d (snd (e2eePublishPrekeyBundle e a params d))"
| eff_get: "effect e a params d (snd (e2eeGetPrekeyBundle params d))"
| eff_groups: "group_writes d d' \<Longrightarrow> effect e a params d d'"
| eff_key_package: "effect e a params d (snd (groupE2EEPublishKeyPackage e a params d))"
| eff_e2ee_state: "e2ee_state_write a d d' \<Longrightarrow> effect e a params d d'"
| eff_attachment: "only_attachments d d' \<Longrightarrow> sealed_kept d d' \<Longrightarrow> (attachments_ok d \<Longrightarrow> attachments_ok d') \<Longrightarrow>
    effect e a params d d'"

lemma directSend_writes: "group_writes d (snd (directSend e a params d))"
  by (simp add: directSend_state Let_def direct_row_def gws_step [OF _ gw_message] split: sum.split prod.split)

lemmas method_writes =
  directSend_writes groupCreate_writes groupJoin_writes groupRemove_writes groupLeave_writes
  groupUpdateProfile_writes groupUpdatePolicy_writes groupSend_writes groupRebindMember_writes
  groupE2EESend_writes groupE2EENotice_writes

lemma attachment_effects:
  "effect e a params d (snd (attachmentCreateSlot e sb a base params d))"
  "effect e a params d (snd (attachmentCommitObject e params d))"
  "effect e a params d (snd (attachmentAbortObject e params d))"
  "effect e a params d (snd (attachmentGetDownloadTicket e a params d))"
  by (rule eff_attachment; simp add: attachment_frames sealed_kept_methods attachments_ok_createSlot
      attachments_ok_commitObject attachments_ok_abortObject attachments_ok_ticket)+

lemma dispatch_effect:
  assumes "groups_ok d"
  shows "effect e a params d (snd (dispatch e sb method params a base d))"
  unfolding dispatch_def
  by (simp add: eff_none eff_document eff_register eff_recover eff_publish eff_get eff_key_package
      eff_groups [OF groupAdd_writes [OF assms]] method_writes [THEN eff_groups]
      e2ee_state_methods [THEN eff_e2ee_state] attachment_effects)

section \<open>Which effect writes which table\<close>

definition same_handles :: "db \<Rightarrow> db \<Rightarrow> bool" where
  "same_handles d d' \<longleftrightarrow> handles d' = handles d"

definition same_documents :: "db \<Rightarrow> db \<Rightarrow> bool" where
  "same_documents d d' \<longleftrightarrow> registered_dids d' = registered_dids d"

definition same_cache :: "db \<Rightarrow> db \<Rightarrow> bool" where
  "same_cache d d' \<longleftrightarrow> idempotency d' = idempotency d"

definition same_groups :: "db \<Rightarrow> db \<Rightarrow> bool" where
  "same_groups d d' \<longleftrightarrow> groups d' = groups d \<and> group_members d' = group_members d
     \<and> messages d' = messages d \<and> msg_autoinc d' = msg_autoinc d"

definition same_attachments :: "db \<Rightarrow> db \<Rightarrow> bool" where
  "same_attachments d d' \<longleftrightarrow> attachment_slots d' = attachment_slots d
     \<and> attachment_objects d' = attachment_objects d \<and> attachment_tickets d' = attachment_tickets d"

lemmas same_defs = same_handles_def same_documents_def same_cache_def same_groups_def same_attachments_def

lemma same_refl:
  "same_handles d d" "same_documents d d" "same_cache d d" "same_groups d d" "same_attachments d d"
  by (simp_all add: same_defs)

text \<open>An update of one field is the same elsewhere.\<close>

lemma same_if_documents:
  "(\<exists>t. d' = d\<lparr>registered_dids := t\<rparr>) \<Longrightarrow>
     same_handles d d' \<and> same_cache d d' \<and> same_groups d d' \<and> same_attachments d d'"
  by (auto simp: same_defs)

lemma same_if_handles:
  "(\<exists>t. d' = d\<lparr>handles := t\<rparr>) \<Longrightarrow>
     same_documents d d' \<and> same_cache d d' \<and> same_groups d d' \<and> same_attachments d d'"
  by (auto simp: same_defs)

lemma same_if_opaque:
  "(\<exists>t. d' = d\<lparr>group_key_packages := t\<rparr>) \<or> (\<exists>t. d' = d\<lparr>group_e2ee_states := t\<rparr>) \<Longrightarrow>
     same_handles d d' \<and> same_documents d d' \<and> same_cache d d' \<and> same_groups d d' \<and> same_attachments d d'"
  by (auto simp: same_defs)

lemma same_if_attachments:
  "only_attachments d d' \<Longrightarrow> same_handles d d' \<and> same_documents d d' \<and> same_cache d d' \<and> same_groups d d'"
  by (auto simp: same_defs only_attachments_def)

lemma same_if_group_writes:
  "group_writes d d' \<Longrightarrow> same_handles d d' \<and> same_documents d d' \<and> same_cache d d' \<and> same_attachments d d'"
  using group_writes_only_groups unfolding only_groups_def same_defs by blast

lemma same_document:
  "same_handles d (snd (didRegisterDocument e params d)) \<and> same_cache d (snd (didRegisterDocument e params d))
   \<and> same_groups d (snd (didRegisterDocument e params d)) \<and> same_attachments d (snd (didRegisterDocument e params d))"
proof (rule same_if_documents)
  have "\<exists>t. d = d\<lparr>registered_dids := t\<rparr>" by (rule exI [of _ "registered_dids d"]) simp
  then show "\<exists>t. snd (didRegisterDocument e params d) = d\<lparr>registered_dids := t\<rparr>"
    by (simp add: didRegisterDocument_def Let_def) blast
qed

lemma same_handle:
  assumes "d' = snd (handleRegister e a params d) \<or> d' = snd (handleRecover e a params d)"
  shows "same_documents d d' \<and> same_cache d d' \<and> same_groups d d' \<and> same_attachments d d'"
proof (rule same_if_handles)
  have "\<exists>t. d = d\<lparr>handles := t\<rparr>" by (rule exI [of _ "handles d"]) simp
  moreover have "snd (handleRegister e a params d) = d \<or> (\<exists>t. snd (handleRegister e a params d) = d\<lparr>handles := t\<rparr>)"
    by (simp add: handleRegister_def Let_def) blast
  moreover have "snd (handleRecover e a params d) = d \<or> (\<exists>t. snd (handleRecover e a params d) = d\<lparr>handles := t\<rparr>)"
    by (simp add: handleRecover_def Let_def split: option.split) blast
  ultimately show "\<exists>t. d' = d\<lparr>handles := t\<rparr>"
    using assms by metis
qed

lemma same_prekeys:
  assumes "d' = snd (e2eePublishPrekeyBundle e a params d) \<or> d' = snd (e2eeGetPrekeyBundle params d)"
  shows "same_handles d d' \<and> same_documents d d' \<and> same_cache d d' \<and> same_groups d d' \<and> same_attachments d d'"
  using assms by (auto simp: same_defs frame)

lemma same_opaque:
  assumes "d' = snd (groupE2EEPublishKeyPackage e a params d) \<or> e2ee_state_write a d d'"
  shows "same_handles d d' \<and> same_documents d d' \<and> same_cache d d' \<and> same_groups d d' \<and> same_attachments d d'"
  using assms publishKeyPackage_frame e2ee_state_write_frame by (intro same_if_opaque) blast

text \<open>All at once: the cache is untouched, and each other part has its own kinds of write.\<close>

lemma effect_frames:
  assumes "effect e a params d d'"
  shows "same_cache d d'
    \<and> (same_handles d d' \<or> d' = snd (handleRegister e a params d) \<or> d' = snd (handleRecover e a params d))
    \<and> (same_documents d d' \<or> d' = snd (didRegisterDocument e params d))
    \<and> (same_groups d d' \<or> group_writes d d')
    \<and> (same_attachments d d' \<or> (sealed_kept d d' \<and> (attachments_ok d \<longrightarrow> attachments_ok d')))"
  using assms
proof (cases rule: effect.cases)
  case eff_none
  then show ?thesis by (simp add: same_refl)
next
  case eff_document
  then show ?thesis by (simp add: same_document)
next
  case eff_register
  then show ?thesis using same_handle [OF disjI1 [OF eff_register]] by simp
next
  case eff_recover
  then show ?thesis using same_handle [OF disjI2 [OF eff_recover]] by simp
next
  case eff_publish
  show ?thesis using same_prekeys [OF disjI1 [OF eff_publish]] by simp
next
  case eff_get
  show ?thesis using same_prekeys [OF disjI2 [OF eff_get]] by simp
next
  case eff_groups
  then show ?thesis using same_if_group_writes by simp
next
  case eff_key_package
  show ?thesis using same_opaque [OF disjI1 [OF eff_key_package]] by simp
next
  case eff_e2ee_state
  show ?thesis using same_opaque [OF disjI2 [OF eff_e2ee_state]] by simp
next
  case eff_attachment
  then show ?thesis using same_if_attachments by simp
qed

section \<open>The invariant of the database\<close>

text \<open>Cached responses are canonical documents.\<close>

definition cache_ok :: "db \<Rightarrow> bool" where
  "cache_ok d \<longleftrightarrow> tkeys_unique (idempotency d)
     \<and> (\<forall>k row. tsel (idempotency d) k = Some row \<longrightarrow> (\<exists>v. id_response_json row = JDoc v \<and> canon v = v))"

definition server_ok :: "db \<Rightarrow> bool" where
  "server_ok d \<longleftrightarrow> handles_ok d \<and> dids_ok d \<and> group_data_ok d \<and> attachments_ok d \<and> cache_ok d"

text \<open>Registered DIDs stay registered, cached responses stay cached.\<close>

definition documents_kept :: "db \<Rightarrow> db \<Rightarrow> bool" where
  "documents_kept d d' \<longleftrightarrow> (\<forall>did. did_doc d did \<noteq> None \<longrightarrow> did_doc d' did \<noteq> None)"

definition cache_kept :: "db \<Rightarrow> db \<Rightarrow> bool" where
  "cache_kept d d' \<longleftrightarrow>
     (\<forall>k row. tsel (idempotency d) k = Some row \<longrightarrow> tsel (idempotency d') k = Some row)"

definition server_grows :: "db \<Rightarrow> db \<Rightarrow> bool" where
  "server_grows d d' \<longleftrightarrow> bindings_kept d d' \<and> documents_kept d d' \<and> group_data_grows d d'
     \<and> sealed_kept d d' \<and> cache_kept d d'"

lemma server_grows_refl: "server_grows d d"
  by (simp add: server_grows_def documents_kept_def cache_kept_def gws.rel_refl)

lemma documents_kept_trans: "documents_kept a b \<Longrightarrow> documents_kept b c \<Longrightarrow> documents_kept a c"
  by (simp add: documents_kept_def)

lemma cache_kept_trans: "cache_kept a b \<Longrightarrow> cache_kept b c \<Longrightarrow> cache_kept a c"
  by (simp add: cache_kept_def)

lemma server_grows_trans: "server_grows a b \<Longrightarrow> server_grows b c \<Longrightarrow> server_grows a c"
  unfolding server_grows_def
  by (blast intro: bindings_kept_trans documents_kept_trans gws.rel_trans sealed_kept_trans cache_kept_trans)

lemma documents_kept_register: "documents_kept d (snd (didRegisterDocument e params d))"
  by (simp add: documents_kept_def didRegisterDocument_doc)

lemma group_data_same:
  assumes "same_groups d d'"
  shows "group_data_ok d' = group_data_ok d" "group_data_grows d d'"
  using assms
  by (simp_all add: group_data_ok_def same_groups_def groups_ok_same [of d' d] seq_covers_same [of d' d]
      messages_ok_same [of d' d] group_data_grows_def groups_grow_same log_extends_same)

lemma handles_same: "same_handles d d' \<Longrightarrow> handles_ok d' = handles_ok d \<and> bindings_kept d d'"
  by (simp add: same_handles_def handles_ok_same [of d' d] bindings_kept_same)

lemma documents_same: "same_documents d d' \<Longrightarrow> dids_ok d' = dids_ok d \<and> documents_kept d d'"
  by (simp add: same_documents_def dids_ok_same [of d' d] documents_kept_def did_doc_def)

lemma attachments_same: "same_attachments d d' \<Longrightarrow> attachments_ok d' = attachments_ok d \<and> sealed_kept d d'"
  by (simp add: same_attachments_def attachments_ok_same [of d' d] sealed_kept_same)

lemma cache_same: "same_cache d d' \<Longrightarrow> cache_ok d' = cache_ok d \<and> cache_kept d d'"
  by (simp add: same_cache_def cache_ok_def cache_kept_def)

lemma effect_server:
  assumes eff: "effect e a params d d'" and ok: "server_ok d"
  shows "server_ok d'" "server_grows d d'"
proof -
  note fr = effect_frames [OF eff]
  have oks: "handles_ok d" "dids_ok d" "group_data_ok d" "attachments_ok d" "cache_ok d"
    using ok unfolding server_ok_def by blast+
  consider "same_handles d d'" | "d' = snd (handleRegister e a params d)" | "d' = snd (handleRecover e a params d)"
    using fr by blast
  then have h: "handles_ok d' \<and> bindings_kept d d'"
    by cases (simp_all add: handles_same oks handleRegister_handles_ok handleRecover_handles_ok
        handleRegister_keeps handleRecover_keeps)
  consider "same_documents d d'" | "d' = snd (didRegisterDocument e params d)"
    using fr by blast
  then have r: "dids_ok d' \<and> documents_kept d d'"
    by cases (simp_all add: documents_same oks didRegisterDocument_dids_ok documents_kept_register)
  consider "same_groups d d'" | "group_writes d d'"
    using fr by blast
  then have g: "group_data_ok d' \<and> group_data_grows d d'"
    by cases (simp_all add: group_data_same oks gws.inv_run gws.rel_run)
  consider "same_attachments d d'" | "sealed_kept d d'" "attachments_ok d \<longrightarrow> attachments_ok d'"
    using fr by blast
  then have t: "attachments_ok d' \<and> sealed_kept d d'"
    by cases (simp_all add: attachments_same oks)
  have c: "cache_ok d' \<and> cache_kept d d'"
    using fr cache_same oks(5) by blast
  show "server_ok d'" "server_grows d d'"
    using h r g t c unfolding server_ok_def server_grows_def by blast+
qed

text \<open>Caching a response changes nothing else.\<close>

lemma cache_response_server:
  assumes ok: "server_ok d"
  shows "server_ok (cache_response e key v d)" "server_grows d (cache_response e key v d)"
proof -
  let ?d = "cache_response e key v d"
  have same: "same_handles d ?d" "same_documents d ?d" "same_groups d ?d" "same_attachments d ?d"
    by (simp_all add: same_defs cache_response_def)
  have "cache_ok ?d"
    using ok unfolding server_ok_def cache_ok_def cache_response_def
    by (auto simp: marshal_def split: if_splits option.splits)
  moreover have "cache_kept d ?d"
    by (auto simp: cache_kept_def cache_response_def)
  ultimately show "server_ok ?d" "server_grows d ?d"
    using ok group_data_same [OF same(3)] handles_same [OF same(1)] documents_same [OF same(2)]
      attachments_same [OF same(4)]
    unfolding server_ok_def server_grows_def by blast+
qed

lemma dispatch_server:
  assumes "server_ok d"
  shows "server_ok (snd (dispatch e sb method params a base d))"
    "server_grows d (snd (dispatch e sb method params a base d))"
  using effect_server [OF dispatch_effect assms] assms
  unfolding server_ok_def group_data_ok_def by blast+

lemma dispatchIdempotent_state:
  "snd (dispatchIdempotent e sb method params a base d) =
     (let opID = operationIDFromParams params; key = idem_key a method opID;
          d1 = snd (dispatch e sb method params a base d) in
      if opID = [] then d1 else if cached_response d key \<noteq> None then d
      else case fst (dispatch e sb method params a base d) of
             Inl _ \<Rightarrow> d1 | Inr v \<Rightarrow> cache_response e key v d1)"
  by (auto simp: dispatchIdempotent_def Let_def split: option.split prod.split sum.split)

lemma dispatchIdempotent_server:
  assumes ok: "server_ok d"
  shows "server_ok (snd (dispatchIdempotent e sb method params a base d))"
    "server_grows d (snd (dispatchIdempotent e sb method params a base d))"
proof -
  let ?d1 = "snd (dispatch e sb method params a base d)"
  note d1 = dispatch_server [OF ok, of e sb "method" params a base]
  have cr: "server_ok (cache_response e k v ?d1) \<and> server_grows d (cache_response e k v ?d1)" for k v
    using cache_response_server [OF d1(1)] server_grows_trans [OF d1(2)] by blast
  show "server_ok (snd (dispatchIdempotent e sb method params a base d))"
    "server_grows d (snd (dispatchIdempotent e sb method params a base d))"
    unfolding dispatchIdempotent_state Let_def
    using d1 cr ok server_grows_refl by (simp_all split: sum.split)
qed

lemma snd_rpc_execute:
  "snd (rpc_execute e sb r req a d) =
     snd (dispatchIdempotent e sb (rq_method req) (rq_params req) a (request_base r) d)"
  by (simp add: rpc_execute_def split: prod.split)

lemma upload_server:
  assumes ok: "server_ok d"
  shows "server_ok (snd (handleUpload e slotID r d))" "server_grows d (snd (handleUpload e slotID r d))"
proof -
  let ?d = "snd (handleUpload e slotID r d)"
  note at = attachment_frames(5) [of d e slotID r]
  have fr: "same_handles d ?d" "same_documents d ?d" "same_cache d ?d" "same_groups d ?d"
    using same_if_attachments [OF at] by blast+
  have "attachments_ok ?d"
    using ok attachments_ok_upload unfolding server_ok_def by blast
  then show "server_ok ?d" "server_grows d ?d"
    using ok group_data_same [OF fr(4)] handles_same [OF fr(1)] documents_same [OF fr(2)]
      cache_same [OF fr(3)] sealed_kept_upload [of d e slotID r]
    unfolding server_ok_def server_grows_def by blast+
qed

section \<open>Steps of the database\<close>

text \<open>
  The critical sections: an authenticated call, whoever the caller is, and an upload. Everything
  else the server does leaves the database alone.
\<close>

inductive db_step :: "db \<Rightarrow> db \<Rightarrow> bool" where
  db_call: "db_step d (snd (rpc_execute e sb r req a d))"
| db_upload: "db_step d (snd (handleUpload e slotID r d))"

interpretation database: transition_system db_step server_ok server_grows
proof unfold_locales
  fix d d' d'' :: db
  show "server_ok d'" if "db_step d d'" "server_ok d"
    using that by cases (simp_all add: snd_rpc_execute dispatchIdempotent_server upload_server)
  show "server_grows d d'" if "db_step d d'" "server_ok d"
    using that by cases (simp_all add: snd_rpc_execute dispatchIdempotent_server upload_server)
  show "server_grows d d" by (rule server_grows_refl)
  show "server_grows d d''" if "server_grows d d'" "server_grows d' d''"
    using that by (rule server_grows_trans)
qed

lemma server_ok_empty: "server_ok empty_db"
  by (simp add: server_ok_def group_data_ok_def handles_ok_empty dids_ok_empty groups_ok_empty
      seq_covers_empty messages_ok_empty attachments_ok_empty)
    (simp add: cache_ok_def empty_db_def)

section \<open>Replayed requests\<close>

text \<open>
  A cache of responses on top of a transition system: what is remembered is recalled after any
  run.
\<close>

locale response_cache = transition_system step inv rel
  for step :: "'s \<Rightarrow> 's \<Rightarrow> bool" and inv rel +
  fixes recall :: "'s \<Rightarrow> 'k \<Rightarrow> 'v option"
    and remember :: "'k \<Rightarrow> 'r \<Rightarrow> 's \<Rightarrow> 's"
    and stored :: "'r \<Rightarrow> 'v"
  assumes recall_remember: "inv s \<Longrightarrow> recall s k = None \<Longrightarrow> recall (remember k r s) k = Some (stored r)"
    and inv_remember: "inv s \<Longrightarrow> inv (remember k r s)"
    and recall_rel: "rel s s' \<Longrightarrow> recall s k = Some v \<Longrightarrow> recall s' k = Some v"
begin

lemma recall_run: "step\<^sup>*\<^sup>* s s' \<Longrightarrow> inv s \<Longrightarrow> recall s k = Some v \<Longrightarrow> recall s' k = Some v"
  using rel_run recall_rel by blast

lemma answered_forever:
  assumes "inv s" "recall s k = None" "step\<^sup>*\<^sup>* (remember k r s) s'"
  shows "recall s' k = Some (stored r)"
  by (rule recall_run [OF assms(3) inv_remember [OF assms(1)] recall_remember [OF assms(1,2)]])

end

lemma cached_response_None: "cache_ok d \<Longrightarrow> cached_response d k = None \<longleftrightarrow> tsel (idempotency d) k = None"
  unfolding cache_ok_def cached_response_def by (fastforce split: option.splits)

interpretation replay: response_cache db_step server_ok server_grows cached_response
  "\<lambda>k (e, v). cache_response e k v" "\<lambda>(e, v). canon v"
proof unfold_locales
  fix d d' :: db and k :: string and r :: "env \<times> gval" and v :: gval
  obtain e x where r: "r = (e, x)" by (cases r)
  show "cached_response ((\<lambda>(e, v). cache_response e k v) r d) k = Some ((\<lambda>(e, v). canon v) r)"
    if "server_ok d" "cached_response d k = None"
  proof -
    have "tsel (idempotency d) k = None"
      using that cached_response_None unfolding server_ok_def by blast
    then show ?thesis by (simp add: r cached_response_def cache_response_def)
  qed
  show "server_ok ((\<lambda>(e, v). cache_response e k v) r d)" if "server_ok d"
    using that by (simp add: r cache_response_server)
  show "cached_response d' k = Some v" if "server_grows d d'" "cached_response d k = Some v"
    using that unfolding server_grows_def cache_kept_def cached_response_def
    by (auto split: option.splits)
qed

lemma cached_response_canon: "cache_ok d \<Longrightarrow> cached_response d k = Some v \<Longrightarrow> canon v = v"
  unfolding cache_ok_def cached_response_def by (fastforce split: option.splits)

lemma dispatch_keeps_cache: "server_ok d \<Longrightarrow> same_cache d (snd (dispatch e sb method params a base d))"
  using effect_frames [OF dispatch_effect] unfolding server_ok_def group_data_ok_def by blast

text \<open>An answered operation is cached, canonically.\<close>

lemma dispatchIdempotent_cached:
  assumes ok: "server_ok d" and op: "operationIDFromParams params \<noteq> []"
    and res: "fst (dispatchIdempotent e sb method params a base d) = Inr v"
  defines "k \<equiv> idem_key a method (operationIDFromParams params)"
  shows "cached_response (snd (dispatchIdempotent e sb method params a base d)) k = Some (canon v)"
proof (cases "cached_response d k")
  case (Some out)
  then have "out = v" "canon out = out"
    using res op ok cached_response_canon [OF _ Some] unfolding server_ok_def
    by (auto simp: dispatchIdempotent_def k_def Let_def)
  with Some op show ?thesis by (simp add: dispatchIdempotent_state k_def Let_def)
next
  case None
  let ?D = "dispatch e sb method params a base d"
  have v: "fst ?D = Inr v"
    using res None op by (auto simp: dispatchIdempotent_def k_def Let_def split: prod.splits sum.splits)
  have "cached_response (snd ?D) k = None"
    using None dispatch_keeps_cache [OF ok] by (simp add: cached_response_def same_cache_def)
  then have "cached_response (cache_response e k v (snd ?D)) k = Some (canon v)"
    using replay.recall_remember [where k = k and r = "(e, v)", OF dispatch_server(1) [OF ok]] by simp
  with v None op show ?thesis by (simp add: dispatchIdempotent_state k_def Let_def)
qed

text \<open>A call changes no answer under another key.\<close>

lemma dispatchIdempotent_other_key:
  assumes ok: "server_ok d" and k: "k \<noteq> idem_key a method (operationIDFromParams params)"
  shows "cached_response (snd (dispatchIdempotent e sb method params a base d)) k = cached_response d k"
  using dispatch_keeps_cache [OF ok, of e sb "method" params a base] k
  by (auto simp: dispatchIdempotent_state cached_response_def cache_response_def same_cache_def Let_def split: sum.split)

lemma dispatchIdempotent_replay:
  "operationIDFromParams params \<noteq> [] \<Longrightarrow>
     cached_response d (idem_key a method (operationIDFromParams params)) = Some v \<Longrightarrow>
     dispatchIdempotent e sb method params a base d = (Inr v, d)"
  by (simp add: dispatchIdempotent_def Let_def)

text \<open>Different callers, methods or operations have different keys when the caller and the method
  have no NUL, which no identifier or method name has.\<close>

lemma nul_split:
  fixes n :: char
  assumes "n \<notin> set xs" "n \<notin> set ys" "xs @ n # s = ys @ n # t"
  shows "xs = ys \<and> s = t"
  using assms
proof (induction xs arbitrary: ys)
  case Nil
  then show ?case by (cases ys) auto
next
  case (Cons x xs)
  then obtain y zs where "ys = y # zs" by (cases ys) auto
  with Cons show ?case by auto
qed

lemma idem_key_inj:
  assumes "CHR 0x00 \<notin> set a" "CHR 0x00 \<notin> set m" "CHR 0x00 \<notin> set a'" "CHR 0x00 \<notin> set m'"
    and "idem_key a m op = idem_key a' m' op'"
  shows "a = a' \<and> m = m' \<and> op = op'"
  using nul_split [OF assms(1,3), of "m @ CHR 0x00 # op" "m' @ CHR 0x00 # op'"]
    nul_split [OF assms(2,4), of op op'] assms(5)
  by (simp add: idem_key_def)

end
