(* ===== verification/Server.thy ===== *)
theory Server
  imports RpcFacts
begin

text \<open>
  The server (server.go): its state, the routing of HTTP requests to handlers, the snapshot, and
  its concurrent executions. A JSON-RPC request is read and authenticated outside the mutex and
  executed under it, so other requests may be executed in between; uploads are one critical
  section. What holds of every interleaving holds of the handler that runs alone (\<open>handler_run\<close>).
\<close>

section \<open>State and operations\<close>

record server =
  sv_db :: db
  sv_service_did :: string
  sv_base_url :: string

definition new_server :: "db \<Rightarrow> string \<Rightarrow> server" where
  "new_server d serviceDid = \<lparr>sv_db = d, sv_service_did = serviceDid, sv_base_url = []\<rparr>"

definition SetBaseURL :: "string \<Rightarrow> server \<Rightarrow> server" where
  "SetBaseURL u s = s\<lparr>sv_base_url := u\<rparr>"

text \<open>
  The patterns of the multiplexer; a wildcard is one non-empty segment, GET patterns serve HEAD
  too, and a path that is not clean is redirected by net/http. \<open>hq_path\<close> is the decoded path of
  a request without escaped slashes.
\<close>

datatype route = RouteRPC | RouteHealth | RouteUpload string | RouteDownload string | RouteMux

definition path_param :: "string \<Rightarrow> string \<Rightarrow> string option" where
  "path_param prefix path =
     (let seg = drop (length prefix) path in
      if has_prefix prefix path \<and> seg \<notin> {[], ''.'', ''..''} \<and> CHR ''/'' \<notin> set seg then Some seg else None)"

definition route_request :: "http_req \<Rightarrow> route" where
  "route_request r =
     (if hq_path r = ''/rpc'' then RouteRPC
      else if hq_path r = ''/healthz'' then RouteHealth
      else if hq_method r = ''PUT'' then
        (case path_param ''/upload/'' (hq_path r) of Some slotID \<Rightarrow> RouteUpload slotID | None \<Rightarrow> RouteMux)
      else if hq_method r = ''GET'' \<or> hq_method r = ''HEAD'' then
        (case path_param ''/objects/'' (hq_path r) of Some objectID \<Rightarrow> RouteDownload objectID | None \<Rightarrow> RouteMux)
      else RouteMux)"

definition health_ok :: http_resp where
  "health_ok = \<lparr>hs_status = 200, hs_headers = [], hs_body = RawBody [0x6F, 0x6B]\<rparr>"

text \<open>The handler with nothing running beside it.\<close>

definition handler :: "env \<Rightarrow> http_req \<Rightarrow> server \<Rightarrow> reply \<times> server" where
  "handler e r s =
     (case route_request r of
        RouteRPC \<Rightarrow>
          (case handleRPC e (sv_base_url s) (sv_service_did s) r (sv_db s) of (rep, d) \<Rightarrow> (rep, s\<lparr>sv_db := d\<rparr>))
      | RouteHealth \<Rightarrow> (Reply health_ok, s)
      | RouteUpload slotID \<Rightarrow>
          (case handleUpload e slotID r (sv_db s) of (resp, d) \<Rightarrow> (Reply resp, s\<lparr>sv_db := d\<rparr>))
      | RouteDownload objectID \<Rightarrow> (Reply (handleDownload e objectID r (sv_db s)), s)
      | RouteMux \<Rightarrow> (ByMux, s))"

definition Handler :: "env \<Rightarrow> http_req \<Rightarrow> server \<Rightarrow> reply \<times> server" where
  "Handler = handler"

text \<open>\<open>JSONSnapshot\<close>: the messages in id order; NULL columns are written as empty strings.\<close>

definition null_string :: "string option \<Rightarrow> gval" where
  "null_string v = GStr (case v of None \<Rightarrow> [] | Some s \<Rightarrow> s)"

definition snapshot_row :: "msg_row \<Rightarrow> gval" where
  "snapshot_row r =
     GMap [(''message_id'', GStr (m_message_id r)), (''sender_did'', GStr (m_sender_did r)),
           (''recipient_did'', null_string (m_recipient_did r)), (''group_did'', null_string (m_group_did r)),
           (''type'', GStr (m_type r)), (''text'', null_string (m_text r)),
           (''secure'', GBool (m_secure r \<noteq> 0)), (''sent_at'', GStr (m_sent_at r))]"

definition JSONSnapshot :: "server \<Rightarrow> gval" where
  "JSONSnapshot s = GMap [(''messages'', GArr (map snapshot_row (sort_key m_id (messages (sv_db s)))))]"

section \<open>Concurrent executions\<close>

text \<open>
  \<open>w_pending\<close> holds the requests that are authenticated and wait for the mutex, with the identity
  they were given. Each step may meet its own environment.
\<close>

record world =
  w_server :: server
  w_pending :: "(http_req \<times> rpc_request \<times> string) list"

abbreviation w_db :: "world \<Rightarrow> db" where
  "w_db w \<equiv> sv_db (w_server w)"

inductive world_step :: "world \<Rightarrow> world \<Rightarrow> bool" where
  ws_authenticate:
    "rpc_authenticate e (sv_service_did (w_server w)) r (w_db w) = Inr (req, a) \<Longrightarrow>
       world_step w (w\<lparr>w_pending := (r, req, a) # w_pending w\<rparr>)"
| ws_execute:
    "(r, req, a) \<in> set (w_pending w) \<Longrightarrow>
       d' = snd (rpc_execute e (sv_base_url (w_server w)) r req a (w_db w)) \<Longrightarrow>
       world_step w (w\<lparr>w_server := (w_server w)\<lparr>sv_db := d'\<rparr>, w_pending := remove1 (r, req, a) (w_pending w)\<rparr>)"
| ws_upload:
    "route_request r = RouteUpload slotID \<Longrightarrow> d' = snd (handleUpload e slotID r (w_db w)) \<Longrightarrow>
       world_step w (w\<lparr>w_server := (w_server w)\<lparr>sv_db := d'\<rparr>\<rparr>)"
| ws_base_url: "world_step w (w\<lparr>w_server := SetBaseURL u (w_server w)\<rparr>)"

definition initial_world :: "string \<Rightarrow> world" where
  "initial_world serviceDid = \<lparr>w_server = new_server empty_db serviceDid, w_pending = []\<rparr>"

inductive reachable :: "string \<Rightarrow> world \<Rightarrow> bool" for svc where
  reach_init: "reachable svc (initial_world svc)"
| reach_step: "reachable svc w \<Longrightarrow> world_step w w' \<Longrightarrow> reachable svc w'"

inductive_simps world_step_simp: "world_step w w'"
inductive_cases world_stepE: "world_step w w'"

lemma reachable_run: "reachable svc w \<longleftrightarrow> world_step\<^sup>*\<^sup>* (initial_world svc) w"
proof
  show "world_step\<^sup>*\<^sup>* (initial_world svc) w" if "reachable svc w"
    using that by induction (auto intro: rtranclp.rtrancl_into_rtrancl)
  show "reachable svc w" if "world_step\<^sup>*\<^sup>* (initial_world svc) w"
    using that by (induction rule: rtranclp_induct) (auto intro: reachable.intros)
qed

lemma world_step_db: "world_step w w' \<Longrightarrow> db_step\<^sup>*\<^sup>* (w_db w) (w_db w')"
  by (erule world_stepE) (auto simp: SetBaseURL_def intro: db_step.intros)

lemma world_run_db: "world_step\<^sup>*\<^sup>* w w' \<Longrightarrow> db_step\<^sup>*\<^sup>* (w_db w) (w_db w')"
  by (induction rule: rtranclp_induct) (auto dest: world_step_db)

text \<open>A pending request was authenticated against the database of some earlier moment.\<close>

definition authenticated_before :: "string \<Rightarrow> db \<Rightarrow> http_req \<times> rpc_request \<times> string \<Rightarrow> bool" where
  "authenticated_before svc d p \<longleftrightarrow>
     (case p of (r, req, a) \<Rightarrow> \<exists>e d0. db_step\<^sup>*\<^sup>* d0 d \<and> server_ok d0 \<and> rpc_authenticate e svc r d0 = Inr (req, a))"

definition world_ok :: "world \<Rightarrow> bool" where
  "world_ok w \<longleftrightarrow> server_ok (w_db w)
     \<and> (\<forall>p \<in> set (w_pending w). authenticated_before (sv_service_did (w_server w)) (w_db w) p)"

definition world_grows :: "world \<Rightarrow> world \<Rightarrow> bool" where
  "world_grows w w' \<longleftrightarrow> server_grows (w_db w) (w_db w')
     \<and> sv_service_did (w_server w') = sv_service_did (w_server w)"

lemma authenticated_before_run:
  "authenticated_before svc d p \<Longrightarrow> db_step\<^sup>*\<^sup>* d d' \<Longrightarrow> authenticated_before svc d' p"
  unfolding authenticated_before_def by (auto intro: rtranclp_trans)

lemma world_step_service: "world_step w w' \<Longrightarrow> sv_service_did (w_server w') = sv_service_did (w_server w)"
  by (erule world_stepE) (simp_all add: SetBaseURL_def)

lemma world_step_pending:
  assumes "world_step w w'" "p \<in> set (w_pending w')" "server_ok (w_db w)"
  shows "p \<in> set (w_pending w) \<or> authenticated_before (sv_service_did (w_server w)) (w_db w) p"
  using assms
  by (cases rule: world_step.cases) (auto simp: authenticated_before_def dest!: subsetD [OF set_remove1_subset])

interpretation world: transition_system world_step world_ok world_grows
proof unfold_locales
  fix w w' w'' :: world
  show "world_ok w'" if st: "world_step w w'" and ok: "world_ok w"
  proof -
    have "server_ok (w_db w')"
      using database.inv_run [OF world_step_db [OF st]] ok unfolding world_ok_def by blast
    moreover have "authenticated_before (sv_service_did (w_server w)) (w_db w') p" if "p \<in> set (w_pending w')" for p
      using world_step_pending [OF st that] ok authenticated_before_run [OF _ world_step_db [OF st]]
      unfolding world_ok_def by blast
    ultimately show ?thesis
      by (simp add: world_ok_def world_step_service [OF st])
  qed
  show "world_grows w w'" if "world_step w w'" "world_ok w"
    using that database.rel_run [OF world_step_db] world_step_service
    unfolding world_grows_def world_ok_def by blast
  show "world_grows w w" by (simp add: world_grows_def server_grows_refl)
  show "world_grows w w''" if "world_grows w w'" "world_grows w' w''"
    using that server_grows_trans unfolding world_grows_def by auto
qed

lemma initial_world_ok: "world_ok (initial_world svc)"
  by (simp add: world_ok_def initial_world_def new_server_def server_ok_empty)

lemma reachable_ok: "reachable svc w \<Longrightarrow> world_ok w"
  unfolding reachable_run by (rule world.inv_run [OF _ initial_world_ok])

lemma reachable_server_ok: "reachable svc w \<Longrightarrow> server_ok (w_db w)"
  using reachable_ok unfolding world_ok_def by blast

text \<open>The sequential handler is a run of the concurrent server.\<close>

lemma handler_run:
  "world_step\<^sup>*\<^sup>* \<lparr>w_server = s, w_pending = []\<rparr> \<lparr>w_server = snd (handler e r s), w_pending = []\<rparr>"
proof (cases "route_request r")
  case RouteRPC
  show ?thesis
  proof (cases "rpc_authenticate e (sv_service_did s) r (sv_db s)")
    case (Inl resp)
    with RouteRPC show ?thesis by (simp add: handler_def handleRPC_def)
  next
    case (Inr p)
    obtain req a where p: "p = (req, a)" by (cases p)
    let ?d = "snd (rpc_execute e (sv_base_url s) r req a (sv_db s))"
    let ?w1 = "\<lparr>w_server = s, w_pending = [(r, req, a)]\<rparr>"
    have "world_step \<lparr>w_server = s, w_pending = []\<rparr> ?w1"
      using ws_authenticate [of e "\<lparr>w_server = s, w_pending = []\<rparr>" r req a] Inr p by simp
    moreover have "world_step ?w1 \<lparr>w_server = s\<lparr>sv_db := ?d\<rparr>, w_pending = []\<rparr>"
      using ws_execute [of r req a ?w1 ?d e] by simp
    moreover have "snd (handler e r s) = s\<lparr>sv_db := ?d\<rparr>"
      using RouteRPC Inr p by (simp add: handler_def handleRPC_def split: prod.split)
    ultimately show ?thesis by (simp add: rtranclp.rtrancl_into_rtrancl [OF r_into_rtranclp])
  qed
next
  case (RouteUpload slotID)
  let ?d = "snd (handleUpload e slotID r (sv_db s))"
  have "world_step \<lparr>w_server = s, w_pending = []\<rparr> \<lparr>w_server = s\<lparr>sv_db := ?d\<rparr>, w_pending = []\<rparr>"
    using ws_upload [OF RouteUpload, of ?d e "\<lparr>w_server = s, w_pending = []\<rparr>"] by simp
  moreover have "snd (handler e r s) = s\<lparr>sv_db := ?d\<rparr>"
    using RouteUpload by (simp add: handler_def split: prod.split)
  ultimately show ?thesis by simp
qed (simp_all add: handler_def)

end
