(* ===== verification/Accountability.thy ===== *)
theory Accountability
  imports Server
begin

text \<open>
  Who is answerable for a change: a stored DID document is replaced only by a request signed
  under it, a handle is bound to the caller that registered it, and a message carries the name of
  the caller that sent it.
\<close>

section \<open>Documents\<close>

lemma same_documents_insert: "same_documents d (snd (insert_message r d))"
  by (simp add: same_documents_def frame)

lemma groupAdd_documents: "same_documents d (snd (groupAdd e a params d))"
  using groupAdd_only_groups [of d e a params] by (simp add: only_groups_def same_documents_def)

lemma writes_documents: "group_writes d d' \<Longrightarrow> same_documents d d'"
  using same_if_group_writes by blast

lemma attachments_documents: "only_attachments d d' \<Longrightarrow> same_documents d d'"
  using same_if_attachments by blast

lemma handle_documents:
  "same_documents d (snd (handleRegister e a params d))" "same_documents d (snd (handleRecover e a params d))"
  using same_handle by blast+

lemma opaque_documents:
  "same_documents d (snd (groupE2EEPublishKeyPackage e a params d))"
  "same_documents d (snd (e2eePublishPrekeyBundle e a params d))"
  "same_documents d (snd (e2eeGetPrekeyBundle params d))"
  using same_opaque same_prekeys by blast+

lemma e2ee_documents: "e2ee_state_write a d d' \<Longrightarrow> same_documents d d'"
  using same_opaque by blast

lemma dispatch_documents:
  assumes "method \<noteq> ''did.register_document''"
  shows "same_documents d (snd (dispatch e sb method params a base d))"
  using assms unfolding dispatch_def
  by (simp add: same_refl handle_documents opaque_documents groupAdd_documents
      method_writes [THEN writes_documents] e2ee_state_methods [THEN e2ee_documents]
      attachment_frames [THEN attachments_documents])

lemma did_doc_same: "same_documents d d' \<Longrightarrow> did_doc d' did = did_doc d did"
  by (simp add: same_documents_def did_doc_def)

lemma did_doc_cache [simp]: "did_doc (cache_response e k v d) did = did_doc d did"
  by (simp add: did_doc_def cache_response_def)

text \<open>A call changes a document only if it registers one, and then the one its parameters name.\<close>

lemma dispatchIdempotent_document:
  assumes ch: "did_doc (snd (dispatchIdempotent e sb method params a base d)) did \<noteq> did_doc d did"
  shows "method = ''did.register_document'' \<and> did = gets params ''did''"
proof -
  have st: "did_doc (snd (dispatch e sb method params a base d)) did \<noteq> did_doc d did"
    using ch by (auto simp: dispatchIdempotent_state Let_def split: if_splits sum.splits)
  then have m: "method = ''did.register_document''"
    using did_doc_same [OF dispatch_documents] by blast
  with st have "did_doc (snd (didRegisterDocument e params d)) did \<noteq> did_doc d did"
    by (simp add: dispatch_def)
  then have "did = gets params ''did''"
    by (simp add: didRegisterDocument_doc split: if_splits)
  with m show ?thesis by blast
qed

lemma read_limited_small:
  "read_limited (Suc n) r = Some body \<Longrightarrow> \<not> n < length body \<Longrightarrow> body = hq_body r \<and> length (hq_body r) \<le> n"
  by (auto simp: read_limited_def split: if_splits)

text \<open>What authentication shows of a request that registers a document.\<close>

lemma rpc_authenticate_Inr:
  assumes "rpc_authenticate e svc r d = Inr (req, a)"
  shows "hq_method r = ''POST''" "length (hq_body r) \<le> maxBodyBytes" "json_request e (hq_body r) = Some req"
    "rq_method req = ''did.register_document'' \<Longrightarrow>
       verifyRegistration e (rq_params req) r (httpHeaders (hq_headers r)) (hq_body r) d = Inr a"
    "rq_method req \<noteq> ''did.register_document'' \<Longrightarrow>
       verify e svc r (httpHeaders (hq_headers r)) (hq_body r) d = Inr a"
proof -
  obtain body where b: "read_limited (maxBodyBytes + 1) r = Some body" "\<not> maxBodyBytes < length body"
    using assms unfolding rpc_authenticate_def by (auto split: if_splits option.splits)
  then have body: "body = hq_body r" "length (hq_body r) \<le> maxBodyBytes"
    using read_limited_small [of maxBodyBytes r body] by simp_all
  show "hq_method r = ''POST''" "length (hq_body r) \<le> maxBodyBytes" "json_request e (hq_body r) = Some req"
    "rq_method req = ''did.register_document'' \<Longrightarrow>
       verifyRegistration e (rq_params req) r (httpHeaders (hq_headers r)) (hq_body r) d = Inr a"
    "rq_method req \<noteq> ''did.register_document'' \<Longrightarrow>
       verify e svc r (httpHeaders (hq_headers r)) (hq_body r) d = Inr a"
    using assms b unfolding body(1) rpc_authenticate_def Let_def
    by (auto simp: body split: if_splits option.splits sum.splits)
qed

lemma handleRPC_document:
  assumes old: "did_doc d did = Some t"
    and ch: "did_doc (snd (handleRPC e sb svc r d)) did \<noteq> Some t"
  shows "\<exists>doc. unmarshal_map t = Some doc
    \<and> signed_as e r (httpHeaders (hq_headers r)) (hq_body r) doc did"
proof (cases "rpc_authenticate e svc r d")
  case (Inl resp)
  with old ch show ?thesis by (simp add: handleRPC_def)
next
  case (Inr p)
  obtain req a where p: "p = (req, a)" by (cases p)
  have "did_doc (snd (rpc_execute e sb r req a d)) did \<noteq> did_doc d did"
    using old ch Inr p by (simp add: handleRPC_def)
  then have m: "rq_method req = ''did.register_document''" "did = gets (rq_params req) ''did''"
    using dispatchIdempotent_document unfolding snd_rpc_execute by blast+
  have "verifyRegistration e (rq_params req) r (httpHeaders (hq_headers r)) (hq_body r) d = Inr a"
    by (rule rpc_authenticate_Inr(4) [OF Inr [unfolded p] m(1)])
  then show ?thesis
    using old m(2) by (cases rule: verifyRegistration_cases) auto
qed

section \<open>Handles\<close>

lemma effect_handle_owner:
  assumes "effect e a params d d'" "a \<noteq> []" "handle_owner d' h \<noteq> handle_owner d h"
  shows "handle_owner d' h = Some a"
proof -
  consider "same_handles d d'" | "d' = snd (handleRegister e a params d)" | "d' = snd (handleRecover e a params d)"
    using effect_frames [OF assms(1)] by blast
  then show ?thesis
  proof cases
    case 1
    with assms(3) show ?thesis by (simp add: same_handles_def handle_owner_def)
  next
    case 2
    with assms(2,3) show ?thesis by (auto simp: handleRegister_owner split: if_splits)
  next
    case 3
    with assms(3) show ?thesis by (simp add: handleRecover_owner)
  qed
qed

section \<open>Messages\<close>

text \<open>The rows a call adds are the caller's, or delivery notices.\<close>

definition sent_by :: "string \<Rightarrow> db \<Rightarrow> db \<Rightarrow> bool" where
  "sent_by a d d' \<longleftrightarrow>
     (\<exists>new. messages d' = messages d @ new \<and> (\<forall>r \<in> set new. m_sender_did r = a \<or> m_type r = ''notice''))"

lemma sent_by_same: "messages d' = messages d \<Longrightarrow> sent_by a d d'"
  by (simp add: sent_by_def)

lemma sent_by_insert:
  "messages d1 = messages d \<Longrightarrow> m_sender_did row = a \<or> m_type row = ''notice'' \<Longrightarrow>
     sent_by a d (snd (insert_message row d1))"
  by (auto simp: sent_by_def insert_message_def)

lemma sent_by_accept:
  "m_sender_did row = a \<Longrightarrow> sent_by a d (snd (accept_group_message gid row result d))"
  by (simp add: accept_group_message_state sent_by_same sent_by_insert)

lemma group_messages:
  "messages (snd (groupCreate e a params d)) = messages d"
  "messages (snd (groupJoin e a params d)) = messages d"
  "messages (snd (groupRemove a params d)) = messages d"
  "messages (snd (groupLeave a params d)) = messages d"
  "messages (snd (groupUpdateProfile a params d)) = messages d"
  "messages (snd (groupUpdatePolicy a params d)) = messages d"
  "messages (snd (groupRebindMember a params d)) = messages d"
  by (simp_all add: groupCreate_state groupJoin_def groupRemove_def groupLeave_def groupUpdateProfile_def
      groupUpdatePolicy_def groupRebindMember_def Let_def addGroupMember_def split: sum.split option.split)

lemma same_groups_messages: "same_groups d d' \<Longrightarrow> messages d' = messages d"
  by (simp add: same_groups_def)

lemma handle_groups:
  "same_groups d (snd (handleRegister e a params d))" "same_groups d (snd (handleRecover e a params d))"
  using same_handle by blast+

lemma opaque_groups:
  "same_groups d (snd (groupE2EEPublishKeyPackage e a params d))"
  "same_groups d (snd (e2eePublishPrekeyBundle e a params d))"
  "same_groups d (snd (e2eeGetPrekeyBundle params d))"
  using same_opaque same_prekeys by blast+

lemmas other_messages =
  handle_groups [THEN same_groups_messages] opaque_groups [THEN same_groups_messages]
  same_document [THEN conjunct2, THEN conjunct2, THEN conjunct1, THEN same_groups_messages]

lemma e2ee_messages: "e2ee_state_write a d d' \<Longrightarrow> messages d' = messages d"
  using same_opaque by (simp add: same_groups_def) blast

lemma attachment_messages: "only_attachments d d' \<Longrightarrow> messages d' = messages d"
  by (auto simp: only_attachments_def)

lemma caller_is: "a \<noteq> [] \<Longrightarrow> caller_or_sender a params = a" "a \<noteq> [] \<Longrightarrow> direct_sender a meta = a"
  by (simp_all add: caller_or_sender_def direct_sender_def)

lemma send_methods_sent_by:
  assumes "a \<noteq> []"
  shows "sent_by a d (snd (directSend e a params d))" "sent_by a d (snd (groupSend e a params d))"
    "sent_by a d (snd (groupE2EESend e a params d))" "sent_by a d (snd (groupE2EENotice e params d))"
  using assms
  by (simp_all add: directSend_state groupSend_def groupE2EESend_def groupE2EENotice_def Let_def sent_by_same
      sent_by_insert sent_by_accept direct_row_def group_row_of_def notice_row_def caller_is
      split: sum.split prod.split)

lemma dispatch_sent_by:
  assumes "a \<noteq> []"
  shows "sent_by a d (snd (dispatch e sb method params a base d))"
  unfolding dispatch_def
  by (simp add: sent_by_same [OF refl] send_methods_sent_by [OF assms] group_messages [THEN sent_by_same]
      other_messages [THEN sent_by_same] groupAdd_messages(1) [THEN sent_by_same]
      e2ee_state_methods [THEN e2ee_messages, THEN sent_by_same]
      attachment_frames [THEN attachment_messages, THEN sent_by_same])

lemma messages_cache [simp]: "messages (cache_response e k v d) = messages d"
  by (simp add: cache_response_def)

lemma dispatchIdempotent_sent_by:
  assumes "a \<noteq> []"
  shows "sent_by a d (snd (dispatchIdempotent e sb method params a base d))"
  using dispatch_sent_by [OF assms, of d e sb "method" params base]
  by (auto simp: dispatchIdempotent_state Let_def sent_by_same sent_by_def split: sum.split)

end
