(* ===== verification/Roles.thy ===== *)
theory Roles
  imports Accountability
begin

text \<open>
  An abstract specification of who may change whose rights. The abstract state keeps, for every
  group, the role of each member, the rank each action needs, and the owner of record; the step
  relation says what a caller may do to it. Every dispatched call refines one abstract step
  (\<open>dispatch_refines\<close>), so what the abstract machine guarantees holds for the server.
\<close>

section \<open>The abstract machine\<close>

record rights =
  rt_role :: "string \<Rightarrow> string \<Rightarrow> string"
  rt_need :: "string \<Rightarrow> string \<Rightarrow> rank"
  rt_owner :: "string \<Rightarrow> string"

definition set_role :: "string \<Rightarrow> string \<Rightarrow> string \<Rightarrow> rights \<Rightarrow> rights" where
  "set_role gid m r A = A\<lparr>rt_role := (rt_role A)(gid := (rt_role A gid)(m := r))\<rparr>"

definition may :: "rights \<Rightarrow> string \<Rightarrow> string \<Rightarrow> string \<Rightarrow> bool" where
  "may A gid a action \<longleftrightarrow> rt_need A gid action \<le> role_rank (rt_role A gid a)"

text \<open>The rights of all groups but one are the same.\<close>

definition same_elsewhere :: "string \<Rightarrow> rights \<Rightarrow> rights \<Rightarrow> bool" where
  "same_elsewhere gid A A' \<longleftrightarrow>
     (\<forall>g. g \<noteq> gid \<longrightarrow> rt_role A' g = rt_role A g \<and> rt_need A' g = rt_need A g \<and> rt_owner A' g = rt_owner A g)"

text \<open>
  The caller is \<open>a\<close>; without authentication (\<open>a\<close> empty) a request speaks for whom it names. The
  last rule is the rebinding of a membership to the caller's own DID, which asks for no right.
\<close>

definition speaks_for :: "string \<Rightarrow> string \<Rightarrow> bool" where
  "speaks_for a m \<longleftrightarrow> a \<noteq> [] \<longrightarrow> m = a"

inductive rights_step :: "string \<Rightarrow> rights \<Rightarrow> rights \<Rightarrow> bool" for a where
  rs_stay: "rights_step a A A"
| rs_found: "(\<And>m. rt_role A gid m = []) \<Longrightarrow> rt_owner A gid = [] \<Longrightarrow> same_elsewhere gid A A' \<Longrightarrow>
    speaks_for a (rt_owner A' gid) \<Longrightarrow> rights_step a A A'"
| rs_grant: "may A gid a ''add'' \<Longrightarrow> rights_step a A (set_role gid m r A)"
| rs_join: "speaks_for a m \<Longrightarrow> rt_role A gid m = [] \<Longrightarrow> rights_step a A (set_role gid m ''member'' A)"
| rs_revoke: "may A gid a ''remove'' \<Longrightarrow> m \<noteq> rt_owner A gid \<Longrightarrow> rights_step a A (set_role gid m [] A)"
| rs_leave: "speaks_for a m \<Longrightarrow> rights_step a A (set_role gid m [] A)"
| rs_policy: "may A gid a ''update_policy'' \<Longrightarrow> rights_step a A (A\<lparr>rt_need := (rt_need A)(gid := need)\<rparr>)"
| rs_rebind: "speaks_for a m' \<Longrightarrow> m' = m \<or> rt_role A gid m' = [] \<Longrightarrow>
    rights_step a A (set_role gid m' (rt_role A gid m) (set_role gid m [] A))"

text \<open>
  What an outsider can do to a group that has members: nothing to anybody else's role, but for
  taking a membership over by rebinding it to itself.
\<close>

lemma outsider_step:
  assumes "rights_step a A A'" "a \<noteq> []" "rt_role A gid a = []" "m \<noteq> a" "rt_role A gid m \<noteq> []"
    and need: "\<And>action. RNone < rt_need A gid action"
  shows "rt_role A' gid m = rt_role A gid m \<or> (rt_role A' gid m = [] \<and> rt_role A' gid a = rt_role A gid m)"
proof -
  have no: "\<not> may A gid a action" for action
    using need [of action] assms(3) by (simp add: may_def role_rank_def less_eq_rank_def less_rank_def)
  from assms(1) show ?thesis
  proof cases
    case (rs_found gid')
    then have "gid \<noteq> gid'" using assms(5) by metis
    with rs_found(3) show ?thesis by (simp add: same_elsewhere_def)
  qed (use assms(2-5) no in \<open>auto simp: set_role_def speaks_for_def\<close>)
qed

section \<open>The abstraction\<close>

definition rights_of :: "db \<Rightarrow> rights" where
  "rights_of d =
     \<lparr>rt_role = groupMemberRole d, rt_need = (\<lambda>gid action. required_rank (required_role d gid action)),
      rt_owner = ownerDID d\<rparr>"

lemma may_permitted: "may (rights_of d) gid a action \<longleftrightarrow> groupPermitted d gid a action"
  by (simp add: may_def rights_of_def groupPermitted_rank)

text \<open>The policy of a group decides its required roles.\<close>

definition policy_role :: "group_row option \<Rightarrow> string \<Rightarrow> string" where
  "policy_role g action =
     (case g of None \<Rightarrow> defaultRequiredRole action
      | Some r \<Rightarrow> (case unmarshal_map (g_policy r) of None \<Rightarrow> defaultRequiredRole action
                 | Some policy \<Rightarrow> let v = gets (asMap (gindex policy ''permissions'')) action in
                                 if v \<noteq> [] then v else defaultRequiredRole action))"

lemma required_role_policy: "required_role d gid action = policy_role (tsel (groups d) gid) action"
  by (simp add: required_role_def policy_role_def loadGroup_def split: option.split)

lemma policy_role_upd:
  "(\<And>r. g_policy (f r) = g_policy r) \<Longrightarrow> policy_role (map_option f g) action = policy_role g action"
  by (simp add: policy_role_def split: option.split)

lemma required_role_ops [simp]:
  "required_role (bump_version g d) gid action = required_role d gid action"
  "required_role (bump_seq g d) gid action = required_role d gid action"
  "required_role (set_profile g p d) gid action = required_role d gid action"
  by (simp_all add: required_role_policy bump_version_def bump_seq_def set_profile_def policy_role_upd)

lemma ownerDID_ops [simp]:
  "ownerDID (bump_version g d) gid = ownerDID d gid" "ownerDID (bump_seq g d) gid = ownerDID d gid"
  "ownerDID (set_profile g p d) gid = ownerDID d gid" "ownerDID (set_policy g p d) gid = ownerDID d gid"
  by (simp_all add: ownerDID_def bump_version_def bump_seq_def set_profile_def set_policy_def split: option.split)

lemma required_role_set_policy:
  "gid \<noteq> g \<Longrightarrow> required_role (set_policy g p d) gid action = required_role d gid action"
  by (simp add: required_role_policy set_policy_def)

lemma rights_same:
  "groups d' = groups d \<Longrightarrow> group_members d' = group_members d \<Longrightarrow> rights_of d' = rights_of d"
  by (simp add: rights_of_def required_role_policy ownerDID_def groupMemberRole_def fun_eq_iff)

lemma rights_ops [simp]:
  "rights_of (bump_version g d) = rights_of d" "rights_of (bump_seq g d) = rights_of d"
  "rights_of (set_profile g p d) = rights_of d"
  by (simp_all add: rights_of_def fun_eq_iff)

lemma rights_insert [simp]: "rights_of (snd (insert_message row d)) = rights_of d"
  by (rule rights_same) (simp_all add: frame)

lemma rights_addGroupMember:
  "rights_of (addGroupMember e i g m r d) = set_role g m (if r = [] then ''member'' else r) (rights_of d)"
  by (simp add: rights_of_def set_role_def fun_eq_iff role_addGroupMember required_role_policy ownerDID_def)

lemma rights_removeGroupMember: "rights_of (removeGroupMember g m d) = set_role g m [] (rights_of d)"
proof -
  have "groups (removeGroupMember g m d) = groups d" by (simp add: removeGroupMember_def)
  then show ?thesis
    by (simp add: rights_of_def set_role_def fun_eq_iff role_removeGroupMember required_role_policy ownerDID_def)
qed

lemma no_row_no_role:
  assumes "groups_ok d" "groupMemberRole d gid m = []" shows "tsel (group_members d) (gid, m) = None"
  using groups_okD(4) [OF assms(1), of gid m] assms(2)
  by (cases "tsel (group_members d) (gid, m)") (auto simp: groupMemberRole_def)

lemma rights_joinGroupMember:
  assumes "groups_ok d" "groupMemberRole d g m = []"
  shows "rights_of (joinGroupMember e i g m d) = set_role g m ''member'' (rights_of d)"
proof -
  have "groups (joinGroupMember e i g m d) = groups d" by (simp add: joinGroupMember_def)
  then show ?thesis
    by (simp add: rights_of_def set_role_def fun_eq_iff role_joinGroupMember no_row_no_role [OF assms]
        required_role_policy ownerDID_def)
qed

lemma role_rebind_row:
  assumes "m' = m \<or> tsel (group_members d) (g, m') = None"
  shows "groupMemberRole (rebind_row g m m' d) gid did =
    (if gid = g \<and> did = m' then groupMemberRole d g m else if gid = g \<and> did = m then [] else groupMemberRole d gid did)"
proof -
  have k: "(g, m') = (g, m) \<or> tsel (group_members d) (g, m') = None" using assms by auto
  show ?thesis by (simp add: groupMemberRole_def rebind_row_def tsel_trekey [OF k])
qed

lemma rights_rebind_row:
  assumes "m' = m \<or> tsel (group_members d) (g, m') = None"
  shows "rights_of (rebind_row g m m' d) = set_role g m' (rt_role (rights_of d) g m) (set_role g m [] (rights_of d))"
proof -
  have "groups (rebind_row g m m' d) = groups d" by (simp add: rebind_row_def)
  then show ?thesis
    by (simp add: rights_of_def set_role_def fun_eq_iff role_rebind_row [OF assms] required_role_policy ownerDID_def)
qed

lemma rights_set_policy:
  "\<exists>need. rights_of (set_policy g p d) = (rights_of d)\<lparr>rt_need := (rt_need (rights_of d))(g := need)\<rparr>"
  by (rule exI [of _ "\<lambda>action. required_rank (required_role (set_policy g p d) g action)"])
    (simp add: rights_of_def fun_eq_iff required_role_set_policy)

section \<open>Each method is a step\<close>

lemma speaks_caller: "speaks_for a (caller_or_sender a params)"
  by (simp add: speaks_for_def caller_or_sender_def)

lemma add_initial_elsewhere:
  "same_elsewhere gid A (rights_of d) \<Longrightarrow> rt_owner (rights_of d) gid = c \<Longrightarrow>
     same_elsewhere gid A (rights_of (add_initial e gid i raw d)) \<and> rt_owner (rights_of (add_initial e gid i raw d)) gid = c"
proof (induction e gid i raw d rule: add_initial.induct)
  case (2 e gid i entry raw d)
  show ?case
  proof (cases "initial_member e d entry")
    case (Some p)
    obtain did role where p: "p = (did, role)" by (cases p)
    have "same_elsewhere gid A (rights_of (addGroupMember e i gid did role d))"
      "rt_owner (rights_of (addGroupMember e i gid did role d)) gid = c"
      using "2.prems" by (simp_all add: rights_addGroupMember set_role_def same_elsewhere_def)
    with "2.IH"(2) [OF Some p [symmetric]] Some p show ?thesis by simp
  qed (use 2 in simp)
qed simp

lemma groupCreate_refines:
  assumes ok: "groups_ok d"
  shows "rights_step a (rights_of d) (rights_of (snd (groupCreate e a params d)))"
proof -
  let ?body = "asMap (gindex params ''body'')" and ?gid = "newGroupDID e" and ?c = "caller_or_sender a params"
  let ?row = "new_group_row e ?body ?c"
  let ?d1 = "d\<lparr>groups := groups d @ [(?gid, ?row)]\<rparr>"
  show ?thesis
  proof (cases "asMap (gindex ?body ''group_policy'') = None \<or> ?c = [] \<or> tsel (groups d) ?gid \<noteq> None")
    case False
    then have new: "tsel (groups d) ?gid = None" by blast
    have none: "groupMemberRole d ?gid m = []" for m
    proof (rule ccontr)
      assume "groupMemberRole d ?gid m \<noteq> []"
      then obtain r where "tsel (group_members d) (?gid, m) = Some r"
        by (auto simp: groupMemberRole_def split: option.splits)
      then show False using groups_okD(4) [OF ok] new by blast
    qed
    have off: "same_elsewhere ?gid (rights_of d) (rights_of (addGroupMember e 1 ?gid ?c ''owner'' ?d1))"
      "rt_owner (rights_of (addGroupMember e 1 ?gid ?c ''owner'' ?d1)) ?gid = ?c"
      unfolding rights_addGroupMember
      by (simp_all add: same_elsewhere_def set_role_def rights_of_def required_role_policy ownerDID_def
          groupMemberRole_def tsel_snoc [OF new] new_group_row_def fun_eq_iff)
    have st: "snd (groupCreate e a params d)
        = add_initial e ?gid 2 (case garr (gindex ?body ''initial_members'') of None \<Rightarrow> [] | Some raw \<Rightarrow> raw)
            (addGroupMember e 1 ?gid ?c ''owner'' ?d1)"
      using False by (simp add: groupCreate_state Let_def del: not_None_eq)
    show ?thesis
    proof (rule rs_found [of _ ?gid])
      show "rt_role (rights_of d) ?gid m = []" for m using none by (simp add: rights_of_def)
      show "rt_owner (rights_of d) ?gid = []" using new by (simp add: rights_of_def ownerDID_def)
    qed (unfold st, use add_initial_elsewhere [OF off] speaks_caller in auto)
  qed (auto simp: groupCreate_state Let_def rs_stay)
qed

lemma groupJoin_refines:
  assumes "groups_ok d"
  shows "rights_step a (rights_of d) (rights_of (snd (groupJoin e a params d)))"
proof -
  have "rights_step a (rights_of d) (rights_of (joinGroupMember e 0 gid (caller_or_sender a params) d))"
    if "\<not> isGroupMember d gid (caller_or_sender a params)" for gid
    using that rights_joinGroupMember [OF assms] speaks_caller
    by (simp add: isGroupMember_def rs_join rights_of_def [of d])
  then show ?thesis by (auto simp: groupJoin_def Let_def rs_stay split: sum.split)
qed

lemma groupAdd_refines: "rights_step a (rights_of d) (rights_of (snd (groupAdd e a params d)))"
  by (auto simp: groupAdd_def Let_def rights_addGroupMember rs_stay may_permitted intro!: rs_grant split: option.split)

lemma groupRemove_refines: "rights_step a (rights_of d) (rights_of (snd (groupRemove a params d)))"
  by (auto simp: groupRemove_def Let_def rights_removeGroupMember rs_stay may_permitted intro!: rs_revoke)
    (simp add: rights_of_def)

lemma groupLeave_refines: "rights_step a (rights_of d) (rights_of (snd (groupLeave a params d)))"
  by (auto simp: groupLeave_def Let_def rights_removeGroupMember rs_stay speaks_caller intro!: rs_leave)

lemma groupUpdateProfile_refines: "rights_step a (rights_of d) (rights_of (snd (groupUpdateProfile a params d)))"
  by (auto simp: groupUpdateProfile_def Let_def rs_stay split: sum.split option.split)

lemma groupUpdatePolicy_refines: "rights_step a (rights_of d) (rights_of (snd (groupUpdatePolicy a params d)))"
proof -
  have "rights_step a (rights_of d) (rights_of (set_policy gid p d))"
    if "groupPermitted d gid a ''update_policy''" for gid p
    using rights_set_policy [of gid p d] that rs_policy [of "rights_of d" gid a] by (auto simp: may_permitted)
  then show ?thesis by (auto simp: groupUpdatePolicy_def Let_def rs_stay split: sum.split option.split)
qed

lemma accept_rights [simp]: "rights_of (snd (accept_group_message gid row result d)) = rights_of d"
  by (simp add: accept_group_message_state)

lemma groupSend_refines: "rights_of (snd (groupSend e a params d)) = rights_of d"
  by (simp add: groupSend_def Let_def split: sum.split prod.split)

lemma groupRebindMember_refines: "rights_step a (rights_of d) (rights_of (snd (groupRebindMember a params d)))"
proof -
  have "rights_step a (rights_of d) (rights_of (rebind_row gid m m' d))"
    if "m' = m \<or> tsel (group_members d) (gid, m') = None" "speaks_for a m'" for gid m m'
    unfolding rights_rebind_row [OF that(1)]
    by (rule rs_rebind) (use that in \<open>auto simp: rights_of_def groupMemberRole_def\<close>)
  then show ?thesis
    by (auto simp: groupRebindMember_def Let_def rs_stay speaks_for_def split: sum.split)
qed

text \<open>Everything else leaves the two tables alone.\<close>

lemma same_groups_rights: "same_groups d d' \<Longrightarrow> rights_step a (rights_of d) (rights_of d')"
  using rights_same [of d' d] by (simp add: same_groups_def rs_stay)

lemma message_rights:
  "rights_of (snd (directSend e a params d)) = rights_of d"
  "rights_of (snd (groupE2EESend e a params d)) = rights_of d"
  "rights_of (snd (groupE2EENotice e params d)) = rights_of d"
  by (simp_all add: directSend_state groupE2EESend_def groupE2EENotice_def Let_def split: sum.split prod.split)

lemma attachments_groups: "only_attachments d d' \<Longrightarrow> same_groups d d'"
  using same_if_attachments by blast

lemma e2ee_groups: "e2ee_state_write a d d' \<Longrightarrow> same_groups d d'"
  using same_opaque by blast

lemmas document_groups = same_document [THEN conjunct2, THEN conjunct2, THEN conjunct1]

lemma dispatch_refines:
  assumes "groups_ok d"
  shows "rights_step a (rights_of d) (rights_of (snd (dispatch e sb method params a base d)))"
  unfolding dispatch_def
  by (simp add: rs_stay groupCreate_refines [OF assms] groupJoin_refines [OF assms] groupAdd_refines groupRemove_refines
      groupLeave_refines groupUpdateProfile_refines groupUpdatePolicy_refines groupSend_refines
      groupRebindMember_refines message_rights handle_groups [THEN same_groups_rights]
      opaque_groups [THEN same_groups_rights] document_groups [THEN same_groups_rights]
      e2ee_state_methods [THEN e2ee_groups, THEN same_groups_rights]
      attachment_frames [THEN attachments_groups, THEN same_groups_rights])

lemma dispatchIdempotent_refines:
  assumes "groups_ok d"
  shows "rights_step a (rights_of d) (rights_of (snd (dispatchIdempotent e sb method params a base d)))"
proof -
  have c: "rights_of (cache_response e k v d') = rights_of d'" for k v d'
    by (rule rights_same) (simp_all add: cache_response_def)
  show ?thesis
    using dispatch_refines [OF assms, of a e sb "method" params base] rs_stay
    by (simp add: dispatchIdempotent_state Let_def c split: sum.split)
qed

end
