(* ===== verification/Lifecycle.thy ===== *)
theory Lifecycle
  imports Server
begin

text \<open>
  The server's life (server.go) and its database file (schema.go): opening a file, creating what is
  missing of the schema, serving, closing, and opening it again. Errors of the operating system
  and of the database driver are those of the record \<open>os\<close>.
\<close>

section \<open>The schema\<close>

datatype ddl = CreateTable string | CreateIndex string string

text \<open>The statements of \<open>ensureSchema\<close>, in its order; an index names its table.\<close>

definition schema_stmts :: "ddl list" where
  "schema_stmts =
     [CreateTable ''registered_dids'', CreateTable ''messages'',
      CreateIndex ''idx_msg_recipient'' ''messages'', CreateIndex ''idx_msg_sender'' ''messages'',
      CreateIndex ''idx_msg_group'' ''messages'',
      CreateTable ''handles'', CreateTable ''groups'', CreateTable ''group_members'',
      CreateIndex ''idx_group_members_member'' ''group_members'',
      CreateTable ''prekey_bundles'', CreateTable ''one_time_prekeys'', CreateTable ''group_key_packages'',
      CreateTable ''group_e2ee_states'', CreateIndex ''idx_group_e2ee_states_group'' ''group_e2ee_states'',
      CreateTable ''attachment_slots'', CreateIndex ''idx_attachment_slots_attachment'' ''attachment_slots'',
      CreateTable ''attachment_objects'', CreateTable ''attachment_tickets'', CreateTable ''idempotency'']"

text \<open>A database file: the tables and indexes that exist, and the rows of the tables.\<close>

record dbfile =
  df_tables :: "string list"
  df_indexes :: "string list"
  df_rows :: db

definition empty_file :: dbfile where
  "empty_file = \<lparr>df_tables = [], df_indexes = [], df_rows = empty_db\<rparr>"

text \<open>
  \<open>IF NOT EXISTS\<close>: what exists is left alone. A new table has no rows, and a missing one had
  none, so the rows stay as they are. An index needs its table.
\<close>

fun exec_ddl :: "(ddl \<Rightarrow> string option) \<Rightarrow> ddl \<Rightarrow> dbfile \<Rightarrow> unit res \<times> dbfile" where
  "exec_ddl fault (CreateTable t) f =
     (case fault (CreateTable t) of
        Some msg \<Rightarrow> (Inl (SqlError msg), f)
      | None \<Rightarrow> (Inr (), if t \<in> set (df_tables f) then f else f\<lparr>df_tables := df_tables f @ [t]\<rparr>))"
| "exec_ddl fault (CreateIndex i t) f =
     (case fault (CreateIndex i t) of
        Some msg \<Rightarrow> (Inl (SqlError msg), f)
      | None \<Rightarrow>
          if i \<in> set (df_indexes f) then (Inr (), f)
          else if t \<notin> set (df_tables f) then (Inl (SqlError (''no such table: main.'' @ t)), f)
          else (Inr (), f\<lparr>df_indexes := df_indexes f @ [i]\<rparr>))"

fun exec_stmts :: "(ddl \<Rightarrow> string option) \<Rightarrow> ddl list \<Rightarrow> dbfile \<Rightarrow> unit res \<times> dbfile" where
  "exec_stmts fault [] f = (Inr (), f)"
| "exec_stmts fault (s # ss) f =
     (case exec_ddl fault s f of
        (Inl err, f') \<Rightarrow> (Inl err, f')
      | (Inr _, f') \<Rightarrow> exec_stmts fault ss f')"

definition ensureSchema :: "(ddl \<Rightarrow> string option) \<Rightarrow> dbfile \<Rightarrow> unit res \<times> dbfile" where
  "ensureSchema fault f = exec_stmts fault schema_stmts f"

section \<open>Opening and starting a server\<close>

text \<open>
  What can fail: making the directory of a path, opening the database, its pragmas, a statement,
  and listening on a local port (which otherwise gives the address).
\<close>

record os =
  os_mkdir :: "string \<Rightarrow> string option"
  os_open :: "string \<Rightarrow> string option"
  os_pragma :: "string \<Rightarrow> string option"
  os_ddl :: "ddl \<Rightarrow> string option"
  os_listen :: "string + string"

type_synonym disk = "string \<Rightarrow> dbfile option"

definition file_at :: "disk \<Rightarrow> string \<Rightarrow> dbfile" where
  "file_at disk path = (case disk path of None \<Rightarrow> empty_file | Some f \<Rightarrow> f)"

definition NewWithServiceDid :: "os \<Rightarrow> string \<Rightarrow> string \<Rightarrow> disk \<Rightarrow> server res \<times> disk" where
  "NewWithServiceDid os dbPath serviceDid disk =
     (case os_mkdir os dbPath of
        Some err \<Rightarrow> (Inl (PlainError err), disk)
      | None \<Rightarrow>
          (case os_open os dbPath of
             Some err \<Rightarrow> (Inl (SqlError err), disk)
           | None \<Rightarrow>
               (case os_pragma os dbPath of
                  Some err \<Rightarrow> (Inl (SqlError err), disk)
                | None \<Rightarrow>
                    (case ensureSchema (os_ddl os) (file_at disk dbPath) of
                       (Inl err, f) \<Rightarrow> (Inl err, disk(dbPath \<mapsto> f))
                     | (Inr _, f) \<Rightarrow> (Inr (new_server (df_rows f) serviceDid), disk(dbPath \<mapsto> f))))))"

definition New :: "os \<Rightarrow> string \<Rightarrow> disk \<Rightarrow> server res \<times> disk" where
  "New os dbPath disk = NewWithServiceDid os dbPath [] disk"

text \<open>\<open>Start\<close>: the base URL of the listener becomes the server's.\<close>

definition Start :: "os \<Rightarrow> server \<Rightarrow> string res \<times> server" where
  "Start os s =
     (case os_listen os of
        Inl err \<Rightarrow> (Inl (PlainError err), s)
      | Inr addr \<Rightarrow> (let baseURL = ''http://'' @ addr in (Inr baseURL, SetBaseURL baseURL s)))"

section \<open>The schema is there\<close>

definition schema_complete :: "dbfile \<Rightarrow> bool" where
  "schema_complete f \<longleftrightarrow>
     (\<forall>t. CreateTable t \<in> set schema_stmts \<longrightarrow> t \<in> set (df_tables f))
     \<and> (\<forall>i t. CreateIndex i t \<in> set schema_stmts \<longrightarrow> i \<in> set (df_indexes f))"

text \<open>Executing statements adds to the catalog and keeps the rows, wherever it stops.\<close>

definition catalog_grows :: "dbfile \<Rightarrow> dbfile \<Rightarrow> bool" where
  "catalog_grows f f' \<longleftrightarrow> set (df_tables f) \<subseteq> set (df_tables f') \<and> set (df_indexes f) \<subseteq> set (df_indexes f')
     \<and> df_rows f' = df_rows f"

lemma catalog_grows_trans: "catalog_grows a b \<Longrightarrow> catalog_grows b c \<Longrightarrow> catalog_grows a c"
  by (auto simp: catalog_grows_def)

lemma exec_ddl_grows: "catalog_grows f (snd (exec_ddl fault s f))"
  by (cases s) (auto simp: catalog_grows_def split: option.split)

lemma exec_stmts_grows: "catalog_grows f (snd (exec_stmts fault ss f))"
proof (induction ss arbitrary: f)
  case (Cons s ss)
  obtain r f' where s: "exec_ddl fault s f = (r, f')" by fastforce
  then have "catalog_grows f f'" using exec_ddl_grows [of f fault s] by simp
  then show ?case using s Cons.IH [of f'] catalog_grows_trans by (cases r) auto
qed (simp add: catalog_grows_def)

text \<open>A list of statements in which every index comes after its table.\<close>

fun tables_first :: "string set \<Rightarrow> ddl list \<Rightarrow> bool" where
  "tables_first T [] = True"
| "tables_first T (CreateTable t # ss) = tables_first (insert t T) ss"
| "tables_first T (CreateIndex i t # ss) = (t \<in> T \<and> tables_first T ss)"

lemma tables_first_schema: "tables_first {} schema_stmts"
  by (simp add: schema_stmts_def)

lemma exec_stmts_ok:
  assumes "\<And>s. fault s = None"
  shows "tables_first T ss \<Longrightarrow> T \<subseteq> set (df_tables f) \<Longrightarrow> fst (exec_stmts fault ss f) = Inr ()"
proof (induction ss arbitrary: T f)
  case (Cons s ss)
  show ?case
  proof (cases s)
    case (CreateTable t)
    then show ?thesis using Cons.IH [of "insert t T" "snd (exec_ddl fault s f)"] Cons.prems assms
      by (auto simp: subset_insertI2)
  next
    case (CreateIndex i t)
    then show ?thesis using Cons.IH [of T "snd (exec_ddl fault s f)"] Cons.prems assms by auto
  qed
qed simp

lemma exec_stmts_complete:
  "fst (exec_stmts fault ss f) = Inr () \<Longrightarrow>
     (\<forall>t. CreateTable t \<in> set ss \<longrightarrow> t \<in> set (df_tables (snd (exec_stmts fault ss f))))
     \<and> (\<forall>i t. CreateIndex i t \<in> set ss \<longrightarrow> i \<in> set (df_indexes (snd (exec_stmts fault ss f))))"
proof (induction ss arbitrary: f)
  case (Cons s ss)
  obtain r f' where s: "exec_ddl fault s f = (r, f')" by fastforce
  then have r: "r = Inr ()" using Cons.prems by (cases r) auto
  have "case s of CreateTable t \<Rightarrow> t \<in> set (df_tables f') | CreateIndex i t \<Rightarrow> i \<in> set (df_indexes f')"
    using s r by (cases s) (auto split: option.splits if_splits)
  moreover have "catalog_grows f' (snd (exec_stmts fault ss f'))" by (rule exec_stmts_grows)
  ultimately show ?case
    using Cons.IH [of f'] Cons.prems s r by (auto simp: catalog_grows_def split: ddl.splits)
qed simp

text \<open>
  Without a fault of the driver the whole schema exists afterwards, whatever part of it the file
  had, and the rows are untouched.
\<close>

lemma ensureSchema_ok:
  assumes "\<And>s. fault s = None"
  shows "fst (ensureSchema fault f) = Inr ()"
  using exec_stmts_ok [OF assms tables_first_schema] by (simp add: ensureSchema_def)

lemma ensureSchema_complete:
  "fst (ensureSchema fault f) = Inr () \<Longrightarrow> schema_complete (snd (ensureSchema fault f))"
  unfolding ensureSchema_def schema_complete_def by (rule exec_stmts_complete)

lemma ensureSchema_rows: "df_rows (snd (ensureSchema fault f)) = df_rows f"
  using exec_stmts_grows unfolding ensureSchema_def catalog_grows_def by blast

section \<open>The life of a server\<close>

text \<open>
  A host has files and at most one server, which serves one of them. SQLite commits statement by
  statement, so between two requests a file holds the rows the server works on; the server can be
  closed (or the process stopped) at such a point, and opened again with any service DID.
\<close>

record host =
  h_disk :: disk
  h_running :: "(string \<times> world) option"

definition fresh_world :: "server \<Rightarrow> world" where
  "fresh_world s = \<lparr>w_server = s, w_pending = []\<rparr>"

definition file_rows :: "host \<Rightarrow> string \<Rightarrow> db" where
  "file_rows h path = df_rows (file_at (h_disk h) path)"

text \<open>\<open>Close\<close> gives the connection back; the rows are on the disk already.\<close>

definition Close :: "host \<Rightarrow> host" where
  "Close h = h\<lparr>h_running := None\<rparr>"

inductive host_step :: "host \<Rightarrow> host \<Rightarrow> bool" where
  hs_open:
    "h_running h = None \<Longrightarrow> NewWithServiceDid os path svc (h_disk h) = (Inr s, disk) \<Longrightarrow>
       host_step h (h\<lparr>h_disk := disk, h_running := Some (path, fresh_world s)\<rparr>)"
| hs_open_fails:
    "h_running h = None \<Longrightarrow> NewWithServiceDid os path svc (h_disk h) = (Inl err, disk) \<Longrightarrow>
       host_step h (h\<lparr>h_disk := disk\<rparr>)"
| hs_serve:
    "h_running h = Some (path, w) \<Longrightarrow> world_step w w' \<Longrightarrow>
       host_step h (h\<lparr>h_disk := (h_disk h)(path \<mapsto> (file_at (h_disk h) path)\<lparr>df_rows := w_db w'\<rparr>),
                      h_running := Some (path, w')\<rparr>)"
| hs_close: "h_running h = Some pw \<Longrightarrow> host_step h (Close h)"

inductive_cases host_stepE: "host_step h h'"

definition empty_host :: host where
  "empty_host = \<lparr>h_disk = (\<lambda>path. None), h_running = None\<rparr>"

text \<open>Every file is consistent, and the running server works on its file, whose schema is there.\<close>

definition host_ok :: "host \<Rightarrow> bool" where
  "host_ok h \<longleftrightarrow> (\<forall>path. server_ok (file_rows h path))
     \<and> (\<forall>path w. h_running h = Some (path, w) \<longrightarrow>
          world_ok w \<and> file_rows h path = w_db w \<and> schema_complete (file_at (h_disk h) path))"

definition host_grows :: "host \<Rightarrow> host \<Rightarrow> bool" where
  "host_grows h h' \<longleftrightarrow> (\<forall>path. server_grows (file_rows h path) (file_rows h' path))"

lemma NewWithServiceDid_disk:
  assumes "NewWithServiceDid os path svc disk = (r, disk')"
  shows "disk' = disk \<or> disk' = disk(path \<mapsto> snd (ensureSchema (os_ddl os) (file_at disk path)))"
  using assms by (auto simp: NewWithServiceDid_def split: option.splits prod.splits sum.splits)

lemma NewWithServiceDid_rows:
  assumes "NewWithServiceDid os path svc disk = (r, disk')"
  shows "df_rows (file_at disk' p) = df_rows (file_at disk p)"
  using NewWithServiceDid_disk [OF assms] ensureSchema_rows [of "os_ddl os" "file_at disk path"]
  by (auto simp: file_at_def)

lemma NewWithServiceDid_server:
  assumes "NewWithServiceDid os path svc disk = (Inr s, disk')"
  shows "s = new_server (df_rows (file_at disk path)) svc" "schema_complete (file_at disk' path)"
proof -
  let ?e = "ensureSchema (os_ddl os) (file_at disk path)"
  have e: "fst ?e = Inr ()" and s: "s = new_server (df_rows (snd ?e)) svc" and d: "disk' = disk(path \<mapsto> snd ?e)"
    using assms by (auto simp: NewWithServiceDid_def split: option.splits prod.splits sum.splits)
  show "s = new_server (df_rows (file_at disk path)) svc" using s by (simp add: ensureSchema_rows)
  show "schema_complete (file_at disk' path)"
    using ensureSchema_complete [OF e] by (simp add: d file_at_def)
qed

lemma NewWithServiceDid_succeeds:
  assumes "os_mkdir os path = None" "os_open os path = None" "os_pragma os path = None" "\<And>s. os_ddl os s = None"
  shows "\<exists>disk'. NewWithServiceDid os path svc disk = (Inr (new_server (df_rows (file_at disk path)) svc), disk')"
  using assms(1-3) ensureSchema_ok [of "os_ddl os" "file_at disk path", OF assms(4)]
    ensureSchema_rows [of "os_ddl os" "file_at disk path"]
  by (cases "ensureSchema (os_ddl os) (file_at disk path)") (simp add: NewWithServiceDid_def)

lemma world_ok_fresh: "server_ok d \<Longrightarrow> world_ok (fresh_world (new_server d svc))"
  by (simp add: world_ok_def fresh_world_def new_server_def)

lemma host_step_ok:
  assumes "host_step h h'" "host_ok h"
  shows "host_ok h'" "host_grows h h'"
proof -
  have ok: "server_ok (file_rows h path)" for path using assms(2) by (simp add: host_ok_def)
  have "host_ok h' \<and> host_grows h h'"
    using assms(1)
  proof (cases rule: host_step.cases)
    case (hs_open os path svc s disk)
    note rows = NewWithServiceDid_rows [OF hs_open(3)]
    note new = NewWithServiceDid_server [OF hs_open(3)]
    have "file_rows h' p = file_rows h p" for p
      by (simp add: hs_open(1) file_rows_def rows)
    then show ?thesis
      using ok new world_ok_fresh [OF ok, of path svc]
      by (auto simp: host_ok_def host_grows_def server_grows_refl hs_open(1) file_rows_def fresh_world_def new_server_def)
  next
    case (hs_open_fails os path svc err disk)
    have "file_rows h' p = file_rows h p" for p
      by (simp add: hs_open_fails(1) file_rows_def NewWithServiceDid_rows [OF hs_open_fails(3)])
    then show ?thesis
      using ok by (auto simp: host_ok_def host_grows_def server_grows_refl hs_open_fails(1,2))
  next
    case (hs_serve path w w')
    have w: "world_ok w" "file_rows h path = w_db w" "schema_complete (file_at (h_disk h) path)"
      using assms(2) hs_serve(2) by (auto simp: host_ok_def)
    have "world_ok w'" by (rule world.inv_step [OF hs_serve(3) w(1)])
    moreover have "server_grows (w_db w) (w_db w')"
      using world.rel_step [OF hs_serve(3) w(1)] by (simp add: world_grows_def)
    moreover have "file_rows h' p = (if p = path then w_db w' else file_rows h p)" for p
      by (simp add: hs_serve(1) file_rows_def file_at_def)
    moreover have "schema_complete (file_at (h_disk h') path)"
      using w(3) by (simp add: hs_serve(1) file_at_def schema_complete_def)
    ultimately show ?thesis
      using ok w(2) by (auto simp: host_ok_def host_grows_def server_grows_refl hs_serve(1) world_ok_def)
  next
    case (hs_close pw)
    then show ?thesis
      using assms(2) by (auto simp: host_ok_def host_grows_def file_rows_def Close_def server_grows_refl)
  qed
  then show "host_ok h'" "host_grows h h'" by blast+
qed

interpretation host: transition_system host_step host_ok host_grows
proof unfold_locales
  fix h h' h'' :: host
  show "host_step h h' \<Longrightarrow> host_ok h \<Longrightarrow> host_ok h'" "host_step h h' \<Longrightarrow> host_ok h \<Longrightarrow> host_grows h h'"
    using host_step_ok by blast+
  show "host_grows h h" by (simp add: host_grows_def server_grows_refl)
  show "host_grows h h''" if "host_grows h h'" "host_grows h' h''"
    using that server_grows_trans unfolding host_grows_def by blast
qed

lemma empty_host_ok: "host_ok empty_host"
  by (simp add: host_ok_def empty_host_def file_rows_def file_at_def empty_file_def server_ok_empty)

text \<open>A run of the server is a run of its host.\<close>

lemma serve_run:
  assumes "world_step\<^sup>*\<^sup>* w w'" "h_running h = Some (path, w)" "file_rows h path = w_db w"
  shows "\<exists>h'. host_step\<^sup>*\<^sup>* h h' \<and> h_running h' = Some (path, w') \<and> file_rows h' path = w_db w'"
  using assms(1)
proof (induction rule: rtranclp_induct)
  case base
  then show ?case using assms(2,3) by blast
next
  case (step w1 w2)
  then obtain h1 where h1: "host_step\<^sup>*\<^sup>* h h1" "h_running h1 = Some (path, w1)" by blast
  let ?h2 = "h1\<lparr>h_disk := (h_disk h1)(path \<mapsto> (file_at (h_disk h1) path)\<lparr>df_rows := w_db w2\<rparr>),
              h_running := Some (path, w2)\<rparr>"
  have "host_step h1 ?h2" by (rule hs_serve [OF h1(2) step.hyps(2)])
  then have "host_step\<^sup>*\<^sup>* h ?h2" using h1(1) by (rule rtranclp.rtrancl_into_rtrancl [rotated])
  then show ?case by (intro exI [of _ ?h2]) (simp add: file_rows_def file_at_def)
qed

end
