(* ===== verification/Panics.thy ===== *)
theory Panics
  imports Accountability
begin

text \<open>
  The errors a request can get. A handler's error is never a run-time panic: the only one the code
  could have, a write to a nil map in a merge patch, needs a stored profile or policy that is no
  object, and the invariant rules that out. Nor can it be taken for the unknown-method error.
\<close>

definition regular :: "'a res \<Rightarrow> bool" where
  "regular r \<longleftrightarrow>
     (case r of
        Inr v \<Rightarrow> True
      | Inl (RpcError c t) \<Rightarrow> c \<noteq> - 32601
      | Inl (PlainError t) \<Rightarrow> \<not> has_prefix ''unknown method'' t
      | Inl (SqlError t) \<Rightarrow> True
      | Inl (GoPanic t) \<Rightarrow> False)"

lemma error_codes [simp]:
  "codeHandleTaken \<noteq> - 32601" "codeDidNotFound \<noteq> - 32601" "codeOPKUnavailable \<noteq> - 32601"
  "codeInvalidParams \<noteq> - 32601" "codeE2EEKeyPackageNotFound \<noteq> - 32601"
  "codeE2EEInvalidKeyPackage \<noteq> - 32601" "codeE2EEControllerRequired \<noteq> - 32601"
  "codeE2EENoticeUnsupported \<noteq> - 32601" "codeAttachmentSlotNotFound \<noteq> - 32601"
  "codeAttachmentSlotExpired \<noteq> - 32601" "codeAttachmentCommitTokenInvalid \<noteq> - 32601"
  "codeAttachmentGrantNotFound \<noteq> - 32601" "codeAttachmentUnauthorized \<noteq> - 32601"
  "codeAttachmentDigestMismatch \<noteq> - 32601" "codeAttachmentObjectUnavailable \<noteq> - 32601"
  "codeAttachmentEncryptionPolicyViolation \<noteq> - 32601"
  by (simp_all add:
      codeHandleTaken_def codeDidNotFound_def codeOPKUnavailable_def codeInvalidParams_def
      codeE2EEKeyPackageNotFound_def codeE2EEInvalidKeyPackage_def codeE2EEControllerRequired_def
      codeE2EENoticeUnsupported_def codeAttachmentSlotNotFound_def codeAttachmentSlotExpired_def
      codeAttachmentCommitTokenInvalid_def codeAttachmentGrantNotFound_def
      codeAttachmentUnauthorized_def codeAttachmentDigestMismatch_def
      codeAttachmentObjectUnavailable_def codeAttachmentEncryptionPolicyViolation_def)

lemma has_prefix_Cons [simp]:
  "has_prefix [] s" "\<not> has_prefix (c # p) []" "has_prefix (c # p) (x # s) \<longleftrightarrow> c = x \<and> has_prefix p s"
  by (auto simp: has_prefix_def)

lemma regular_simps [simp]:
  "regular (Inr v)" "regular (Inl (RpcError c s)) \<longleftrightarrow> c \<noteq> - 32601"
  "regular (Inl (PlainError s)) \<longleftrightarrow> \<not> has_prefix ''unknown method'' s" "regular (Inl (SqlError s))"
  by (simp_all add: regular_def)

lemma regular_required [simp]: "regular (requiredBodyString body f)" "regular (requiredAll body fs)"
proof -
  show *: "regular (requiredBodyString body f)" for f by (simp add: requiredBodyString_def Let_def)
  show "regular (requiredAll body fs)"
    by (cases "requiredAll body fs") (auto dest!: requiredAll_Inl)
qed

lemma regular_origin [simp]: "regular (verifyOriginProof e s m meta body auth d)"
  by (simp add: verifyOriginProof_def Let_def split: option.split)

lemma regular_insert [simp]: "regular (fst (insert_message row d))"
  by (simp add: insert_message_def)

text \<open>A case distinction on a checked result hands the error on.\<close>

lemma regular_sum:
  "regular r \<Longrightarrow> (\<And>v. r = Inr v \<Longrightarrow> regular (f v)) \<Longrightarrow> regular (case r of Inl err \<Rightarrow> Inl err | Inr v \<Rightarrow> f v)"
  by (cases r) (auto simp: regular_def)

lemma regular_sum_fst:
  "regular r \<Longrightarrow> (\<And>v. r = Inr v \<Longrightarrow> regular (fst (f v))) \<Longrightarrow>
     regular (fst (case r of Inl err \<Rightarrow> (Inl err, d) | Inr v \<Rightarrow> f v))"
  by (cases r) (auto simp: regular_def)

lemma regular_version [simp]: "regular (fst (with_version (bumpGroupStateVersion gid d) f))"
  by (simp add: fst_with_version fst_bumpGroupStateVersion group_not_found_def regular_sum split: option.split)

lemma regular_lookup [simp]: "regular (groupStateVersion d gid)" "regular (loadGroup d gid)"
  by (simp_all add: groupStateVersion_def loadGroup_def group_not_found_def split: option.split)

lemma regular_with_version [simp]: "regular (fst (with_version (groupStateVersion d gid, d) f))"
  by (simp add: fst_with_version regular_sum)

lemma regular_accept [simp]: "regular (fst (accept_group_message gid row result d))"
  by (auto simp: accept_group_message_def nextGroupEventSeq_def groupStateVersion_def group_not_found_def
      insert_message_def Let_def split: option.split)

lemma regular_small_handlers [simp]:
  "regular (msgInbox a params d)" "regular (didResolve e params d)"
  "regular (fst (didRegisterDocument e params d))" "regular (fst (handleRegister e a params d))"
  "regular (fst (handleRecover e a params d))"
  "regular (fst (e2eePublishPrekeyBundle e a params d))" "regular (fst (e2eeGetPrekeyBundle params d))"
  "regular (directIncoming params)" "regular (groupIncoming params)" "regular (groupStateChanged params)"
  by (simp_all add: msgInbox_def didResolve_def didRegisterDocument_def handleRegister_def handleRecover_def
      e2eePublishPrekeyBundle_def e2eeGetPrekeyBundle_def directIncoming_def groupIncoming_def
      groupStateChanged_def Let_def split: option.split)

lemma regular_direct_checks [simp]: "regular (directSend_checks e s meta body auth d)"
  by (simp add: directSend_checks_def regular_sum split: prod.split)

lemma regular_directSend [simp]: "regular (fst (directSend e a params d))"
  by (simp add: directSend_def Let_def regular_sum_fst insert_message_def split: prod.split)

lemma regular_group_handlers [simp]:
  "regular (fst (groupCreate e a params d))" "regular (groupGetInfo params d)"
  "regular (fst (groupJoin e a params d))" "regular (fst (groupAdd e a params d))"
  "regular (fst (groupRemove a params d))" "regular (fst (groupLeave a params d))"
  by (simp_all add: groupCreate_def groupGetInfo_def groupJoin_def groupAdd_def groupRemove_def groupLeave_def
      invalid_params_def Let_def regular_sum regular_sum_fst del: tins_None split: option.split)

lemma updated_object_regular:
  assumes "groups_ok d" "\<And>g. group_row_ok g \<Longrightarrow> \<exists>m. stored g = Some m"
  shows "regular (updated_object d gid stored body pk fk)"
proof (cases "tsel (groups d) gid")
  case (Some g)
  then obtain m where "stored g = Some m" using assms groups_okD(3) by blast
  with Some show ?thesis
    by (simp add: updated_object_def loadGroup_def apply_patch_def split: option.split)
qed (simp add: updated_object_def loadGroup_def group_not_found_def split: option.split)

lemma regular_update [simp]:
  assumes "groups_ok d"
  shows "regular (fst (groupUpdateProfile a params d))" "regular (fst (groupUpdatePolicy a params d))"
proof -
  have "regular (updated_object d gid stored_profile body pk fk)"
    "regular (updated_object d gid stored_policy body pk fk)" for gid body pk fk
    using stored_objects by (auto intro!: updated_object_regular [OF assms])
  then show "regular (fst (groupUpdateProfile a params d))" "regular (fst (groupUpdatePolicy a params d))"
    by (simp_all add: groupUpdateProfile_def groupUpdatePolicy_def Let_def invalid_params_def regular_sum_fst
        split: option.split)
qed

lemma regular_groupSend [simp]: "regular (fst (groupSend e a params d))"
proof -
  have "regular (groupSend_checks e gid s meta body auth d)" for gid s meta body auth
    by (simp add: groupSend_checks_def invalid_params_def regular_sum split: prod.split option.split)
  then show ?thesis by (simp add: groupSend_def Let_def regular_sum_fst split: prod.split)
qed

lemma regular_rebind [simp]: "regular (fst (groupRebindMember a params d))"
proof -
  have "regular (rebind_gid params prev d)" for prev
    by (simp add: rebind_gid_def Let_def split: list.split)
  then show ?thesis by (simp add: groupRebindMember_def invalid_params_def Let_def regular_sum_fst)
qed

lemma regular_e2ee_helpers [simp]:
  "regular (e2ee_owner_gid d a body)" "regular (e2ee_create_checks a body)"
  "regular (e2ee_commit_checks body objs)" "regular (e2ee_send_checks e gid s meta body auth d)"
  "regular (e2ee_notice_checks body)" "regular (key_package_checks a body)"
  by (simp_all add: e2ee_owner_gid_def groupE2EERequireOwner_def e2ee_create_checks_def e2ee_commit_checks_def
      e2ee_send_checks_def e2ee_notice_checks_def key_package_checks_def invalid_params_def Let_def
      regular_sum split: option.split)

lemma regular_e2ee [simp]:
  "regular (fst (groupE2EEPublishKeyPackage e a params d))" "regular (groupE2EEGetKeyPackage params d)"
  "regular (fst (groupE2EECreate e a params d))" "regular (fst (groupE2EEAdd e a params d))"
  "regular (fst (groupE2EERemove e a params d))" "regular (fst (groupE2EESend e a params d))"
  "regular (fst (groupE2EENotice e params d))"
  by (simp_all add: groupE2EEPublishKeyPackage_def groupE2EEGetKeyPackage_def groupE2EECreate_def groupE2EEAdd_def
      groupE2EERemove_def groupE2EESend_def groupE2EENotice_def Let_def regular_sum regular_sum_fst
      split: prod.split option.split)

lemma regular_attachment_helpers [simp]:
  "regular (create_slot_checks body)" "regular (bind_text e v)" "regular (commit_checks e body d)"
  "regular (ticket_checks a meta body d)" "regular (named_slot d body)"
proof -
  show "regular (create_slot_checks body)"
    by (simp add: create_slot_checks_def invalid_params_def policy_violation_def regular_sum)
  show "regular (bind_text e v)" by (cases v) simp_all
  show n: "regular (named_slot d body)"
    by (simp add: named_slot_def loadAttachmentSlot_def slot_not_found_def regular_sum split: option.split)
  show "regular (commit_checks e body d)"
    using n by (simp add: commit_checks_def invalid_params_def object_unavailable_def digest_mismatch_def
        regular_sum split: sum.split)
  show "regular (ticket_checks a meta body d)"
    by (simp add: ticket_checks_def invalid_params_def unauthorized_requester_def object_unavailable_def
        Let_def regular_sum split: option.split)
qed

lemma regular_new_slot [simp]: "regular (new_slot e a base body)"
  by (simp add: new_slot_def regular_sum)

lemma regular_attachments [simp]:
  "regular (fst (attachmentCreateSlot e sb a base params d))" "regular (fst (attachmentCommitObject e params d))"
  "regular (fst (attachmentAbortObject e params d))" "regular (fst (attachmentGetDownloadTicket e a params d))"
  by (simp_all add: attachmentCreateSlot_def attachmentCommitObject_def attachmentAbortObject_def
      attachmentGetDownloadTicket_def invalid_params_def Let_def regular_sum_fst
      del: tins_None requiredAll.simps split: prod.split option.split)

lemma dispatch_regular:
  assumes "groups_ok d" "method \<in> set rpc_methods"
  shows "regular (fst (dispatch e sb method params a base d))"
  using assms(2) unfolding rpc_methods_def list.set insert_iff empty_iff
  by (elim disjE) (simp_all add: dispatch_def assms(1))

lemma dispatch_unknown:
  "method \<notin> set rpc_methods \<Longrightarrow>
     dispatch e sb method params a base d = (Inl (PlainError (''unknown method '' @ go_quote method)), d)"
  by (simp add: rpc_methods_def dispatch_def)

lemma dispatch_no_panic:
  assumes "groups_ok d" shows "fst (dispatch e sb method params a base d) \<noteq> Inl (GoPanic t)"
  using dispatch_regular [OF assms, of "method" e sb params a base]
  by (cases "method \<in> set rpc_methods") (auto simp: dispatch_unknown regular_def)

text \<open>A repeated operation is answered from the cache; its result is then no error.\<close>

lemma dispatchIdempotent_result:
  "fst (dispatchIdempotent e sb method params a base d) = Inl err \<Longrightarrow>
     fst (dispatch e sb method params a base d) = Inl err"
  by (auto simp: dispatchIdempotent_def Let_def split: option.splits sum.splits prod.splits if_splits)

lemma dispatchIdempotent_regular:
  assumes "groups_ok d" "method \<in> set rpc_methods"
  shows "regular (fst (dispatchIdempotent e sb method params a base d))"
proof (cases "fst (dispatchIdempotent e sb method params a base d)")
  case (Inl err)
  from dispatch_regular [OF assms] show ?thesis
    unfolding Inl dispatchIdempotent_result [OF Inl, symmetric] .
qed simp

lemma dispatchIdempotent_no_panic:
  "groups_ok d \<Longrightarrow> fst (dispatchIdempotent e sb method params a base d) \<noteq> Inl (GoPanic t)"
  using dispatchIdempotent_result dispatch_no_panic by metis

lemma rpc_reply_Aborted: "rpc_reply e i r = Aborted \<longleftrightarrow> (\<exists>t. r = Inl (GoPanic t))"
  by (auto simp: rpc_reply_def split: sum.split go_error.split)

text \<open>Which error code a failed request is answered with.\<close>

lemma rpc_reply_not_found:
  assumes "rpc_reply e i r = Reply (writeRPCError i' (- 32601) t)" "\<And>m. \<not> has_prefix ''unknown method'' (sql_text e m)"
  shows "\<not> regular r"
  using assms
  by (auto simp: rpc_reply_def rpc_error_code_def writeRPCResult_def writeRPCError_def json_resp_def regular_def
      split: sum.splits go_error.splits if_splits)

end
