(* ===== verification/Examples.thy ===== *)
theory Examples
  imports Panics
begin

text \<open>
  Concrete requests, environments and runs, on which the theorems' hypotheses are shown to hold.
  In these environments every handle is valid, every origin proof verifies, a signature names its
  caller, nothing resolves over the network, and the clock reads about 1000 seconds after the epoch.
\<close>

definition ex_env :: "string \<Rightarrow> rpc_request \<Rightarrow> env" where
  "ex_env who req =
     \<lparr>clock = (\<lambda>i. (1000 + i) * nanos_per_sec), clock_cached = 1100 * nanos_per_sec, rnd = (\<lambda>i. of_nat i),
      wns_valid = (\<lambda>h. True), http_sig = (\<lambda>doc m url hs body. Some (who @ ''#k'')),
      resolve_document = (\<lambda>did. None), origin_sig = (\<lambda>sig m meta body doc did. None),
      real_text = (\<lambda>q. []), sql_text = (\<lambda>s. ''SQL logic error: '' @ s), json_value = (\<lambda>body. Some (request_value req))\<rparr>"

definition ex_req :: "string \<Rightarrow> gomap \<Rightarrow> rpc_request" where
  "ex_req method params =
     \<lparr>rq_jsonrpc = ''2.0'', rq_method = method, rq_params = Some params, rq_id = GNil\<rparr>"

definition ex_request :: rpc_request where
  "ex_request = ex_req ''msg.inbox'' []"

definition ex_http :: "string \<Rightarrow> http_req" where
  "ex_http who =
     \<lparr>hq_method = ''POST'', hq_host = ''h'', hq_path = ''/rpc'', hq_tls = False,
      hq_headers = (if who = [] then []
                    else [(''Signature-Input'', [''sig=();keyid='' @ [CHR 0x22] @ who @ ''#k'' @ [CHR 0x22]])]),
      hq_body = [], hq_body_error = False\<rparr>"

lemma ex_env_request [simp]: "json_request (ex_env who req) body = Some req"
  by (simp add: json_request_def ex_env_def)

type_synonym call = "string \<times> string \<times> gomap"

text \<open>A call of a method by a caller (or by nobody), and a sequence of calls to a new server.\<close>

definition ex_call :: "call \<Rightarrow> server \<Rightarrow> reply \<times> server" where
  "ex_call c s = (case c of (who, method, params) \<Rightarrow> handler (ex_env who (ex_req method params)) (ex_http who) s)"

fun ex_run :: "call list \<Rightarrow> server" where
  "ex_run [] = new_server empty_db []"
| "ex_run (c # cs) = snd (ex_call c (ex_run cs))"

abbreviation ex_world :: "call list \<Rightarrow> world" where
  "ex_world cs \<equiv> \<lparr>w_server = ex_run cs, w_pending = []\<rparr>"

lemma ex_call_run: "world_step\<^sup>*\<^sup>* (ex_world cs) (ex_world (c # cs))"
  by (simp add: ex_call_def handler_run split: prod.split)

lemma ex_more: "world_step\<^sup>*\<^sup>* (ex_world cs) (ex_world (later @ cs))"
  by (induction later) (auto intro: rtranclp_trans ex_call_run simp del: ex_run.simps)

lemma ex_reachable: "reachable [] (ex_world cs)"
proof -
  have "initial_world [] = ex_world []" by (simp add: initial_world_def)
  then show ?thesis using ex_more [of "[]" cs] by (simp add: reachable_run)
qed

text \<open>Alice registers her document and a handle, and makes a group.\<close>

definition c_doc :: call where
  "c_doc = ([], ''did.register_document'',
     [(''did'', GStr ''did:a''), (''did_document'', GMap [(''id'', GStr ''did:a'')])])"

definition c_handle :: call where
  "c_handle = (''did:a'', ''handle.register'', [(''handle'', GStr ''a.x'')])"

definition c_group :: call where
  "c_group = (''did:a'', ''group.create'', [(''body'', GMap [(''group_policy'', GMap [])])])"

definition ex_doc_row :: did_row where
  "ex_doc_row = \<lparr>dr_doc_json = JDoc (GMap [(''id'', GStr ''did:a'')]),
                 dr_registered_at = rfc3339 (1000 * nanos_per_sec)\<rparr>"

definition ex_db_doc :: db where
  "ex_db_doc = empty_db\<lparr>registered_dids := [(''did:a'', ex_doc_row)]\<rparr>"

lemmas ex_call_defs = ex_call_def ex_env_def ex_req_def ex_http_def new_server_def handler_def
  route_request_def path_param_def

lemmas rpc_defs = json_request_def handleRPC_def rpc_authenticate_def rpc_execute_def dispatchIdempotent_def read_limited_def
  maxBodyBytes_def operationIDFromParams_def dispatch_def httpHeaders_def

lemma ex_run_doc: "ex_run [c_doc] = new_server ex_db_doc []"
  by (simp add: ex_call_defs rpc_defs c_doc_def verifyRegistration_def didRegisterDocument_def Let_def
      empty_db_def ex_db_doc_def ex_doc_row_def tput_def tsel_def marshal_def)

text \<open>The header of a signed call names the caller.\<close>

lemma ex_keyid:
  assumes "CHR 0x22 \<notin> set who"
  shows "keyIDToDID (extractKeyID (''sig=();keyid='' @ [CHR 0x22] @ who @ ''#k'' @ [CHR 0x22])) = who"
proof -
  have "str_index ''sig=();'' ''keyid'' = None" by code_simp
  moreover have "CHR 0x22 \<notin> set (who @ ''#k'')" using assms by simp
  ultimately have "extractKeyID (''sig=();'' @ ''keyid='' @ [CHR 0x22] @ (who @ ''#k'') @ [CHR 0x22] @ []) = who @ ''#k''"
    by (rule extractKeyID_quoted)
  then show ?thesis using keyIDToDID_fragment [of "''k''" who] by simp
qed

lemma ex_verify:
  assumes "CHR 0x22 \<notin> set who" "who \<noteq> []" "tsel (registered_dids d) who = Some row"
    "unmarshal_map (dr_doc_json row) = Some doc"
  shows "verify (ex_env who req) svc (ex_http who) (httpHeaders (hq_headers (ex_http who))) body d = Inr who"
proof -
  have "registered_dids d \<noteq> []" using assms(3) by auto
  then show ?thesis
    using assms ex_keyid [OF assms(1)] keyIDToDID_fragment [of "''k''" who]
    by (simp add: verify_def ex_env_def ex_http_def httpHeaders_def equal_fold_def Let_def)
qed

text \<open>A signed call is the dispatch of its method for its caller.\<close>

lemma ex_call_signed:
  assumes "CHR 0x22 \<notin> set who" "who \<noteq> []" "tsel (registered_dids (sv_db s)) who = Some row"
    "unmarshal_map (dr_doc_json row) = Some doc" "method \<noteq> ''did.register_document''"
  shows "snd (ex_call (who, method, params) s) =
    s\<lparr>sv_db := snd (dispatchIdempotent (ex_env who (ex_req method params)) (sv_base_url s) method (Some params)
                     who ''http://h'' (sv_db s))\<rparr>"
  using assms(5) ex_verify [OF assms(1-4), of "ex_req method params" "sv_service_did s" "[]"]
  by (simp add: ex_call_def handler_def route_request_def handleRPC_def rpc_authenticate_def rpc_execute_def
      ex_http_def ex_env_def ex_req_def json_request_def read_limited_def maxBodyBytes_def request_base_def Let_def
      split: prod.split)

text \<open>A group with an owner and a member, and a store with one upload slot and its object.\<close>

definition ex_group :: group_row where
  "ex_group = \<lparr>g_policy = JDoc (GMap []), g_profile = Some JEmpty, g_owner_did = ''did:a'', g_state_version = 0,
               g_event_seq = 0, g_created_at = ''t''\<rparr>"

definition ex_members :: "(string \<times> string, member_row) table" where
  "ex_members =
     [((''g'', ''did:a''), \<lparr>mb_role = ''owner'', mb_status = ''active'', mb_joined_at = ''t''\<rparr>),
      ((''g'', ''did:b''), \<lparr>mb_role = ''member'', mb_status = ''active'', mb_joined_at = ''t''\<rparr>)]"

definition ex_db_group :: db where
  "ex_db_group = empty_db\<lparr>groups := [(''g'', ex_group)], group_members := ex_members\<rparr>"

definition ex_slot :: "string \<Rightarrow> slot_row" where
  "ex_slot status =
     \<lparr>sl_attachment_id = ''att'', sl_object_id = ''ob'', sl_upload_uri = ''/upload/s'', sl_object_uri = ''/objects/ob'',
      sl_commit_token = ''tok'', sl_status = status, sl_encryption_mode = ''none'', sl_expected_size = None,
      sl_mime_type = None, sl_filename = None, sl_expected_digest = JEmpty, sl_actual_size = None, sl_actual_digest = None,
      sl_expires_at = rfc3339 0, sl_created_at = rfc3339 0, sl_owner_did = ''did:a''\<rparr>"

definition ex_object :: object_row where
  "ex_object = \<lparr>ob_data = [1, 2, 3], ob_size = 3, ob_digest = Some (sha256B64u [1, 2, 3]), ob_created_at = ''t''\<rparr>"

definition ex_db_slot :: "string \<Rightarrow> db" where
  "ex_db_slot status = empty_db\<lparr>attachment_slots := [(''s'', ex_slot status)], attachment_objects := [(''ob'', ex_object)]\<rparr>"

end
