(* ===== verification/Findings.thy ===== *)
theory Findings
  imports Examples
begin

text \<open>
  Behaviours of the code that a reader of its comments or of the protocol may not expect, each as
  a concrete run of the definitions.
\<close>

section \<open>Groups\<close>

text \<open>An admin makes itself an owner: \<open>groupAdd\<close> writes the role the request names.\<close>

definition admin_members :: "(string \<times> string, member_row) table" where
  "admin_members = tupd (''g'', ''did:b'') (\<lambda>r. r\<lparr>mb_role := ''admin''\<rparr>) ex_members"

lemma admin_takes_ownership:
  fixes e :: env
  defines "d \<equiv> ex_db_group\<lparr>group_members := admin_members\<rparr>"
  defines "d' \<equiv> snd (groupAdd e ''did:b'' (Some [(''body'', GMap [(''group_did'', GStr ''g''),
             (''member_did'', GStr ''did:b''), (''role'', GStr ''owner'')])]) d)"
  shows "groupMemberRole d ''g'' ''did:b'' = ''admin''" "groupMemberRole d' ''g'' ''did:b'' = ''owner''"
  by (simp_all add: d_def d'_def admin_members_def ex_db_group_def ex_members_def ex_group_def groupAdd_def
      groupDIDFromParams_def groupPermitted_def groupMemberRole_def required_role_def loadGroup_def
      defaultRequiredRole_def addGroupMember_def with_version_def bumpGroupStateVersion_def groupStateVersion_def
      bump_version_def tsel_def tupd_def tput_def Let_def)

text \<open>A creator that is named among the initial members loses the owner's role.\<close>

lemma creator_loses_role:
  fixes e :: env
  defines "out \<equiv> groupCreate e ''did:a'' (Some [(''body'', GMap [(''group_policy'', GMap []),
             (''initial_members'', GArr [GMap [(''member_did'', GStr ''did:a'')]])])]) empty_db"
  shows "ownerDID (snd out) (newGroupDID e) = ''did:a''"
    "groupMemberRole (snd out) (newGroupDID e) ''did:a'' = ''member''"
  by (simp_all add: out_def groupCreate_def caller_or_sender_def initial_member_def addGroupMember_def
      groupMemberRole_def ownerDID_def new_group_row_def empty_db_def tins_def tsel_def tput_def Let_def)

text \<open>A message that is refused because its id is taken still uses an event number.\<close>

lemma refused_message_takes_number:
  fixes e :: env and row :: msg_row
  assumes "m_message_id row = ''m1''"
  defines "d \<equiv> ex_db_group\<lparr>messages := [row]\<rparr>"
  defines "out \<equiv> groupSend e ''did:b'' (Some
     [(''meta'', GMap [(''message_id'', GStr ''m1''), (''operation_id'', GStr ''o''), (''content_type'', GStr ''text/plain''),
                       (''target'', GMap [(''did'', GStr ''g'')])]),
      (''body'', GMap [(''text'', GStr ''hi'')])]) d"
  shows "\<not> is_ok (fst out)" "messages (snd out) = messages d" "event_seq (snd out) ''g'' = event_seq d ''g'' + 1"
  using assms(1)
  by (simp_all add: d_def out_def groupSend_def groupSend_checks_def groupSend_gid_def caller_or_sender_def
      isGroupMember_def groupMemberRole_def ex_db_group_def ex_members_def ex_group_def classifyPayload_def
      accept_group_message_def nextGroupEventSeq_def groupStateVersion_def bump_seq_def insert_message_def
      group_row_of_def event_seq_def tsel_def tupd_def Let_def)

text \<open>A delivery notice is stored under whatever sender and group it names.\<close>

lemma notice_names_any_sender:
  fixes e :: env
  defines "d' \<equiv> snd (dispatch e [] ''group.e2ee.notice'' (Some
     [(''meta'', GMap [(''sender_did'', GStr ''did:a''), (''target'', GMap [(''did'', GStr ''did:b'')])]),
      (''body'', GMap [(''notice_type'', GStr ''commit-delivery''), (''commit_b64u'', GStr ''x''),
                       (''group_did'', GStr ''g'')])]) ''did:c'' [] ex_db_group)"
  shows "map m_sender_did (messages d') = [''did:a'']" "map m_group_did (messages d') = [Some ''g'']"
  by (simp_all add: d'_def dispatch_def groupE2EENotice_def e2ee_notice_checks_def requiredBodyString_def
      insert_message_def notice_row_def ex_db_group_def empty_db_def Let_def)

section \<open>Attachments\<close>

text \<open>Anybody who knows its identifiers aborts another agent's committed slot.\<close>

lemma abort_by_anyone:
  fixes e :: env
  defines "d' \<equiv> snd (dispatch e [] ''attachment.abort_object'' (Some [(''body'', GMap
     [(''attachment_id'', GStr ''att''), (''slot_id'', GStr ''s'')])]) ''did:c'' [] (ex_db_slot ''committed''))"
  shows "map_option (\<lambda>r. (sl_owner_did r, sl_status r)) (tsel (attachment_slots d') ''s'')
    = Some (''did:a'', ''aborted'')"
  by (simp add: d'_def dispatch_def attachmentAbortObject_def requiredBodyString_def named_slot_def
      loadAttachmentSlot_def abort_slot_def ex_db_slot_def ex_slot_def tsel_def tupd_def Let_def)

text \<open>
  A size declared as a JSON number is stored as the text of a float, which the upload's check does
  not read as a size.
\<close>

lemma numeric_size_unchecked:
  assumes "real_text e 11 = ''11.0''" "new_slot e a base (Some [(''expected_size'', GNum 11)]) = Inr slot"
  shows "sl_expected_size slot = Some ''11.0''" "sizeToInt64 (GStr ''11.0'') = None"
proof -
  show "sl_expected_size slot = Some ''11.0''"
    using assms by (auto simp: new_slot_def)
  show "sizeToInt64 (GStr ''11.0'') = None"
    by (simp add: parse_int64_def parse_digits_def is_digit_def)
qed

section \<open>Identities\<close>

text \<open>An address literal passes the guard of did.resolve when it is public.\<close>

lemma public_address_passes: "\<not> isBlockedHost (show_ipv4 8 8 8 8)"
  using isBlockedHost_ipv4 [of 8 8 8 8 "[]"] by (simp add: internal_ipv4_def)

text \<open>
  The guard does not cover the documents that verify resolves for a server with a service DID: here
  it is one of a link-local address.
\<close>

lemma service_signature_unguarded:
  defines "did \<equiv> ''did:wba:'' @ show_ipv4 169 254 169 254"
  defines "e \<equiv> (ex_env did ex_request)\<lparr>resolve_document := (\<lambda>did. Some (Some []))\<rparr>"
  shows "isBlockedHost (didHost did)"
    "verify e ''did:svc'' (ex_http did) (httpHeaders (hq_headers (ex_http did))) [] ex_db_doc = Inr did"
proof -
  show "isBlockedHost (didHost did)"
    using didHost_blocked [of 169 254 169 254 "''did:wba:''" "[]" _ "[]"] by (simp add: did_def internal_ipv4_def)
  have "CHR 0x22 \<notin> set (show_ipv4 169 254 169 254)"
    using plain_show_ipv4 [of "CHR 0x22"] by (auto simp: plain_char_def is_digit_def)
  then have "CHR 0x22 \<notin> set did" by (simp add: did_def)
  moreover have "did \<noteq> []" "did \<noteq> ''did:a''" by (simp_all add: did_def)
  ultimately show "verify e ''did:svc'' (ex_http did) (httpHeaders (hq_headers (ex_http did))) [] ex_db_doc = Inr did"
    using ex_keyid [of did] keyIDToDID_fragment [of "''k''" did]
    by (simp add: verify_def verifyServiceSignature_def e_def ex_env_def ex_http_def httpHeaders_def equal_fold_def
        ex_db_doc_def tsel_def Let_def)
qed

text \<open>The keyid is the first occurrence of the word, also inside another parameter's value.\<close>

lemma keyid_of_another_parameter:
  "keyIDToDID (extractKeyID (''sig=();nonce='' @ [CHR 0x22] @ ''keyid=did:b#k'' @ [CHR 0x22] @ '';keyid='' @ [CHR 0x22]
     @ ''did:a#k'' @ [CHR 0x22])) = ''did:b''"
  by code_simp

end
