(* ===== verification/Traces.thy ===== *)
theory Traces
  imports Accountability "HOL-Library.Multiset"
begin

text \<open>
  Histories of the concurrent server: its steps with their requests, newest first. Every execution
  in a history uses up an authentication of the same request as the same caller, and what that
  authentication was shown is stated without the code of \<open>verify\<close> (\<open>identity_shown\<close>).
\<close>

section \<open>Histories\<close>

datatype event =
    Authenticated env http_req rpc_request string
  | Executed env http_req rpc_request string
  | Uploaded env http_req string
  | BaseURLSet string

inductive trace :: "string \<Rightarrow> event list \<Rightarrow> world \<Rightarrow> bool" for svc where
  tr_init: "trace svc [] (initial_world svc)"
| tr_authenticate:
    "trace svc evs w \<Longrightarrow> rpc_authenticate e (sv_service_did (w_server w)) r (w_db w) = Inr (req, a) \<Longrightarrow>
       trace svc (Authenticated e r req a # evs) (w\<lparr>w_pending := (r, req, a) # w_pending w\<rparr>)"
| tr_execute:
    "trace svc evs w \<Longrightarrow> (r, req, a) \<in> set (w_pending w) \<Longrightarrow>
       d' = snd (rpc_execute e (sv_base_url (w_server w)) r req a (w_db w)) \<Longrightarrow>
       trace svc (Executed e r req a # evs)
         (w\<lparr>w_server := (w_server w)\<lparr>sv_db := d'\<rparr>, w_pending := remove1 (r, req, a) (w_pending w)\<rparr>)"
| tr_upload:
    "trace svc evs w \<Longrightarrow> route_request r = RouteUpload slotID \<Longrightarrow> d' = snd (handleUpload e slotID r (w_db w)) \<Longrightarrow>
       trace svc (Uploaded e r slotID # evs) (w\<lparr>w_server := (w_server w)\<lparr>sv_db := d'\<rparr>\<rparr>)"
| tr_base_url: "trace svc evs w \<Longrightarrow> trace svc (BaseURLSet u # evs) (w\<lparr>w_server := SetBaseURL u (w_server w)\<rparr>)"

text \<open>Histories are those of \<open>world_step\<close>: the same states are reachable.\<close>

lemma trace_step: "trace svc evs w \<Longrightarrow> world_step w w' \<Longrightarrow> \<exists>ev. trace svc (ev # evs) w'"
  by (erule world_stepE) (auto intro: trace.intros)

lemma trace_of_reachable: "reachable svc w \<Longrightarrow> \<exists>evs. trace svc evs w"
proof (induction rule: reachable.induct)
  case reach_init
  show ?case using tr_init by blast
next
  case (reach_step w w')
  then show ?case using trace_step by blast
qed

lemma reachable_of_trace: "trace svc evs w \<Longrightarrow> reachable svc w"
  by (induction rule: trace.induct) (blast intro: reachable.intros world_step.intros)+

lemma trace_service: "trace svc evs w \<Longrightarrow> sv_service_did (w_server w) = svc"
  by (induction rule: trace.induct) (simp_all add: initial_world_def new_server_def SetBaseURL_def)

section \<open>Authentications and executions\<close>

fun authenticated :: "event list \<Rightarrow> (http_req \<times> rpc_request \<times> string) list" where
  "authenticated [] = []"
| "authenticated (Authenticated e r req a # evs) = (r, req, a) # authenticated evs"
| "authenticated (_ # evs) = authenticated evs"

fun executed :: "event list \<Rightarrow> (http_req \<times> rpc_request \<times> string) list" where
  "executed [] = []"
| "executed (Executed e r req a # evs) = (r, req, a) # executed evs"
| "executed (_ # evs) = executed evs"

text \<open>Every authentication has been executed or is pending, and nothing else is.\<close>

lemma trace_balance:
  "trace svc evs w \<Longrightarrow> mset (authenticated evs) = mset (executed evs) + mset (w_pending w)"
  by (induction rule: trace.induct) (simp_all add: initial_world_def)

lemma executed_at_most_authenticated:
  assumes "trace svc evs w"
  shows "count_list (executed evs) p \<le> count_list (authenticated evs) p"
proof -
  have "count (mset (executed evs)) p \<le> count (mset (authenticated evs)) p"
    by (simp add: trace_balance [OF assms])
  then show ?thesis by (simp add: count_mset)
qed

section \<open>What an authentication shows\<close>

text \<open>
  The signed request names its caller: a registration names a DID that is new or whose document
  verifies the signature; any other request is signed under the registered document of the DID of
  its keyid (or under a resolved one, with a service DID), unless no DID is registered at all.
\<close>

definition identity_shown :: "env \<Rightarrow> string \<Rightarrow> http_req \<Rightarrow> rpc_request \<Rightarrow> string \<Rightarrow> db \<Rightarrow> bool" where
  "identity_shown e svc r req a d \<longleftrightarrow>
     (let hs = httpHeaders (hq_headers r); did = keyIDToDID (extractKeyID (headerGet hs ''Signature-Input'')) in
      json_request e (hq_body r) = Some req
      \<and> (if rq_method req = ''did.register_document''
         then a = gets (rq_params req) ''did'' \<and> a \<noteq> []
           \<and> (case did_doc d a of
                None \<Rightarrow> True
              | Some t \<Rightarrow> (\<exists>doc. unmarshal_map t = Some doc \<and> signed_as e r hs (hq_body r) doc a))
         else if registered_dids d = [] then a = []
         else (\<exists>doc. signed_as e r hs (hq_body r) doc a
           \<and> (case did_doc d did of
                None \<Rightarrow> svc \<noteq> [] \<and> resolve_document e did = Some doc
              | Some t \<Rightarrow> unmarshal_map t = Some doc))))"

lemma verify_identity:
  assumes "verify e svc r hs body d = Inr a" "registered_dids d \<noteq> []"
  shows "\<exists>doc. signed_as e r hs body doc a
    \<and> (case did_doc d (keyIDToDID (extractKeyID (headerGet hs ''Signature-Input''))) of
         None \<Rightarrow> svc \<noteq> [] \<and> resolve_document e (keyIDToDID (extractKeyID (headerGet hs ''Signature-Input''))) = Some doc
       | Some t \<Rightarrow> unmarshal_map t = Some doc)"
  using assms(1) by (cases rule: verify_cases) (use assms(2) in auto)

lemma authenticate_identity:
  assumes "rpc_authenticate e svc r d = Inr (req, a)"
  shows "identity_shown e svc r req a d"
proof (cases "rq_method req = ''did.register_document''")
  case True
  note au = rpc_authenticate_Inr(3) [OF assms] rpc_authenticate_Inr(4) [OF assms True]
  have "a \<noteq> []"
    using au(2) by (auto simp: verifyRegistration_def Let_def split: if_splits option.splits)
  with au(2) show ?thesis
    by (cases rule: verifyRegistration_cases) (use True au(1) in \<open>auto simp: identity_shown_def Let_def\<close>)
next
  case False
  note au = rpc_authenticate_Inr(3) [OF assms] rpc_authenticate_Inr(5) [OF assms False]
  show ?thesis
  proof (cases "registered_dids d = []")
    case True
    with False au show ?thesis by (simp add: identity_shown_def verify_def Let_def)
  next
    case ne: False
    from verify_identity [OF au(2) ne] False ne au(1) show ?thesis by (simp add: identity_shown_def Let_def)
  qed
qed

text \<open>Whatever is pending was authenticated earlier in the history.\<close>

definition authenticated_in :: "string \<Rightarrow> event list \<Rightarrow> world \<Rightarrow> http_req \<times> rpc_request \<times> string \<Rightarrow> bool" where
  "authenticated_in svc evs w p \<longleftrightarrow>
     (case p of (r, req, a) \<Rightarrow> \<exists>later e earlier w0.
        evs = later @ Authenticated e r req a # earlier \<and> trace svc earlier w0 \<and> world_step\<^sup>*\<^sup>* w0 w
        \<and> identity_shown e svc r req a (w_db w0))"

lemma authenticated_in_later:
  assumes "authenticated_in svc evs w p" "world_step w w'"
  shows "authenticated_in svc (ev # evs) w' p"
proof -
  obtain r req a where p: "p = (r, req, a)" by (cases p)
  obtain later e earlier w0 where "evs = later @ Authenticated e r req a # earlier" "trace svc earlier w0"
    "world_step\<^sup>*\<^sup>* w0 w" "identity_shown e svc r req a (w_db w0)"
    using assms(1) by (auto simp: authenticated_in_def p)
  then show ?thesis
    using assms(2) unfolding authenticated_in_def p prod.case
    by (intro exI [of _ "ev # later"] exI [of _ e] exI [of _ earlier] exI [of _ w0]) simp
qed

lemma authenticated_in_now:
  assumes "trace svc evs w" "rpc_authenticate e (sv_service_did (w_server w)) r (w_db w) = Inr (req, a)"
  shows "authenticated_in svc (Authenticated e r req a # evs) (w\<lparr>w_pending := (r, req, a) # w_pending w\<rparr>) (r, req, a)"
  unfolding authenticated_in_def prod.case
  using assms authenticate_identity [OF assms(2)] trace_service [OF assms(1)] r_into_rtranclp [of world_step, OF ws_authenticate [OF assms(2)]]
  by (intro exI [of _ "[]"] exI [of _ e] exI [of _ evs] exI [of _ w]) simp

lemma pending_authenticated:
  "trace svc evs w \<Longrightarrow> \<forall>p \<in> set (w_pending w). authenticated_in svc evs w p"
proof (induction rule: trace.induct)
  case tr_init
  then show ?case by (simp add: initial_world_def)
next
  case (tr_authenticate evs w e r req a)
  from authenticated_in_later [OF _ ws_authenticate [OF tr_authenticate.hyps(2)]]
    authenticated_in_now [OF tr_authenticate.hyps] tr_authenticate.IH
  show ?case by simp
next
  case (tr_execute evs w r req a d' e)
  from authenticated_in_later [OF _ ws_execute [OF tr_execute.hyps(2,3)]] tr_execute.IH
  show ?case by (auto dest!: subsetD [OF set_remove1_subset])
next
  case (tr_upload evs w r slotID d' e)
  from authenticated_in_later [OF _ ws_upload [OF tr_upload.hyps(2,3)]] tr_upload.IH
  show ?case by simp
next
  case (tr_base_url evs w u)
  from authenticated_in_later [OF _ ws_base_url] tr_base_url.IH
  show ?case by simp
qed

lemma executed_authenticated:
  assumes "trace svc (Executed e r req a # evs) w"
  shows "\<exists>w1. trace svc evs w1 \<and> authenticated_in svc evs w1 (r, req, a)"
  using assms by (rule trace.cases) (use pending_authenticated in auto)

end
