(* ===== verification/Spec2Isabelle.thy ===== *)
theory Spec2Isabelle
  imports Roles Lifecycle Findings Traces
begin

text \<open>
  A verification library for the ANP server of this repository (package \<open>server\<close>, the Go files
  of src/internal/server): a JSON-RPC backend over one SQLite database that registers DID
  documents and handles, verifies HTTP message signatures, stores direct and group messages,
  forwards opaque end-to-end encryption objects, and keeps attachments.

  \<^bold>\<open>The program and the model.\<close> A request is \<open>http_req\<close>; \<open>handler\<close> (server.go) routes it to
  \<open>handleRPC\<close> (rpc.go), \<open>handleUpload\<close> or \<open>handleDownload\<close> (attachment.go). \<open>handleRPC\<close> reads and
  authenticates (\<open>rpc_authenticate\<close>: \<open>verify\<close> and \<open>verifyRegistration\<close> of auth.go) outside the
  server's mutex, then executes under it (\<open>rpc_execute\<close>): \<open>dispatchIdempotent\<close> looks the operation
  up in the response cache and otherwise \<open>dispatch\<close> calls one handler. Every handler has its Go
  name and is a function from the environment, the caller, the parameters and the database to a
  result or error and the database it leaves, an error included, as SQL statements commit one by
  one. A handler's checks and its write are definitions of their own where proofs need them
  (\<open>commit_checks\<close>, \<open>commit_slot\<close>).

  \<^item> Prelude: the collections of rewrite rules, association lists, and the interface
    \<open>transition_system\<close> (an invariant and a preorder that every step respects).
  \<^item> GoStrings, GoValues, GoTime, GoCrypto, GoNet: what the server uses of Go's standard library.
    A string is a list of bytes; \<open>gval\<close> is \<open>any\<close> as encoding/json decodes it and \<open>nmap\<close> a
    \<open>map[string]any\<close> that may be nil; instants are nanoseconds; SHA-256, RFC 3339, base64url, hex,
    percent-decoding, host splitting and IP parsing are written out.
  \<^item> Tables: SQL tables with a primary key and the interface \<open>keyed_store\<close>. Store: the rows and
    tables of schema.go, the environment \<open>env\<close>, the error codes of rpc.go and helpers.go.
  \<^item> Handles (handle.go), Did (did.go), Auth (auth.go), Payloads (\<open>classifyPayload\<close> of group.go
    and mentions.go), Inbox (msg.go), Direct (e2ee.go).
  \<^item> Group (group.go) with GroupFacts (every method is a sequence of elementary writes, each of
    which keeps the invariant) and GroupRules (ranks, permissions, joining, removing, merge patch);
    GroupE2ee (group_e2ee.go).
  \<^item> Attachment (attachment.go) with AttachmentFacts (the life of a slot, sealed objects, tickets).
  \<^item> Rpc (rpc.go) with RpcFacts: the effects a call can have, the invariant \<open>server_ok\<close> and the
    relation \<open>server_grows\<close> of the whole database, the interface \<open>response_cache\<close>.
  \<^item> Server (server.go): routes, snapshot, and \<open>world_step\<close>, the concurrent executions in which
    other requests come between a request's authentication and its execution. Lifecycle (server.go,
    schema.go): \<open>ensureSchema\<close>, opening, starting, closing, and \<open>host_step\<close>, the life of a database
    file through any number of openings.
  \<^item> Accountability (who is answerable for a document, a handle, a message), Panics (which errors a
    call can have), Roles (the abstract machine of group rights and its refinement by every call),
    Traces (histories of the concurrent server: each execution uses up one authentication),
    Examples (concrete requests and runs for the witnesses), Findings (behaviours a reader of the
    comments may not expect, as concrete runs).

  \<^bold>\<open>What is shown.\<close> C1 and C2: the idempotency cache. C3 to C10: handles, documents, message
  senders, authentication before execution, signatures, the bootstrap window, the guard of did.resolve
  against internal addresses. C11 to C18:
  groups, their counters, permissions, joining, removing, merge patches, the owner's hold on the
  crypto state. C19 to C26: key packages, the inbox page, the snapshot, the acceptance of direct and
  group messages, mentions, prekeys. C27 to C31 and C39: the attachment protocol, from the commit
  to the download. C32 to C34: the abstract machine of rights and what an outsider can do. C35 and
  C37: panics and error codes. C36: restarts. C38: the resolution of a registered handle. C40: the registration race. Invariants hold in every reachable state of \<open>world_step\<close> and
  \<open>host_step\<close>, that is for every environment a step may meet.

  \<^bold>\<open>The environment.\<close> The record \<open>env\<close> holds what is not in this repository: the clock (its
  \<open>i\<close>-th reading in a request), the random bytes, and the third-party checks: the SDK's
  verification of an HTTP signature (\<open>http_sig\<close>, the key id it reports), of an origin proof
  (\<open>origin_sig\<close>), of a handle (\<open>wns_valid\<close>), its resolution of remote documents
  (\<open>resolve_document\<close>), the text the driver gives a float bound to a TEXT column (\<open>real_text\<close>) and its
  error texts (\<open>sql_text\<close>). Theorems hold for every environment; hypotheses on one are in
  C37 (driver texts do not begin with the words the code looks for), C36 (no fault is reported), C39
  (the clock is in the years RFC 3339 can write) and, on drawn identifiers, in C27, C39 and the sealed
  objects of C36 (\<open>object_ids_distinct\<close>: no two slots have the same object id). The JSON
  syntax of a request body is \<open>json_value\<close>; its decoding into the request is \<open>decode_request\<close>.

  \<^bold>\<open>Termination and bounds.\<close> Every loop of the code ranges over a slice, a map, the rows of a query
  or a fixed list, and is a structural recursion or a list function; no fuel is used anywhere.
  Go walks a map in any order, and \<open>merge_patch\<close> is shown not to depend on it (C17). The three
  functions that recurse otherwise (years of the calendar, blocks of SHA-256, fields of an IPv6
  address) have measures.
  Limits keep the code's values: 1 MiB bodies, 32 MiB uploads, slots of an hour, tickets of five
  minutes, 100 prekeys, inbox pages of 1 to 1000. \<open>int64\<close> of a float64 out of range is the least int64,
  as on amd64; the counters of a group are SQLite integers and are modelled without their bound of 2^63.

  \<^bold>\<open>Representation.\<close> A TEXT column that holds JSON is the value the text denotes (numbers come
  back as the nearest float64); \<open>strings.TrimSpace\<close>, \<open>ToLower\<close> and \<open>EqualFold\<close> act on
  ASCII characters only, and so do the escapes of \<open>%q\<close> in error texts (Go also escapes what is not
  printable beyond ASCII); a path reaches
  \<open>route_request\<close> decoded and without escaped slashes, and an answer that net/http's multiplexer
  gives by itself is \<open>ByMux\<close>. A process is stopped between requests, not inside a handler. A
  statement of a request fails only by a constraint or a conversion, never by a fault of the engine;
  so the errors of queries that the code ignores do not occur (one finding is about them: \<open>verify\<close>
  ignores the error of its COUNT and would then accept the request). The statements of
  \<open>ensureSchema\<close> are names of tables and indexes: the columns of an index, and an older table with
  other columns, are not represented.

  \<^bold>\<open>Not modelled.\<close> The SDK, the SQLite engine below the level of statements, net/http below the
  level of requests, and the operating system's files and sockets (record \<open>os\<close>); the tests and the
  shell scripts; the error codes the code declares and never uses.
\<close>

section \<open>Requests that are repeated\<close>

text \<open>
  C1. Once an operation has been answered, every later request of the same caller with the same
  method and operation id gets the cached response, whatever its other parameters are and whatever
  the server has done since, and changes nothing.
\<close>

theorem replayed_request:
  assumes "reachable svc w" "operationIDFromParams params \<noteq> []"
    and "dispatchIdempotent e sb method params a base (w_db w) = (Inr v, d1)"
    and "db_step\<^sup>*\<^sup>* d1 d2" "operationIDFromParams params' = operationIDFromParams params"
  shows "dispatchIdempotent e' sb' method params' a base' d2 = (Inr (canon v), d2)"
proof (rule dispatchIdempotent_replay)
  note ok = reachable_server_ok [OF assms(1)]
  have "server_ok d1"
    using dispatchIdempotent_server(1) [OF ok, of e sb "method" params a base] assms(3) by simp
  moreover have "cached_response d1 (idem_key a method (operationIDFromParams params)) = Some (canon v)"
    using dispatchIdempotent_cached [OF ok assms(2), of e sb "method" a base v] assms(3) by simp
  ultimately show "cached_response d2 (idem_key a method (operationIDFromParams params')) = Some (canon v)"
    using replay.recall_run [OF assms(4)] assms(5) by simp
  show "operationIDFromParams params' \<noteq> []" using assms(2,5) by simp
qed

theorem replayed_request_witness:
  "\<exists>d1. dispatchIdempotent (ex_env [] ex_request) [] ''direct.incoming'' (Some [(''operation_id'', GStr ''op'')]) [] [] empty_db
      = (Inr (GMap [(''accepted'', GBool True)]), d1)
    \<and> dispatchIdempotent (ex_env [] ex_request) [] ''direct.incoming''
        (Some [(''operation_id'', GStr ''op''), (''x'', GNil)]) [] [] d1 = (Inr (GMap [(''accepted'', GBool True)]), d1)"
proof -
  have w: "w_db (ex_world []) = empty_db" by (simp add: new_server_def)
  obtain d1 where d1: "dispatchIdempotent (ex_env [] ex_request) [] ''direct.incoming'' (Some [(''operation_id'', GStr ''op'')]) [] []
      (w_db (ex_world [])) = (Inr (GMap [(''accepted'', GBool True)]), d1)"
    unfolding w
    by (simp add: dispatchIdempotent_def operationIDFromParams_def cached_response_def empty_db_def
        dispatch_def directIncoming_def)
  have "dispatchIdempotent (ex_env [] ex_request) [] ''direct.incoming''
        (Some [(''operation_id'', GStr ''op''), (''x'', GNil)]) [] [] d1
      = (Inr (canon (GMap [(''accepted'', GBool True)])), d1)"
    by (rule replayed_request [OF ex_reachable _ d1 rtranclp.rtrancl_refl]) (simp_all add: operationIDFromParams_def)
  with d1 show ?thesis unfolding w by auto
qed

text \<open>
  C2. The keys of the cache tell callers, methods and operations apart, for callers and methods
  without NUL: in a well-formed database a call leaves the cached answers of every
  other caller, method and operation as they are.
\<close>

theorem cache_keys_distinct:
  assumes "CHR 0x00 \<notin> set a" "CHR 0x00 \<notin> set m" "CHR 0x00 \<notin> set a'" "CHR 0x00 \<notin> set m'"
  shows "(idem_key a m op = idem_key a' m' op' \<longleftrightarrow> a = a' \<and> m = m' \<and> op = op')
    \<and> (server_ok d \<longrightarrow> (a, m, operationIDFromParams params) \<noteq> (a', m', op') \<longrightarrow>
         cached_response (snd (dispatchIdempotent e sb m params a base d)) (idem_key a' m' op')
           = cached_response d (idem_key a' m' op'))"
proof -
  have inj: "idem_key a m o1 = idem_key a' m' o2 \<longleftrightarrow> a = a' \<and> m = m' \<and> o1 = o2" for o1 o2
    using idem_key_inj [OF assms] by blast
  have "idem_key a' m' op' \<noteq> idem_key a m (operationIDFromParams params)"
    if "(a, m, operationIDFromParams params) \<noteq> (a', m', op')"
    using that inj [of "operationIDFromParams params" op'] by auto
  then show ?thesis using inj dispatchIdempotent_other_key by blast
qed

theorem cache_keys_distinct_witness:
  "idem_key ''did:a'' ''group.send'' ''op'' \<noteq> idem_key ''did:ag'' ''roup.send'' ''op''
   \<and> cached_response (snd (dispatchIdempotent (ex_env ''did:a'' ex_request) [] ''direct.incoming''
         (Some [(''operation_id'', GStr ''op'')]) ''did:a'' [] empty_db)) (idem_key ''did:b'' ''direct.incoming'' ''op'') = None"
proof -
  have nul: "CHR 0x00 \<notin> set ''did:a''" "CHR 0x00 \<notin> set ''did:ag''" "CHR 0x00 \<notin> set ''did:b''"
    "CHR 0x00 \<notin> set ''group.send''" "CHR 0x00 \<notin> set ''roup.send''" "CHR 0x00 \<notin> set ''direct.incoming''"
    by simp_all
  have "cached_response empty_db k = None" for k by (simp add: cached_response_def empty_db_def)
  then show ?thesis
    using cache_keys_distinct [OF nul(1,4,2,5), of "''op''" "''op''"]
      cache_keys_distinct [OF nul(1,6,3,6), of "''op''" "''op''" empty_db] server_ok_empty by simp
qed

section \<open>Identities\<close>

text \<open>
  C3. A handle that is bound to a DID stays bound to that DID in every later state of the server,
  under every interleaving of requests.
\<close>

theorem handle_bindings_permanent:
  assumes "reachable svc w" "world_step\<^sup>*\<^sup>* w w'" "handle_owner (w_db w) h = Some did"
  shows "handle_owner (w_db w') h = Some did"
  using world.rel_run [OF assms(2) reachable_ok [OF assms(1)]] assms(3)
  by (simp add: world_grows_def server_grows_def bindings_kept_def)

lemma ex_handle_state: "handle_owner (w_db (ex_world [c_handle, c_doc])) ''a.x'' = Some ''did:a''"
proof -
  have row: "tsel (registered_dids ex_db_doc) ''did:a'' = Some ex_doc_row"
    "unmarshal_map (dr_doc_json ex_doc_row) = Some (Some [(''id'', GStr ''did:a'')])"
    by (simp_all add: ex_db_doc_def ex_doc_row_def tsel_def)
  have "ex_run [c_handle, c_doc] = snd (ex_call c_handle (new_server ex_db_doc []))"
    by (simp only: ex_run.simps(2) [of c_handle] ex_run_doc)
  then show ?thesis
    using ex_call_signed [of "''did:a''" "new_server ex_db_doc []", OF _ _ _ row(2), of "''handle.register''"] row
    by (simp add: c_handle_def new_server_def dispatchIdempotent_def operationIDFromParams_def dispatch_def
        handleRegister_def validHandle_def ex_env_def handle_owner_def ex_db_doc_def empty_db_def Let_def)
qed

theorem handle_bindings_permanent_witness:
  "handle_owner (w_db (ex_world [c_group, c_handle, c_doc])) ''a.x'' = Some ''did:a''"
  using handle_bindings_permanent [OF ex_reachable ex_more [of "[c_handle, c_doc]" "[c_group]"] ex_handle_state]
  by simp

text \<open>
  C4. With no other request in between, the document stored under a DID is replaced only by a
  request whose HTTP signature verified under that document and for that DID.
\<close>

theorem document_replaced_by_owner:
  assumes "did_doc d did = Some t" "did_doc (snd (handleRPC e sb svc r d)) did \<noteq> Some t"
  shows "\<exists>doc. unmarshal_map t = Some doc
    \<and> signed_as e r (httpHeaders (hq_headers r)) (hq_body r) doc did"
  by (rule handleRPC_document [OF assms])

theorem document_replaced_by_owner_witness:
  fixes req :: rpc_request
  defines "req \<equiv> ex_req ''did.register_document'' [(''did'', GStr ''did:a''), (''did_document'', GMap [])]"
  shows "\<exists>doc. unmarshal_map (JDoc (GMap [(''id'', GStr ''did:a'')])) = Some doc
    \<and> signed_as (ex_env ''did:a'' req) (ex_http ''did:a'') (httpHeaders (hq_headers (ex_http ''did:a'')))
        (hq_body (ex_http ''did:a'')) doc ''did:a''"
proof (rule document_replaced_by_owner [where d = ex_db_doc and sb = "[]" and svc = "[]"])
  show "did_doc ex_db_doc ''did:a'' = Some (JDoc (GMap [(''id'', GStr ''did:a'')]))"
    by (simp add: did_doc_def ex_db_doc_def ex_doc_row_def tsel_def)
  have k: "keyIDToDID ''did:a#k'' = ''did:a''"
    using keyIDToDID_fragment [of "''k''" "''did:a''"] by simp
  show "did_doc (snd (handleRPC (ex_env ''did:a'' req) [] [] (ex_http ''did:a'') ex_db_doc)) ''did:a''
      \<noteq> Some (JDoc (GMap [(''id'', GStr ''did:a'')]))"
    by (simp add: req_def rpc_defs ex_call_defs verifyRegistration_def equal_fold_def k Let_def
        didRegisterDocument_def did_doc_def ex_db_doc_def ex_doc_row_def tsel_def tput_def marshal_def)
qed

text \<open>
  C5. A request with a verified caller stores messages under that caller's name only; the one
  exception is the delivery notice, whose sender is what the request says.
\<close>

theorem messages_carry_caller:
  assumes "a \<noteq> []"
  shows "\<exists>new. messages (snd (rpc_execute e sb r req a d)) = messages d @ new
    \<and> (\<forall>row \<in> set new. m_sender_did row = a \<or> m_type row = ''notice'')"
  using dispatchIdempotent_sent_by [OF assms] by (simp add: snd_rpc_execute sent_by_def)

definition ex_direct :: gomap where
  "ex_direct = [(''meta'', GMap [(''message_id'', GStr ''m1''), (''sender_did'', GStr ''did:mallory''),
                                 (''target'', GMap [(''did'', GStr ''did:b'')])])]"

theorem messages_carry_caller_witness:
  "\<exists>row. messages (snd (rpc_execute (ex_env ''did:a'' ex_request) [] (ex_http []) (ex_req ''direct.send'' ex_direct) ''did:a'' empty_db))
      = [row] \<and> m_sender_did row = ''did:a''"
proof -
  let ?d = "snd (rpc_execute (ex_env ''did:a'' ex_request) [] (ex_http []) (ex_req ''direct.send'' ex_direct) ''did:a'' empty_db)"
  obtain row where row: "messages ?d = [row]" "m_type row \<noteq> ''notice''"
    by (simp add: snd_rpc_execute ex_req_def ex_direct_def dispatchIdempotent_def operationIDFromParams_def dispatch_def
        directSend_def directSend_checks_def plaintext_profile_def insert_message_def direct_row_def empty_db_def Let_def)
  have "\<exists>new. messages ?d = messages empty_db @ new
      \<and> (\<forall>row \<in> set new. m_sender_did row = ''did:a'' \<or> m_type row = ''notice'')"
    by (rule messages_carry_caller) simp
  then show ?thesis using row by (auto simp: empty_db_def)
qed

text \<open>
  C6. In every history of the concurrent server, a request is executed for a caller only after it
  was authenticated as that caller's at an earlier moment, and no more often than it was
  authenticated. What was shown at that moment, in its environment and against its database: a
  registration names a DID that had no document or whose document verified the signature as that
  DID's; any other request was verified, as the caller's, under the document registered for the DID
  of its keyid (under a resolved one if there was none and a service DID is configured), unless no
  DID was registered, and then it has no caller.
\<close>

theorem executed_after_authentication:
  assumes "trace svc (Executed e r req a # evs) w"
  shows "(\<exists>later e0 earlier w0. evs = later @ Authenticated e0 r req a # earlier \<and> trace svc earlier w0
      \<and> identity_shown e0 svc r req a (w_db w0))
    \<and> count_list (executed (Executed e r req a # evs)) (r, req, a) \<le> count_list (authenticated evs) (r, req, a)"
  using executed_authenticated [OF assms] executed_at_most_authenticated [OF assms, of "(r, req, a)"]
  by (auto simp: authenticated_in_def)

theorem executed_after_authentication_witness:
  "\<exists>e req evs w. trace [] (Executed e (ex_http ''did:a'') req ''did:a'' # evs) w
    \<and> (\<exists>later e0 earlier w0. evs = later @ Authenticated e0 (ex_http ''did:a'') req ''did:a'' # earlier
        \<and> trace [] earlier w0 \<and> identity_shown e0 [] (ex_http ''did:a'') req ''did:a'' (w_db w0))"
proof -
  let ?req = "ex_req ''direct.send'' ex_direct" and ?r = "ex_http ''did:a''"
  let ?e = "ex_env ''did:a'' ?req"
  obtain evs where evs: "trace [] evs (ex_world [c_doc])" using trace_of_reachable [OF ex_reachable] by blast
  have w: "sv_db (ex_run [c_doc]) = ex_db_doc" "sv_service_did (ex_run [c_doc]) = []"
    by (simp_all add: ex_run_doc new_server_def del: ex_run.simps)
  have "tsel (registered_dids ex_db_doc) ''did:a'' = Some ex_doc_row"
    "unmarshal_map (dr_doc_json ex_doc_row) = Some (Some [(''id'', GStr ''did:a'')])"
    by (simp_all add: ex_db_doc_def ex_doc_row_def tsel_def)
  then have "verify ?e [] ?r (httpHeaders (hq_headers ?r)) [] ex_db_doc = Inr ''did:a''"
    by (intro ex_verify) auto
  then have "rpc_authenticate ?e [] ?r ex_db_doc = Inr (?req, ''did:a'')"
    by (simp add: rpc_authenticate_def ex_http_def ex_req_def read_limited_def maxBodyBytes_def)
  then have "rpc_authenticate ?e (sv_service_did (w_server (ex_world [c_doc]))) ?r (w_db (ex_world [c_doc])) = Inr (?req, ''did:a'')"
    using w by simp
  note au = tr_authenticate [OF evs this]
  have "\<exists>w'. trace [] (Executed ?e ?r ?req ''did:a'' # Authenticated ?e ?r ?req ''did:a'' # evs) w'"
    using tr_execute [OF au, of ?r ?req "''did:a''"] by (auto simp del: ex_run.simps)
  then obtain w' where ex: "trace [] (Executed ?e ?r ?req ''did:a'' # Authenticated ?e ?r ?req ''did:a'' # evs) w'" ..
  then show ?thesis using executed_after_authentication [OF ex] by blast
qed

text \<open>
  C7. An accepted HTTP signature was checked against the registered document of the DID its keyid
  names, or against a remotely resolved one when a service DID is configured; only a server without
  any registered DID accepts a request without a signature.
\<close>

theorem verified_identity:
  assumes "verify e svc r hs body d = Inr who"
  defines "did \<equiv> keyIDToDID (extractKeyID (headerGet hs ''Signature-Input''))"
  shows "if registered_dids d = [] then who = []
    else \<exists>doc. signed_as e r hs body doc who \<and>
      (case did_doc d did of Some t \<Rightarrow> unmarshal_map t = Some doc
       | None \<Rightarrow> svc \<noteq> [] \<and> resolve_document e did = Some doc)"
proof (cases "registered_dids d = []")
  case True
  with assms(1) show ?thesis by (simp add: verify_def)
next
  case False
  show ?thesis
    using assms(1)
  proof (cases rule: verify_cases)
    case (local did' t doc)
    with False show ?thesis by (auto simp: did_def)
  next
    case (remote did' doc)
    with False show ?thesis by (auto simp: did_def)
  qed (simp add: False)
qed

theorem verified_identity_witness:
  "\<exists>doc. signed_as (ex_env ''did:a'' ex_request) (ex_http ''did:a'') (httpHeaders (hq_headers (ex_http ''did:a''))) [] doc ''did:a''"
proof -
  have "tsel (registered_dids ex_db_doc) ''did:a'' = Some ex_doc_row"
    "unmarshal_map (dr_doc_json ex_doc_row) = Some (Some [(''id'', GStr ''did:a'')])"
    by (simp_all add: ex_db_doc_def ex_doc_row_def tsel_def)
  then have "verify (ex_env ''did:a'' ex_request) [] (ex_http ''did:a'') (httpHeaders (hq_headers (ex_http ''did:a''))) [] ex_db_doc
      = Inr ''did:a''"
    by (intro ex_verify) auto
  from verified_identity [OF this] show ?thesis by (auto simp: ex_db_doc_def)
qed

text \<open>
  C8. The open door closes for good: once a DID is registered, in every later state a server
  without a service DID accepts no unsigned request (other than the registration of a new DID).
\<close>

theorem bootstrap_closes:
  assumes "reachable [] w" "registered_dids (w_db w) \<noteq> []" "world_step\<^sup>*\<^sup>* w w'"
    and "verify e [] r hs body (w_db w') = Inr who"
  shows "\<exists>did t doc. did_doc (w_db w') did = Some t \<and> unmarshal_map t = Some doc \<and> signed_as e r hs body doc who"
  using assms(4)
proof (cases rule: verify_cases)
  case bootstrap
  obtain did row ds where "registered_dids (w_db w) = (did, row) # ds" using assms(2) by (cases "registered_dids (w_db w)") auto
  then have "did_doc (w_db w) did \<noteq> None" by (simp add: did_doc_def tsel_def)
  then have "did_doc (w_db w') did \<noteq> None"
    using world.rel_run [OF assms(3) reachable_ok [OF assms(1)]]
    by (simp add: world_grows_def server_grows_def documents_kept_def)
  with bootstrap show ?thesis by (simp add: did_doc_def)
qed blast+

theorem bootstrap_closes_witness:
  "\<exists>did t doc. did_doc ex_db_doc did = Some t \<and> unmarshal_map t = Some doc
     \<and> signed_as (ex_env ''did:a'' ex_request) (ex_http ''did:a'') (httpHeaders (hq_headers (ex_http ''did:a''))) [] doc ''did:a''"
proof -
  have w: "w_db (ex_world [c_doc]) = ex_db_doc" by (simp add: ex_run_doc new_server_def del: ex_run.simps)
  have "tsel (registered_dids ex_db_doc) ''did:a'' = Some ex_doc_row"
    "unmarshal_map (dr_doc_json ex_doc_row) = Some (Some [(''id'', GStr ''did:a'')])"
    by (simp_all add: ex_db_doc_def ex_doc_row_def tsel_def)
  then have v: "verify (ex_env ''did:a'' ex_request) [] (ex_http ''did:a'') (httpHeaders (hq_headers (ex_http ''did:a''))) []
      (w_db (ex_world [c_doc])) = Inr ''did:a''"
    unfolding w by (intro ex_verify) auto
  have "registered_dids (w_db (ex_world [c_doc])) \<noteq> []" unfolding w by (simp add: ex_db_doc_def)
  from bootstrap_closes [OF ex_reachable this rtranclp.rtrancl_refl v] show ?thesis unfolding w .
qed



text \<open>
  C10. did.resolve of a DID that has no document here, named directly or by a handle bound to it,
  and whose host is a dotted quad, with or without a port or a trailing dot: it is refused, without
  asking the resolver, exactly for the loopback, private, link-local (unicast and multicast) and
  unspecified addresses. A public address is not refused: its document is fetched, although the
  comments of did.go say that every IP literal is refused. The guard is not applied to documents
  registered here, nor to those that verify resolves for a service signature.
\<close>

theorem internal_hosts_blocked:
  assumes "b1 \<le> 255" "b2 \<le> 255" "b3 \<le> 255" "b4 \<le> 255"
    and "scheme \<in> {''did:wba:'', ''did:web:''}" "path = [] \<or> path = CHR '':'' # rest"
    and "suffix \<in> {[], ''.'', escaped_port port, ''.'' @ escaped_port port}"
  defines "did \<equiv> scheme @ (show_ipv4 b1 b2 b3 b4 @ suffix) @ path"
  assumes "gets params ''target'' \<noteq> []" "did_doc d did = None"
    and "handle_owner d (gets params ''target'') = Some did
      \<or> (gets params ''target'' = did \<and> handle_owner d did = None)"
  shows "didResolve e params d =
    (if internal_ipv4 b1 b2 b3 b4 then Inl (RpcError codeDidNotFound ''did not found'')
     else case resolve_document e did of
            None \<Rightarrow> Inl (RpcError codeDidNotFound ''did not found'')
          | Some doc \<Rightarrow> Inr (GMap [(''did'', GStr did), (''did_document'', ofMap doc)]))"
proof -
  have host: "didHost did \<noteq> [] \<and> (isBlockedHost (didHost did) \<longleftrightarrow> internal_ipv4 b1 b2 b3 b4)"
    unfolding did_def by (rule didHost_blocked [OF assms(1-7)])
  have pre: "has_prefix ''did:wba:'' did \<or> has_prefix ''did:web:'' did"
    using assms(5) by (auto simp: did_def has_prefix_iff)
  then have ne: "did \<noteq> []" by (auto simp: has_prefix_def)
  have "didResolve e params d =
    (if didHost did \<noteq> [] \<and> isBlockedHost (didHost did) then Inl (RpcError codeDidNotFound ''did not found'')
     else case resolve_document e did of
            None \<Rightarrow> Inl (RpcError codeDidNotFound ''did not found'')
          | Some doc \<Rightarrow> Inr (GMap [(''did'', GStr did), (''did_document'', ofMap doc)]))"
    by (rule didResolve_remote) (use assms(9-11) pre ne in \<open>auto simp: did_doc_def handle_owner_def split: option.split\<close>)
  then show ?thesis using host by simp
qed

definition ex_metadata_did :: string where
  "ex_metadata_did = ''did:wba:'' @ (show_ipv4 169 254 169 254 @ escaped_port 80) @ []"

definition ex_public_did :: string where
  "ex_public_did = ''did:wba:'' @ (show_ipv4 8 8 8 8 @ []) @ []"

text \<open>An environment in which every DID resolves to an empty document.\<close>

definition ex_network :: env where
  "ex_network = (ex_env [] ex_request)\<lparr>resolve_document := (\<lambda>did. Some (Some []))\<rparr>"

theorem internal_hosts_blocked_witness:
  "didResolve ex_network (Some [(''target'', GStr ex_metadata_did)]) empty_db = Inl (RpcError codeDidNotFound ''did not found'')
   \<and> didResolve ex_network (Some [(''target'', GStr ex_public_did)]) empty_db
       = Inr (GMap [(''did'', GStr ex_public_did), (''did_document'', GMap [])])"
proof -
  have e: "did_doc empty_db did = None" "handle_owner empty_db did = None" for did
    by (simp_all add: did_doc_def handle_owner_def empty_db_def)
  have "gets (Some [(''target'', GStr (''did:wba:'' @ x))]) ''target'' \<noteq> []" for x by simp
  then show ?thesis
    using internal_hosts_blocked [of 169 254 169 254 "''did:wba:''" "[]" _ "escaped_port 80" 80
        "Some [(''target'', GStr ex_metadata_did)]" empty_db ex_network]
      internal_hosts_blocked [of 8 8 8 8 "''did:wba:''" "[]" _ "[]" 80
        "Some [(''target'', GStr ex_public_did)]" empty_db ex_network]
    by (simp add: e internal_ipv4_def ex_network_def ex_metadata_did_def ex_public_did_def)
qed

section \<open>Groups\<close>

text \<open>
  C11. In every reachable state: group and membership keys are unique, every membership is active,
  has a role and belongs to an existing group, every group has an owner, non-negative counters, a
  policy that decodes to an object and a profile that does too, or is the empty text of a group made
  without one, and no more group messages are stored than event numbers were handed out.
\<close>

theorem groups_consistent:
  assumes "reachable svc w"
  shows "groups_ok (w_db w) \<and> (\<forall>gid. int (length (group_log (w_db w) gid)) \<le> event_seq (w_db w) gid)"
  using reachable_server_ok [OF assms] by (simp add: server_ok_def group_data_ok_def seq_covers_def)

theorem groups_consistent_witness: "groups_ok (w_db (ex_world [c_group, c_doc]))"
  using groups_consistent [OF ex_reachable] by blast

text \<open>
  C12. Along every run groups are never deleted, their version and event counters never go back,
  and their owner of record and creation time never change; the message log only grows at its end.
\<close>

theorem groups_and_log_grow:
  assumes "reachable svc w" "world_step\<^sup>*\<^sup>* w w'"
  shows "groups_grow (w_db w) (w_db w') \<and> (\<exists>new. messages (w_db w') = messages (w_db w) @ new)"
  using world.rel_run [OF assms(2) reachable_ok [OF assms(1)]]
  by (simp add: world_grows_def server_grows_def group_data_grows_def log_extends_def)

theorem groups_and_log_grow_witness:
  "groups_grow (w_db (ex_world [c_group, c_doc])) (w_db (ex_world ([c_handle] @ [c_group, c_doc])))"
  using groups_and_log_grow [OF ex_reachable ex_more] by blast

text \<open>
  C13. The permission check compares ranks: none < member < admin < owner. A caller may act exactly
  when the rank of its role is at least the rank that the group's policy, or the default for the
  action, requires.
\<close>

theorem permission_is_rank_order:
  "groupPermitted d gid did action \<longleftrightarrow>
     required_rank (required_role d gid action) \<le> role_rank (groupMemberRole d gid did)"
  by (rule groupPermitted_rank)

text \<open>
  C14. Adding, removing and the two updates answer with an error and leave the database as it is
  unless the rank of the caller's role in the group is at least the rank the action requires; in
  particular a caller without a role in the group changes nothing with any of them.
\<close>

theorem changes_need_permission:
  fixes d :: db and params :: nmap and a :: string
  defines "enough \<equiv> \<lambda>action. required_rank (required_role d (groupDIDFromParams params) action)
      \<le> role_rank (groupMemberRole d (groupDIDFromParams params) a)"
  shows "(enough ''add'' \<or> \<not> is_ok (fst (groupAdd e a params d)) \<and> snd (groupAdd e a params d) = d)
   \<and> (enough ''remove'' \<or> \<not> is_ok (fst (groupRemove a params d)) \<and> snd (groupRemove a params d) = d)
   \<and> (enough ''update_profile''
        \<or> \<not> is_ok (fst (groupUpdateProfile a params d)) \<and> snd (groupUpdateProfile a params d) = d)
   \<and> (enough ''update_policy''
        \<or> \<not> is_ok (fst (groupUpdatePolicy a params d)) \<and> snd (groupUpdatePolicy a params d) = d)
   \<and> (groupMemberRole d (groupDIDFromParams params) a = [] \<longrightarrow>
        snd (groupAdd e a params d) = d \<and> snd (groupRemove a params d) = d
        \<and> snd (groupUpdateProfile a params d) = d \<and> snd (groupUpdatePolicy a params d) = d)"
  using groupAdd_denied groupRemove_denied groupUpdateProfile_denied groupUpdatePolicy_denied
    no_role_not_permitted
  unfolding enough_def groupPermitted_rank [symmetric] by blast

theorem changes_need_permission_witness:
  "snd (groupRemove ''did:c'' (Some [(''body'', GMap [(''group_did'', GStr ''g''), (''member_did'', GStr ''did:b'')])])
     ex_db_group) = ex_db_group"
proof -
  let ?p = "Some [(''body'', GMap [(''group_did'', GStr ''g''), (''member_did'', GStr ''did:b'')])]"
  have "groupMemberRole ex_db_group (groupDIDFromParams ?p) ''did:c'' = []"
    by (simp add: groupMemberRole_def groupDIDFromParams_def ex_db_group_def ex_members_def tsel_def)
  then show ?thesis using changes_need_permission [of ex_db_group ?p "''did:c''"] by blast
qed

lemma ex_db_group_ok: "groups_ok ex_db_group"
  by (auto simp: groups_ok_def ex_db_group_def ex_group_def ex_members_def tsel_def tkeys_unique_def
      group_row_ok_def empty_db_def split: if_splits)

text \<open>
  C15. A successful join leaves the caller a member, with the role it had or else the role member,
  never more; a caller that already is a member joins without any change.
\<close>

theorem join_group:
  assumes "groups_ok d" "is_ok (fst (groupJoin e a params d))"
  defines "gid \<equiv> groupDIDFromParams params" and "did \<equiv> caller_or_sender a params"
  defines "d' \<equiv> snd (groupJoin e a params d)"
  shows "groupMemberRole d' gid did = (if isGroupMember d gid did then groupMemberRole d gid did else ''member'')
    \<and> (if isGroupMember d gid did then d' = d else g_state_version (the (tsel (groups d') gid))
         = g_state_version (the (tsel (groups d) gid)) + 1)"
proof (cases "isGroupMember d gid did")
  case True
  then show ?thesis using groupJoin_again unfolding d'_def gid_def did_def by simp
next
  case False
  have "isGroupMember d' gid did"
    using groupJoin_member [OF assms(2,1)] unfolding d'_def gid_def did_def .
  then have r: "groupMemberRole d' gid did = ''member''"
    using groupJoin_role [OF assms(1) False, of e a params] unfolding d'_def isGroupMember_def by blast
  have "g_state_version (the (tsel (groups d') gid)) = g_state_version (the (tsel (groups d) gid)) + 1"
    using assms(2) False
    by (auto simp: d'_def gid_def did_def groupJoin_def loadGroup_def Let_def bump_version_def joinGroupMember_def
        split: if_splits option.splits)
  with r False show ?thesis by simp
qed

theorem join_group_witness:
  "groupMemberRole (snd (groupJoin (ex_env ''did:c'' ex_request) ''did:c'' (Some [(''body'', GMap [(''group_did'', GStr ''g'')])]) ex_db_group))
     ''g'' ''did:c'' = ''member''"
proof -
  let ?p = "Some [(''body'', GMap [(''group_did'', GStr ''g'')])]"
  have "is_ok (fst (groupJoin (ex_env ''did:c'' ex_request) ''did:c'' ?p ex_db_group))"
    by (simp add: groupJoin_def groupDIDFromParams_def caller_or_sender_def loadGroup_def ex_db_group_def ex_group_def
        ex_members_def tsel_def isGroupMember_def groupMemberRole_def with_version_def bumpGroupStateVersion_def
        groupStateVersion_def bump_version_def joinGroupMember_def tupd_def unmarshal_map_lax_def Let_def)
  from join_group [OF ex_db_group_ok this] show ?thesis
    by (simp add: groupDIDFromParams_def caller_or_sender_def isGroupMember_def groupMemberRole_def ex_db_group_def
        ex_members_def tsel_def)
qed

text \<open>
  C16. A successful remove takes exactly the named member's role away, and never names the group's
  owner of record.
\<close>

theorem remove_member:
  assumes "is_ok (fst (groupRemove a params d))"
  defines "m \<equiv> gets (asMap (gindex params ''body'')) ''member_did''"
  shows "groupMemberRole (snd (groupRemove a params d)) gid did
      = (if gid = groupDIDFromParams params \<and> did = m then [] else groupMemberRole d gid did)
    \<and> m \<noteq> ownerDID d (groupDIDFromParams params)"
  using groupRemove_role [OF assms(1)] unfolding m_def by blast

theorem remove_member_witness:
  "groupMemberRole (snd (groupRemove ''did:a'' (Some [(''body'', GMap [(''group_did'', GStr ''g''), (''member_did'', GStr ''did:b'')])])
     ex_db_group)) ''g'' ''did:b'' = []"
proof -
  let ?p = "Some [(''body'', GMap [(''group_did'', GStr ''g''), (''member_did'', GStr ''did:b'')])]"
  have "is_ok (fst (groupRemove ''did:a'' ?p ex_db_group))"
    by (simp add: groupRemove_def groupDIDFromParams_def groupPermitted_def groupMemberRole_def ownerDID_def ex_db_group_def
        ex_group_def ex_members_def tsel_def with_version_def bumpGroupStateVersion_def groupStateVersion_def
        bump_version_def removeGroupMember_def tupd_def Let_def)
  from remove_member [OF this, of "''g''" "''did:b''"] show ?thesis by (simp add: groupDIDFromParams_def)
qed

text \<open>
  C17. The merge patch of profiles and policies: a key of the patch is removed when its value is
  null and replaced otherwise, every other key keeps its value, in whatever order Go walks the patch.
\<close>

theorem merge_patch_spec:
  assumes "distinct (map fst patch)"
  shows "map_of (merge_patch m patch) k =
    (case map_of patch k of None \<Rightarrow> map_of m k | Some v \<Rightarrow> if v = GNil then None else Some v)"
  by (rule map_of_merge_patch [OF assms])

theorem merge_patch_spec_witness:
  "map_of (merge_patch [(''x'', GBool True), (''y'', GBool True)] [(''x'', GNil), (''z'', GBool False)]) ''y'' = Some (GBool True)"
  using merge_patch_spec [of "[(''x'', GNil), (''z'', GBool False)]"] by simp

text \<open>
  C18. The end-to-end crypto state of a group, whichever of create, add and remove is called,
  changes only under a caller that has the owner role in that group.
\<close>

theorem e2ee_state_owner_only:
  assumes "d' \<in> {snd (groupE2EECreate e a params d), snd (groupE2EEAdd e a params d), snd (groupE2EERemove e a params d)}"
    and "tsel (group_e2ee_states d') (gid, cgid) \<noteq> tsel (group_e2ee_states d) (gid, cgid)"
  shows "groupMemberRole d gid a = ''owner''"
  using assms e2ee_state_methods e2ee_state_write_owner by blast

definition ex_commit :: gomap where
  "ex_commit =
     [(''body'', GMap [(''group_did'', GStr ''g''), (''member_did'', GStr ''did:b''), (''group_state_ref'', GMap []),
                       (''crypto_group_id_b64u'', GStr ''c''), (''epoch'', GStr ''1''), (''commit_b64u'', GStr ''x'')])]"

theorem e2ee_state_owner_only_witness: "groupMemberRole ex_db_group ''g'' ''did:a'' = ''owner''"
proof (rule e2ee_state_owner_only)
  show "snd (groupE2EERemove (ex_env ''did:a'' req) ''did:a'' (Some ex_commit) ex_db_group)
      \<in> {snd (groupE2EECreate (ex_env ''did:a'' req) ''did:a'' (Some ex_commit) ex_db_group),
         snd (groupE2EEAdd (ex_env ''did:a'' req) ''did:a'' (Some ex_commit) ex_db_group),
         snd (groupE2EERemove (ex_env ''did:a'' req) ''did:a'' (Some ex_commit) ex_db_group)}" by simp
  show "tsel (group_e2ee_states (snd (groupE2EERemove (ex_env ''did:a'' req) ''did:a'' (Some ex_commit) ex_db_group))) (''g'', ''c'')
      \<noteq> tsel (group_e2ee_states ex_db_group) (''g'', ''c'')"
    by (simp add: groupE2EERemove_def ex_commit_def e2ee_owner_gid_def groupE2EEGroupDID_def groupE2EERequireOwner_def
        groupMemberRole_def ex_db_group_def ex_members_def tsel_def e2ee_commit_checks_def storeE2EEState_def
        requiredBodyString_def empty_db_def tput_def Let_def)
qed

text \<open>
  C19. Publishing a key package touches no other agent's package, and what is read back is what was
  published, under the name of the caller.
\<close>

theorem key_package_roundtrip:
  assumes "is_ok (fst (groupE2EEPublishKeyPackage e a params d))" "a \<noteq> []"
    and "asMap (gindex (asMap (gindex params ''body'')) ''group_key_package'') = Some pkg"
    and "gets (asMap (gindex params' ''body'')) ''target_did'' = who" "who \<noteq> []"
  shows "groupE2EEGetKeyPackage params' (snd (groupE2EEPublishKeyPackage e a params d))
    = (if who = a then Inr (GMap [(''target_did'', GStr a),
                              (''group_key_package'', canon (GMap (AList.update ''owner_did'' (GStr a) pkg)))])
       else groupE2EEGetKeyPackage params' d)"
proof (cases "who = a")
  case True
  then show ?thesis using publish_get_key_package [OF assms(1-3)] assms(4) by simp
next
  case False
  have "tsel (group_key_packages (snd (groupE2EEPublishKeyPackage e a params d))) who = tsel (group_key_packages d) who"
    by (rule publishKeyPackage_own [OF assms(2) False])
  then show ?thesis
    using False assms(4,5) by (simp add: groupE2EEGetKeyPackage_def requiredBodyString_def)
qed

theorem key_package_roundtrip_witness:
  "groupE2EEGetKeyPackage (Some [(''body'', GMap [(''target_did'', GStr ''did:a'')])])
     (snd (groupE2EEPublishKeyPackage (ex_env ''did:a'' ex_request) ''did:a''
        (Some [(''body'', GMap [(''group_key_package'',
            GMap [(''key_package_id'', GStr ''k''), (''mls_key_package_b64u'', GStr ''p'')])])]) empty_db))
   = Inr (GMap [(''target_did'', GStr ''did:a''), (''group_key_package'',
        canon (GMap [(''key_package_id'', GStr ''k''), (''mls_key_package_b64u'', GStr ''p''), (''owner_did'', GStr ''did:a'')]))])"
proof -
  let ?p = "Some [(''body'', GMap [(''group_key_package'',
            GMap [(''key_package_id'', GStr ''k''), (''mls_key_package_b64u'', GStr ''p'')])])]"
  have "is_ok (fst (groupE2EEPublishKeyPackage (ex_env ''did:a'' ex_request) ''did:a'' ?p empty_db))"
    by (simp add: groupE2EEPublishKeyPackage_def key_package_checks_def requiredBodyString_def Let_def)
  from key_package_roundtrip [OF this, of "[(''key_package_id'', GStr ''k''), (''mls_key_package_b64u'', GStr ''p'')]"
      "Some [(''body'', GMap [(''target_did'', GStr ''did:a'')])]" "''did:a''"]
  show ?thesis by simp
qed

section \<open>Messages and prekeys\<close>

definition ex_msg :: "int \<Rightarrow> string \<Rightarrow> msg_row" where
  "ex_msg i mid =
     \<lparr>m_id = i, m_message_id = mid, m_sender_did = ''did:a'', m_recipient_did = Some ''did:b'', m_group_did = None,
      m_type = ''text'', m_text = Some [], m_secure = 1, m_sent_at = ''t'', m_wire_meta = None, m_wire_body = None\<rparr>"

definition ex_db_log :: db where
  "ex_db_log = empty_db\<lparr>messages := [ex_msg 1 ''m1'', ex_msg 2 ''m2''], msg_autoinc := 2\<rparr>"

text \<open>
  C20. The inbox page: at most the limit (which is between 1 and 1000), newest first, only messages
  to the caller or to a group it is an active member of; a message that matches and is missing is
  older than everything on the page, and then the page is full.
\<close>

theorem inbox_page:
  fixes params :: nmap and did :: string
  assumes "messages_ok d"
  defines "n \<equiv> inbox_limit params"
  defines "page \<equiv> inbox_rows d did n"
  shows "1 \<le> n \<and> n \<le> 1000 \<and> length page \<le> n \<and> sorted_wrt (>) (map m_id page)
    \<and> (\<forall>r \<in> set page. r \<in> set (messages d) \<and> inbox_match d did r)
    \<and> (\<forall>r \<in> set (messages d). inbox_match d did r \<longrightarrow> r \<notin> set page \<longrightarrow>
          length page = n \<and> (\<forall>r' \<in> set page. m_id r < m_id r'))"
proof (intro conjI ballI impI)
  show "1 \<le> n" "n \<le> 1000" using inbox_limit_bounds [of params] by (simp_all add: n_def)
  show "length page \<le> n" by (simp add: page_def inbox_rows_def)
  show "sorted_wrt (>) (map m_id page)"
    unfolding page_def by (rule inbox_rows_descending [OF assms(1)])
  show "r \<in> set (messages d)" "inbox_match d did r" if "r \<in> set page" for r
    using inbox_rows_match that unfolding page_def by blast+
  fix r assume r: "r \<in> set (messages d)" "inbox_match d did r" "r \<notin> set page"
  note c = inbox_rows_complete [OF assms(1) r [unfolded page_def]]
  show "length page = n" unfolding page_def by (rule c(1))
  show "m_id r < m_id r'" if "r' \<in> set page" for r' using c(2) that unfolding page_def .
qed

theorem inbox_page_witness:
  "messages_ok ex_db_log \<and> inbox_rows ex_db_log ''did:b'' (inbox_limit (Some [(''limit'', GNum 1)])) = [ex_msg 2 ''m2'']
   \<and> length (inbox_rows ex_db_log ''did:b'' (inbox_limit (Some [(''limit'', GNum 1)]))) \<le> inbox_limit (Some [(''limit'', GNum 1)])"
proof -
  have ok: "messages_ok ex_db_log"
    by (simp add: messages_ok_def ex_db_log_def ex_msg_def empty_db_def)
  moreover have "inbox_rows ex_db_log ''did:b'' (inbox_limit (Some [(''limit'', GNum 1)])) = [ex_msg 2 ''m2'']"
    by (simp add: inbox_rows_def inbox_limit_def ex_db_log_def ex_msg_def inbox_match_def empty_db_def)
  ultimately show ?thesis using inbox_page [OF ok, of "Some [(''limit'', GNum 1)]" "''did:b''"] by blast
qed

text \<open>
  C21. In every reachable state message ids and server sequence numbers are unique and the snapshot
  lists every message once, in the order of its sequence number.
\<close>

theorem snapshot_lists_log:
  assumes "reachable svc w"
  shows "distinct (map m_message_id (messages (w_db w))) \<and> sorted_wrt (<) (map m_id (messages (w_db w)))
    \<and> JSONSnapshot (w_server w) = GMap [(''messages'', GArr (map snapshot_row (messages (w_db w))))]"
proof -
  have ok: "messages_ok (w_db w)"
    using reachable_server_ok [OF assms] by (simp add: server_ok_def group_data_ok_def)
  then show ?thesis
    using messages_ok_sorted [OF ok, of "\<lambda>r. True"] by (simp add: messages_ok_def JSONSnapshot_def)
qed

theorem snapshot_lists_log_witness:
  "distinct (map m_message_id (messages (w_db (ex_world [c_group, c_doc]))))"
  using snapshot_lists_log [OF ex_reachable] by blast

text \<open>
  C22. A direct message of the plaintext profile is accepted only with exactly one payload and an
  origin proof that the sender's registered document verified; it is then the last message of the
  log, from the sender to the target, marked as not encrypted, with the body as it was sent.
\<close>

theorem plaintext_needs_proof:
  assumes "is_ok (fst (directSend e a p d))"
  defines "meta \<equiv> asMap (gindex p ''meta'')" and "body \<equiv> asMap (gindex p ''body'')"
  defines "sender \<equiv> direct_sender a meta"
  assumes "plaintext_profile meta"
  shows "length (filter id [gets body ''text'' \<noteq> [], ghas body ''payload'', gets body ''payload_b64u'' \<noteq> []]) = 1
    \<and> origin_proved e sender ''direct.send'' meta body (asMap (gindex p ''auth'')) d
    \<and> (\<exists>row. messages (snd (directSend e a p d)) = messages d @ [row] \<and> m_sender_did row = sender
        \<and> m_recipient_did row = Some (gets (asMap (gindex meta ''target'')) ''did'') \<and> m_secure row = 0
        \<and> m_wire_body row = Some (marshal (ofMap body)))"
proof (rule directSend_okE [OF assms(1), folded meta_def body_def, folded sender_def])
  fix knd tx
  assume c: "directSend_checks e sender meta body (asMap (gindex p ''auth'')) d = Inr (knd, tx)"
    and m: "messages (snd (directSend e a p d)) = messages d @
      [(direct_row e sender meta body knd tx)\<lparr>m_id := msg_autoinc d + 1\<rparr>]"
  show ?thesis
    using directSend_checks_plaintext [OF c assms(5)] m assms(5)
    by (auto simp: direct_row_def classifyPayload_ok_iff)
qed

definition ex_plain :: gomap where
  "ex_plain =
     [(''meta'', GMap [(''message_id'', GStr ''m1''), (''profile'', GStr ''anp.direct.base.v1''),
                       (''security_profile'', GStr ''transport-protected'')]),
      (''body'', GMap [(''text'', GStr ''hi'')]),
      (''auth'', GMap [(''origin_proof'', GMap [(''contentDigest'', GStr ''d''), (''signatureInput'', GStr ''i''),
                                                (''signature'', GStr ''s'')])])]"

theorem plaintext_needs_proof_witness:
  "origin_proved (ex_env ''did:a'' ex_request) ''did:a'' ''direct.send'' (asMap (gindex (Some ex_plain) ''meta''))
     (asMap (gindex (Some ex_plain) ''body'')) (asMap (gindex (Some ex_plain) ''auth'')) ex_db_doc"
proof -
  have "is_ok (fst (directSend (ex_env ''did:a'' ex_request) ''did:a'' (Some ex_plain) ex_db_doc))"
    by (simp add: directSend_def directSend_checks_def plaintext_profile_def ex_plain_def classifyPayload_def
        verifyOriginProof_def direct_sender_def ex_db_doc_def ex_doc_row_def tsel_def ex_env_def insert_message_def
        empty_db_def Let_def)
  moreover have "plaintext_profile (asMap (gindex (Some ex_plain) ''meta''))"
    by (simp add: plaintext_profile_def ex_plain_def)
  ultimately show ?thesis using plaintext_needs_proof [of _ "''did:a''" "Some ex_plain"] by (simp add: direct_sender_def)
qed

text \<open>
  C23. A group message is accepted only from a member, with exactly one payload, with mentions that
  pass their check, and with an origin proof that verifies if there is one; it takes the group's
  next event number, which the answer reports, and it is appended to the group's log in the
  sender's name.
\<close>

theorem group_message_accepted:
  assumes "fst (groupSend e a p d) = Inr v"
  defines "meta \<equiv> asMap (gindex p ''meta'')" and "body \<equiv> asMap (gindex p ''body'')"
    and "auth \<equiv> asMap (gindex p ''auth'')"
    and "gid \<equiv> groupSend_gid p" and "s \<equiv> caller_or_sender a p" and "d' \<equiv> snd (groupSend e a p d)"
  shows "isGroupMember d gid s
    \<and> length (filter id [gets body ''text'' \<noteq> [], ghas body ''payload'', gets body ''payload_b64u'' \<noteq> []]) = 1
    \<and> (ghas body ''payload'' \<longrightarrow> validateMentions (asMap (gindex body ''payload'')) = None)
    \<and> (auth \<noteq> None \<longrightarrow> origin_proved e s ''group.send'' meta body auth d)
    \<and> event_seq d' gid = event_seq d gid + 1 \<and> gindex (asMap v) ''group_event_seq'' = GInt (event_seq d' gid)
    \<and> (\<exists>row. m_sender_did row = s \<and> m_message_id row = gets meta ''message_id''
        \<and> m_wire_body row = Some (marshal (ofMap body)) \<and> group_log d' gid = group_log d gid @ [row])"
proof -
  obtain kind t where c: "groupSend_checks e gid s meta body auth d = Inr (kind, t)"
    using assms(1) unfolding gid_def s_def meta_def body_def auth_def
    by (auto simp: groupSend_def Let_def split: sum.splits)
  let ?row = "group_row_of e s gid meta body kind t 0"
  obtain result where st: "d' = snd (accept_group_message gid ?row result d)"
    "fst (accept_group_message gid ?row result d) = Inr v"
    and res: "\<And>i j. gindex (asMap (result i j)) ''group_event_seq'' = GInt i"
    using assms(1) c unfolding d'_def gid_def s_def meta_def body_def auth_def
    by (auto simp: groupSend_def Let_def)
  note acc = accept_group_message_accepted [OF st(2), folded st(1)]
  note ch = groupSend_checks_Inr [OF c]
  have "group_log d' gid = group_log d gid @ [?row\<lparr>m_id := msg_autoinc d + 1\<rparr>]"
    using acc(3) ch(3) by (simp add: group_log_def group_row_of_def)
  moreover have "gindex (asMap v) ''group_event_seq'' = GInt (event_seq d' gid)"
    using res acc(1,2) by simp
  ultimately show ?thesis
    using ch acc(2) by (auto simp: classifyPayload_ok_iff group_row_of_def)
qed

definition ex_group_message :: gomap where
  "ex_group_message =
     [(''meta'', GMap [(''message_id'', GStr ''m1''), (''operation_id'', GStr ''o1''), (''content_type'', GStr ''text/plain''),
                       (''target'', GMap [(''did'', GStr ''g'')])]),
      (''body'', GMap [(''text'', GStr ''hi'')])]"

theorem group_message_accepted_witness:
  "\<exists>row. m_sender_did row = ''did:b'' \<and> group_log (snd (groupSend (ex_env ''did:b'' ex_request) ''did:b''
     (Some ex_group_message) ex_db_group)) ''g'' = [row]"
proof -
  obtain v where "fst (groupSend (ex_env ''did:b'' ex_request) ''did:b'' (Some ex_group_message) ex_db_group) = Inr v"
    by (simp add: groupSend_def groupSend_checks_def groupSend_gid_def caller_or_sender_def ex_group_message_def
        isGroupMember_def groupMemberRole_def ex_db_group_def ex_members_def ex_group_def classifyPayload_def
        accept_group_message_def nextGroupEventSeq_def groupStateVersion_def bump_seq_def insert_message_def
        empty_db_def tsel_def tupd_def Let_def)
  from group_message_accepted [OF this] show ?thesis
    by (auto simp: groupSend_gid_def ex_group_message_def caller_or_sender_def group_log_def ex_db_group_def empty_db_def)
qed

text \<open>
  C24. The check of mentions rejects a payload exactly when its mentions are no array or two of
  them carry the same non-empty id.
\<close>

theorem mentions_check:
  "validateMentions (Some payload) = None \<longleftrightarrow>
     (if ghas (Some payload) ''mentions''
      then (case garr (gindex (Some payload) ''mentions'') of None \<Rightarrow> False | Some items \<Rightarrow> distinct (mention_ids items))
      else True)"
  by (simp add: validateMentions_def mention_dup_None_iff [of _ "[]", simplified, symmetric]
      del: ghas.simps gindex.simps split: option.split)

text \<open>
  C25. When an authenticated caller publishes a bundle with a list of one-time prekeys, the bundle is
  stored under the caller and the store keeps the caller's hundred newest
  one-time prekeys, in order; the call leaves every other owner's keys and bundle alone, whatever owner
  the bundle names.
\<close>

theorem prekeys_published:
  assumes "is_ok (fst (e2eePublishPrekeyBundle e a p d))" "a \<noteq> []"
    and "garr (gindex (asMap (gindex p ''body'')) ''one_time_prekeys'') = Some raw"
  defines "d' \<equiv> snd (e2eePublishPrekeyBundle e a p d)"
  shows "map ok_prekey_json (otks_of owner (one_time_prekeys d'))
    = (if owner = a
       then let all = map ok_prekey_json (otks_of a (one_time_prekeys d)) @ map marshal raw in drop (length all - 100) all
       else map ok_prekey_json (otks_of owner (one_time_prekeys d)))
    \<and> tsel (prekey_bundles d') owner
      = (if owner = a
         then Some \<lparr>pb_bundle_json = marshal (ofMap (asMap (gindex (asMap (gindex p ''body'')) ''prekey_bundle''))),
                    pb_published_at = rfc3339 (clock e 0)\<rparr>
         else tsel (prekey_bundles d) owner)"
  using publish_otks [OF assms(1,3)] publish_otks_other [of owner a p e d] publish_bundle [OF assms(1,2)] assms(2)
  unfolding d'_def by simp

theorem prekeys_published_witness:
  fixes p :: nmap
  defines "p \<equiv> Some [(''body'', GMap [(''prekey_bundle'', GMap [(''owner_did'', GStr ''did:b'')]),
                                     (''one_time_prekeys'', GArr [GStr ''k1'', GStr ''k2''])])]"
  defines "d' \<equiv> snd (e2eePublishPrekeyBundle (ex_env ''did:a'' ex_request) ''did:a'' p empty_db)"
  shows "map ok_prekey_json (otks_of ''did:a'' (one_time_prekeys d')) = [JDoc (GStr ''k1''), JDoc (GStr ''k2'')]
    \<and> tsel (prekey_bundles d') ''did:b'' = None"
proof -
  have ok: "is_ok (fst (e2eePublishPrekeyBundle (ex_env ''did:a'' ex_request) ''did:a'' p empty_db))"
    by (simp add: e2eePublishPrekeyBundle_def Let_def)
  have raw: "garr (gindex (asMap (gindex p ''body'')) ''one_time_prekeys'') = Some [GStr ''k1'', GStr ''k2'']"
    by (simp add: p_def)
  show ?thesis
    using prekeys_published [OF ok _ raw, of "''did:a''"] prekeys_published [OF ok _ raw, of "''did:b''"]
    unfolding d'_def by (simp add: otks_of_def empty_db_def marshal_def)
qed

text \<open>
  C26. A one-time prekey is handed out once: the oldest of the target's keys is returned and it,
  with every stored copy of it, is gone afterwards.
\<close>

theorem prekey_consumed:
  assumes "fst (e2eeGetPrekeyBundle p d) = Inr v" "gbool (gindex (asMap (gindex p ''body'')) ''require_opk'')"
  defines "target \<equiv> gets (asMap (gindex p ''body'')) ''target_did''"
  shows "\<exists>r rest. otks_of target (one_time_prekeys d) = r # rest
    \<and> gindex (asMap v) ''one_time_prekey'' = ofMap (unmarshal_map_lax (ok_prekey_json r))
    \<and> otks_of target (one_time_prekeys (snd (e2eeGetPrekeyBundle p d)))
         = filter (\<lambda>r'. ok_prekey_json r' \<noteq> ok_prekey_json r) rest"
  using get_consumes [OF assms(1,2)] unfolding target_def .

definition ex_db_prekeys :: db where
  "ex_db_prekeys = empty_db
     \<lparr>prekey_bundles := [(''did:a'', \<lparr>pb_bundle_json = JDoc (GMap []), pb_published_at = ''t''\<rparr>)],
      one_time_prekeys := [\<lparr>ok_owner_did = ''did:a'', ok_prekey_json = JDoc (GMap []), ok_created_at = ''t''\<rparr>]\<rparr>"

theorem prekey_consumed_witness:
  "otks_of ''did:a'' (one_time_prekeys (snd (e2eeGetPrekeyBundle
     (Some [(''body'', GMap [(''target_did'', GStr ''did:a''), (''require_opk'', GBool True)])]) ex_db_prekeys))) = []"
proof -
  let ?p = "Some [(''body'', GMap [(''target_did'', GStr ''did:a''), (''require_opk'', GBool True)])]"
  obtain v where "fst (e2eeGetPrekeyBundle ?p ex_db_prekeys) = Inr v"
    by (simp add: e2eeGetPrekeyBundle_def ex_db_prekeys_def tsel_def empty_db_def Let_def)
  from prekey_consumed [OF this] show ?thesis
    by (auto simp: ex_db_prekeys_def otks_of_def)
qed

section \<open>Attachments\<close>

lemma ex_db_slot_ok:
  assumes "status \<in> {''created'', ''committed'', ''aborted''}"
  shows "server_ok (ex_db_slot status)"
proof -
  have "attachments_ok (ex_db_slot status)"
    using assms by (auto simp: attachments_ok_def ex_db_slot_def ex_slot_def ex_object_def object_ok_def
        slot_ok_def uri_ok_def tsel_def
        tkeys_unique_def maxUploadBytes_def empty_db_def split: if_splits)
  then show ?thesis
    using server_ok_empty handles_same [of empty_db "ex_db_slot status"] documents_same [of empty_db "ex_db_slot status"]
      cache_same [of empty_db "ex_db_slot status"] group_data_same [of empty_db "ex_db_slot status"]
    by (simp add: server_ok_def same_defs ex_db_slot_def)
qed

lemma ex_object_ids: "object_ids_distinct (d\<lparr>attachment_slots := [(''s'', row)]\<rparr>)"
  by (simp add: object_ids_distinct_def tsel_def split: if_splits)

text \<open>
  C27. A commit succeeds only for the open, unexpired slot that its attachment, slot id and token
  name, when the object is there and its size and digest are what the request declares; and the
  object that was verified is the one stored ever after, as long as no two slots draw the same
  object id.
\<close>

theorem committed_object_kept:
  assumes "server_ok d" "is_ok (fst (attachmentCommitObject e params d))"
    and "db_step\<^sup>*\<^sup>* (snd (attachmentCommitObject e params d)) d'" "object_ids_distinct d'"
  defines "body \<equiv> asMap (gindex params ''body'')"
  shows "\<exists>slot obj. tsel (attachment_slots d) (gets body ''slot_id'') = Some slot
    \<and> sl_status slot = ''created'' \<and> \<not> after_text (clock e 0) (sl_expires_at slot)
    \<and> sl_attachment_id slot = gets body ''attachment_id'' \<and> sl_commit_token slot = gets body ''commit_token''
    \<and> sizeToInt64 (gindex body ''size'') \<in> {None, Some (ob_size obj)}
    \<and> digest_ok (gindex body ''digest'') (ob_data obj)
    \<and> tsel (attachment_objects d') (sl_object_id slot) = Some obj"
proof -
  let ?d1 = "snd (attachmentCommitObject e params d)"
  obtain slot obj where c: "commit_checks e body d = Inr (slot, obj)"
    and d1: "?d1 = commit_slot (gets body ''slot_id'') obj d"
    using commit_ok [OF assms(2)] unfolding body_def by blast
  note ch = commit_checks_Inr [OF c]
  have ok: "server_ok ?d1" by (rule effect_server(1) [OF attachment_effects(2) assms(1)])
  obtain slot' where s': "tsel (attachment_slots ?d1) (gets body ''slot_id'') = Some slot'"
    "sl_status slot' = ''committed''" "sl_object_id slot' = sl_object_id slot"
    using ch(1) unfolding d1 commit_slot_def by simp
  have "sealed_kept ?d1 d'"
    using database.rel_run [OF assms(3) ok] by (simp add: server_grows_def)
  from sealed_keptD [OF this assms(4) s'(1)] s'(2,3)
  have "tsel (attachment_objects d') (sl_object_id slot) = tsel (attachment_objects ?d1) (sl_object_id slot)" by simp
  then have "tsel (attachment_objects d') (sl_object_id slot) = Some obj"
    using ch(7) unfolding d1 commit_slot_def by simp
  with ch show ?thesis by blast
qed

definition ex_commit_object :: gomap where
  "ex_commit_object =
     [(''body'', GMap [(''attachment_id'', GStr ''att''), (''slot_id'', GStr ''s''), (''commit_token'', GStr ''tok''),
                       (''size'', GStr ''3'')])]"

definition ex_clock0 :: env where
  "ex_clock0 = (ex_env [] (ex_req [] []))\<lparr>clock := (\<lambda>i. 0)\<rparr>"

theorem committed_object_kept_witness:
  "tsel (attachment_objects (snd (attachmentCommitObject ex_clock0 (Some ex_commit_object) (ex_db_slot ''created'')))) ''ob''
     = Some ex_object"
proof -
  have p: "parse_int64 ''3'' = Some 3"
    by (simp add: parse_int64_def has_prefix_def parse_digits_def digits_val_def digit_val_def is_digit_def)
  have t: "\<not> after_text 0 (rfc3339 0)" by (simp add: in_range_def nanos_per_sec_def)
  have c: "commit_checks ex_clock0 (asMap (gindex (Some ex_commit_object) ''body'')) (ex_db_slot ''created'')
      = Inr (ex_slot ''created'', ex_object)"
    using p t by (simp add: commit_checks_def ex_commit_object_def requiredBodyString_def named_slot_def loadAttachmentSlot_def
        loadAttachmentObject_def ex_db_slot_def ex_slot_def ex_object_def tsel_def ex_clock0_def digest_ok_def)
  then have "is_ok (fst (attachmentCommitObject ex_clock0 (Some ex_commit_object) (ex_db_slot ''created'')))"
    by (simp add: attachmentCommitObject_def Let_def)
  note th = committed_object_kept [OF ex_db_slot_ok this rtranclp.rtrancl_refl]
  have "object_ids_distinct (snd (attachmentCommitObject ex_clock0 (Some ex_commit_object) (ex_db_slot ''created'')))"
    using c ex_object_ids
    by (simp add: commit_state commit_slot_def ex_db_slot_def tupd_def Let_def ex_commit_object_def)
  from th [OF _ this] obtain slot obj where
    "tsel (attachment_slots (ex_db_slot ''created'')) ''s'' = Some slot"
    "tsel (attachment_objects (snd (attachmentCommitObject ex_clock0 (Some ex_commit_object) (ex_db_slot ''created'')))) (sl_object_id slot) = Some obj"
    by (auto simp: ex_commit_object_def)
  moreover have "attachment_objects (snd (attachmentCommitObject ex_clock0 (Some ex_commit_object) (ex_db_slot ''created''))) = [(''ob'', ex_object)]"
    using c by (simp add: commit_state commit_slot_def ex_db_slot_def Let_def)
  ultimately show ?thesis by (auto simp: ex_db_slot_def ex_slot_def tsel_def)
qed

text \<open>
  C28. In every reachable state each stored object carries the size and the SHA-256 digest of its
  bytes, at most 32 MiB of them, each slot is created, committed or aborted, its URI ends in its
  object's id and its object is there once it is committed, and each ticket names the URI of a slot
  that is no longer open.
\<close>

theorem attachments_consistent:
  assumes "reachable svc w"
  shows "attachments_ok (w_db w)"
  using reachable_server_ok [OF assms] by (simp add: server_ok_def)

theorem attachments_consistent_witness: "attachments_ok (w_db (ex_world [c_handle, c_group, c_doc]))"
  by (rule attachments_consistent [OF ex_reachable])

text \<open>
  C29. An upload to a slot whose expiry time has passed stores nothing: it is answered with 410 while
  the slot is open, and with 409 once it is committed or aborted.
\<close>

theorem expired_upload_refused:
  assumes "tsel (attachment_slots d) slotID = Some slot"
    and "sl_expires_at slot = rfc3339 t" "in_range t" "t div nanos_per_sec * nanos_per_sec < clock e 0"
  shows "handleUpload e slotID r d =
    (if sl_status slot = ''created'' then writeDataError 410 ''anp.attachment.slot_expired''
     else writeDataError 409 ''anp.attachment.object_unavailable'', d)"
  using assms by (simp add: handleUpload_def upload_checks_def loadAttachmentSlot_def)

theorem expired_upload_refused_witness:
  "handleUpload (ex_env [] ex_request) ''s'' (ex_http []) (ex_db_slot ''created'')
     = (writeDataError 410 ''anp.attachment.slot_expired'', ex_db_slot ''created'')
   \<and> handleUpload (ex_env [] ex_request) ''s'' (ex_http []) (ex_db_slot ''aborted'')
     = (writeDataError 409 ''anp.attachment.object_unavailable'', ex_db_slot ''aborted'')"
proof -
  have slot: "tsel (attachment_slots (ex_db_slot st)) ''s'' = Some (ex_slot st)" for st
    by (simp add: ex_db_slot_def tsel_def)
  have exp: "sl_expires_at (ex_slot st) = rfc3339 0" for st by (simp add: ex_slot_def)
  have t: "in_range 0" "0 div nanos_per_sec * nanos_per_sec < clock (ex_env [] ex_request) 0"
    by (simp_all add: in_range_def nanos_per_sec_def ex_env_def)
  show ?thesis
    using expired_upload_refused [OF slot [of "''created''"] exp t] expired_upload_refused [OF slot [of "''aborted''"] exp t]
    by (simp add: ex_slot_def)
qed

text \<open>
  C30. Object bytes are served only to the bearer of a stored, unexpired ticket whose binding names
  a URI of that very object, and they are the stored bytes.
\<close>

theorem download_needs_ticket:
  assumes "hs_status (handleDownload e objectID r d) = 200"
  shows "\<exists>ticket row binding obj. download_ticket r = Some ticket
    \<and> tsel (attachment_tickets d) ticket = Some row \<and> \<not> after_text (clock e 0) (tk_expires_at row)
    \<and> unmarshal_map (tk_binding_json row) = Some binding
    \<and> objectURIMatches (gets binding ''object_uri'') objectID
    \<and> tsel (attachment_objects d) objectID = Some obj
    \<and> hs_body (handleDownload e objectID r d) = RawBody (ob_data obj)"
  by (rule handleDownload_ok [OF assms]) blast

definition ex_db_ticket :: db where
  "ex_db_ticket = (ex_db_slot ''committed'')\<lparr>attachment_tickets :=
     [(''tk'', \<lparr>tk_binding_json = JDoc (GMap [(''object_uri'', GStr ''/objects/ob'')]), tk_expires_at = rfc3339 0\<rparr>)]\<rparr>"

definition ex_get :: http_req where
  "ex_get = (ex_http [])\<lparr>hq_method := ''GET'', hq_path := ''/objects/ob'',
     hq_headers := [(''Authorization'', [''Bearer tk''])]\<rparr>"

theorem download_needs_ticket_witness:
  "hs_body (handleDownload ex_clock0 ''ob'' ex_get ex_db_ticket) = RawBody [1, 2, 3]"
proof -
  have tk: "download_ticket ex_get = Some ''tk''"
    unfolding download_ticket_def ex_get_def by code_simp
  have t: "\<not> after_text 0 (rfc3339 0)" by (simp add: in_range_def nanos_per_sec_def)
  have "hs_status (handleDownload ex_clock0 ''ob'' ex_get ex_db_ticket) = 200"
    using t by (simp add: handleDownload_def tk ex_db_ticket_def tsel_def ex_clock0_def objectURIMatches_def
        loadAttachmentObject_def ex_db_slot_def Let_def)
  from download_needs_ticket [OF this] show ?thesis
    by (auto simp: ex_db_ticket_def ex_db_slot_def ex_object_def tsel_def)
qed

text \<open>
  C31. The URI of an object, under any base URL, matches that object's id and no other, as object
  ids have no slash.
\<close>

theorem object_uri_exact:
  assumes "x \<noteq> []" "CHR ''/'' \<notin> set x" "CHR ''/'' \<notin> set y"
  shows "objectURIMatches (base @ ''/objects/'' @ x) y \<longleftrightarrow> x = y"
  by (rule objectURIMatches_iff [OF assms])

theorem object_uri_exact_witness: "\<not> objectURIMatches (''http://h'' @ ''/objects/'' @ ''aob'') ''ob''"
  by (simp add: object_uri_exact [of "''aob''" "''ob''" "''http://h''"] del: append.simps)

section \<open>The abstract machine of rights\<close>

text \<open>
  C32. Every call the server executes is one step of the abstract machine of group rights: roles,
  required ranks and owners change only as that machine allows the caller.
\<close>

theorem calls_refine_rights:
  assumes "reachable svc w"
  shows "rights_step a (rights_of (w_db w)) (rights_of (snd (rpc_execute e sb r req a (w_db w))))"
  unfolding snd_rpc_execute
  by (rule dispatchIdempotent_refines)
    (use reachable_server_ok [OF assms] in \<open>simp add: server_ok_def group_data_ok_def\<close>)

theorem calls_refine_rights_witness:
  "rights_step ''did:b'' (rights_of (w_db (ex_world [c_group, c_doc])))
     (rights_of (snd (rpc_execute (ex_env ''did:b'' ex_request) [] (ex_http []) (ex_req ''group.leave'' []) ''did:b'' (w_db (ex_world [c_group, c_doc])))))"
  by (rule calls_refine_rights [OF ex_reachable])

text \<open>
  C33. An authenticated caller without a role in a group cannot change the role of a member: with
  one call the member keeps its role, or has lost it to the caller by a rebinding.
\<close>

theorem outsider_cannot_change_roles:
  fixes e :: env and sb :: string and r :: http_req and req :: rpc_request
  assumes "groups_ok d" "a \<noteq> []" "groupMemberRole d gid a = []" "m \<noteq> a" "groupMemberRole d gid m \<noteq> []"
  defines "d' \<equiv> snd (rpc_execute e sb r req a d)"
  shows "groupMemberRole d' gid m = groupMemberRole d gid m
    \<or> (groupMemberRole d' gid m = [] \<and> groupMemberRole d' gid a = groupMemberRole d gid m)"
proof -
  have "rights_step a (rights_of d) (rights_of d')"
    unfolding d'_def snd_rpc_execute by (rule dispatchIdempotent_refines [OF assms(1)])
  moreover have "RNone < rt_need (rights_of d) gid action" for action
    by (simp add: rights_of_def required_rank_def less_rank_def)
  ultimately show ?thesis
    using outsider_step [of a "rights_of d" "rights_of d'" gid m] assms(2-5) by (simp add: rights_of_def)
qed

theorem outsider_cannot_change_roles_witness:
  "groupMemberRole (snd (rpc_execute (ex_env ''did:c'' ex_request) [] (ex_http []) (ex_req ''group.remove''
       [(''body'', GMap [(''group_did'', GStr ''g''), (''member_did'', GStr ''did:b'')])]) ''did:c'' ex_db_group)) ''g'' ''did:b''
     = ''member''"
proof -
  let ?d = "snd (rpc_execute (ex_env ''did:c'' ex_request) [] (ex_http []) (ex_req ''group.remove''
       [(''body'', GMap [(''group_did'', GStr ''g''), (''member_did'', GStr ''did:b'')])]) ''did:c'' ex_db_group)"
  have roles: "groupMemberRole ex_db_group ''g'' ''did:c'' = []" "groupMemberRole ex_db_group ''g'' ''did:b'' = ''member''"
    by (simp_all add: groupMemberRole_def ex_db_group_def ex_members_def tsel_def)
  have "?d = ex_db_group"
    by (simp add: snd_rpc_execute ex_req_def dispatchIdempotent_def operationIDFromParams_def dispatch_def
        groupRemove_def groupDIDFromParams_def groupPermitted_def roles Let_def)
  then show ?thesis
    using outsider_cannot_change_roles [OF ex_db_group_ok, of "''did:c''" "''g''" "''did:b''"] roles by auto
qed

text \<open>
  C34. A rebinding by its new member succeeds for whatever membership it names, the owner's
  included, and hands the role over: the code asks the previous member for nothing.
\<close>

theorem rebind_takes_role:
  assumes "a \<noteq> []" "groupMemberRole d gid old \<noteq> []" "tsel (group_members d) (gid, a) = None"
    and "tsel (groups d) gid \<noteq> None" "old \<noteq> []" "groupDIDFromParams params = gid" "gid \<noteq> []"
  defines "body \<equiv> asMap (gindex params ''body'')"
  assumes "gets body ''member_handle'' \<noteq> []" "gets body ''previous_member_did'' = old"
    and "gets body ''new_member_did'' = a"
  shows "is_ok (fst (groupRebindMember a params d))
    \<and> groupMemberRole (snd (groupRebindMember a params d)) gid a = groupMemberRole d gid old"
proof -
  have old: "tsel (group_members d) (gid, old) \<noteq> None"
    using assms(2) by (cases "tsel (group_members d) (gid, old)") (simp_all add: groupMemberRole_def)
  have eq: "groupRebindMember a params d
      = with_version (bumpGroupStateVersion gid (rebind_row gid old a d))
          (\<lambda>v. GMap [(''group_did'', GStr gid), (''member_handle'', GStr (gets body ''member_handle'')),
                     (''previous_member_did'', GStr old), (''member_did'', GStr a),
                     (''handle_binding_generation'', gindex body ''handle_binding_generation''),
                     (''membership_status'', GStr ''active''), (''group_state_version'', GInt v)])"
    using assms old by (auto simp: groupRebindMember_def rebind_gid_def body_def Let_def simp del: gindex.simps)
  have "tsel (groups (rebind_row gid old a d)) gid \<noteq> None"
    using assms(4) by (simp add: rebind_row_def)
  then show ?thesis
    unfolding eq using assms(3) role_rebind_row [of a old d gid gid a]
    by (auto simp: fst_with_version fst_bumpGroupStateVersion)
qed

theorem rebind_takes_role_witness:
  "groupMemberRole (snd (groupRebindMember ''did:c'' (Some [(''body'', GMap [(''group_did'', GStr ''g''),
      (''member_handle'', GStr ''h''), (''previous_member_did'', GStr ''did:a''), (''new_member_did'', GStr ''did:c'')])])
      ex_db_group)) ''g'' ''did:c'' = ''owner''"
proof -
  let ?p = "Some [(''body'', GMap [(''group_did'', GStr ''g''),
      (''member_handle'', GStr ''h''), (''previous_member_did'', GStr ''did:a''), (''new_member_did'', GStr ''did:c'')])]"
  have "groupMemberRole ex_db_group ''g'' ''did:a'' = ''owner''" "tsel (group_members ex_db_group) (''g'', ''did:c'') = None"
    "tsel (groups ex_db_group) ''g'' \<noteq> None" "groupDIDFromParams ?p = ''g''"
    by (simp_all add: groupMemberRole_def ex_db_group_def ex_members_def tsel_def groupDIDFromParams_def)
  with rebind_takes_role [of "''did:c''" ex_db_group "''g''" "''did:a''" ?p] show ?thesis by simp
qed

section \<open>The JSON-RPC entry point\<close>

text \<open>C35. In no reachable state does a request make its handler panic.\<close>

theorem requests_never_panic:
  assumes "reachable svc w"
  shows "fst (rpc_execute e sb r req a (w_db w)) \<noteq> Aborted"
proof -
  have "groups_ok (w_db w)"
    using reachable_server_ok [OF assms] by (simp add: server_ok_def group_data_ok_def)
  from dispatchIdempotent_no_panic [OF this] show ?thesis
    by (auto simp: rpc_execute_def rpc_reply_Aborted split: prod.split dest: arg_cong [where f = fst])
qed

theorem requests_never_panic_witness:
  "fst (rpc_execute (ex_env ''did:b'' ex_request) [] (ex_http []) (ex_req ''group.update_profile'' []) ''did:b'' (w_db (ex_world [c_group, c_doc]))) \<noteq> Aborted"
  by (rule requests_never_panic [OF ex_reachable])

text \<open>
  C36. Everything survives a restart: over the whole life of a database file, through requests,
  failed openings, closings and openings with any service DID, the stored data stays consistent;
  handles keep their DID, registered DIDs stay registered (their documents may be replaced by
  registrations), groups and their counters, owners and messages, tickets and cached answers are
  kept, and so is every sealed object as long as no two slots draw the same object id. A file that is
  not in use can be opened again, and then holds exactly the data it had, whatever part of the
  schema it has, unless the operating system or the driver reports a fault.
\<close>

theorem restart_keeps_data:
  assumes "host_step\<^sup>*\<^sup>* empty_host h" "host_step\<^sup>*\<^sup>* h h'"
    and "os_mkdir os path = None" "os_open os path = None" "os_pragma os path = None" "\<And>s. os_ddl os s = None"
  shows "server_ok (file_rows h' path) \<and> server_grows (file_rows h path) (file_rows h' path)
    \<and> (\<exists>s disk. NewWithServiceDid os path svc (h_disk h') = (Inr s, disk)
         \<and> sv_db s = file_rows h' path \<and> schema_complete (file_at disk path))"
proof -
  have ok: "host_ok h" by (rule host.inv_run [OF assms(1) empty_host_ok])
  have "host_ok h'" "host_grows h h'"
    using host.inv_run [OF assms(2) ok] host.rel_run [OF assms(2) ok] by blast+
  moreover obtain disk where
    n: "NewWithServiceDid os path svc (h_disk h') = (Inr (new_server (df_rows (file_at (h_disk h') path)) svc), disk)"
    using NewWithServiceDid_succeeds [OF assms(3-6)] by blast
  ultimately show ?thesis
    using NewWithServiceDid_server(2) [OF n] by (simp add: host_ok_def host_grows_def file_rows_def new_server_def)
qed

definition ex_os :: os where
  "ex_os = \<lparr>os_mkdir = (\<lambda>p. None), os_open = (\<lambda>p. None), os_pragma = (\<lambda>p. None), os_ddl = (\<lambda>s. None),
           os_listen = Inr ''127.0.0.1:8765''\<rparr>"

theorem restart_keeps_data_witness:
  "\<exists>h s disk. host_step\<^sup>*\<^sup>* empty_host h \<and> h_running h = None
     \<and> NewWithServiceDid ex_os ''a.db'' ''did:svc'' (h_disk h) = (Inr s, disk) \<and> sv_db s = ex_db_doc"
proof -
  have os: "os_mkdir ex_os ''a.db'' = None" "os_open ex_os ''a.db'' = None" "os_pragma ex_os ''a.db'' = None"
    "os_ddl ex_os s = None" for s by (simp_all add: ex_os_def)
  obtain disk where n: "NewWithServiceDid ex_os ''a.db'' [] (h_disk empty_host) = (Inr (ex_run []), disk)"
    using NewWithServiceDid_succeeds [OF os, of "[]" "h_disk empty_host"]
    by (auto simp: empty_host_def file_at_def empty_file_def)
  let ?h1 = "empty_host\<lparr>h_disk := disk, h_running := Some (''a.db'', fresh_world (ex_run []))\<rparr>"
  have 1: "host_step empty_host ?h1" by (rule hs_open [OF _ n]) (simp add: empty_host_def)
  have rows: "file_rows ?h1 ''a.db'' = w_db (ex_world [])"
    using NewWithServiceDid_rows [OF n] by (simp add: file_rows_def empty_host_def file_at_def empty_file_def new_server_def)
  obtain h2 where h2: "host_step\<^sup>*\<^sup>* ?h1 h2" "h_running h2 = Some (''a.db'', ex_world [c_doc])"
    "file_rows h2 ''a.db'' = w_db (ex_world [c_doc])"
    using serve_run [OF ex_more [of "[]" "[c_doc]"], of ?h1 "''a.db''"] rows by (auto simp: fresh_world_def simp del: ex_run.simps)
  let ?h3 = "Close h2"
  have run: "host_step\<^sup>*\<^sup>* empty_host ?h3"
    using 1 h2(1) hs_close [OF h2(2)] by (meson converse_rtranclp_into_rtranclp rtranclp.rtrancl_into_rtrancl)
  have "file_rows ?h3 ''a.db'' = ex_db_doc"
    using h2(3) by (simp add: file_rows_def Close_def ex_run_doc new_server_def del: ex_run.simps)
  with restart_keeps_data [OF run rtranclp.rtrancl_refl os, of "''did:svc''"] run show ?thesis by (fastforce simp: Close_def)
qed

text \<open>
  C37. The error code -32601 means an unknown method and nothing else: no failure of a known method
  is answered with it, and a call of an unknown method (without an operation id) is answered with
  it, names the method and changes nothing. The text of the database driver's errors must not
  itself begin with the words the code looks for.
\<close>

theorem unknown_method_reply:
  fixes req :: rpc_request and a :: string and sb :: string and r :: http_req
  assumes "reachable svc w" "\<And>m. \<not> has_prefix ''unknown method'' (sql_text e m)"
  defines "out \<equiv> rpc_execute e sb r req a (w_db w)"
  shows "((\<exists>i t. fst out = Reply (writeRPCError i (- 32601) t)) \<longrightarrow> rq_method req \<notin> set rpc_methods)
    \<and> (rq_method req \<notin> set rpc_methods \<longrightarrow> operationIDFromParams (rq_params req) = [] \<longrightarrow>
      out = (Reply (writeRPCError (rq_id req) (- 32601) (''unknown method '' @ go_quote (rq_method req))), w_db w))"
proof -
  have ok: "groups_ok (w_db w)"
    using reachable_server_ok [OF assms(1)] by (simp add: server_ok_def group_data_ok_def)
  have "rq_method req \<notin> set rpc_methods" if ex: "fst out = Reply (writeRPCError i (- 32601) t)" for i t
  proof
    assume m: "rq_method req \<in> set rpc_methods"
    let ?r = "fst (dispatchIdempotent e sb (rq_method req) (rq_params req) a (request_base r) (w_db w))"
    have "fst out = rpc_reply e (rq_id req) ?r" unfolding out_def by (simp add: rpc_execute_def split: prod.split)
    then have "\<not> regular ?r" using ex rpc_reply_not_found [OF _ assms(2)] by metis
    with dispatchIdempotent_regular [OF ok m] show False by blast
  qed
  moreover have "out = (Reply (writeRPCError (rq_id req) (- 32601) (''unknown method '' @ go_quote (rq_method req))), w_db w)"
    if "rq_method req \<notin> set rpc_methods" "operationIDFromParams (rq_params req) = []"
    using that unfolding out_def
    by (simp add: rpc_execute_def dispatchIdempotent_def dispatch_unknown rpc_reply_def rpc_error_code_def)
  ultimately show ?thesis by blast
qed

theorem unknown_method_reply_witness:
  "rpc_execute (ex_env ''did:b'' ex_request) [] (ex_http []) (ex_req ''group.delete'' []) ''did:b''
     (w_db (ex_world [c_group, c_doc]))
    = (Reply (writeRPCError GNil (- 32601) (''unknown method '' @ go_quote ''group.delete'')),
       w_db (ex_world [c_group, c_doc]))"
proof -
  have "\<not> has_prefix ''unknown method'' (sql_text (ex_env ''did:b'' ex_request) m)" for m
    by (simp add: ex_env_def)
  from unknown_method_reply [OF ex_reachable [of "[c_group, c_doc]"] this, of "[]" "ex_http []" "ex_req ''group.delete'' []" "''did:b''"]
  show ?thesis by (simp add: ex_req_def rpc_methods_def operationIDFromParams_def del: ex_run.simps)
qed

text \<open>
  C38. A handle that an authenticated caller with a registered document has registered, in a
  well-formed database, resolves ever after, whatever the server does, to that caller and to a document registered for it here: the answer is
  the same in every environment, so the network is not asked.
\<close>

theorem registered_handle_resolves:
  assumes "server_ok d" "a \<noteq> []" "did_doc d a \<noteq> None" "is_ok (fst (handleRegister e a p d))"
    and "db_step\<^sup>*\<^sup>* (snd (handleRegister e a p d)) d'" "gets q ''target'' = gets p ''handle''"
  shows "\<exists>t m. did_doc d' a = Some t \<and> unmarshal_map t = Some (Some m)
    \<and> didResolve e' q d' = Inr (GMap [(''did'', GStr a), (''did_document'', GMap m)])"
proof -
  let ?h = "gets p ''handle''" and ?d1 = "snd (handleRegister e a p d)"
  note d1 = effect_server [OF eff_register assms(1), of e a p]
  have "server_grows ?d1 d'" by (rule database.rel_run [OF assms(5) d1(1)])
  then have grows: "bindings_kept ?d1 d'" "documents_kept d d'"
    using d1(2) documents_kept_trans unfolding server_grows_def by blast+
  have ok: "dids_ok d'"
    using database.inv_run [OF assms(5) d1(1)] by (simp add: server_ok_def)
  have "handle_owner ?d1 ?h = Some a"
    using assms(2,4) by (simp add: handleRegister_owner)
  then obtain hrow where h: "tsel (handles d') ?h = Some hrow" "hr_did hrow = a"
    using grows(1) by (auto simp: bindings_kept_def handle_owner_def)
  obtain row where row: "tsel (registered_dids d') a = Some row"
    using grows(2) assms(3) by (auto simp: documents_kept_def did_doc_def)
  then obtain m where m: "unmarshal_map (dr_doc_json row) = Some (Some m)"
    using ok by (auto simp: dids_ok_def did_doc_def)
  have "?h \<noteq> []" using assms(4) by (auto simp: handleRegister_def Let_def)
  then show ?thesis
    using didResolve_local [of q d' a row e'] h row m assms(2,6)
    by (simp add: did_doc_def unmarshal_map_lax_def)
qed

theorem registered_handle_resolves_witness:
  "didResolve ex_network (Some [(''target'', GStr ''a.x'')])
     (snd (handleRegister (ex_env ''did:a'' ex_request) ''did:a'' (Some [(''handle'', GStr ''a.x'')]) ex_db_doc))
   = Inr (GMap [(''did'', GStr ''did:a''), (''did_document'', GMap [(''id'', GStr ''did:a'')])])"
proof -
  let ?p = "Some [(''handle'', GStr ''a.x'')]" and ?e = "ex_env ''did:a'' ex_request"
  have "server_ok ex_db_doc"
    using reachable_server_ok [OF ex_reachable [of "[c_doc]"]] by (simp add: ex_run_doc new_server_def del: ex_run.simps)
  moreover have doc: "did_doc ex_db_doc ''did:a'' = Some (JDoc (GMap [(''id'', GStr ''did:a'')]))"
    by (simp add: did_doc_def ex_db_doc_def ex_doc_row_def tsel_def)
  moreover have "is_ok (fst (handleRegister ?e ''did:a'' ?p ex_db_doc))"
    by (simp add: handleRegister_def validHandle_def ex_env_def ex_db_doc_def empty_db_def Let_def)
  moreover have "did_doc (snd (handleRegister ?e ''did:a'' ?p ex_db_doc)) ''did:a'' = did_doc ex_db_doc ''did:a''"
    by (rule did_doc_same [OF handle_documents(1)])
  ultimately show ?thesis
    using registered_handle_resolves [of ex_db_doc "''did:a''" ?e ?p _ "Some [(''target'', GStr ''a.x'')]" ex_network,
        OF _ _ _ _ rtranclp.rtrancl_refl] by auto
qed

text \<open>
  C39. A download ticket serves its object for five minutes: whatever the server does after issuing
  it, the bearer gets the bytes that were stored for the committed slot the ticket names, until the
  expiry second has passed, and from then on a 401.
\<close>

theorem ticket_serves_object:
  assumes "server_ok d" "is_ok (fst (attachmentGetDownloadTicket e a params d))"
    and "db_step\<^sup>*\<^sup>* (snd (attachmentGetDownloadTicket e a params d)) d'" "object_ids_distinct d'"
    and "in_range (clock e 0 + ticketTTL)" "download_ticket r = Some (new_ticket e)"
  defines "body \<equiv> asMap (gindex params ''body'')"
    and "expiry \<equiv> (clock e 0 + ticketTTL) div nanos_per_sec * nanos_per_sec"
  shows "\<exists>slot obj. slot_for d (gets body ''attachment_id'') (gets body ''object_uri'') = Some slot
    \<and> sl_status slot = ''committed'' \<and> tsel (attachment_objects d) (sl_object_id slot) = Some obj
    \<and> handleDownload e' (sl_object_id slot) r d' =
        (if expiry < clock e' 0 then writeDataError 401 ''anp.attachment.ticket_expired''
         else \<lparr>hs_status = 200, hs_headers = [(''Content-Type'', ''application/octet-stream''),
                 (''Content-Length'', format_int (ob_size obj))], hs_body = RawBody (ob_data obj)\<rparr>)"
proof -
  let ?d1 = "snd (attachmentGetDownloadTicket e a params d)"
  have ok: "attachments_ok d" using assms(1) by (simp add: server_ok_def)
  obtain k slot obj m where s: "slot_for d (gets body ''attachment_id'') (gets body ''object_uri'') = Some slot"
    "tsel (attachment_slots d) k = Some slot" "sl_status slot = ''committed''"
    "tsel (attachment_objects d) (sl_object_id slot) = Some obj"
    and m: "unmarshal_map (marshal (GMap (ticket_binding body))) = Some m"
    "gets m ''object_uri'' \<noteq> []" "objectURIMatches (gets m ''object_uri'') (sl_object_id slot)"
    and d1: "?d1 = d\<lparr>attachment_tickets := attachment_tickets d @
       [(new_ticket e, \<lparr>tk_binding_json = marshal (GMap (ticket_binding body)),
                        tk_expires_at = rfc3339 (clock e 0 + ticketTTL)\<rparr>)]\<rparr>"
    "tsel (attachment_tickets d) (new_ticket e) = None"
    by (rule ticket_issued [OF ok assms(2) body_def [THEN meta_eq_to_obj_eq]])
  have "server_ok ?d1" by (rule effect_server(1) [OF attachment_effects(4) assms(1)])
  then have kept: "sealed_kept ?d1 d'" using database.rel_run [OF assms(3)] by (simp add: server_grows_def)
  have "tsel (attachment_objects d') (sl_object_id slot) = Some obj"
    using sealed_keptD [OF kept assms(4), of k slot] s by (simp add: d1)
  moreover have "tsel (attachment_tickets ?d1) (new_ticket e)
      = Some \<lparr>tk_binding_json = marshal (GMap (ticket_binding body)),
              tk_expires_at = rfc3339 (clock e 0 + ticketTTL)\<rparr>"
    using d1 by (simp add: tsel_snoc)
  then have "tsel (attachment_tickets d') (new_ticket e)
      = Some \<lparr>tk_binding_json = marshal (GMap (ticket_binding body)),
              tk_expires_at = rfc3339 (clock e 0 + ticketTTL)\<rparr>"
    using kept unfolding sealed_kept_def tickets_kept_def by blast
  ultimately show ?thesis
    using s(1,3,4) handleDownload_reply [OF assms(6) _ _ m(2,3)] m(1)
    by (simp add: assms(5) expiry_def)
qed

definition ex_ticket_params :: gomap where
  "ex_ticket_params =
     [(''body'', GMap [(''attachment_id'', GStr ''att''), (''object_uri'', GStr ''/objects/ob''),
        (''requester_did'', GStr ''did:a''), (''message_id'', GStr ''m''),
        (''message_security_profile'', GStr ''transport-protected'')])]"

definition ex_bearer :: http_req where
  "ex_bearer = ex_get\<lparr>hq_headers := [(''Authorization'', [''Bearer '' @ new_ticket ex_clock0])]\<rparr>"

theorem ticket_serves_object_witness:
  "hs_body (handleDownload ex_clock0 ''ob'' ex_bearer
     (snd (attachmentGetDownloadTicket ex_clock0 ''did:a'' (Some ex_ticket_params) (ex_db_slot ''committed''))))
   = RawBody [1, 2, 3]" (is "hs_body (handleDownload _ _ _ ?d1) = _")
proof -
  have chk: "ticket_checks ''did:a'' None (asMap (gindex (Some ex_ticket_params) ''body'')) (ex_db_slot ''committed'') = Inr ()"
    unfolding ex_ticket_params_def
    by (simp add: ticket_checks_def requiredBodyString_def slot_for_def ex_db_slot_def ex_slot_def Let_def)
  have ok: "is_ok (fst (attachmentGetDownloadTicket ex_clock0 ''did:a'' (Some ex_ticket_params) (ex_db_slot ''committed'')))"
    using chk by (simp add: attachmentGetDownloadTicket_def Let_def ex_ticket_params_def ex_db_slot_def empty_db_def tins_def)
  have dist: "object_ids_distinct ?d1"
    using ok by (simp add: object_ids_distinct_def ticket_state Let_def ex_db_slot_def tsel_def split: if_splits)
  have rng: "in_range (clock ex_clock0 0 + ticketTTL)"
    by (simp add: ex_clock0_def in_range_def ticketTTL_def nanos_per_sec_def)
  have tk: "download_ticket ex_bearer = Some (new_ticket ex_clock0)"
    by (simp add: download_ticket_def ex_bearer_def header_first_def has_prefix_def trim_prefix_def new_ticket_def)
  from ticket_serves_object [OF ex_db_slot_ok ok rtranclp.rtrancl_refl dist rng tk, of ex_clock0]
  show ?thesis
    by (simp add: ex_clock0_def ex_ticket_params_def slot_for_def ex_db_slot_def ex_slot_def ex_object_def tsel_def)
qed

text \<open>
  C40. The guarantee of C4 needs its "with no other request in between": registration is checked
  outside the mutex, so a run exists in which an unsigned request, checked before a DID was
  registered, replaces the document that was registered meanwhile.
\<close>

theorem registration_race:
  "\<exists>w r req e t. reachable [] w \<and> (r, req, ''did:a'') \<in> set (w_pending w)
    \<and> headerGet (httpHeaders (hq_headers r)) ''Signature-Input'' = []
    \<and> did_doc (w_db w) ''did:a'' = Some t
    \<and> did_doc (snd (rpc_execute e (sv_base_url (w_server w)) r req ''did:a'' (w_db w))) ''did:a'' \<noteq> Some t"
proof -
  let ?r = "ex_http []"
  let ?q1 = "ex_req ''did.register_document'' (snd (snd c_doc))"
  let ?q2 = "ex_req ''did.register_document'' [(''did'', GStr ''did:a''), (''did_document'', GMap [])]"
  let ?p1 = "(?r, ?q1, ''did:a'')" and ?p2 = "(?r, ?q2, ''did:a'')"
  have auth: "rpc_authenticate (ex_env [] q) [] ?r empty_db = Inr (q, ''did:a'')" if "q \<in> {?q1, ?q2}" for q
    using that by (auto simp: rpc_authenticate_def json_request_def ex_http_def ex_env_def ex_req_def c_doc_def read_limited_def
        maxBodyBytes_def verifyRegistration_def empty_db_def)
  let ?w1 = "(ex_world [])\<lparr>w_pending := [?p1]\<rparr>" and ?w2 = "(ex_world [])\<lparr>w_pending := [?p2, ?p1]\<rparr>"
  let ?d = "snd (rpc_execute (ex_env [] ?q1) [] ?r ?q1 ''did:a'' empty_db)"
  let ?w3 = "?w2\<lparr>w_server := (w_server ?w2)\<lparr>sv_db := ?d\<rparr>, w_pending := [?p2]\<rparr>"
  have db: "sv_db (ex_run []) = empty_db" "sv_service_did (ex_run []) = []" "sv_base_url (ex_run []) = []"
    by (simp_all add: new_server_def)
  have "world_step (ex_world []) ?w1"
    using ws_authenticate [of "ex_env [] ?q1" "ex_world []" ?r ?q1 "''did:a''"] auth db by simp
  moreover have "world_step ?w1 ?w2"
    using ws_authenticate [of "ex_env [] ?q2" ?w1 ?r ?q2 "''did:a''"] auth db by simp
  moreover have "?q1 \<noteq> ?q2" by (simp add: ex_req_def c_doc_def)
  then have "world_step ?w2 ?w3"
    using ws_execute [of ?r ?q1 "''did:a''" ?w2 ?d "ex_env [] ?q1"] db by (simp add: eq_commute [of ?q1])
  ultimately have "reachable [] ?w3" by (meson ex_reachable reach_step)
  moreover have "did_doc ?d ''did:a'' = Some (JDoc (GMap [(''id'', GStr ''did:a'')]))"
    "did_doc (snd (rpc_execute (ex_env [] ?q2) [] ?r ?q2 ''did:a'' ?d)) ''did:a'' = Some (JDoc (GMap []))"
    by (simp_all add: snd_rpc_execute ex_req_def c_doc_def dispatchIdempotent_def operationIDFromParams_def dispatch_def
        didRegisterDocument_def did_doc_def empty_db_def marshal_def Let_def)
  ultimately show ?thesis
    by (intro exI [of _ ?w3] exI [of _ ?r] exI [of _ ?q2] exI [of _ "ex_env [] ?q2"]
        exI [of _ "JDoc (GMap [(''id'', GStr ''did:a'')])"]) (simp add: db new_server_def ex_http_def httpHeaders_def)
qed

end
